(* ===== verification/Prelude.thy ===== *)
theory Prelude
  imports Main "HOL-Library.AList"
begin

text \<open>
  Shared ground of the development: the exceptions a handler can end with, the
  state-and-exception operations every service is written in, SQL's row-wise
  \<open>UPDATE\<close>, JavaScript's insertion-ordered \<open>Map\<close> and \<open>Set\<close>, and the
  rules that carry relations through sequenced operations.
\<close>

named_theorems op_simps "unfolding of the operation combinators"
named_theorems op_moves "which relation between the states an operation keeps"

subsection \<open>Exceptions\<close>

text \<open>
  The exceptions of the server: the NestJS HTTP exceptions, the gateway's
  \<open>WsException\<close>, an error raised by PostgreSQL with its code, and a plain
  \<open>Error\<close>, to which \<open>UserRepository.create\<close> attaches a PostgreSQL code.
\<close>

datatype PgErrorCode = UNIQUE_VIOLATION | FK_VIOLATION | INVALID_TEXT_REPRESENTATION | INVALID_ROW_COUNT

datatype exn =
    BadRequestException string
  | UnauthorizedException string
  | ForbiddenException string
  | NotFoundException string
  | ConflictException string
  | WsException string
  | PgError PgErrorCode
  | JsError string "PgErrorCode option"

text \<open>\<open>(err as { code?: string }).code\<close>\<close>

fun exn_code :: "exn \<Rightarrow> PgErrorCode option" where
  "exn_code (PgError c) = Some c"
| "exn_code (JsError _ c) = c"
| "exn_code _ = None"

subsection \<open>Operations on a state\<close>

text \<open>
  An operation takes the state and gives its result or exception together with the
  state it leaves: an exception does not undo what was done before it.
\<close>

type_synonym ('s, 'a) op = "'s \<Rightarrow> (exn + 'a) \<times> 's"

definition ret :: "'a \<Rightarrow> ('s, 'a) op" where
  "ret x s = (Inr x, s)"

definition raise :: "exn \<Rightarrow> ('s, 'a) op" where
  "raise e s = (Inl e, s)"

definition bnd :: "('s, 'a) op \<Rightarrow> ('a \<Rightarrow> ('s, 'b) op) \<Rightarrow> ('s, 'b) op" where
  "bnd m f s = (case m s of (Inl e, s') \<Rightarrow> (Inl e, s') | (Inr x, s') \<Rightarrow> f x s')"

definition andthen :: "('s, 'a) op \<Rightarrow> ('s, 'b) op \<Rightarrow> ('s, 'b) op" where
  "andthen m n = bnd m (\<lambda>_. n)"

definition gets :: "('s \<Rightarrow> 'a) \<Rightarrow> ('s, 'a) op" where
  "gets f s = (Inr (f s), s)"

definition modify :: "('s \<Rightarrow> 's) \<Rightarrow> ('s, unit) op" where
  "modify f s = (Inr (), f s)"

text \<open>\<open>try { m } catch (err) { h(err) }\<close>\<close>

definition catch :: "('s, 'a) op \<Rightarrow> (exn \<Rightarrow> ('s, 'a) op) \<Rightarrow> ('s, 'a) op" where
  "catch m h s = (case m s of (Inl e, s') \<Rightarrow> h e s' | (Inr x, s') \<Rightarrow> (Inr x, s'))"

text \<open>\<open>if (c) throw e\<close>\<close>

definition reject_if :: "bool \<Rightarrow> exn \<Rightarrow> ('s, unit) op" where
  "reject_if c e = (if c then raise e else ret ())"

text \<open>\<open>BEGIN; m; COMMIT\<close>, with \<open>ROLLBACK\<close> when \<open>m\<close> fails.\<close>

definition transaction :: "('s, 'a) op \<Rightarrow> ('s, 'a) op" where
  "transaction m s = (case m s of (Inl e, _) \<Rightarrow> (Inl e, s) | (Inr x, s') \<Rightarrow> (Inr x, s'))"

fun for_each :: "'b list \<Rightarrow> ('b \<Rightarrow> ('s, unit) op) \<Rightarrow> ('s, unit) op" where
  "for_each [] f = ret ()"
| "for_each (x # xs) f = andthen (f x) (for_each xs f)"

abbreviation result :: "(exn + 'a) \<times> 's \<Rightarrow> exn + 'a" where
  "result \<equiv> fst"

abbreviation after :: "(exn + 'a) \<times> 's \<Rightarrow> 's" where
  "after \<equiv> snd"

definition succeeds :: "(exn + 'a) \<times> 's \<Rightarrow> bool" where
  "succeeds r \<longleftrightarrow> (case fst r of Inl _ \<Rightarrow> False | Inr _ \<Rightarrow> True)"

lemmas op_defs = ret_def raise_def bnd_def andthen_def gets_def modify_def catch_def
  reject_if_def transaction_def

lemma ret_apply [op_simps]: "ret x s = (Inr x, s)"
  by (simp add: ret_def)

lemma raise_apply [op_simps]: "raise e s = (Inl e, s)"
  by (simp add: raise_def)

lemma gets_apply [op_simps]: "gets f s = (Inr (f s), s)"
  by (simp add: gets_def)

lemma modify_apply [op_simps]: "modify f s = (Inr (), f s)"
  by (simp add: modify_def)

lemma bnd_apply [op_simps]:
  "bnd m f s = (case m s of (Inl e, s') \<Rightarrow> (Inl e, s') | (Inr x, s') \<Rightarrow> f x s')"
  by (simp add: bnd_def)

lemma andthen_apply [op_simps]:
  "andthen m n s = (case m s of (Inl e, s') \<Rightarrow> (Inl e, s') | (Inr _, s') \<Rightarrow> n s')"
  by (simp add: andthen_def bnd_def)

lemma catch_apply [op_simps]:
  "catch m h s = (case m s of (Inl e, s') \<Rightarrow> h e s' | (Inr x, s') \<Rightarrow> (Inr x, s'))"
  by (simp add: catch_def)

lemma reject_if_apply [op_simps]:
  "reject_if c e s = (if c then (Inl e, s) else (Inr (), s))"
  by (simp add: reject_if_def op_simps)

lemma transaction_apply [op_simps]:
  "transaction m s = (case m s of (Inl e, _) \<Rightarrow> (Inl e, s) | (Inr x, s') \<Rightarrow> (Inr x, s'))"
  by (simp add: transaction_def)

lemma succeeds_simps [simp]: "succeeds (Inr x, s)" "\<not> succeeds (Inl e, s)"
  by (simp_all add: succeeds_def)

lemma succeeds_iff: "succeeds r \<longleftrightarrow> (\<exists>x. fst r = Inr x)"
  by (auto simp: succeeds_def split: sum.splits)

lemma bnd_Inr: "m s = (Inr x, t) \<Longrightarrow> bnd m f s = f x t"
  by (simp add: bnd_def)

lemma bnd_Inl: "m s = (Inl e, t) \<Longrightarrow> bnd m f s = (Inl e, t)"
  by (simp add: bnd_def)

lemma andthen_Inr: "m s = (Inr x, t) \<Longrightarrow> andthen m n s = n t"
  by (simp add: andthen_def bnd_def)

lemma andthen_Inl: "m s = (Inl e, t) \<Longrightarrow> andthen m n s = (Inl e, t)"
  by (simp add: andthen_def bnd_def)

lemma andthen_ok: "fst (m s) = Inr x \<Longrightarrow> andthen m n s = n (snd (m s))"
  by (cases "m s") (simp add: andthen_apply)

lemma andthen_ret: "andthen (ret x) n = n"
  by (rule ext) (simp add: andthen_apply ret_apply)

lemma bnd_cases:
  assumes "bnd m f s = (r, t)"
  obtains (exn) e where "m s = (Inl e, t)" "r = Inl e"
    | (val) x u where "m s = (Inr x, u)" "f x u = (r, t)"
  using assms by (auto simp: bnd_def split: prod.splits sum.splits)

lemma andthen_cases:
  assumes "andthen m n s = (r, t)"
  obtains (exn) e where "m s = (Inl e, t)" "r = Inl e"
    | (val) x u where "m s = (Inr x, u)" "n u = (r, t)"
  using assms by (auto simp: andthen_def elim: bnd_cases)

subsection \<open>Relations between the state before and after\<close>

text \<open>
  \<open>moves R m\<close>: whatever happens in \<open>m\<close>, exception or not, the state it leaves is
  related by \<open>R\<close> to the state it started from. Frame conditions (\<open>m\<close> does not
  write a table), monotonicity (a flag is only ever set) and invariants
  (\<open>R s t = (I s \<longrightarrow> I t)\<close>) are all of this shape.
\<close>

definition moves :: "('s \<Rightarrow> 's \<Rightarrow> bool) \<Rightarrow> ('s, 'a) op \<Rightarrow> bool" where
  "moves R m \<longleftrightarrow> (\<forall>s. R s (snd (m s)))"

lemma movesI: "(\<And>s. R s (snd (m s))) \<Longrightarrow> moves R m"
  by (simp add: moves_def)

lemma movesD: "moves R m \<Longrightarrow> R s (snd (m s))"
  by (simp add: moves_def)

text \<open>
  The rules for the combinators hold for every reflexive and transitive relation, so they
  are proved once, in a locale, and every component interprets it on its own relations.
\<close>

locale progress =
  fixes R :: "'s \<Rightarrow> 's \<Rightarrow> bool"
  assumes R_refl: "R s s"
    and R_trans: "R s t \<Longrightarrow> R t u \<Longrightarrow> R s u"
begin

lemma moves_ret: "moves R (ret x)"
  by (simp add: moves_def ret_def R_refl)

lemma moves_raise: "moves R (raise e)"
  by (simp add: moves_def raise_def R_refl)

lemma moves_gets: "moves R (gets f)"
  by (simp add: moves_def gets_def R_refl)

lemma moves_reject_if: "moves R (reject_if c e)"
  by (simp add: reject_if_def moves_ret moves_raise)

lemma moves_bnd: "moves R m \<Longrightarrow> (\<And>x. moves R (f x)) \<Longrightarrow> moves R (bnd m f)"
  unfolding moves_def bnd_def
  by (auto split: prod.splits sum.splits) (metis R_trans snd_conv)+

lemma moves_andthen: "moves R m \<Longrightarrow> moves R n \<Longrightarrow> moves R (andthen m n)"
  by (simp add: andthen_def moves_bnd)

lemma moves_catch: "moves R m \<Longrightarrow> (\<And>e. moves R (h e)) \<Longrightarrow> moves R (catch m h)"
  unfolding moves_def catch_def
  by (auto split: prod.splits sum.splits) (metis R_trans snd_conv)+

lemma moves_transaction: "moves R m \<Longrightarrow> moves R (transaction m)"
  unfolding moves_def transaction_def
  by (auto split: prod.splits sum.splits simp: R_refl) (metis snd_conv)

lemma moves_if: "(c \<Longrightarrow> moves R m) \<Longrightarrow> (\<not> c \<Longrightarrow> moves R n) \<Longrightarrow> moves R (if c then m else n)"
  by simp

lemma moves_option:
  "(x = None \<Longrightarrow> moves R m) \<Longrightarrow> (\<And>y. x = Some y \<Longrightarrow> moves R (f y)) \<Longrightarrow>
   moves R (case x of None \<Rightarrow> m | Some y \<Rightarrow> f y)"
  by (cases x) simp_all

lemma moves_for_each: "(\<And>x. moves R (f x)) \<Longrightarrow> moves R (for_each xs f)"
  by (induction xs) (simp_all add: moves_ret moves_andthen)

lemmas moves_rules = moves_ret moves_raise moves_gets moves_reject_if moves_bnd moves_andthen
  moves_catch moves_transaction moves_if moves_option moves_for_each

end

subsection \<open>One step among steps that leave a view alone\<close>

text \<open>
  \<open>same f\<close> relates two states that agree on the view \<open>f\<close>. A relation \<open>Q\<close> between the
  views before and after that need not be transitive (at most one row is appended, say) is
  carried through operations that leave the view alone.
\<close>

definition same :: "('s \<Rightarrow> 'v) \<Rightarrow> 's \<Rightarrow> 's \<Rightarrow> bool" where
  "same f s t \<longleftrightarrow> f t = f s"

definition through :: "('v \<Rightarrow> 'v \<Rightarrow> bool) \<Rightarrow> ('s \<Rightarrow> 'v) \<Rightarrow> 's \<Rightarrow> 's \<Rightarrow> bool" where
  "through Q f s t \<longleftrightarrow> Q (f s) (f t)"

interpretation same_view: progress "same f" for f
  by unfold_locales (auto simp: same_def)

lemma same_modify: "(\<And>s. f (g s) = f s) \<Longrightarrow> moves (same f) (modify g)"
  by (simp add: moves_def modify_def same_def)

lemma through_same: "(\<And>v. Q v v) \<Longrightarrow> moves (same f) m \<Longrightarrow> moves (through Q f) m"
  by (simp add: moves_def same_def through_def)

lemma through_bnd_before:
  assumes refl: "\<And>v. Q v v" and m: "moves (same f) m" and k: "\<And>x. moves (through Q f) (k x)"
  shows "moves (through Q f) (bnd m k)"
proof (rule movesI)
  fix s
  obtain r t where mt: "m s = (r, t)" by fastforce
  have ft: "f t = f s" using movesD [OF m, of s] mt by (simp add: same_def)
  have kt: "Q (f t) (f (snd (k x t)))" for x using movesD [OF k [of x], of t] by (simp add: through_def)
  show "through Q f s (snd (bnd m k s))"
    using mt ft kt refl by (cases r) (simp_all add: bnd_def through_def)
qed

lemma through_bnd_after:
  assumes m: "moves (through Q f) m" and k: "\<And>x. moves (same f) (k x)"
  shows "moves (through Q f) (bnd m k)"
proof (rule movesI)
  fix s
  obtain r t where mt: "m s = (r, t)" by fastforce
  have st: "Q (f s) (f t)" using movesD [OF m, of s] mt by (simp add: through_def)
  have kt: "f (snd (k x t)) = f t" for x using movesD [OF k [of x], of t] by (simp add: same_def)
  show "through Q f s (snd (bnd m k s))"
    using mt st kt by (cases r) (simp_all add: bnd_def through_def)
qed

lemma through_andthen_before:
  "(\<And>v. Q v v) \<Longrightarrow> moves (same f) m \<Longrightarrow> moves (through Q f) n \<Longrightarrow> moves (through Q f) (andthen m n)"
  by (simp add: andthen_def through_bnd_before)

lemma through_andthen_after:
  "moves (through Q f) m \<Longrightarrow> moves (same f) n \<Longrightarrow> moves (through Q f) (andthen m n)"
  by (simp add: andthen_def through_bnd_after)

text \<open>Keeping an invariant, and carrying a view through the first of two operations.\<close>

definition keeps :: "('s \<Rightarrow> bool) \<Rightarrow> 's \<Rightarrow> 's \<Rightarrow> bool" where
  "keeps I s t \<longleftrightarrow> (I s \<longrightarrow> I t)"

interpretation keeps_inv: progress "keeps I" for I
  by unfold_locales (auto simp: keeps_def)

lemma keeps_same: "(\<And>s t. f t = f s \<Longrightarrow> I s \<Longrightarrow> I t) \<Longrightarrow> moves (same f) m \<Longrightarrow> moves (keeps I) m"
  unfolding moves_def same_def keeps_def by blast

lemma keeps_modify: "(\<And>s. I s \<Longrightarrow> I (g s)) \<Longrightarrow> moves (keeps I) (modify g)"
  by (simp add: moves_def keeps_def modify_def)

lemma andthen_frame:
  assumes "moves (same f) m" "\<And>t. f t = f s \<Longrightarrow> J t" "\<And>t. f t = f s \<Longrightarrow> J (snd (n t))"
  shows "J (snd (andthen m n s))"
proof -
  have "f (snd (m s)) = f s" using movesD [OF assms(1), of s] by (simp add: same_def)
  with assms(2,3) show ?thesis by (cases "m s") (auto simp: andthen_def bnd_def split: sum.splits)
qed

lemma bnd_frame:
  assumes "moves (same f) m" "\<And>t. f t = f s \<Longrightarrow> J t" "\<And>x t. f t = f s \<Longrightarrow> J (snd (k x t))"
  shows "J (snd (bnd m k s))"
proof -
  have "f (snd (m s)) = f s" using movesD [OF assms(1), of s] by (simp add: same_def)
  with assms(2,3) show ?thesis by (cases "m s") (auto simp: bnd_def split: sum.splits)
qed

lemma bnd_keeps: "J (snd (m s)) \<Longrightarrow> (\<And>x. moves (keeps J) (k x)) \<Longrightarrow> J (snd (bnd m k s))"
  by (cases "m s") (auto simp: bnd_def moves_def keeps_def split: sum.splits)

lemma andthen_keeps: "J (snd (m s)) \<Longrightarrow> moves (keeps J) n \<Longrightarrow> J (snd (andthen m n s))"
  by (simp add: andthen_def bnd_keeps)

subsection \<open>Rows\<close>

text \<open>\<open>UPDATE t SET f WHERE p\<close>\<close>

definition update_where :: "('a \<Rightarrow> bool) \<Rightarrow> ('a \<Rightarrow> 'a) \<Rightarrow> 'a list \<Rightarrow> 'a list" where
  "update_where p f rows = map (\<lambda>r. if p r then f r else r) rows"

lemma length_update_where [simp]: "length (update_where p f rows) = length rows"
  by (simp add: update_where_def)

lemma update_where_simps [simp]:
  "update_where p f [] = []"
  "update_where p f (r # rows) = (if p r then f r else r) # update_where p f rows"
  by (simp_all add: update_where_def)

lemma update_where_append [simp]:
  "update_where p f (xs @ ys) = update_where p f xs @ update_where p f ys"
  by (simp add: update_where_def)

lemma nth_update_where [simp]:
  "i < length rows \<Longrightarrow> update_where p f rows ! i = (if p (rows ! i) then f (rows ! i) else rows ! i)"
  by (simp add: update_where_def)

lemma in_update_where:
  "r \<in> set (update_where p f rows) \<longleftrightarrow>
   (\<exists>q \<in> set rows. r = (if p q then f q else q))"
  by (auto simp: update_where_def)

lemma update_where_hit: "r \<in> set rows \<Longrightarrow> p r \<Longrightarrow> f r \<in> set (update_where p f rows)"
  by (auto simp: update_where_def)

lemma map_update_where: "(\<And>r. k (f r) = k r) \<Longrightarrow> map k (update_where p f rows) = map k rows"
  by (simp add: update_where_def)

lemma image_update_where:
  "(\<And>r. k (f r) = k r) \<Longrightarrow> k ` set (update_where p f rows) = k ` set rows"
  by (metis list.set_map map_update_where)

lemma list_ex_keys:
  "list_ex (\<lambda>r. k r = i \<or> h r = j) rows \<longleftrightarrow> i \<in> k ` set rows \<or> j \<in> h ` set rows"
  by (auto simp: list_ex_iff)

lemma list_ex_update_where:
  "list_ex P (update_where p f rows) \<longleftrightarrow> (\<exists>r \<in> set rows. if p r then P (f r) else P r)"
  by (induction rows) auto

lemma update_where_none: "(\<And>r. r \<in> set rows \<Longrightarrow> \<not> p r) \<Longrightarrow> update_where p f rows = rows"
  by (induction rows) simp_all

lemma find_update_where:
  "(\<And>r. q (f r) = q r) \<Longrightarrow>
   find q (update_where p f rows) = map_option (\<lambda>r. if p r then f r else r) (find q rows)"
  by (induction rows) auto

lemma find_append: "find p (xs @ ys) = (case find p xs of None \<Rightarrow> find p ys | Some x \<Rightarrow> Some x)"
  by (induction xs) auto

lemma find_SomeD: "find p xs = Some x \<Longrightarrow> x \<in> set xs \<and> p x"
  by (induction xs) (auto split: if_splits)

lemma find_NoneD: "find p xs = None \<Longrightarrow> x \<in> set xs \<Longrightarrow> \<not> p x"
  by (induction xs) (auto split: if_splits)

lemma find_unique:
  assumes "distinct (map k xs)" "x \<in> set xs"
  shows "find (\<lambda>y. k y = k x) xs = Some x"
  using assms by (induction xs) auto

text \<open>Two tables whose keys agree: a row of one has exactly one partner in the other.\<close>

lemma ex1_partner:
  assumes eq: "map k xs = map h ys" and d: "distinct (map h ys)" and r: "r \<in> set ys"
  shows "\<exists>!x. x \<in> set xs \<and> k x = h r"
proof -
  have "inj_on k (set xs)" using eq d by (metis distinct_map)
  moreover have "h r \<in> set (map k xs)" unfolding eq using r by simp
  then obtain x where "x \<in> set xs" "k x = h r" by auto
  ultimately show ?thesis by (metis inj_onD)
qed

end
