(* ===== verification/Database.thy ===== *)
theory Database
  imports JsLib
begin

text \<open>
  The persistent state: the tables of \<open>src/database/migrations/*.sql\<close> as lists of row
  records in insertion order, the enumerations the rows use, and the environment of one
  call (the two clocks and the parts of the outside world that are parameters of the
  model). A column that no query of the server reads or writes (\<open>audit_logs.id\<close>,
  \<open>csrf_tokens.id\<close> and the like) is left out. Times are milliseconds since the epoch.
\<close>

type_synonym time = int

subsection \<open>Enumerations\<close>

datatype CallType = Voice | Video | Group

datatype CallStatus = Initiated | Active | Ended | Missed | Rejected

datatype ParticipantRole = Host | Guest

datatype SaveStatus = SavePending | SaveAccepted | SaveRejected | SaveExpired

datatype AuditEventType =
    USER_LOGIN | USER_LOGOUT | USER_REGISTER
  | CALL_INITIATED | CALL_ACCEPTED | CALL_REJECTED | CALL_ENDED | CALL_MISSED
  | CALL_UPGRADED | CALL_DOWNGRADED
  | MEDIA_MIC_TOGGLED | MEDIA_CAMERA_TOGGLED
  | ROOM_CREATED | PARTICIPANT_JOINED | PARTICIPANT_LEFT
  | MATCH_QUEUED | MATCH_FOUND | MATCH_CANCELLED
  | CONTACT_SAVE_REQUESTED | CONTACT_SAVED | CONTACT_SAVE_REJECTED

datatype LogEvent =
    REGISTER_ATTEMPT | REGISTER_SUCCESS | REGISTER_DUPLICATE
  | LOGIN_ATTEMPT | LOGIN_SUCCESS | LOGIN_INVALID_CREDS | LOGIN_ACCOUNT_LOCKED
  | LOGIN_INACTIVE_ACCOUNT | LOGOUT | LOGOUT_ALL
  | TOKEN_REFRESH | TOKEN_REFRESH_REUSE | TOKEN_EXPIRED | TOKEN_INVALID
  | SESSION_CREATED | SESSION_REVOKED | SESSION_ALL_REVOKED | SESSION_INVALID
  | CSRF_MISSING | CSRF_INVALID
  | FAILED_ATTEMPT_INC | ACCOUNT_LOCKED | ACCOUNT_LOCK_CLEARED
  | DB_POOL_ERROR | STARTUP

datatype LogLevel = INFO | WARN

text \<open>The values of an audit payload (\<open>Record<string, unknown>\<close>) that the services write.\<close>

datatype json = JStr string | JBool bool | JType CallType | JNone

subsection \<open>Rows\<close>

record user_row =
  u_id :: string
  u_email :: string
  u_password_hash :: string
  u_mfa_enabled :: bool
  u_failed_attempts :: int
  u_locked_until :: "time option"
  u_is_active :: bool
  u_created_at :: time
  u_updated_at :: time

record session_row =
  s_id :: string
  s_user_id :: string
  s_ip_address :: string
  s_user_agent :: string
  s_is_revoked :: bool
  s_created_at :: time
  s_expires_at :: time

record refresh_token_row =
  rt_id :: string
  rt_session_id :: string
  rt_token_hash :: string
  rt_family_id :: string
  rt_is_used :: bool
  rt_created_at :: time
  rt_expires_at :: time

record csrf_token_row =
  csrf_session_id :: string
  csrf_token_hash :: string
  csrf_expires_at :: time

record call_session_row =
  cs_id :: string
  cs_initiator_id :: "string option"
  cs_call_type :: CallType
  cs_status :: CallStatus
  cs_is_anonymous :: bool
  cs_room_id :: "string option"
  cs_started_at :: time
  cs_answered_at :: "time option"
  cs_ended_at :: "time option"

record call_participant_row =
  cp_id :: string
  cp_call_session_id :: string
  cp_user_id :: "string option"
  cp_anonymous_id :: "string option"
  cp_role :: ParticipantRole
  cp_joined_at :: time
  cp_left_at :: "time option"
  cp_mic_enabled :: bool
  cp_camera_enabled :: bool

record contact_row =
  c_id :: string
  c_owner_id :: string
  c_contact_user_id :: string
  c_nickname :: "string option"
  c_saved_at :: time

record contact_save_request_row =
  csr_id :: string
  csr_call_session_id :: string
  csr_from_user_id :: string
  csr_to_user_id :: string
  csr_status :: SaveStatus
  csr_created_at :: time
  csr_resolved_at :: "time option"

record audit_row =
  al_user_id :: "string option"
  al_anonymous_id :: "string option"
  al_event_type :: AuditEventType
  al_payload :: "(string \<times> json) list"
  al_ip_address :: "string option"
  al_user_agent :: "string option"
  al_occurred_at :: time

text \<open>
  The tables, and the lines \<open>AppLogger\<close> has written (level and event). Every later
  state of the development extends this record, so one operation on the tables serves
  the services and the gateway alike.
\<close>

record db =
  users :: "user_row list"
  sessions :: "session_row list"
  refresh_tokens :: "refresh_token_row list"
  csrf_tokens :: "csrf_token_row list"
  call_sessions :: "call_session_row list"
  call_participants :: "call_participant_row list"
  contacts :: "contact_row list"
  contact_save_requests :: "contact_save_request_row list"
  audit_logs :: "audit_row list"
  log_lines :: "(LogLevel \<times> LogEvent) list"

definition empty_db :: db where
  "empty_db = \<lparr>users = [], sessions = [], refresh_tokens = [], csrf_tokens = [],
     call_sessions = [], call_participants = [], contacts = [], contact_save_requests = [],
     audit_logs = [], log_lines = []\<rparr>"

subsection \<open>The environment of a call\<close>

text \<open>
  \<open>js_now\<close> is \<open>new Date()\<close> in the server process, \<open>db_now\<close> is \<open>now()\<close> in the
  database: two clocks, read once per call. \<open>inet_ok\<close> is PostgreSQL's verdict on
  \<open>$5::inet\<close>: the cast of any other text is an error. \<open>uuid_of\<close> is its reading of a
  text as a \<open>uuid\<close>, in the canonical spelling that the rows hold, where it is one.
\<close>

record env =
  js_now :: time
  db_now :: time
  inet_ok :: "string \<Rightarrow> bool"
  uuid_of :: "string \<Rightarrow> string option"

definition days :: "int \<Rightarrow> time" where
  "days n = n * 86400000"

definition minutes :: "int \<Rightarrow> time" where
  "minutes n = n * 60000"

subsection \<open>Foreign keys, ordering and pages\<close>

definition user_exists :: "string \<Rightarrow> 'z db_scheme \<Rightarrow> bool" where
  "user_exists u d \<longleftrightarrow> list_ex (\<lambda>r. u_id r = u) (users d)"

definition session_exists :: "string \<Rightarrow> 'z db_scheme \<Rightarrow> bool" where
  "session_exists i d \<longleftrightarrow> list_ex (\<lambda>r. s_id r = i) (sessions d)"

definition call_exists :: "string \<Rightarrow> 'z db_scheme \<Rightarrow> bool" where
  "call_exists i d \<longleftrightarrow> list_ex (\<lambda>r. cs_id r = i) (call_sessions d)"

text \<open>A nullable foreign key to \<open>users\<close>.\<close>

definition user_ref_ok :: "string option \<Rightarrow> 'z db_scheme \<Rightarrow> bool" where
  "user_ref_ok u d \<longleftrightarrow> (case u of None \<Rightarrow> True | Some i \<Rightarrow> user_exists i d)"

text \<open>A parameter of a query that the database reads as a \<open>uuid\<close>, and a nullable one.\<close>

definition with_uuid ::
    "'e env_scheme \<Rightarrow> string \<Rightarrow> (string \<Rightarrow> ('z db_scheme, 'a) op) \<Rightarrow> ('z db_scheme, 'a) op" where
  "with_uuid E x f =
     (case uuid_of E x of None \<Rightarrow> raise (PgError INVALID_TEXT_REPRESENTATION) | Some i \<Rightarrow> f i)"

definition with_uuid_or_null ::
    "'e env_scheme \<Rightarrow> string option \<Rightarrow> (string option \<Rightarrow> ('z db_scheme, 'a) op) \<Rightarrow> ('z db_scheme, 'a) op" where
  "with_uuid_or_null E x f =
     (case x of None \<Rightarrow> f None | Some t \<Rightarrow> with_uuid E t (\<lambda>i. f (Some i)))"

text \<open>\<open>ORDER BY key DESC\<close>: rows with equal keys keep their insertion order.\<close>

definition order_by_desc :: "('a \<Rightarrow> time) \<Rightarrow> 'a list \<Rightarrow> 'a list" where
  "order_by_desc key rows = sort_key (\<lambda>r. - key r) rows"

text \<open>\<open>LIMIT n OFFSET m\<close>; PostgreSQL refuses negative counts.\<close>

definition page :: "int \<Rightarrow> int \<Rightarrow> 'a list \<Rightarrow> ('s, 'a list) op" where
  "page limit offset rows =
     (if limit < 0 \<or> offset < 0 then raise (PgError INVALID_ROW_COUNT)
      else ret (take (nat limit) (drop (nat offset) rows)))"

definition log_line :: "LogLevel \<Rightarrow> LogEvent \<Rightarrow> ('z db_scheme, unit) op" where
  "log_line l e = modify (\<lambda>d. d\<lparr>log_lines := log_lines d @ [(l, e)]\<rparr>)"

lemma with_uuid_apply [op_simps]:
  "with_uuid E x f d =
     (case uuid_of E x of None \<Rightarrow> (Inl (PgError INVALID_TEXT_REPRESENTATION), d) | Some i \<Rightarrow> f i d)"
  by (simp add: with_uuid_def op_simps split: option.splits)

lemma with_uuid_or_null_None: "with_uuid_or_null E None f = f None"
  by (simp add: with_uuid_or_null_def)

lemma with_uuid_or_null_apply [op_simps]:
  "with_uuid_or_null E x f d =
     (case x of None \<Rightarrow> f None d | Some t \<Rightarrow> with_uuid E t (\<lambda>i. f (Some i)) d)"
  by (simp add: with_uuid_or_null_def split: option.splits)

lemma user_exists_iff: "user_exists u d \<longleftrightarrow> (\<exists>r \<in> set (users d). u_id r = u)"
  by (auto simp: user_exists_def list_ex_iff)

lemma user_exists_image: "user_exists u d \<longleftrightarrow> u \<in> u_id ` set (users d)"
  by (auto simp: user_exists_iff)

lemma session_exists_iff: "session_exists u d \<longleftrightarrow> (\<exists>r \<in> set (sessions d). s_id r = u)"
  by (auto simp: session_exists_def list_ex_iff)

lemma session_exists_image: "session_exists u d \<longleftrightarrow> u \<in> s_id ` set (sessions d)"
  by (auto simp: session_exists_iff)

lemma call_exists_iff: "call_exists u d \<longleftrightarrow> (\<exists>r \<in> set (call_sessions d). cs_id r = u)"
  by (auto simp: call_exists_def list_ex_iff)

lemma log_line_apply [op_simps]:
  "log_line l e d = (Inr (), d\<lparr>log_lines := log_lines d @ [(l, e)]\<rparr>)"
  by (simp add: log_line_def op_simps)

lemma set_order_by_desc [simp]: "set (order_by_desc key rows) = set rows"
  by (simp add: order_by_desc_def)

lemma sorted_order_by_desc: "sorted (map (\<lambda>r. - key r) (order_by_desc key rows))"
  by (simp add: order_by_desc_def)

lemma moves_with_uuid:
  assumes "\<And>s. R s s" "\<And>i. moves R (f i)"
  shows "moves R (with_uuid E x f)"
  using assms by (auto simp: moves_def op_simps split: option.splits)

lemma moves_with_uuid_or_null:
  assumes "\<And>s. R s s" "\<And>i. moves R (f i)"
  shows "moves R (with_uuid_or_null E x f)"
  using assms by (auto simp: moves_def op_simps split: option.splits)

lemma same_log_line: "(\<And>d x. f (d\<lparr>log_lines := x\<rparr>) = f d) \<Longrightarrow> moves (same f) (log_line l e)"
  by (simp add: log_line_def same_modify)

end
