(* ===== verification/AuditTrail.thy ===== *)
theory AuditTrail
  imports Database
begin

text \<open>
  \<open>src/audit/audit.service.ts\<close>: the append-only audit log. A write that the database
  refuses is swallowed; the lemmas show that \<open>log\<close> never fails, touches nothing but
  \<open>audit_logs\<close>, only appends there, and exactly when it appends nothing.
\<close>

subsection \<open>The IP filter\<close>

text \<open>
  \<open>/^(?:\d{1,3}\.){3}\d{1,3}$/.test(ip) || /^[0-9a-fA-F:]+$/.test(ip)\<close>: the first
  regular expression by splitting at the dots.
\<close>

definition octet_like :: "string \<Rightarrow> bool" where
  "octet_like p \<longleftrightarrow> 1 \<le> length p \<and> length p \<le> 3 \<and> list_all is_digit p"

definition looks_ipv4 :: "string \<Rightarrow> bool" where
  "looks_ipv4 s \<longleftrightarrow> (let parts = split_on CHR ''.'' s in length parts = 4 \<and> list_all octet_like parts)"

definition looks_ipv6 :: "string \<Rightarrow> bool" where
  "looks_ipv6 s \<longleftrightarrow> s \<noteq> [] \<and> list_all (\<lambda>c. is_hex c \<or> c = CHR '':'') s"

definition isValidIp :: "string \<Rightarrow> bool" where
  "isValidIp ip \<longleftrightarrow> looks_ipv4 ip \<or> looks_ipv6 ip"

subsection \<open>Writing and reading the log\<close>

record AuditEntry =
  ae_userId :: "string option"
  ae_anonymousId :: "string option"
  ae_eventType :: AuditEventType
  ae_payload :: "(string \<times> json) list"
  ae_ipAddress :: "string option"
  ae_userAgent :: "string option"

text \<open>An entry with the given user, event and payload, and nothing else.\<close>

definition audit_entry :: "string option \<Rightarrow> AuditEventType \<Rightarrow> (string \<times> json) list \<Rightarrow> AuditEntry" where
  "audit_entry u ev pl = \<lparr>ae_userId = u, ae_anonymousId = None, ae_eventType = ev,
     ae_payload = pl, ae_ipAddress = None, ae_userAgent = None\<rparr>"

text \<open>\<open>entry.ipAddress && isValidIp(entry.ipAddress) ? entry.ipAddress : null\<close>\<close>

definition audit_ip :: "AuditEntry \<Rightarrow> string option" where
  "audit_ip e = (case ae_ipAddress e of None \<Rightarrow> None
     | Some ip \<Rightarrow> if ip \<noteq> [] \<and> isValidIp ip then Some ip else None)"

definition audit_row_of :: "'e env_scheme \<Rightarrow> AuditEntry \<Rightarrow> audit_row" where
  "audit_row_of E e = \<lparr>al_user_id = ae_userId e, al_anonymous_id = ae_anonymousId e,
     al_event_type = ae_eventType e, al_payload = ae_payload e, al_ip_address = audit_ip e,
     al_user_agent = ae_userAgent e, al_occurred_at = db_now E\<rparr>"

definition inet_cast_ok :: "'e env_scheme \<Rightarrow> string option \<Rightarrow> bool" where
  "inet_cast_ok E ip \<longleftrightarrow> (case ip of None \<Rightarrow> True | Some t \<Rightarrow> inet_ok E t)"

definition insert_audit :: "'e env_scheme \<Rightarrow> AuditEntry \<Rightarrow> ('z db_scheme, unit) op" where
  "insert_audit E e d =
     (if \<not> inet_cast_ok E (audit_ip e) then raise (PgError INVALID_TEXT_REPRESENTATION) d
      else if \<not> user_ref_ok (ae_userId e) d then raise (PgError FK_VIOLATION) d
      else modify (\<lambda>d. d\<lparr>audit_logs := audit_logs d @ [audit_row_of E e]\<rparr>) d)"

definition AuditService_log :: "'e env_scheme \<Rightarrow> AuditEntry \<Rightarrow> ('z db_scheme, unit) op" where
  "AuditService_log E e = catch (insert_audit E e) (\<lambda>_. ret ())"

definition AuditService_findByUser ::
    "string \<Rightarrow> int \<Rightarrow> int \<Rightarrow> ('z db_scheme, audit_row list) op" where
  "AuditService_findByUser u limit offset =
     bnd (gets (\<lambda>d. order_by_desc al_occurred_at (filter (\<lambda>r. al_user_id r = Some u) (audit_logs d))))
       (page limit offset)"

subsection \<open>The interface its clients rely on\<close>

text \<open>
  What the services assume of an audit log: a call returns (a failed write is the log's own
  affair) and the trail only grows. From this follows that logging inside a handler never
  changes what the handler returns or whether it goes on.
\<close>

locale audit_sink =
  fixes log :: "'e \<Rightarrow> ('s, unit) op"
    and trail :: "'s \<Rightarrow> 'r list"
  assumes log_returns: "fst (log e s) = Inr ()"
    and log_appends: "\<exists>new. trail (snd (log e s)) = trail s @ new"
begin

lemma log_then: "andthen (log e) m s = m (snd (log e s))"
  using log_returns [of e s] by (cases "log e s") (simp add: op_simps)

lemma log_all_returns: "fst (for_each es log s) = Inr ()"
  by (induction es arbitrary: s) (simp_all add: log_then ret_def)

lemma log_all_appends: "\<exists>new. trail (snd (for_each es log s)) = trail s @ new"
proof (induction es arbitrary: s)
  case (Cons e es)
  obtain a where "trail (snd (log e s)) = trail s @ a" using log_appends by blast
  moreover obtain b where "trail (snd (for_each es log (snd (log e s)))) = trail (snd (log e s)) @ b"
    using Cons.IH by blast
  ultimately show ?case by (simp add: log_then)
qed (simp add: op_simps)

end

subsection \<open>Lemmas\<close>

text \<open>The entry is accepted by the table: its address casts and its user exists.\<close>

definition audit_accepted :: "'e env_scheme \<Rightarrow> AuditEntry \<Rightarrow> 'z db_scheme \<Rightarrow> bool" where
  "audit_accepted E e d \<longleftrightarrow> inet_cast_ok E (audit_ip e) \<and> user_ref_ok (ae_userId e) d"

lemma AuditService_log_apply:
  "AuditService_log E e d =
     (Inr (), if audit_accepted E e d then d\<lparr>audit_logs := audit_logs d @ [audit_row_of E e]\<rparr> else d)"
  by (auto simp: AuditService_log_def insert_audit_def audit_accepted_def op_simps)

lemma AuditService_log_returns [simp]: "fst (AuditService_log E e d) = Inr ()"
  by (simp add: AuditService_log_apply)

lemma AuditService_log_appends: "\<exists>new. audit_logs (snd (AuditService_log E e d)) = audit_logs d @ new"
  by (simp add: AuditService_log_apply)

interpretation audit: audit_sink "AuditService_log E" audit_logs for E
  by unfold_locales (simp_all add: AuditService_log_appends)

text \<open>
  Frame: a view of the state that does not depend on \<open>audit_logs\<close> is the same after a
  \<open>log\<close>.
\<close>

lemma same_AuditService_log:
  "(\<And>d x. f (d\<lparr>audit_logs := x\<rparr>) = f d) \<Longrightarrow> moves (same f) (AuditService_log E e)"
  by (simp add: moves_def same_def AuditService_log_apply)

text \<open>The log is append-only: what was there is a prefix of what is there.\<close>

definition audit_grows :: "'z db_scheme \<Rightarrow> 'z db_scheme \<Rightarrow> bool" where
  "audit_grows d d' \<longleftrightarrow> (\<exists>new. audit_logs d' = audit_logs d @ new)"

interpretation audit_order: progress audit_grows
  by unfold_locales (auto simp: audit_grows_def)

lemma audit_grows_log [op_moves]: "moves audit_grows (AuditService_log E e)"
  by (simp add: moves_def audit_grows_def AuditService_log_apply)

lemma audit_grows_same: "moves (same audit_logs) m \<Longrightarrow> moves audit_grows m"
  by (simp add: moves_def same_def audit_grows_def)

lemma audit_grows_modify: "(\<And>d. audit_logs (g d) = audit_logs d) \<Longrightarrow> moves audit_grows (modify g)"
  by (simp add: moves_def modify_def audit_grows_def)

lemma looks_ipv4_iff:
  "looks_ipv4 s \<longleftrightarrow> (\<exists>a b c d. s = a @ ''.'' @ b @ ''.'' @ c @ ''.'' @ d \<and>
     octet_like a \<and> octet_like b \<and> octet_like c \<and> octet_like d)"
proof
  assume "looks_ipv4 s"
  then obtain a b c d where *: "split_on CHR ''.'' s = [a, b, c, d]"
      "octet_like a" "octet_like b" "octet_like c" "octet_like d"
    by (auto simp: looks_ipv4_def Let_def length_Suc_conv eval_nat_numeral)
  have "s = a @ ''.'' @ b @ ''.'' @ c @ ''.'' @ d"
    using join_split [of "CHR ''.''" s] *(1) by simp
  with * show "\<exists>a b c d. s = a @ ''.'' @ b @ ''.'' @ c @ ''.'' @ d \<and>
     octet_like a \<and> octet_like b \<and> octet_like c \<and> octet_like d" by blast
next
  have no_dot: "CHR ''.'' \<notin> set p" if "octet_like p" for p
    using that by (auto simp: octet_like_def list_all_iff is_digit_def Let_def)
  assume "\<exists>a b c d. s = a @ ''.'' @ b @ ''.'' @ c @ ''.'' @ d \<and>
     octet_like a \<and> octet_like b \<and> octet_like c \<and> octet_like d"
  then show "looks_ipv4 s"
    by (auto simp: looks_ipv4_def Let_def split_on_append_sep split_on_no_sep no_dot)
qed

end
