(* ===== verification/Machines.thy ===== *)
theory Machines
  imports Prelude
begin

text \<open>
  Runs of a component: a step function over events, the states reachable under a guard
  on the events, and two locales, one for invariants and one for monotone relations,
  which the components interpret on their own steps.
\<close>

inductive reaches :: "('s \<Rightarrow> 'e \<Rightarrow> bool) \<Rightarrow> ('e \<Rightarrow> 's \<Rightarrow> 's) \<Rightarrow> 's \<Rightarrow> 's \<Rightarrow> bool"
  for guard step where
  here: "reaches guard step s s"
| further: "reaches guard step s t \<Longrightarrow> guard t e \<Longrightarrow> reaches guard step s (step e t)"

text \<open>The run over a list of events, and whether each event's guard holds when it comes.\<close>

definition run :: "('e \<Rightarrow> 's \<Rightarrow> 's) \<Rightarrow> 'e list \<Rightarrow> 's \<Rightarrow> 's" where
  "run step es s = fold step es s"

fun run_guarded :: "('s \<Rightarrow> 'e \<Rightarrow> bool) \<Rightarrow> ('e \<Rightarrow> 's \<Rightarrow> 's) \<Rightarrow> 'e list \<Rightarrow> 's \<Rightarrow> bool" where
  "run_guarded guard step [] s = True"
| "run_guarded guard step (e # es) s = (guard s e \<and> run_guarded guard step es (step e s))"

lemma run_simps [simp]:
  "run step [] s = s"
  "run step (e # es) s = run step es (step e s)"
  "run step (es @ fs) s = run step fs (run step es s)"
  by (simp_all add: run_def)

lemma reaches_trans:
  "reaches guard step t u \<Longrightarrow> reaches guard step s t \<Longrightarrow> reaches guard step s u"
  by (induction rule: reaches.induct) (auto intro: reaches.intros)

lemma run_reaches: "run_guarded guard step es s \<Longrightarrow> reaches guard step s (run step es s)"
proof (induction es arbitrary: s)
  case (Cons e es)
  then have "reaches guard step s (step e s)" by (auto intro: reaches.intros)
  with Cons show ?case by (auto intro: reaches_trans)
qed (simp add: reaches.here)

locale guarded_machine =
  fixes guard :: "'s \<Rightarrow> 'e \<Rightarrow> bool"
    and step :: "'e \<Rightarrow> 's \<Rightarrow> 's"
    and I :: "'s \<Rightarrow> bool"
  assumes step_keeps: "I s \<Longrightarrow> guard s e \<Longrightarrow> I (step e s)"
begin

lemma reaches_keeps: "reaches guard step s t \<Longrightarrow> I s \<Longrightarrow> I t"
  by (induction rule: reaches.induct) (auto intro: step_keeps)

lemma run_keeps: "run_guarded guard step es s \<Longrightarrow> I s \<Longrightarrow> I (run step es s)"
  by (rule reaches_keeps [OF run_reaches])

end

locale monotone_machine = progress R for R :: "'s \<Rightarrow> 's \<Rightarrow> bool" +
  fixes step :: "'e \<Rightarrow> 's \<Rightarrow> 's"
  assumes step_moves: "R s (step e s)"
begin

lemma run_moves: "R s (run step es s)"
proof (induction es arbitrary: s)
  case Nil
  show ?case by (simp add: R_refl)
next
  case (Cons e es)
  from step_moves Cons show ?case by (auto intro: R_trans)
qed

lemma reaches_moves: "reaches guard step s t \<Longrightarrow> R s t"
  by (induction rule: reaches.induct) (auto intro: R_refl R_trans step_moves)

end

end
