(* ===== verification/Tables.thy ===== *)
theory Tables
  imports Machines
begin

text \<open>
  The history of a table: rows keep their place, each row may change along a relation
  \<open>Q\<close> (a flag set once, a status that leaves \<open>pending\<close> once), and new rows come at the
  end. The locale proves once what follows for lookups, for \<open>UPDATE\<close> and for \<open>INSERT\<close>;
  every component interprets it on its own tables.
\<close>

definition later :: "('r \<Rightarrow> 'r \<Rightarrow> bool) \<Rightarrow> ('s \<Rightarrow> 'r list) \<Rightarrow> 's \<Rightarrow> 's \<Rightarrow> bool" where
  "later Q rows s t \<longleftrightarrow> (\<exists>old new. rows t = old @ new \<and> list_all2 Q (rows s) old)"

lemma list_all2_update_where: "(\<And>r. Q r r) \<Longrightarrow> (\<And>r. p r \<Longrightarrow> Q r (f r)) \<Longrightarrow> list_all2 Q xs (update_where p f xs)"
  by (simp add: update_where_def list_all2_conv_all_nth)

locale table =
  fixes Q :: "'r \<Rightarrow> 'r \<Rightarrow> bool"
    and rows :: "'s \<Rightarrow> 'r list"
  assumes Q_refl: "Q r r"
    and Q_trans: "Q a b \<Longrightarrow> Q b c \<Longrightarrow> Q a c"
begin

lemma later_refl: "later Q rows s s"
  unfolding later_def by (rule exI [of _ "rows s"]) (simp add: list_all2_refl Q_refl)

lemma later_trans:
  assumes "later Q rows s t" "later Q rows t u"
  shows "later Q rows s u"
proof -
  obtain o1 n1 where 1: "rows t = o1 @ n1" "list_all2 Q (rows s) o1"
    using assms(1) by (auto simp: later_def)
  obtain o2 n2 where 2: "rows u = o2 @ n2" "list_all2 Q (rows t) o2"
    using assms(2) by (auto simp: later_def)
  from 2(2) 1(1) obtain a b where "o2 = a @ b" "list_all2 Q o1 a"
    by (auto simp: list_all2_append1)
  moreover from this 1(2) have "list_all2 Q (rows s) a"
    using list_all2_trans [of Q Q Q] Q_trans by blast
  ultimately show ?thesis using 2(1) by (auto simp: later_def)
qed

end

sublocale table < progress "later Q rows"
  by unfold_locales (fact later_refl, fact later_trans)

context table
begin

lemma later_row:
  assumes "later Q rows s t" "r \<in> set (rows s)"
  shows "\<exists>r' \<in> set (rows t). Q r r'"
proof -
  obtain old new where *: "rows t = old @ new" "list_all2 Q (rows s) old"
    using assms(1) by (auto simp: later_def)
  from assms(2) obtain i where i: "i < length (rows s)" "rows s ! i = r"
    by (auto simp: in_set_conv_nth)
  with *(2) have "i < length old" "Q r (old ! i)"
    by (auto simp: list_all2_conv_all_nth)
  with *(1) show ?thesis by (metis UnCI nth_mem set_append)
qed

lemma later_find:
  assumes "later Q rows s t" "find p (rows s) = Some r" "\<And>a b. Q a b \<Longrightarrow> p b = p a"
  shows "\<exists>r'. find p (rows t) = Some r' \<and> Q r r'"
proof -
  obtain old new where *: "rows t = old @ new" "list_all2 Q (rows s) old"
    using assms(1) by (auto simp: later_def)
  have "\<exists>r'. find p old = Some r' \<and> Q r r'"
    using *(2) assms(2,3) by (induction rule: list_all2_induct) (auto split: if_splits)
  with *(1) show ?thesis by (auto simp: find_append)
qed

lemma later_same: "rows t = rows s \<Longrightarrow> later Q rows s t"
  using later_refl [of s] by (simp add: later_def)

lemma later_insert: "rows t = rows s @ new \<Longrightarrow> later Q rows s t"
  unfolding later_def by (rule exI [of _ "rows s"]) (simp add: list_all2_refl Q_refl)

lemma later_update:
  "rows t = update_where p f (rows s) \<Longrightarrow> (\<And>r. p r \<Longrightarrow> Q r (f r)) \<Longrightarrow> later Q rows s t"
  unfolding later_def
  by (rule exI [of _ "rows t"]) (simp add: list_all2_update_where Q_refl)

lemma moves_modify_same: "(\<And>s. rows (g s) = rows s) \<Longrightarrow> moves (later Q rows) (modify g)"
  by (simp add: moves_def modify_def later_same)

lemma moves_modify_update:
  "(\<And>s. rows (g s) = update_where p f (rows s)) \<Longrightarrow> (\<And>r. p r \<Longrightarrow> Q r (f r)) \<Longrightarrow>
   moves (later Q rows) (modify g)"
  by (auto simp: moves_def modify_def intro: later_update)

end

text \<open>A table whose rows never change: append-only.\<close>

interpretation fixed_rows: table "(=)" rows for rows
  by unfold_locales auto

lemma later_eq_iff: "later (=) rows s t \<longleftrightarrow> (\<exists>new. rows t = rows s @ new)"
  by (auto simp: later_def list.rel_eq)

end
