(* ===== verification/Users.thy ===== *)
theory Users
  imports AuditTrail Tables
begin

text \<open>
  \<open>src/users\<close>: the user repository (SQL on \<open>users\<close>, with its \<open>UNIQUE\<close> constraints
  and its \<open>updated_at\<close> trigger) and the service above it, which counts failed logins and
  locks an account.
\<close>

subsection \<open>The repository\<close>

definition MAX_FAILED_ATTEMPTS :: int where
  "MAX_FAILED_ATTEMPTS = 5"

definition LOCKOUT_MINUTES :: int where
  "LOCKOUT_MINUTES = 15"

definition UserRepository_findByEmail :: "string \<Rightarrow> ('z db_scheme, user_row option) op" where
  "UserRepository_findByEmail email = gets (\<lambda>d. find (\<lambda>u. u_email u = email) (users d))"

definition UserRepository_findById :: "string \<Rightarrow> ('z db_scheme, user_row option) op" where
  "UserRepository_findById i = gets (\<lambda>d. find (\<lambda>u. u_id u = i) (users d))"

definition new_user :: "'e env_scheme \<Rightarrow> string \<Rightarrow> string \<Rightarrow> string \<Rightarrow> user_row" where
  "new_user E i email passwordHash = \<lparr>u_id = i, u_email = email, u_password_hash = passwordHash,
     u_mfa_enabled = False, u_failed_attempts = 0, u_locked_until = None, u_is_active = True,
     u_created_at = db_now E, u_updated_at = db_now E\<rparr>"

text \<open>\<open>INSERT INTO users\<close>: \<open>i\<close> is the value of \<open>gen_random_uuid()\<close>.\<close>

definition insert_user :: "'e env_scheme \<Rightarrow> string \<Rightarrow> string \<Rightarrow> string \<Rightarrow> ('z db_scheme, user_row) op" where
  "insert_user E i email passwordHash d =
     (if list_ex (\<lambda>u. u_id u = i \<or> u_email u = email) (users d)
      then raise (PgError UNIQUE_VIOLATION) d
      else (let row = new_user E i email passwordHash in (Inr row, d\<lparr>users := users d @ [row]\<rparr>)))"

definition UserRepository_create :: "'e env_scheme \<Rightarrow> string \<Rightarrow> string \<Rightarrow> string \<Rightarrow> ('z db_scheme, user_row) op" where
  "UserRepository_create E i email passwordHash =
     catch (insert_user E i email passwordHash)
       (\<lambda>err. if exn_code err = Some UNIQUE_VIOLATION
              then raise (JsError (''Email already registered: '' @ email) (Some UNIQUE_VIOLATION))
              else raise err)"

text \<open>The trigger \<open>users_updated_at\<close> runs before every \<open>UPDATE\<close>.\<close>

definition update_updated_at :: "'e env_scheme \<Rightarrow> user_row \<Rightarrow> user_row" where
  "update_updated_at E u = u\<lparr>u_updated_at := db_now E\<rparr>"

definition bump_failed_attempts :: "'e env_scheme \<Rightarrow> user_row \<Rightarrow> user_row" where
  "bump_failed_attempts E u = update_updated_at E (u\<lparr>
     u_failed_attempts := u_failed_attempts u + 1,
     u_locked_until := (if u_failed_attempts u + 1 \<ge> MAX_FAILED_ATTEMPTS
                        then Some (db_now E + minutes LOCKOUT_MINUTES) else u_locked_until u)\<rparr>)"

definition clear_failed_attempts :: "'e env_scheme \<Rightarrow> user_row \<Rightarrow> user_row" where
  "clear_failed_attempts E u = update_updated_at E (u\<lparr>u_failed_attempts := 0, u_locked_until := None\<rparr>)"

definition UserRepository_incrementFailedAttempts :: "'e env_scheme \<Rightarrow> string \<Rightarrow> ('z db_scheme, int) op" where
  "UserRepository_incrementFailedAttempts E userId =
     andthen (modify (\<lambda>d. d\<lparr>users := update_where (\<lambda>u. u_id u = userId) (bump_failed_attempts E) (users d)\<rparr>))
       (gets (\<lambda>d. case find (\<lambda>u. u_id u = userId) (users d) of
                    None \<Rightarrow> 0 | Some u \<Rightarrow> u_failed_attempts u))"

definition UserRepository_resetFailedAttempts :: "'e env_scheme \<Rightarrow> string \<Rightarrow> ('z db_scheme, unit) op" where
  "UserRepository_resetFailedAttempts E userId =
     modify (\<lambda>d. d\<lparr>users := update_where (\<lambda>u. u_id u = userId) (clear_failed_attempts E) (users d)\<rparr>)"

subsection \<open>The service\<close>

definition UsersService_findByEmail :: "string \<Rightarrow> ('z db_scheme, user_row option) op" where
  "UsersService_findByEmail email = UserRepository_findByEmail email"

definition UsersService_findByIdOrThrow :: "string \<Rightarrow> ('z db_scheme, user_row) op" where
  "UsersService_findByIdOrThrow i = bnd (UserRepository_findById i)
     (\<lambda>user. case user of None \<Rightarrow> raise (NotFoundException ''User not found.'') | Some u \<Rightarrow> ret u)"

definition UsersService_create :: "'e env_scheme \<Rightarrow> string \<Rightarrow> string \<Rightarrow> string \<Rightarrow> ('z db_scheme, user_row) op" where
  "UsersService_create E i email passwordHash =
     catch (bnd (UserRepository_create E i email passwordHash)
              (\<lambda>user. andthen (log_line INFO REGISTER_SUCCESS) (ret user)))
       (\<lambda>err. if exn_code err = Some UNIQUE_VIOLATION
              then andthen (log_line WARN REGISTER_DUPLICATE) (raise (ConflictException ''duplicate''))
              else raise err)"

definition UsersService_incrementFailedAttempts :: "'e env_scheme \<Rightarrow> string \<Rightarrow> ('z db_scheme, int) op" where
  "UsersService_incrementFailedAttempts E userId =
     bnd (UserRepository_incrementFailedAttempts E userId) (\<lambda>count.
     andthen (log_line WARN FAILED_ATTEMPT_INC)
    (andthen (if count \<ge> 5 then log_line WARN ACCOUNT_LOCKED else ret ())
    (ret count)))"

definition UsersService_resetFailedAttempts :: "'e env_scheme \<Rightarrow> string \<Rightarrow> ('z db_scheme, unit) op" where
  "UsersService_resetFailedAttempts E userId =
     andthen (UserRepository_resetFailedAttempts E userId) (log_line INFO ACCOUNT_LOCK_CLEARED)"

definition UsersService_isLocked :: "'e env_scheme \<Rightarrow> user_row \<Rightarrow> bool" where
  "UsersService_isLocked E user =
     (case u_locked_until user of None \<Rightarrow> False | Some t \<Rightarrow> t > js_now E)"

subsection \<open>Lemmas\<close>

lemmas users_defs = UserRepository_findByEmail_def UserRepository_findById_def
  UserRepository_create_def UserRepository_incrementFailedAttempts_def
  UserRepository_resetFailedAttempts_def UsersService_findByEmail_def
  UsersService_findByIdOrThrow_def UsersService_create_def
  UsersService_incrementFailedAttempts_def UsersService_resetFailedAttempts_def

lemma UsersService_findByEmail_apply [op_simps]:
  "UsersService_findByEmail e d = (Inr (find (\<lambda>u. u_email u = e) (users d)), d)"
  by (simp add: users_defs op_simps)

lemma bump_keys [simp]:
  "u_id (bump_failed_attempts E u) = u_id u" "u_email (bump_failed_attempts E u) = u_email u"
  "u_password_hash (bump_failed_attempts E u) = u_password_hash u"
  "u_is_active (bump_failed_attempts E u) = u_is_active u"
  "u_failed_attempts (bump_failed_attempts E u) = u_failed_attempts u + 1"
  by (simp_all add: bump_failed_attempts_def update_updated_at_def)

lemma clear_keys [simp]:
  "u_id (clear_failed_attempts E u) = u_id u" "u_email (clear_failed_attempts E u) = u_email u"
  "u_password_hash (clear_failed_attempts E u) = u_password_hash u"
  "u_is_active (clear_failed_attempts E u) = u_is_active u"
  "u_failed_attempts (clear_failed_attempts E u) = 0"
  "u_locked_until (clear_failed_attempts E u) = None"
  by (simp_all add: clear_failed_attempts_def update_updated_at_def)

text \<open>Ids and e-mail addresses are unique: the table's constraints.\<close>

definition users_ok :: "'z db_scheme \<Rightarrow> bool" where
  "users_ok d \<longleftrightarrow> distinct (map u_id (users d)) \<and> distinct (map u_email (users d))"

lemma users_ok_update:
  "(\<And>u. u_id (f u) = u_id u) \<Longrightarrow> (\<And>u. u_email (f u) = u_email u) \<Longrightarrow>
   users_ok (d\<lparr>users := update_where p f (users d)\<rparr>) = users_ok d"
  by (simp add: users_ok_def map_update_where)

text \<open>
  What \<open>UsersService.create\<close> does: it appends the new user, or ends in
  \<open>ConflictException('duplicate')\<close> with the table untouched. Either way the constraints hold.
\<close>

lemma UsersService_create_apply:
  "UsersService_create E i email ph d =
     (if list_ex (\<lambda>u. u_id u = i \<or> u_email u = email) (users d)
      then (Inl (ConflictException ''duplicate''),
            d\<lparr>log_lines := log_lines d @ [(WARN, REGISTER_DUPLICATE)]\<rparr>)
      else (Inr (new_user E i email ph),
            d\<lparr>users := users d @ [new_user E i email ph],
              log_lines := log_lines d @ [(INFO, REGISTER_SUCCESS)]\<rparr>))"
  by (simp add: UsersService_create_def UserRepository_create_def insert_user_def op_simps Let_def)

lemma users_ok_create: "users_ok d \<Longrightarrow> users_ok (snd (UsersService_create E i email ph d))"
  by (auto simp: UsersService_create_apply users_ok_def list_ex_iff new_user_def)

lemma increment_users:
  "users (snd (UsersService_incrementFailedAttempts E uid d)) =
     update_where (\<lambda>u. u_id u = uid) (bump_failed_attempts E) (users d)"
  by (simp add: users_defs op_simps)

lemma reset_users:
  "users (snd (UsersService_resetFailedAttempts E uid d)) =
     update_where (\<lambda>u. u_id u = uid) (clear_failed_attempts E) (users d)"
  by (simp add: users_defs op_simps)

lemma increment_returns: "\<exists>n. fst (UsersService_incrementFailedAttempts E uid d) = Inr n"
  by (simp add: users_defs op_simps)

lemma reset_returns [simp]: "fst (UsersService_resetFailedAttempts E uid d) = Inr ()"
  by (simp add: users_defs op_simps)

text \<open>The fifth failure, or any later one, locks for fifteen minutes of database time.\<close>

lemma bump_locks:
  "u_failed_attempts u \<ge> 4 \<Longrightarrow> u_locked_until (bump_failed_attempts E u) = Some (db_now E + 900000)"
  by (simp add: bump_failed_attempts_def update_updated_at_def MAX_FAILED_ATTEMPTS_def
      LOCKOUT_MINUTES_def minutes_def)

lemma bump_keeps_unlocked:
  "u_failed_attempts u < 4 \<Longrightarrow> u_locked_until (bump_failed_attempts E u) = u_locked_until u"
  by (simp add: bump_failed_attempts_def update_updated_at_def MAX_FAILED_ATTEMPTS_def)

end
