(* ===== verification/AuthEnums.thy ===== *)
theory AuthEnums
  imports Main
begin

text \<open>
  \<open>src/auth/constants/auth.enums.ts\<close>: the client-facing messages, the order on
  \<open>zxcvbn\<close> scores, and the HTTP methods that mutate state. (The lockout policy is in
  \<open>Users\<close>, the log events and PostgreSQL codes in \<open>Database\<close> and \<open>Prelude\<close>.)
\<close>

definition Msg_INVALID_CREDENTIALS :: string where
  "Msg_INVALID_CREDENTIALS = ''Invalid email or password.''"

definition Msg_SESSION_INVALID :: string where
  "Msg_SESSION_INVALID = ''Session is no longer valid.''"

definition Msg_CSRF_MISSING :: string where
  "Msg_CSRF_MISSING = ''CSRF token missing.''"

definition Msg_CSRF_INVALID :: string where
  "Msg_CSRF_INVALID = ''Invalid or expired CSRF token.''"

definition Msg_NO_ACTIVE_SESSION :: string where
  "Msg_NO_ACTIVE_SESSION = ''No active session.''"

definition Msg_INVALID_REFRESH_TOKEN :: string where
  "Msg_INVALID_REFRESH_TOKEN = ''Invalid refresh token.''"

definition Msg_REFRESH_TOKEN_EXPIRED :: string where
  "Msg_REFRESH_TOKEN_EXPIRED = ''Refresh token has expired.''"

definition Msg_AUTH_REQUIRED :: string where
  "Msg_AUTH_REQUIRED = ''Authentication required.''"

definition Msg_PASSWORD_TOO_WEAK :: string where
  "Msg_PASSWORD_TOO_WEAK = ''Password is too weak. Use a mix of letters, numbers, and symbols.''"

definition Msg_UNEXPECTED_ERROR :: string where
  "Msg_UNEXPECTED_ERROR = ''An unexpected error occurred. Please try again later.''"

definition Msg_REGISTER_SUCCESS :: string where
  "Msg_REGISTER_SUCCESS = ''If this email is new, your account has been created.''"

subsection \<open>Password strength\<close>

datatype PasswordStrengthScore = VERY_WEAK | WEAK | FAIR | STRONG | VERY_STRONG

fun score_number :: "PasswordStrengthScore \<Rightarrow> nat" where
  "score_number VERY_WEAK = 0"
| "score_number WEAK = 1"
| "score_number FAIR = 2"
| "score_number STRONG = 3"
| "score_number VERY_STRONG = 4"

lemma score_number_inject: "score_number a = score_number b \<longleftrightarrow> a = b"
  by (cases a; cases b) simp_all

text \<open>The scores are compared as the numbers they are in TypeScript.\<close>

instantiation PasswordStrengthScore :: linorder
begin

definition less_eq_PasswordStrengthScore :: "PasswordStrengthScore \<Rightarrow> PasswordStrengthScore \<Rightarrow> bool" where
  "less_eq_PasswordStrengthScore a b \<longleftrightarrow> score_number a \<le> score_number b"

definition less_PasswordStrengthScore :: "PasswordStrengthScore \<Rightarrow> PasswordStrengthScore \<Rightarrow> bool" where
  "less_PasswordStrengthScore a b \<longleftrightarrow> score_number a < score_number b"

instance
  by standard (auto simp: less_eq_PasswordStrengthScore_def less_PasswordStrengthScore_def
      score_number_inject)

end

definition MINIMUM_PASSWORD_SCORE :: PasswordStrengthScore where
  "MINIMUM_PASSWORD_SCORE = FAIR"

lemma weak_scores: "s < MINIMUM_PASSWORD_SCORE \<longleftrightarrow> s = VERY_WEAK \<or> s = WEAK"
  by (cases s) (simp_all add: less_PasswordStrengthScore_def MINIMUM_PASSWORD_SCORE_def)

subsection \<open>Methods that mutate state\<close>

definition UnsafeHttpMethod :: "string list" where
  "UnsafeHttpMethod = [''POST'', ''PUT'', ''PATCH'', ''DELETE'']"

end
