(* ===== verification/Sessions.thy ===== *)
theory Sessions
  imports Users AuthEnums
begin

text \<open>
  \<open>src/sessions\<close>: the repositories of sessions, refresh tokens and CSRF tokens, and the
  service above them. \<open>RefreshTokenRepository_rotate\<close> is the transaction that spends one
  refresh token and issues the next, or burns the family of a token presented twice.
\<close>

subsection \<open>What a call gets from outside\<close>

text \<open>
  \<open>sha256\<close> is \<open>createHash('sha256').update(raw).digest('hex')\<close>; the other fields are the
  values that \<open>gen_random_uuid()\<close>, \<open>uuidv4()\<close> and \<open>randomBytes\<close> return in this call.
\<close>

record sess_env = env +
  sha256 :: "string \<Rightarrow> string"
  new_session_id :: string
  new_rt_id :: string
  new_family_id :: string
  new_raw_token :: string
  new_raw_csrf :: string

subsection \<open>Sessions\<close>

definition new_session :: "'e sess_env_scheme \<Rightarrow> string \<Rightarrow> string \<Rightarrow> string \<Rightarrow> session_row" where
  "new_session E userId ip ua = \<lparr>s_id = new_session_id E, s_user_id = userId, s_ip_address = ip,
     s_user_agent = ua, s_is_revoked = False, s_created_at = db_now E,
     s_expires_at = db_now E + days 7\<rparr>"

definition SessionRepository_create ::
    "'e sess_env_scheme \<Rightarrow> string \<Rightarrow> string \<Rightarrow> string \<Rightarrow> ('z db_scheme, session_row) op" where
  "SessionRepository_create E userId ip ua d =
     (if \<not> user_exists userId d then raise (PgError FK_VIOLATION) d
      else if session_exists (new_session_id E) d then raise (PgError UNIQUE_VIOLATION) d
      else (let row = new_session E userId ip ua in (Inr row, d\<lparr>sessions := sessions d @ [row]\<rparr>)))"

definition session_active :: "'e env_scheme \<Rightarrow> session_row \<Rightarrow> bool" where
  "session_active E s \<longleftrightarrow> \<not> s_is_revoked s \<and> s_expires_at s > db_now E"

definition SessionRepository_findActiveById ::
    "'e env_scheme \<Rightarrow> string \<Rightarrow> ('z db_scheme, session_row option) op" where
  "SessionRepository_findActiveById E sid =
     gets (\<lambda>d. find (\<lambda>s. s_id s = sid \<and> session_active E s) (sessions d))"

definition SessionRepository_revoke :: "string \<Rightarrow> ('z db_scheme, unit) op" where
  "SessionRepository_revoke sid =
     modify (\<lambda>d. d\<lparr>sessions := update_where (\<lambda>s. s_id s = sid) (s_is_revoked_update (\<lambda>_. True)) (sessions d)\<rparr>)"

definition SessionRepository_revokeAllForUser :: "string \<Rightarrow> ('z db_scheme, unit) op" where
  "SessionRepository_revokeAllForUser uid =
     modify (\<lambda>d. d\<lparr>sessions := update_where (\<lambda>s. s_user_id s = uid) (s_is_revoked_update (\<lambda>_. True)) (sessions d)\<rparr>)"

subsection \<open>Refresh tokens\<close>

definition new_refresh_token ::
    "'e sess_env_scheme \<Rightarrow> string \<Rightarrow> string \<Rightarrow> string \<Rightarrow> refresh_token_row" where
  "new_refresh_token E sessionId tokenHash familyId = \<lparr>rt_id = new_rt_id E,
     rt_session_id = sessionId, rt_token_hash = tokenHash, rt_family_id = familyId,
     rt_is_used = False, rt_created_at = db_now E, rt_expires_at = db_now E + days 7\<rparr>"

definition RefreshTokenRepository_create ::
    "'e sess_env_scheme \<Rightarrow> string \<Rightarrow> string \<Rightarrow> string \<Rightarrow> ('z db_scheme, refresh_token_row) op" where
  "RefreshTokenRepository_create E sessionId tokenHash familyId d =
     (if \<not> session_exists sessionId d then raise (PgError FK_VIOLATION) d
      else if list_ex (\<lambda>r. rt_id r = new_rt_id E \<or> rt_token_hash r = tokenHash) (refresh_tokens d)
      then raise (PgError UNIQUE_VIOLATION) d
      else (let row = new_refresh_token E sessionId tokenHash familyId
            in (Inr row, d\<lparr>refresh_tokens := refresh_tokens d @ [row]\<rparr>)))"

definition mark_used :: "(refresh_token_row \<Rightarrow> bool) \<Rightarrow> ('z db_scheme, unit) op" where
  "mark_used p = modify (\<lambda>d. d\<lparr>refresh_tokens :=
     update_where p (rt_is_used_update (\<lambda>_. True)) (refresh_tokens d)\<rparr>)"

text \<open>
  One transaction. The unknown and the expired token roll back (nothing was written); a used
  token commits the two revocations and then throws; otherwise the old token is spent and its
  successor inserted, and a failing statement rolls both back.
\<close>

definition RefreshTokenRepository_rotate ::
    "'e sess_env_scheme \<Rightarrow> string \<Rightarrow> ('z db_scheme, string \<times> string) op" where
  "RefreshTokenRepository_rotate E rawToken d =
     (let tokenHash = sha256 E rawToken in
      case find (\<lambda>r. rt_token_hash r = tokenHash) (refresh_tokens d) of
        None \<Rightarrow> raise (UnauthorizedException Msg_INVALID_REFRESH_TOKEN) d
      | Some token \<Rightarrow>
          if js_now E > rt_expires_at token
          then raise (UnauthorizedException Msg_REFRESH_TOKEN_EXPIRED) d
          else if rt_is_used token
          then andthen (mark_used (\<lambda>r. rt_family_id r = rt_family_id token))
              (andthen (SessionRepository_revoke (rt_session_id token))
              (raise (UnauthorizedException Msg_INVALID_REFRESH_TOKEN))) d
          else transaction
              (andthen (mark_used (\<lambda>r. rt_id r = rt_id token))
              (andthen (RefreshTokenRepository_create E (rt_session_id token)
                          (sha256 E (new_raw_token E)) (rt_family_id token))
              (ret (new_raw_token E, rt_session_id token)))) d)"

subsection \<open>CSRF tokens\<close>

definition CsrfTokenRepository_upsert :: "'e sess_env_scheme \<Rightarrow> string \<Rightarrow> ('z db_scheme, string) op" where
  "CsrfTokenRepository_upsert E sessionId d =
     (let raw = new_raw_csrf E; h = sha256 E raw; expiry = db_now E + days 1 in
      if \<not> session_exists sessionId d then raise (PgError FK_VIOLATION) d
      else if list_ex (\<lambda>r. csrf_session_id r = sessionId) (csrf_tokens d)
      then (Inr raw, d\<lparr>csrf_tokens := update_where (\<lambda>r. csrf_session_id r = sessionId)
              (\<lambda>r. r\<lparr>csrf_token_hash := h, csrf_expires_at := expiry\<rparr>) (csrf_tokens d)\<rparr>)
      else (Inr raw, d\<lparr>csrf_tokens := csrf_tokens d @
              [\<lparr>csrf_session_id = sessionId, csrf_token_hash = h, csrf_expires_at = expiry\<rparr>]\<rparr>))"

definition CsrfTokenRepository_isValid :: "'e sess_env_scheme \<Rightarrow> string \<Rightarrow> string \<Rightarrow> ('z db_scheme, bool) op" where
  "CsrfTokenRepository_isValid E sessionId rawToken = gets (\<lambda>d. list_ex
     (\<lambda>r. csrf_session_id r = sessionId \<and> csrf_token_hash r = sha256 E rawToken \<and>
          csrf_expires_at r > db_now E) (csrf_tokens d))"

subsection \<open>The service\<close>

definition SessionsService_createSession ::
    "'e sess_env_scheme \<Rightarrow> string \<Rightarrow> string \<Rightarrow> string \<Rightarrow> ('z db_scheme, session_row) op" where
  "SessionsService_createSession E userId ip ua =
     bnd (SessionRepository_create E userId ip ua) (\<lambda>session.
     andthen (log_line INFO SESSION_CREATED) (ret session))"

definition SessionsService_findActiveSession ::
    "'e env_scheme \<Rightarrow> string \<Rightarrow> ('z db_scheme, session_row option) op" where
  "SessionsService_findActiveSession E sid =
     bnd (SessionRepository_findActiveById E sid) (\<lambda>session.
     andthen (if session = None then log_line WARN SESSION_INVALID else ret ()) (ret session))"

definition SessionsService_revokeSession :: "string \<Rightarrow> ('z db_scheme, unit) op" where
  "SessionsService_revokeSession sid =
     andthen (SessionRepository_revoke sid) (log_line INFO SESSION_REVOKED)"

definition SessionsService_revokeAllUserSessions :: "string \<Rightarrow> ('z db_scheme, unit) op" where
  "SessionsService_revokeAllUserSessions uid =
     andthen (SessionRepository_revokeAllForUser uid) (log_line INFO SESSION_ALL_REVOKED)"

text \<open>The raw refresh token and the raw CSRF token.\<close>

definition SessionsService_issueTokenSet ::
    "'e sess_env_scheme \<Rightarrow> string \<Rightarrow> ('z db_scheme, string \<times> string) op" where
  "SessionsService_issueTokenSet E sessionId =
     andthen (RefreshTokenRepository_create E sessionId (sha256 E (new_raw_token E)) (new_family_id E))
    (bnd (CsrfTokenRepository_upsert E sessionId) (\<lambda>csrfToken.
     andthen (log_line INFO SESSION_CREATED)
    (ret (new_raw_token E, csrfToken))))"

definition is_unauthorized :: "exn \<Rightarrow> bool" where
  "is_unauthorized err \<longleftrightarrow> (case err of UnauthorizedException _ \<Rightarrow> True | _ \<Rightarrow> False)"

text \<open>The new raw token, the session and the new CSRF token.\<close>

definition SessionsService_rotateRefreshToken ::
    "'e sess_env_scheme \<Rightarrow> string \<Rightarrow> ('z db_scheme, string \<times> string \<times> string) op" where
  "SessionsService_rotateRefreshToken E rawToken =
     bnd (catch (RefreshTokenRepository_rotate E rawToken)
            (\<lambda>err. andthen (if is_unauthorized err then log_line WARN TOKEN_REFRESH_REUSE else ret ())
                     (raise err))) (\<lambda>(newRawToken, sessionId).
     bnd (CsrfTokenRepository_upsert E sessionId) (\<lambda>csrfToken.
     andthen (log_line INFO TOKEN_REFRESH)
    (ret (newRawToken, sessionId, csrfToken))))"

definition SessionsService_validateCsrfToken :: "'e sess_env_scheme \<Rightarrow> string \<Rightarrow> string \<Rightarrow> ('z db_scheme, bool) op" where
  "SessionsService_validateCsrfToken E sessionId rawToken =
     bnd (CsrfTokenRepository_isValid E sessionId rawToken) (\<lambda>valid.
     andthen (if \<not> valid then log_line WARN CSRF_INVALID else ret ()) (ret valid))"

end
