(* ===== verification/Auth.thy ===== *)
theory Auth
  imports Sessions
begin

text \<open>
  \<open>src/auth\<close>: registration, login, refresh and logout of \<open>AuthService\<close>, the access
  token's lifetime, the JWT strategy and the two guards, and what the controller adds
  (the client's address and the source of the refresh token).
\<close>

subsection \<open>What a call gets from outside\<close>

text \<open>
  The third-party functions: \<open>argon2.verify\<close> (which rejects a malformed hash with an
  exception), \<open>argon2.hash\<close>, \<open>zxcvbn\<close> (score and suggestions) and \<open>jwtService.sign\<close>; the
  id a new user gets, and the configured \<open>JWT_ACCESS_EXPIRY\<close>.
\<close>

record auth_env = sess_env +
  argon2_verify :: "string \<Rightarrow> string \<Rightarrow> exn + bool"
  argon2_hash :: "string \<Rightarrow> string"
  zxcvbn :: "string \<Rightarrow> string list \<Rightarrow> PasswordStrengthScore \<times> string list"
  jwt_sign :: "string \<Rightarrow> string \<Rightarrow> string"
  new_user_id :: string
  jwt_access_expiry :: "string option"

record LoginDto =
  dto_email :: string
  dto_password :: string

record AuthTokens =
  accessToken :: string
  refreshToken :: string
  csrfToken :: string
  expiresIn :: nat

record JwtPayload =
  jwt_sub :: string
  jwt_sid :: string

definition DUMMY_HASH :: string where
  "DUMMY_HASH = ''$argon2id$v=19$m=65536,t=3,p=4$c29tZXNhbHRzb21lc2FsdA$RdescudvJCsgt3ub+b+dWRWJTmaasfasdf''"

text \<open>\<open>@Transform(({ value }) => value.toLowerCase().trim())\<close> on the DTOs' e-mail.\<close>

definition normalize_email :: "string \<Rightarrow> string" where
  "normalize_email value = trim (toLowerCase value)"

subsection \<open>The access token's lifetime\<close>

text \<open>\<open>expiry.match(/^(\d+)(m|h|d)$/)\<close>: the digits and the unit.\<close>

definition match_expiry :: "string \<Rightarrow> (string \<times> char) option" where
  "match_expiry s =
     (if s \<noteq> [] \<and> butlast s \<noteq> [] \<and> list_all is_digit (butlast s) \<and>
         last s \<in> {CHR ''m'', CHR ''h'', CHR ''d''}
      then Some (butlast s, last s) else None)"

definition accessTokenExpirySeconds :: "string option \<Rightarrow> nat" where
  "accessTokenExpirySeconds cfg =
     (let expiry = (case cfg of None \<Rightarrow> ''15m'' | Some e \<Rightarrow> e) in
      case match_expiry expiry of
        None \<Rightarrow> 900
      | Some (val, unit) \<Rightarrow>
          (let n = parseInt val in
           if unit = CHR ''m'' then n * 60
           else if unit = CHR ''h'' then n * 3600
           else if unit = CHR ''d'' then n * 86400
           else 900))"

subsection \<open>AuthService\<close>

definition signAccessToken :: "'e auth_env_scheme \<Rightarrow> string \<Rightarrow> string \<Rightarrow> string" where
  "signAccessToken E userId sessionId = jwt_sign E userId sessionId"

definition issueTokens :: "'e auth_env_scheme \<Rightarrow> string \<Rightarrow> string \<Rightarrow> string \<Rightarrow> ('z db_scheme, AuthTokens) op" where
  "issueTokens E userId ip ua =
     bnd (SessionsService_createSession E userId ip ua) (\<lambda>session.
     bnd (SessionsService_issueTokenSet E (s_id session)) (\<lambda>(rawRefreshToken, csrf).
     ret \<lparr>accessToken = signAccessToken E userId (s_id session), refreshToken = rawRefreshToken,
          csrfToken = csrf, expiresIn = accessTokenExpirySeconds (jwt_access_expiry E)\<rparr>))"

text \<open>
  Registration in the two database steps the source has, because another request can
  register the same address between them: the look-up, and (when it found nobody) the
  creation.
\<close>

definition register_check :: "'e auth_env_scheme \<Rightarrow> LoginDto \<Rightarrow> ('z db_scheme, bool) op" where
  "register_check E dto =
     andthen (log_line INFO REGISTER_ATTEMPT)
    (case zxcvbn E (dto_password dto) [dto_email dto] of (score, suggestions) \<Rightarrow>
     if score < MINIMUM_PASSWORD_SCORE
     then raise (BadRequestException
            (case suggestions of [] \<Rightarrow> Msg_PASSWORD_TOO_WEAK | s # _ \<Rightarrow> s))
     else bnd (UsersService_findByEmail (dto_email dto)) (\<lambda>existing.
          if existing \<noteq> None then andthen (log_line WARN REGISTER_DUPLICATE) (ret False)
          else ret True))"

definition register_create :: "'e auth_env_scheme \<Rightarrow> LoginDto \<Rightarrow> ('z db_scheme, string) op" where
  "register_create E dto =
     catch (bnd (UsersService_create E (new_user_id E) (dto_email dto) (argon2_hash E (dto_password dto)))
              (\<lambda>_. ret Msg_REGISTER_SUCCESS))
       (\<lambda>err. case err of ConflictException _ \<Rightarrow> ret Msg_REGISTER_SUCCESS | _ \<Rightarrow> raise err)"

definition AuthService_register :: "'e auth_env_scheme \<Rightarrow> LoginDto \<Rightarrow> ('z db_scheme, string) op" where
  "AuthService_register E dto =
     bnd (register_check E dto) (\<lambda>absent.
     if absent then register_create E dto else ret Msg_REGISTER_SUCCESS)"

definition AuthService_login ::
    "'e auth_env_scheme \<Rightarrow> LoginDto \<Rightarrow> string \<Rightarrow> string \<Rightarrow> ('z db_scheme, AuthTokens) op" where
  "AuthService_login E dto ip ua =
     andthen (log_line INFO LOGIN_ATTEMPT)
    (bnd (UsersService_findByEmail (dto_email dto)) (\<lambda>user.
     let hashToVerify = (case user of None \<Rightarrow> DUMMY_HASH | Some u \<Rightarrow> u_password_hash u) in
     case argon2_verify E hashToVerify (dto_password dto) of
       Inl err \<Rightarrow> raise err
     | Inr passwordValid \<Rightarrow>
       (case user of
          None \<Rightarrow> andthen (log_line WARN LOGIN_INVALID_CREDS)
                    (raise (UnauthorizedException Msg_INVALID_CREDENTIALS))
        | Some u \<Rightarrow>
          if \<not> passwordValid \<or> \<not> u_is_active u
          then andthen
                 (if \<not> u_is_active u then log_line WARN LOGIN_INACTIVE_ACCOUNT
                  else if \<not> UsersService_isLocked E u
                  then andthen (UsersService_incrementFailedAttempts E (u_id u)) (ret ())
                  else ret ())
              (andthen (log_line WARN LOGIN_INVALID_CREDS)
                 (raise (UnauthorizedException Msg_INVALID_CREDENTIALS)))
          else if UsersService_isLocked E u
          then andthen (log_line WARN LOGIN_ACCOUNT_LOCKED)
                 (raise (UnauthorizedException Msg_INVALID_CREDENTIALS))
          else andthen (UsersService_resetFailedAttempts E (u_id u))
              (bnd (issueTokens E (u_id u) ip ua) (\<lambda>tokens.
               andthen (log_line INFO LOGIN_SUCCESS) (ret tokens))))))"

definition AuthService_refresh :: "'e auth_env_scheme \<Rightarrow> string \<Rightarrow> ('z db_scheme, AuthTokens) op" where
  "AuthService_refresh E rawRefreshToken =
     bnd (SessionsService_rotateRefreshToken E rawRefreshToken) (\<lambda>(newRawToken, sessionId, csrf).
     bnd (SessionsService_findActiveSession E sessionId) (\<lambda>session.
     case session of
       None \<Rightarrow> raise (UnauthorizedException Msg_SESSION_INVALID)
     | Some s \<Rightarrow> ret \<lparr>accessToken = signAccessToken E (s_user_id s) sessionId,
                 refreshToken = newRawToken, csrfToken = csrf,
                 expiresIn = accessTokenExpirySeconds (jwt_access_expiry E)\<rparr>))"

definition AuthService_logout :: "string \<Rightarrow> ('z db_scheme, unit) op" where
  "AuthService_logout sessionId =
     andthen (SessionsService_revokeSession sessionId) (log_line INFO LOGOUT)"

definition AuthService_logoutAll :: "string \<Rightarrow> ('z db_scheme, unit) op" where
  "AuthService_logoutAll userId =
     andthen (SessionsService_revokeAllUserSessions userId) (log_line INFO LOGOUT_ALL)"

subsection \<open>The JWT strategy and the guards\<close>

definition JwtStrategy_validate :: "'e env_scheme \<Rightarrow> JwtPayload \<Rightarrow> ('z db_scheme, JwtPayload) op" where
  "JwtStrategy_validate E payload =
     bnd (SessionsService_findActiveSession E (jwt_sid payload)) (\<lambda>session.
     if session = None
     then andthen (log_line WARN SESSION_INVALID) (raise (UnauthorizedException Msg_SESSION_INVALID))
     else ret payload)"

text \<open>
  A request as the guards see it: the handler's \<open>isPublic\<close> metadata, the method, the
  \<open>x-csrf-token\<close> header and the user that the JWT guard attached. \<open>passport\<close> verifies the
  bearer token: \<open>bearer\<close> is the payload of a token it accepts.
\<close>

record HttpRequest =
  req_isPublic :: bool
  req_method :: string
  req_csrf_header :: "string option"
  req_user :: "JwtPayload option"
  req_bearer :: "JwtPayload option"

text \<open>\<open>handleRequest\<close>: any error of the strategy, or no user, is the same exception.\<close>

definition JwtAuthGuard_canActivate :: "'e env_scheme \<Rightarrow> HttpRequest \<Rightarrow> ('z db_scheme, JwtPayload option) op" where
  "JwtAuthGuard_canActivate E req =
     (if req_isPublic req then ret None
      else case req_bearer req of
        None \<Rightarrow> raise (UnauthorizedException Msg_AUTH_REQUIRED)
      | Some payload \<Rightarrow>
          catch (bnd (JwtStrategy_validate E payload) (\<lambda>p. ret (Some p)))
            (\<lambda>_. raise (UnauthorizedException Msg_AUTH_REQUIRED)))"

definition toUpper_char :: "char \<Rightarrow> char" where
  "toUpper_char c = (let n = (of_char c :: nat) in
     if 97 \<le> n \<and> n \<le> 122 then char_of (n - 32) else c)"

definition toUpperCase :: "string \<Rightarrow> string" where
  "toUpperCase s = map toUpper_char s"

definition CsrfGuard_canActivate :: "'e sess_env_scheme \<Rightarrow> HttpRequest \<Rightarrow> ('z db_scheme, bool) op" where
  "CsrfGuard_canActivate E req =
     (if req_isPublic req then ret True
      else if toUpperCase (req_method req) \<notin> set UnsafeHttpMethod then ret True
      else case req_csrf_header req of
        None \<Rightarrow> andthen (log_line WARN CSRF_MISSING) (raise (ForbiddenException Msg_CSRF_MISSING))
      | Some incoming \<Rightarrow>
          if incoming = [] then andthen (log_line WARN CSRF_MISSING) (raise (ForbiddenException Msg_CSRF_MISSING))
          else case req_user req of
            None \<Rightarrow> raise (ForbiddenException Msg_NO_ACTIVE_SESSION)
          | Some user \<Rightarrow>
              if jwt_sid user = [] then raise (ForbiddenException Msg_NO_ACTIVE_SESSION)
              else bnd (CsrfTokenRepository_isValid E (jwt_sid user) incoming) (\<lambda>valid.
                   if valid then ret True
                   else andthen (log_line WARN CSRF_INVALID) (raise (ForbiddenException Msg_CSRF_INVALID))))"

subsection \<open>The controller\<close>

text \<open>\<open>x-forwarded-for\<close> (first entry, trimmed), else the socket's address.\<close>

definition resolveClientIp :: "string option \<Rightarrow> string option \<Rightarrow> string" where
  "resolveClientIp forwarded remoteAddress =
     (case forwarded of
        Some f \<Rightarrow> trim (hd (split_on CHR '','' f))
      | None \<Rightarrow> (case remoteAddress of Some a \<Rightarrow> a | None \<Rightarrow> ''0.0.0.0''))"

text \<open>The refresh token of the cookie, or else of the body; an empty one counts as none.\<close>

definition AuthController_refresh ::
    "'e auth_env_scheme \<Rightarrow> string option \<Rightarrow> string option \<Rightarrow> ('z db_scheme, AuthTokens) op" where
  "AuthController_refresh E cookie body =
     (case (case cookie of Some c \<Rightarrow> Some c | None \<Rightarrow> body) of
        None \<Rightarrow> raise (UnauthorizedException ''No refresh token provided.'')
      | Some raw \<Rightarrow> if raw = [] then raise (UnauthorizedException ''No refresh token provided.'')
                   else AuthService_refresh E raw)"

end
