(* ===== verification/SessionHistory.thy ===== *)
theory SessionHistory
  imports Auth
begin

text \<open>
  How the session tables evolve: a refresh token is spent once and for all, a session is
  revoked once and for all, and no row disappears. Every operation of \<open>Sessions\<close> and
  \<open>Auth\<close> moves along \<open>auth_later\<close>; the constraints of the three tables are kept by all of
  them.
\<close>

subsection \<open>Tokens are spent, sessions revoked, for good\<close>

definition token_later :: "refresh_token_row \<Rightarrow> refresh_token_row \<Rightarrow> bool" where
  "token_later r r' \<longleftrightarrow> r' = r \<or> r' = r\<lparr>rt_is_used := True\<rparr>"

definition session_later :: "session_row \<Rightarrow> session_row \<Rightarrow> bool" where
  "session_later s s' \<longleftrightarrow> s' = s \<or> s' = s\<lparr>s_is_revoked := True\<rparr>"

interpretation tokens: table token_later refresh_tokens
  by unfold_locales (auto simp: token_later_def)

interpretation sess: table session_later sessions
  by unfold_locales (auto simp: session_later_def)

lemma token_laterD:
  "token_later r r' \<Longrightarrow> rt_id r' = rt_id r \<and> rt_token_hash r' = rt_token_hash r \<and>
     rt_session_id r' = rt_session_id r \<and> rt_family_id r' = rt_family_id r \<and>
     rt_expires_at r' = rt_expires_at r \<and> (rt_is_used r \<longrightarrow> rt_is_used r')"
  by (auto simp: token_later_def)

lemma session_laterD:
  "session_later s s' \<Longrightarrow> s_id s' = s_id s \<and> s_user_id s' = s_user_id s \<and>
     s_expires_at s' = s_expires_at s \<and> (s_is_revoked s \<longrightarrow> s_is_revoked s')"
  by (auto simp: session_later_def)

definition auth_later :: "'z db_scheme \<Rightarrow> 'z db_scheme \<Rightarrow> bool" where
  "auth_later d d' \<longleftrightarrow> later token_later refresh_tokens d d' \<and> later session_later sessions d d'"

interpretation auth_hist: progress auth_later
  by unfold_locales
    (auto simp: auth_later_def tokens.later_refl sess.later_refl
      intro: tokens.later_trans sess.later_trans)

lemma auth_later_frame:
  "refresh_tokens d' = refresh_tokens d \<Longrightarrow> sessions d' = sessions d \<Longrightarrow> auth_later d d'"
  by (simp add: auth_later_def tokens.later_same sess.later_same)

lemma auth_later_token_update:
  "refresh_tokens d' = update_where p (rt_is_used_update (\<lambda>_. True)) (refresh_tokens d) \<Longrightarrow>
   sessions d' = sessions d \<Longrightarrow> auth_later d d'"
  by (auto simp: auth_later_def token_later_def intro: tokens.later_update sess.later_same)

lemma auth_later_session_update:
  "sessions d' = update_where p (s_is_revoked_update (\<lambda>_. True)) (sessions d) \<Longrightarrow>
   refresh_tokens d' = refresh_tokens d \<Longrightarrow> auth_later d d'"
  by (auto simp: auth_later_def session_later_def intro: sess.later_update tokens.later_same)

lemma auth_later_insert:
  "refresh_tokens d' = refresh_tokens d @ ts \<Longrightarrow> sessions d' = sessions d @ ss \<Longrightarrow> auth_later d d'"
  by (simp add: auth_later_def tokens.later_insert sess.later_insert)

subsection \<open>Every operation moves along the history\<close>

lemma moves_log_line [op_moves]: "moves auth_later (log_line l e)"
  by (simp add: moves_def log_line_apply auth_later_frame)

lemma moves_mark_used [op_moves]: "moves auth_later (mark_used p)"
  by (rule movesI) (rule auth_later_token_update, simp_all add: mark_used_def op_simps)

lemma moves_revoke [op_moves]: "moves auth_later (SessionRepository_revoke sid)"
  by (rule movesI) (rule auth_later_session_update, simp_all add: SessionRepository_revoke_def op_simps)

lemma moves_revokeAll [op_moves]: "moves auth_later (SessionRepository_revokeAllForUser uid)"
  by (rule movesI)
    (rule auth_later_session_update, simp_all add: SessionRepository_revokeAllForUser_def op_simps)

lemma moves_session_create [op_moves]: "moves auth_later (SessionRepository_create E u ip ua)"
  by (rule movesI)
    (auto simp: SessionRepository_create_def op_simps Let_def auth_hist.R_refl intro: auth_later_insert)

lemma moves_token_create [op_moves]: "moves auth_later (RefreshTokenRepository_create E s h f)"
  by (rule movesI)
    (auto simp: RefreshTokenRepository_create_def op_simps Let_def auth_hist.R_refl intro: auth_later_insert)

lemma moves_findActive [op_moves]: "moves auth_later (SessionRepository_findActiveById E sid)"
  by (simp add: SessionRepository_findActiveById_def auth_hist.moves_gets)

lemma moves_upsert [op_moves]: "moves auth_later (CsrfTokenRepository_upsert E s)"
  by (rule movesI) (simp add: CsrfTokenRepository_upsert_def op_simps Let_def auth_later_frame auth_hist.R_refl)

lemma moves_isValid [op_moves]: "moves auth_later (CsrfTokenRepository_isValid E s t)"
  by (simp add: CsrfTokenRepository_isValid_def auth_hist.moves_gets)

lemma moves_rotate [op_moves]: "moves auth_later (RefreshTokenRepository_rotate E raw)"
proof (rule movesI)
  fix d :: "'a db_scheme"
  have 1: "moves auth_later (transaction
      (andthen (mark_used (\<lambda>r. rt_id r = rt_id token))
      (andthen (RefreshTokenRepository_create E (rt_session_id token)
                  (sha256 E (new_raw_token E)) (rt_family_id token))
      (ret (new_raw_token E, rt_session_id token)))))" for token
    by (intro auth_hist.moves_rules op_moves)
  have 2: "moves auth_later (andthen (mark_used (\<lambda>r. rt_family_id r = rt_family_id token))
      (andthen (SessionRepository_revoke (rt_session_id token))
      (raise (UnauthorizedException Msg_INVALID_REFRESH_TOKEN))))" for token
    by (intro auth_hist.moves_rules op_moves)
  show "auth_later d (snd (RefreshTokenRepository_rotate E raw d))"
    by (auto simp: RefreshTokenRepository_rotate_def Let_def raise_apply auth_hist.R_refl
        intro: movesD [OF 1] movesD [OF 2] split: option.splits)
qed

lemma moves_user_find [op_moves]: "moves auth_later (UsersService_findByEmail e)"
  by (simp add: UsersService_findByEmail_def UserRepository_findByEmail_def auth_hist.moves_gets)

lemma moves_user_create [op_moves]: "moves auth_later (UsersService_create E i e ph)"
  by (simp add: moves_def UsersService_create_apply auth_later_frame)

lemma moves_increment [op_moves]: "moves auth_later (UsersService_incrementFailedAttempts E u)"
  by (simp add: moves_def users_defs op_simps auth_later_frame)

lemma moves_reset [op_moves]: "moves auth_later (UsersService_resetFailedAttempts E u)"
  by (simp add: moves_def users_defs op_simps auth_later_frame)

lemmas service_defs = SessionsService_createSession_def SessionsService_findActiveSession_def
  SessionsService_revokeSession_def SessionsService_revokeAllUserSessions_def
  SessionsService_issueTokenSet_def SessionsService_rotateRefreshToken_def
  SessionsService_validateCsrfToken_def

lemma moves_service [op_moves]:
  "moves auth_later (SessionsService_createSession E u ip ua)"
  "moves auth_later (SessionsService_findActiveSession F sid)"
  "moves auth_later (SessionsService_revokeSession sid)"
  "moves auth_later (SessionsService_revokeAllUserSessions u)"
  "moves auth_later (SessionsService_issueTokenSet E sid)"
  "moves auth_later (SessionsService_rotateRefreshToken E raw)"
  "moves auth_later (SessionsService_validateCsrfToken E sid raw)"
  unfolding service_defs
  by (auto intro!: auth_hist.moves_rules op_moves split: prod.splits)

lemma moves_issueTokens [op_moves]: "moves auth_later (issueTokens E u ip ua)"
  unfolding issueTokens_def
  by (auto intro!: auth_hist.moves_rules op_moves split: prod.splits)

lemma moves_register [op_moves]: "moves auth_later (AuthService_register E dto)"
  unfolding AuthService_register_def register_check_def register_create_def
  by (auto intro!: auth_hist.moves_rules op_moves split: prod.splits exn.splits)

lemma moves_login [op_moves]: "moves auth_later (AuthService_login E dto ip ua)"
  unfolding AuthService_login_def Let_def
  by (auto intro!: auth_hist.moves_rules op_moves split: sum.splits)

lemma moves_refresh [op_moves]: "moves auth_later (AuthService_refresh E raw)"
  unfolding AuthService_refresh_def
  by (auto intro!: auth_hist.moves_rules op_moves split: prod.splits)

lemma moves_logout [op_moves]: "moves auth_later (AuthService_logout sid)"
  unfolding AuthService_logout_def by (intro auth_hist.moves_rules op_moves)

lemma moves_logoutAll [op_moves]: "moves auth_later (AuthService_logoutAll uid)"
  unfolding AuthService_logoutAll_def by (intro auth_hist.moves_rules op_moves)

lemma moves_validate [op_moves]: "moves auth_later (JwtStrategy_validate E p)"
  unfolding JwtStrategy_validate_def by (auto intro!: auth_hist.moves_rules op_moves)

subsection \<open>The constraints of the tables\<close>

text \<open>
  Primary keys, the unique token hash, one CSRF row per session and the foreign keys from
  tokens to sessions: what the migration declares.
\<close>

definition auth_ok :: "'z db_scheme \<Rightarrow> bool" where
  "auth_ok d \<longleftrightarrow> users_ok d \<and> distinct (map s_id (sessions d)) \<and>
     distinct (map rt_id (refresh_tokens d)) \<and> distinct (map rt_token_hash (refresh_tokens d)) \<and>
     distinct (map csrf_session_id (csrf_tokens d)) \<and>
     (\<forall>r \<in> set (refresh_tokens d). session_exists (rt_session_id r) d)"

text \<open>Keeping the constraints, as a relation: reflexive and transitive like any other.\<close>

definition auth_ok_kept :: "'z db_scheme \<Rightarrow> 'z db_scheme \<Rightarrow> bool" where
  "auth_ok_kept d d' \<longleftrightarrow> (auth_ok d \<longrightarrow> auth_ok d')"

interpretation auth_inv: progress auth_ok_kept
  by unfold_locales (auto simp: auth_ok_kept_def)

lemma session_exists_map: "session_exists i d \<longleftrightarrow> i \<in> set (map s_id (sessions d))"
  by (auto simp: session_exists_iff)

lemma session_exists_update:
  "(\<And>s. s_id (f s) = s_id s) \<Longrightarrow> session_exists i (d\<lparr>sessions := update_where p f (sessions d)\<rparr>) = session_exists i d"
  by (simp add: session_exists_map map_update_where)

lemma kept_log_line: "moves auth_ok_kept (log_line l e)"
  by (simp add: moves_def log_line_apply auth_ok_kept_def auth_ok_def users_ok_def session_exists_def)

lemma kept_mark_used: "moves auth_ok_kept (mark_used p)"
  by (auto simp: moves_def mark_used_def op_simps auth_ok_kept_def auth_ok_def users_ok_def
      session_exists_def map_update_where in_update_where)

lemma kept_revoke: "moves auth_ok_kept (SessionRepository_revoke sid)"
  by (auto simp: moves_def SessionRepository_revoke_def op_simps auth_ok_kept_def auth_ok_def
      users_ok_def map_update_where session_exists_update)

lemma kept_revokeAll: "moves auth_ok_kept (SessionRepository_revokeAllForUser uid)"
  by (auto simp: moves_def SessionRepository_revokeAllForUser_def op_simps auth_ok_kept_def auth_ok_def
      users_ok_def map_update_where session_exists_update)

lemma kept_session_create: "moves auth_ok_kept (SessionRepository_create E u ip ua)"
  by (auto simp: moves_def SessionRepository_create_def op_simps Let_def auth_ok_kept_def auth_ok_def
      users_ok_def session_exists_iff new_session_def)

lemma kept_token_create: "moves auth_ok_kept (RefreshTokenRepository_create E s h f)"
  by (auto simp: moves_def RefreshTokenRepository_create_def op_simps Let_def auth_ok_kept_def auth_ok_def
      users_ok_def session_exists_iff new_refresh_token_def list_ex_iff)

lemma kept_findActive: "moves auth_ok_kept (SessionRepository_findActiveById E sid)"
  by (simp add: SessionRepository_findActiveById_def auth_inv.moves_gets)

lemma kept_upsert: "moves auth_ok_kept (CsrfTokenRepository_upsert E s)"
  by (auto simp: moves_def CsrfTokenRepository_upsert_def op_simps Let_def auth_ok_kept_def auth_ok_def
      users_ok_def session_exists_def list_ex_iff map_update_where)

lemma kept_isValid: "moves auth_ok_kept (CsrfTokenRepository_isValid E s t)"
  by (simp add: CsrfTokenRepository_isValid_def auth_inv.moves_gets)

lemma kept_rotate: "moves auth_ok_kept (RefreshTokenRepository_rotate E raw)"
proof (rule movesI)
  fix d :: "'a db_scheme"
  have 1: "moves auth_ok_kept (transaction
      (andthen (mark_used (\<lambda>r. rt_id r = rt_id token))
      (andthen (RefreshTokenRepository_create E (rt_session_id token)
                  (sha256 E (new_raw_token E)) (rt_family_id token))
      (ret (new_raw_token E, rt_session_id token)))))" for token
    by (intro auth_inv.moves_rules kept_mark_used kept_token_create)
  have 2: "moves auth_ok_kept (andthen (mark_used (\<lambda>r. rt_family_id r = rt_family_id token))
      (andthen (SessionRepository_revoke (rt_session_id token))
      (raise (UnauthorizedException Msg_INVALID_REFRESH_TOKEN))))" for token
    by (intro auth_inv.moves_rules kept_mark_used kept_revoke)
  show "auth_ok_kept d (snd (RefreshTokenRepository_rotate E raw d))"
    by (auto simp: RefreshTokenRepository_rotate_def Let_def raise_apply auth_inv.R_refl
        intro: movesD [OF 1] movesD [OF 2] split: option.splits)
qed

lemma kept_user_find: "moves auth_ok_kept (UsersService_findByEmail e)"
  by (simp add: UsersService_findByEmail_def UserRepository_findByEmail_def auth_inv.moves_gets)

lemma kept_user_create: "moves auth_ok_kept (UsersService_create E i e ph)"
  by (auto simp: moves_def UsersService_create_apply auth_ok_kept_def auth_ok_def users_ok_def
      session_exists_def list_ex_iff new_user_def)

lemma kept_increment: "moves auth_ok_kept (UsersService_incrementFailedAttempts E u)"
  by (auto simp: moves_def users_defs op_simps auth_ok_kept_def auth_ok_def users_ok_def
      session_exists_def map_update_where)

lemma kept_reset: "moves auth_ok_kept (UsersService_resetFailedAttempts E u)"
  by (auto simp: moves_def users_defs op_simps auth_ok_kept_def auth_ok_def users_ok_def
      session_exists_def map_update_where)

lemmas kept_repositories = kept_log_line kept_mark_used kept_revoke kept_revokeAll
  kept_session_create kept_token_create kept_findActive kept_upsert kept_isValid kept_rotate
  kept_user_find kept_user_create kept_increment kept_reset

lemma kept_service:
  "moves auth_ok_kept (SessionsService_createSession E u ip ua)"
  "moves auth_ok_kept (SessionsService_findActiveSession F sid)"
  "moves auth_ok_kept (SessionsService_revokeSession sid)"
  "moves auth_ok_kept (SessionsService_revokeAllUserSessions u)"
  "moves auth_ok_kept (SessionsService_issueTokenSet E sid)"
  "moves auth_ok_kept (SessionsService_rotateRefreshToken E raw)"
  "moves auth_ok_kept (SessionsService_validateCsrfToken E sid raw)"
  unfolding service_defs
  by (auto intro!: auth_inv.moves_rules kept_repositories split: prod.splits)

lemma kept_auth:
  "moves auth_ok_kept (issueTokens E u ip ua)"
  "moves auth_ok_kept (AuthService_register E dto)"
  "moves auth_ok_kept (AuthService_login E dto ip ua)"
  "moves auth_ok_kept (AuthService_refresh E raw)"
  "moves auth_ok_kept (AuthService_logout sid)"
  "moves auth_ok_kept (AuthService_logoutAll uid)"
  "moves auth_ok_kept (JwtStrategy_validate F p)"
  unfolding issueTokens_def AuthService_register_def register_check_def register_create_def
    AuthService_login_def Let_def AuthService_refresh_def AuthService_logout_def
    AuthService_logoutAll_def JwtStrategy_validate_def
  by (auto intro!: auth_inv.moves_rules kept_repositories kept_service
      split: prod.splits exn.splits sum.splits)

end
