(* ===== verification/AuthRuns.thy ===== *)
theory AuthRuns
  imports SessionHistory
begin

text \<open>
  Runs of the authentication service: any sequence of registrations (also interleaved
  with each other), logins, refreshes, logouts and guarded requests, each with its own
  clocks and random values. The properties are about what a refresh token and a session
  are good for over such runs.
\<close>

subsection \<open>Requests and runs\<close>

datatype auth_request =
    ReqRegister LoginDto
  | ReqRegisterCheck LoginDto
  | ReqRegisterCreate LoginDto
  | ReqLogin LoginDto string string
  | ReqRefresh "string option" "string option"
  | ReqLogout string
  | ReqLogoutAll string
  | ReqAccess HttpRequest
  | ReqCsrf HttpRequest

fun auth_step :: "'e auth_env_scheme \<times> auth_request \<Rightarrow> 'z db_scheme \<Rightarrow> 'z db_scheme" where
  "auth_step (E, ReqRegister dto) d = snd (AuthService_register E dto d)"
| "auth_step (E, ReqRegisterCheck dto) d = snd (register_check E dto d)"
| "auth_step (E, ReqRegisterCreate dto) d = snd (register_create E dto d)"
| "auth_step (E, ReqLogin dto ip ua) d = snd (AuthService_login E dto ip ua d)"
| "auth_step (E, ReqRefresh cookie body) d = snd (AuthController_refresh E cookie body d)"
| "auth_step (E, ReqLogout sid) d = snd (AuthService_logout sid d)"
| "auth_step (E, ReqLogoutAll uid) d = snd (AuthService_logoutAll uid d)"
| "auth_step (E, ReqAccess req) d = snd (JwtAuthGuard_canActivate E req d)"
| "auth_step (E, ReqCsrf req) d = snd (CsrfGuard_canActivate E req d)"

lemma moves_step_parts:
  "moves auth_later (register_check E dto)" "moves auth_later (register_create E dto)"
  "moves auth_later (AuthController_refresh E cookie body)"
  "moves auth_later (JwtAuthGuard_canActivate E req)"
  "moves auth_later (CsrfGuard_canActivate E req)"
  unfolding register_check_def register_create_def AuthController_refresh_def
    JwtAuthGuard_canActivate_def CsrfGuard_canActivate_def
  by (auto intro!: auth_hist.moves_rules op_moves split: prod.splits exn.splits option.splits)

lemma kept_step_parts:
  "moves auth_ok_kept (register_check E dto)" "moves auth_ok_kept (register_create E dto)"
  "moves auth_ok_kept (AuthController_refresh E cookie body)"
  "moves auth_ok_kept (JwtAuthGuard_canActivate E req)"
  "moves auth_ok_kept (CsrfGuard_canActivate E req)"
  unfolding register_check_def register_create_def AuthController_refresh_def
    JwtAuthGuard_canActivate_def CsrfGuard_canActivate_def
  by (auto intro!: auth_inv.moves_rules kept_repositories kept_auth
      split: prod.splits exn.splits option.splits)

lemma auth_step_later: "auth_later d (auth_step ev d)"
  by (cases "(ev, d)" rule: auth_step.cases)
    (simp_all add: movesD [OF moves_register] movesD [OF moves_login] movesD [OF moves_logout]
      movesD [OF moves_logoutAll] movesD [OF moves_step_parts(1)] movesD [OF moves_step_parts(2)]
      movesD [OF moves_step_parts(3)] movesD [OF moves_step_parts(4)] movesD [OF moves_step_parts(5)])

lemma auth_step_kept: "auth_ok_kept d (auth_step ev d)"
  by (cases "(ev, d)" rule: auth_step.cases)
    (simp_all add: movesD [OF kept_auth(2)] movesD [OF kept_auth(3)] movesD [OF kept_auth(5)]
      movesD [OF kept_auth(6)] movesD [OF kept_step_parts(1)] movesD [OF kept_step_parts(2)]
      movesD [OF kept_step_parts(3)] movesD [OF kept_step_parts(4)] movesD [OF kept_step_parts(5)])

interpretation auth_run: monotone_machine auth_later auth_step
  by unfold_locales (rule auth_step_later)

interpretation auth_run_ok: monotone_machine auth_ok_kept auth_step
  by unfold_locales (rule auth_step_kept)

lemma run_auth_ok: "auth_ok d \<Longrightarrow> auth_ok (run auth_step es d)"
  using auth_run_ok.run_moves [of d es] by (simp add: auth_ok_kept_def)

subsection \<open>What a rotation does\<close>

lemma rotate_cases:
  obtains (unknown) "find (\<lambda>r. rt_token_hash r = sha256 E raw) (refresh_tokens d) = None"
      "RefreshTokenRepository_rotate E raw d = (Inl (UnauthorizedException Msg_INVALID_REFRESH_TOKEN), d)"
  | (expired) token where "find (\<lambda>r. rt_token_hash r = sha256 E raw) (refresh_tokens d) = Some token"
      "js_now E > rt_expires_at token"
      "RefreshTokenRepository_rotate E raw d = (Inl (UnauthorizedException Msg_REFRESH_TOKEN_EXPIRED), d)"
  | (reused) token where "find (\<lambda>r. rt_token_hash r = sha256 E raw) (refresh_tokens d) = Some token"
      "js_now E \<le> rt_expires_at token" "rt_is_used token"
      "RefreshTokenRepository_rotate E raw d =
         (Inl (UnauthorizedException Msg_INVALID_REFRESH_TOKEN),
          d\<lparr>refresh_tokens := update_where (\<lambda>r. rt_family_id r = rt_family_id token)
                (rt_is_used_update (\<lambda>_. True)) (refresh_tokens d),
            sessions := update_where (\<lambda>s. s_id s = rt_session_id token)
                (s_is_revoked_update (\<lambda>_. True)) (sessions d)\<rparr>)"
  | (refused) token c where "find (\<lambda>r. rt_token_hash r = sha256 E raw) (refresh_tokens d) = Some token"
      "js_now E \<le> rt_expires_at token" "\<not> rt_is_used token"
      "\<not> session_exists (rt_session_id token) d \<or> new_rt_id E \<in> rt_id ` set (refresh_tokens d) \<or>
         sha256 E (new_raw_token E) \<in> rt_token_hash ` set (refresh_tokens d)"
      "RefreshTokenRepository_rotate E raw d = (Inl (PgError c), d)"
  | (rotated) token where "find (\<lambda>r. rt_token_hash r = sha256 E raw) (refresh_tokens d) = Some token"
      "js_now E \<le> rt_expires_at token" "\<not> rt_is_used token"
      "session_exists (rt_session_id token) d"
      "RefreshTokenRepository_rotate E raw d =
         (Inr (new_raw_token E, rt_session_id token),
          d\<lparr>refresh_tokens := update_where (\<lambda>r. rt_id r = rt_id token)
                (rt_is_used_update (\<lambda>_. True)) (refresh_tokens d) @
              [new_refresh_token E (rt_session_id token) (sha256 E (new_raw_token E)) (rt_family_id token)]\<rparr>)"
proof (cases "find (\<lambda>r. rt_token_hash r = sha256 E raw) (refresh_tokens d)")
  case None
  then show ?thesis by (intro unknown) (simp_all add: RefreshTokenRepository_rotate_def op_simps)
next
  case found: (Some token)
  consider "js_now E > rt_expires_at token" | "js_now E \<le> rt_expires_at token" "rt_is_used token"
    | "js_now E \<le> rt_expires_at token" "\<not> rt_is_used token" by linarith
  then show ?thesis
  proof cases
    case 1
    with found show ?thesis by (intro expired) (simp_all add: RefreshTokenRepository_rotate_def op_simps)
  next
    case 2
    with found show ?thesis
      by (intro reused) (simp_all add: RefreshTokenRepository_rotate_def mark_used_def
          SessionRepository_revoke_def op_simps)
  next
    case 3
    let ?d = "d\<lparr>refresh_tokens := update_where (\<lambda>r. rt_id r = rt_id token)
                (rt_is_used_update (\<lambda>_. True)) (refresh_tokens d)\<rparr>"
    have ex: "session_exists i ?d = session_exists i d" for i
      by (simp add: session_exists_def)
    have taken: "list_ex (\<lambda>r. rt_id r = i \<or> rt_token_hash r = h)
        (update_where (\<lambda>r. rt_id r = rt_id token) (rt_is_used_update (\<lambda>_. True)) (refresh_tokens d)) \<longleftrightarrow>
        i \<in> rt_id ` set (refresh_tokens d) \<or> h \<in> rt_token_hash ` set (refresh_tokens d)" for i h
      by (simp add: list_ex_keys image_update_where)
    show ?thesis
    proof (cases "RefreshTokenRepository_create E (rt_session_id token)
                    (sha256 E (new_raw_token E)) (rt_family_id token) ?d")
      case (Pair r t)
      then show ?thesis
        by (cases r; cases "session_exists (rt_session_id token) d")
          (use 3 found in \<open>auto simp: RefreshTokenRepository_rotate_def mark_used_def op_simps ex taken Let_def
              RefreshTokenRepository_create_def split: if_splits intro: refused rotated\<close>)
    qed
  qed
qed

text \<open>After a successful rotation the presented token is found again, and it is spent.\<close>

lemma rotate_spends:
  assumes "fst (RefreshTokenRepository_rotate E raw d) = Inr x"
  shows "\<exists>r. find (\<lambda>r. rt_token_hash r = sha256 E raw)
             (refresh_tokens (snd (RefreshTokenRepository_rotate E raw d))) = Some r \<and> rt_is_used r"
  using assms
  by (cases rule: rotate_cases [of E raw d])
    (auto simp: find_append find_update_where split: option.splits)

text \<open>A token found spent stays so, and no rotation of it succeeds any more.\<close>

lemma spent_forever:
  assumes "find (\<lambda>r. rt_token_hash r = h) (refresh_tokens d) = Some r" "rt_is_used r"
    and "auth_later d d'"
  shows "\<exists>r'. find (\<lambda>r. rt_token_hash r = h) (refresh_tokens d') = Some r' \<and> rt_is_used r'"
proof -
  have "later token_later refresh_tokens d d'" using assms(3) by (simp add: auth_later_def)
  then have "\<exists>r'. find (\<lambda>r. rt_token_hash r = h) (refresh_tokens d') = Some r' \<and> token_later r r'"
    by (rule tokens.later_find [OF _ assms(1)]) (simp add: token_laterD)
  with assms(2) show ?thesis using token_laterD by blast
qed

lemma spent_rejected:
  assumes "find (\<lambda>r. rt_token_hash r = sha256 E raw) (refresh_tokens d) = Some r" "rt_is_used r"
  shows "\<exists>m. fst (RefreshTokenRepository_rotate E raw d) = Inl (UnauthorizedException m)"
  using assms by (cases rule: rotate_cases [of E raw d]) auto

text \<open>How the service and \<open>AuthService.refresh\<close> continue a rotation.\<close>

lemma refresh_rotate_fails:
  assumes "RefreshTokenRepository_rotate E raw d = (Inl e, t)"
  shows "fst (AuthService_refresh E raw d) = Inl e" "refresh_tokens (snd (AuthService_refresh E raw d)) = refresh_tokens t"
    "sessions (snd (AuthService_refresh E raw d)) = sessions t"
  using assms by (auto simp: AuthService_refresh_def SessionsService_rotateRefreshToken_def op_simps
      split: prod.splits)

definition after_rotation ::
    "'e auth_env_scheme \<Rightarrow> string \<times> string \<Rightarrow> ('z db_scheme, AuthTokens) op" where
  "after_rotation E x = (case x of (newRawToken, sessionId) \<Rightarrow>
     bnd (CsrfTokenRepository_upsert E sessionId) (\<lambda>csrf.
     andthen (log_line INFO TOKEN_REFRESH)
    (bnd (SessionsService_findActiveSession E sessionId) (\<lambda>session.
     case session of
       None \<Rightarrow> raise (UnauthorizedException Msg_SESSION_INVALID)
     | Some s \<Rightarrow> ret \<lparr>accessToken = signAccessToken E (s_user_id s) sessionId,
                 refreshToken = newRawToken, csrfToken = csrf,
                 expiresIn = accessTokenExpirySeconds (jwt_access_expiry E)\<rparr>))))"

lemma refresh_rotate_returns:
  assumes "RefreshTokenRepository_rotate E raw d = (Inr x, t)"
  shows "AuthService_refresh E raw d = after_rotation E x t"
  using assms
  by (auto simp: AuthService_refresh_def SessionsService_rotateRefreshToken_def after_rotation_def op_simps
      split: prod.splits sum.splits)

lemma after_rotation_later: "auth_later t (snd (after_rotation E x t))"
  by (rule movesD) (auto simp: after_rotation_def intro!: auth_hist.moves_rules op_moves split: prod.splits)

lemma refresh_success:
  assumes "fst (AuthService_refresh E raw d) = Inr toks"
  obtains x t where "RefreshTokenRepository_rotate E raw d = (Inr x, t)"
    "auth_later t (snd (AuthService_refresh E raw d))" "fst (after_rotation E x t) = Inr toks"
proof (cases "RefreshTokenRepository_rotate E raw d")
  case (Pair r t)
  show ?thesis
  proof (cases r)
    case (Inl e)
    with Pair have "RefreshTokenRepository_rotate E raw d = (Inl e, t)" by simp
    from refresh_rotate_fails(1) [OF this] assms show ?thesis by simp
  next
    case (Inr x)
    with Pair have rot: "RefreshTokenRepository_rotate E raw d = (Inr x, t)" by simp
    from refresh_rotate_returns [OF rot] after_rotation_later [of t E x] assms rot
    show ?thesis by (intro that [of x t]) simp_all
  qed
qed

subsection \<open>A refresh token works once\<close>

lemma refresh_spends:
  assumes "fst (AuthService_refresh E raw d) = Inr toks"
  shows "\<exists>r. find (\<lambda>r. rt_token_hash r = sha256 E raw)
             (refresh_tokens (snd (AuthService_refresh E raw d))) = Some r \<and> rt_is_used r"
proof -
  obtain x t where "RefreshTokenRepository_rotate E raw d = (Inr x, t)"
    "auth_later t (snd (AuthService_refresh E raw d))"
    using refresh_success [OF assms] .
  with rotate_spends [of E raw d x] spent_forever show ?thesis by (metis fst_conv snd_conv)
qed

text \<open>
  C1. Single use. Once a refresh with a raw token has returned tokens, then after any further
  run of the service (any mix of logins, refreshes, logouts and guarded requests) no refresh
  with that raw token returns tokens again: it ends in \<open>UnauthorizedException\<close>.
\<close>

theorem refresh_single_use:
  assumes ok: "fst (AuthService_refresh E raw d) = Inr toks"
    and later: "d' = run auth_step es (snd (AuthService_refresh E raw d))"
    and same_hash: "sha256 E' raw = sha256 E raw"
  shows "\<exists>m. fst (AuthService_refresh E' raw d') = Inl (UnauthorizedException m)"
proof -
  obtain r where r: "find (\<lambda>r. rt_token_hash r = sha256 E raw)
      (refresh_tokens (snd (AuthService_refresh E raw d))) = Some r" "rt_is_used r"
    using refresh_spends [OF ok] by blast
  have "auth_later (snd (AuthService_refresh E raw d)) d'"
    unfolding later by (rule auth_run.run_moves)
  from spent_forever [OF r this] same_hash obtain r'
    where "find (\<lambda>r. rt_token_hash r = sha256 E' raw) (refresh_tokens d') = Some r'" "rt_is_used r'"
    by auto
  from spent_rejected [OF this] obtain m where "fst (RefreshTokenRepository_rotate E' raw d') = Inl (UnauthorizedException m)"
    by blast
  then show ?thesis using refresh_rotate_fails(1) by (metis prod.collapse)
qed

subsection \<open>When a refresh returns tokens\<close>

lemma find_iff_unique:
  "distinct (map k xs) \<Longrightarrow> find (\<lambda>x. k x = v) xs = Some x \<longleftrightarrow> x \<in> set xs \<and> k x = v"
  by (auto dest: find_SomeD simp: find_unique)

lemma find_active_iff:
  assumes "distinct (map s_id (sessions d))"
  shows "find (\<lambda>s. s_id s = sid \<and> session_active E s) (sessions d) = Some s \<longleftrightarrow>
         s \<in> set (sessions d) \<and> s_id s = sid \<and> session_active E s"
proof -
  have "find (\<lambda>s. s_id s = sid \<and> P s) xs = Some s"
    if "distinct (map s_id xs)" "s \<in> set xs" "s_id s = sid" "P s" for P and xs :: "session_row list"
    using that by (induction xs) auto
  with assms show ?thesis by (auto dest: find_SomeD)
qed

lemma find_active_session [op_simps]:
  "SessionsService_findActiveSession E sid d =
     (Inr (find (\<lambda>s. s_id s = sid \<and> session_active E s) (sessions d)),
      (if find (\<lambda>s. s_id s = sid \<and> session_active E s) (sessions d) = None
       then d\<lparr>log_lines := log_lines d @ [(WARN, SESSION_INVALID)]\<rparr> else d))"
  by (simp add: SessionsService_findActiveSession_def SessionRepository_findActiveById_def op_simps)

lemma after_rotation_result:
  assumes "session_exists sid t"
  shows "fst (after_rotation E (nr, sid) t) =
    (case find (\<lambda>s. s_id s = sid \<and> session_active E s) (sessions t) of
       None \<Rightarrow> Inl (UnauthorizedException Msg_SESSION_INVALID)
     | Some s \<Rightarrow> Inr \<lparr>accessToken = signAccessToken E (s_user_id s) sid, refreshToken = nr,
          csrfToken = new_raw_csrf E, expiresIn = accessTokenExpirySeconds (jwt_access_expiry E)\<rparr>)"
  using assms
  by (simp add: after_rotation_def CsrfTokenRepository_upsert_def op_simps Let_def split: option.splits)

text \<open>The token a refresh presents, and the session it leads to.\<close>

definition refreshable :: "'e auth_env_scheme \<Rightarrow> string \<Rightarrow> 'z db_scheme \<Rightarrow> refresh_token_row \<Rightarrow> session_row \<Rightarrow> bool" where
  "refreshable E raw d token s \<longleftrightarrow>
     token \<in> set (refresh_tokens d) \<and> rt_token_hash token = sha256 E raw \<and>
     \<not> rt_is_used token \<and> js_now E \<le> rt_expires_at token \<and>
     s \<in> set (sessions d) \<and> s_id s = rt_session_id token \<and> session_active E s"

definition refreshed_tokens :: "'e auth_env_scheme \<Rightarrow> session_row \<Rightarrow> AuthTokens" where
  "refreshed_tokens E s = \<lparr>accessToken = signAccessToken E (s_user_id s) (s_id s),
     refreshToken = new_raw_token E, csrfToken = new_raw_csrf E,
     expiresIn = accessTokenExpirySeconds (jwt_access_expiry E)\<rparr>"

lemma refresh_success_refreshable:
  assumes ok: "auth_ok d" and succ: "fst (AuthService_refresh E raw d) = Inr toks"
  shows "\<exists>token s. refreshable E raw d token s \<and> toks = refreshed_tokens E s"
proof -
  obtain x t where rot: "RefreshTokenRepository_rotate E raw d = (Inr x, t)"
    and res: "fst (after_rotation E x t) = Inr toks"
    using refresh_success [OF succ] .
  from rot show ?thesis
  proof (cases rule: rotate_cases [of E raw d])
    case (rotated token)
    with rot have x: "x = (new_raw_token E, rt_session_id token)" and t: "sessions t = sessions d"
      by auto
    then have "session_exists (rt_session_id token) t" using rotated by (simp add: session_exists_def)
    from after_rotation_result [OF this, of E "new_raw_token E"] res x obtain s
      where s: "find (\<lambda>s. s_id s = rt_session_id token \<and> session_active E s) (sessions d) = Some s"
        "toks = refreshed_tokens E s"
      by (cases "find (\<lambda>s. s_id s = rt_session_id token \<and> session_active E s) (sessions d)")
        (auto simp: t refreshed_tokens_def dest: find_SomeD)
    with rotated show ?thesis
      by (intro exI [of _ token] exI [of _ s]) (auto simp: refreshable_def dest!: find_SomeD)
  qed auto
qed

lemma refreshable_refreshes:
  assumes ok: "auth_ok d"
    and fresh: "new_rt_id E \<notin> rt_id ` set (refresh_tokens d)"
      "sha256 E (new_raw_token E) \<notin> rt_token_hash ` set (refresh_tokens d)"
    and r: "refreshable E raw d token s"
  shows "fst (AuthService_refresh E raw d) = Inr (refreshed_tokens E s)"
proof -
  have u: "distinct (map rt_token_hash (refresh_tokens d))" "distinct (map s_id (sessions d))"
    using ok by (auto simp: auth_ok_def)
  have f: "find (\<lambda>r. rt_token_hash r = sha256 E raw) (refresh_tokens d) = Some token"
    using r u(1) by (simp add: find_iff_unique refreshable_def)
  have ex: "session_exists (rt_session_id token) d"
    using ok r by (auto simp: auth_ok_def refreshable_def)
  show ?thesis
  proof (cases rule: rotate_cases [of E raw d])
    case (rotated token')
    with f have t: "token' = token" by simp
    have "session_exists (rt_session_id token) (snd (RefreshTokenRepository_rotate E raw d))"
      using rotated by (simp add: session_exists_def t)
    moreover have "find (\<lambda>s. s_id s = rt_session_id token \<and> session_active E s) (sessions d) = Some s"
      using r u(2) by (simp add: find_active_iff refreshable_def)
    ultimately show ?thesis
      using r rotated(5) refresh_rotate_returns [OF rotated(5)]
      by (simp add: t after_rotation_result refreshable_def refreshed_tokens_def)
  next
    case (refused token' c)
    with f fresh ex show ?thesis by simp
  qed (use r f in \<open>auto simp: refreshable_def\<close>)
qed

text \<open>
  C2. A refresh returns tokens exactly when the presented token is known, unspent and not
  expired and its session is neither revoked nor expired; and then it returns the new raw
  token, an access token for that session's user and a new CSRF token. (The random id and
  raw token of the call must not already be in the table.)
\<close>

theorem refresh_returns_iff:
  assumes ok: "auth_ok d"
    and fresh: "new_rt_id E \<notin> rt_id ` set (refresh_tokens d)"
      "sha256 E (new_raw_token E) \<notin> rt_token_hash ` set (refresh_tokens d)"
  shows "fst (AuthService_refresh E raw d) = Inr toks \<longleftrightarrow>
    (\<exists>token s. refreshable E raw d token s \<and> toks = refreshed_tokens E s)"
  using refresh_success_refreshable [OF ok] refreshable_refreshes [OF ok fresh] by blast

end
