(* ===== verification/AuthExamples.thy ===== *)
theory AuthExamples
  imports AuthRuns
begin

text \<open>
  A concrete instance of the outside world, on which the properties of the authentication
  theories are applied: an injective stand-in for \<open>sha256\<close>, a password hash that keeps the
  password readable, and random values that carry a label, so that two calls with
  different labels draw different values.
\<close>

definition example_env :: "time \<Rightarrow> string \<Rightarrow> auth_env" where
  "example_env t k = \<lparr>js_now = t, db_now = t, inet_ok = (\<lambda>_. True), uuid_of = Some,
     sha256 = (\<lambda>s. CHR ''#'' # s),
     new_session_id = CHR ''s'' # k, new_rt_id = CHR ''i'' # k, new_family_id = CHR ''f'' # k,
     new_raw_token = CHR ''r'' # k, new_raw_csrf = CHR ''c'' # k,
     argon2_verify = (\<lambda>h p. Inr (h = ''pw:'' @ p)), argon2_hash = (\<lambda>p. ''pw:'' @ p),
     zxcvbn = (\<lambda>p _. (if length p < 10 then WEAK else STRONG, [])),
     jwt_sign = (\<lambda>u s. u @ CHR ''.'' # s), new_user_id = CHR ''u'' # k,
     jwt_access_expiry = None\<rparr>"

definition example_dto :: LoginDto where
  "example_dto = \<lparr>dto_email = ''a@b'', dto_password = ''0123456789''\<rparr>"

definition wrong_dto :: LoginDto where
  "wrong_dto = \<lparr>dto_email = ''a@b'', dto_password = ''x''\<rparr>"

text \<open>One registered user; then one login, whose session is \<open>s1\<close> and refresh token \<open>r1\<close>.\<close>

definition example_registered :: db where
  "example_registered = run auth_step [(example_env 0 ''0'', ReqRegister example_dto)] empty_db"

definition example_logged_in :: db where
  "example_logged_in = run auth_step [(example_env 1000 ''1'', ReqLogin example_dto ''ip'' ''ua'')] example_registered"

text \<open>Then one refresh: \<open>r1\<close> is spent, \<open>r2\<close> is its successor.\<close>

definition example_refreshed :: db where
  "example_refreshed = run auth_step [(example_env 2000 ''2'', ReqRefresh (Some ''r1'') None)] example_logged_in"

lemma example_sha256: "sha256 (example_env t k) s = CHR ''#'' # s"
  by (simp add: example_env_def)

lemma example_ok: "auth_ok example_logged_in" "auth_ok example_refreshed"
proof -
  have e: "auth_ok empty_db"
    by (simp add: auth_ok_def users_ok_def empty_db_def)
  show "auth_ok example_logged_in"
    unfolding example_logged_in_def example_registered_def by (intro run_auth_ok e)
  then show "auth_ok example_refreshed"
    unfolding example_refreshed_def by (rule run_auth_ok)
qed

lemma example_refresh_succeeds:
  "succeeds (AuthService_refresh (example_env 2000 ''2'') ''r1'' example_logged_in)"
  by code_simp

end
