(* ===== verification/AuthSafety.thy ===== *)
theory AuthSafety
  imports AuthExamples
begin

text \<open>
  What a revoked session and a token family are good for: reuse of a token and logout end a
  session for every later run, and a family never has two unspent tokens.
\<close>

subsection \<open>Dead sessions stay dead\<close>

definition dead_session :: "string \<Rightarrow> 'z db_scheme \<Rightarrow> bool" where
  "dead_session sid d \<longleftrightarrow> auth_ok d \<and> (\<exists>s \<in> set (sessions d). s_id s = sid \<and> s_is_revoked s)"

lemma dead_session_run: "dead_session sid d \<Longrightarrow> dead_session sid (run auth_step es d)"
proof -
  assume dead: "dead_session sid d"
  then obtain s where s: "s \<in> set (sessions d)" "s_id s = sid" "s_is_revoked s"
    by (auto simp: dead_session_def)
  have "later session_later sessions d (run auth_step es d)"
    using auth_run.run_moves [of d es] by (simp add: auth_later_def)
  from sess.later_row [OF this s(1)] s session_laterD
  have "\<exists>s' \<in> set (sessions (run auth_step es d)). s_id s' = sid \<and> s_is_revoked s'" by blast
  moreover have "auth_ok (run auth_step es d)"
    using dead by (intro run_auth_ok) (simp add: dead_session_def)
  ultimately show ?thesis by (simp add: dead_session_def)
qed

lemma dead_not_active:
  assumes "dead_session sid d" "s \<in> set (sessions d)" "s_id s = sid"
  shows "\<not> session_active E s"
proof -
  obtain s' where "s' \<in> set (sessions d)" "s_id s' = sid" "s_is_revoked s'"
    using assms(1) by (auto simp: dead_session_def)
  moreover have "distinct (map s_id (sessions d))"
    using assms(1) by (simp add: dead_session_def auth_ok_def)
  ultimately have "s' = s" using assms(2,3) by (auto simp: distinct_map inj_on_def)
  with \<open>s_is_revoked s'\<close> show ?thesis by (simp add: session_active_def)
qed

lemma dead_no_refresh:
  assumes dead: "dead_session sid d"
    and tok: "token \<in> set (refresh_tokens d)" "rt_token_hash token = sha256 E raw" "rt_session_id token = sid"
  shows "\<not> succeeds (AuthService_refresh E raw d)"
proof
  assume "succeeds (AuthService_refresh E raw d)"
  then obtain toks where "fst (AuthService_refresh E raw d) = Inr toks" by (auto simp: succeeds_iff)
  moreover have ok: "auth_ok d" using dead by (simp add: dead_session_def)
  ultimately obtain token' s where r: "refreshable E raw d token' s"
    using refresh_success_refreshable by blast
  with tok have "token' = token"
    using ok by (auto simp: refreshable_def auth_ok_def distinct_map inj_on_def)
  with r tok dead_not_active [OF dead, of s E] show False by (simp add: refreshable_def)
qed

lemma dead_no_access:
  assumes dead: "dead_session (jwt_sid p) d"
  shows "fst (JwtStrategy_validate E p d) = Inl (UnauthorizedException Msg_SESSION_INVALID)"
proof -
  have "find (\<lambda>s. s_id s = jwt_sid p \<and> session_active E s) (sessions d) = None"
    using dead_not_active [OF dead] by (auto simp: find_None_iff)
  then show ?thesis by (simp add: JwtStrategy_validate_def op_simps)
qed

text \<open>The access guard turns any failure of the strategy into one message.\<close>

lemma dead_no_guard:
  assumes "dead_session (jwt_sid p) d" "\<not> req_isPublic req" "req_bearer req = Some p"
  shows "fst (JwtAuthGuard_canActivate E req d) = Inl (UnauthorizedException Msg_AUTH_REQUIRED)"
proof -
  obtain t where "JwtStrategy_validate E p d = (Inl (UnauthorizedException Msg_SESSION_INVALID), t)"
    using dead_no_access [OF assms(1)] by (metis prod.collapse)
  with assms(2,3) show ?thesis by (simp add: JwtAuthGuard_canActivate_def op_simps)
qed

subsection \<open>Reuse detection\<close>

lemma reuse_effect:
  assumes ok: "auth_ok d"
    and tok: "token \<in> set (refresh_tokens d)" "rt_token_hash token = sha256 E raw"
    and used: "rt_is_used token" and unexpired: "js_now E \<le> rt_expires_at token"
  shows "fst (AuthService_refresh E raw d) = Inl (UnauthorizedException Msg_INVALID_REFRESH_TOKEN)"
    and "dead_session (rt_session_id token) (snd (AuthService_refresh E raw d))"
    and "\<forall>r \<in> set (refresh_tokens (snd (AuthService_refresh E raw d))).
           rt_family_id r = rt_family_id token \<longrightarrow> rt_is_used r"
proof -
  have f: "find (\<lambda>r. rt_token_hash r = sha256 E raw) (refresh_tokens d) = Some token"
    using ok tok by (simp add: find_iff_unique auth_ok_def)
  have rot: "RefreshTokenRepository_rotate E raw d =
         (Inl (UnauthorizedException Msg_INVALID_REFRESH_TOKEN),
          d\<lparr>refresh_tokens := update_where (\<lambda>r. rt_family_id r = rt_family_id token)
                (rt_is_used_update (\<lambda>_. True)) (refresh_tokens d),
            sessions := update_where (\<lambda>s. s_id s = rt_session_id token)
                (s_is_revoked_update (\<lambda>_. True)) (sessions d)\<rparr>)"
    using f used unexpired by (cases rule: rotate_cases [of E raw d]) auto
  from refresh_rotate_fails [OF rot]
  show "fst (AuthService_refresh E raw d) = Inl (UnauthorizedException Msg_INVALID_REFRESH_TOKEN)"
    and "\<forall>r \<in> set (refresh_tokens (snd (AuthService_refresh E raw d))).
           rt_family_id r = rt_family_id token \<longrightarrow> rt_is_used r"
    by (auto simp: in_update_where)
  obtain s where s: "s \<in> set (sessions d)" "s_id s = rt_session_id token"
    using ok tok(1) by (auto simp: auth_ok_def session_exists_iff)
  from update_where_hit [of s "sessions d" "\<lambda>s. s_id s = rt_session_id token" "s_is_revoked_update (\<lambda>_. True)", OF this]
  have "\<exists>s \<in> set (sessions (snd (AuthService_refresh E raw d))). s_id s = rt_session_id token \<and> s_is_revoked s"
    using refresh_rotate_fails(3) [OF rot] s(2) by (intro bexI [of _ "s\<lparr>s_is_revoked := True\<rparr>"]) simp_all
  moreover have "auth_ok (snd (AuthService_refresh E raw d))"
    using movesD [OF kept_auth(4), of d E raw] ok by (simp add: auth_ok_kept_def)
  ultimately show "dead_session (rt_session_id token) (snd (AuthService_refresh E raw d))"
    by (simp add: dead_session_def)
qed

text \<open>
  C3. Reuse detection. Presenting a token that is already spent, and has not expired, is answered
  like an unknown one, spends the whole family and revokes the session: after any further run
  no refresh with any token of that session, whichever rotation issued it, returns tokens, and no
  access token of that session passes the JWT strategy. Before a token expires is the only time it can
  be reused with that effect: the expiry is looked at first (\<open>expired_reuse_ignored\<close>).
\<close>

theorem reuse_ends_session:
  assumes ok: "auth_ok d"
    and tok: "token \<in> set (refresh_tokens d)" "rt_token_hash token = sha256 E raw"
    and used: "rt_is_used token" and unexpired: "js_now E \<le> rt_expires_at token"
    and later: "d' = run auth_step es (snd (AuthService_refresh E raw d))"
  shows "fst (AuthService_refresh E raw d) = Inl (UnauthorizedException Msg_INVALID_REFRESH_TOKEN) \<and>
    (\<forall>r \<in> set (refresh_tokens (snd (AuthService_refresh E raw d))).
       rt_family_id r = rt_family_id token \<longrightarrow> rt_is_used r) \<and>
    (t2 \<in> set (refresh_tokens d') \<and> rt_session_id t2 = rt_session_id token \<and> rt_token_hash t2 = sha256 E2 raw2
       \<longrightarrow> \<not> succeeds (AuthService_refresh E2 raw2 d')) \<and>
    (jwt_sid p = rt_session_id token
       \<longrightarrow> fst (JwtStrategy_validate E2 p d') = Inl (UnauthorizedException Msg_SESSION_INVALID))"
proof -
  note effect = reuse_effect [OF ok tok used unexpired]
  have dead: "dead_session (rt_session_id token) d'"
    unfolding later by (rule dead_session_run [OF effect(2)])
  with effect dead_no_refresh [OF dead, of t2 E2 raw2] dead_no_access [of p d' E2] show ?thesis
    by auto
qed

text \<open>
  After the refresh of the example, the thief's replay of \<open>r1\<close> ends the session of \<open>r2\<close>,
  which the owner then holds, and the access token.
\<close>

theorem reuse_ends_session_witness:
  "fst (AuthService_refresh (example_env 3000 ''3'') ''r1'' example_refreshed)
     = Inl (UnauthorizedException Msg_INVALID_REFRESH_TOKEN) \<and>
   \<not> succeeds (AuthService_refresh (example_env 4000 ''4'') ''r2''
       (snd (AuthService_refresh (example_env 3000 ''3'') ''r1'' example_refreshed))) \<and>
   fst (JwtStrategy_validate (example_env 4000 ''4'') \<lparr>jwt_sub = ''u0'', jwt_sid = ''s1''\<rparr>
       (snd (AuthService_refresh (example_env 3000 ''3'') ''r1'' example_refreshed)))
     = Inl (UnauthorizedException Msg_SESSION_INVALID)"
proof -
  let ?d = "example_refreshed" and ?E = "example_env 3000 ''3''" and ?E2 = "example_env 4000 ''4''"
  let ?t1 = "refresh_tokens ?d ! 0" and ?d' = "snd (AuthService_refresh ?E ''r1'' example_refreshed)"
  let ?t2 = "refresh_tokens ?d' ! 1" and ?p = "\<lparr>jwt_sub = ''u0'', jwt_sid = ''s1''\<rparr>"
  have "?t1 \<in> set (refresh_tokens ?d)" "rt_token_hash ?t1 = sha256 ?E ''r1''" "rt_is_used ?t1"
    "js_now ?E \<le> rt_expires_at ?t1" "?t2 \<in> set (refresh_tokens ?d')"
    "rt_session_id ?t2 = rt_session_id ?t1" "rt_token_hash ?t2 = sha256 ?E2 ''r2''"
    "jwt_sid ?p = rt_session_id ?t1"
    by code_simp+
  with reuse_ends_session [OF example_ok(2), of ?t1 ?E "''r1''" ?d' "[]" ?t2 ?E2 "''r2''" ?p]
  show ?thesis by simp
qed

text \<open>
  A spent token that has expired is answered as expired, and neither its family nor its session
  is touched: of what is stored only the audit log may grow.
\<close>

theorem expired_reuse_ignored:
  assumes tok: "find (\<lambda>r. rt_token_hash r = sha256 E raw) (refresh_tokens d) = Some token"
    and expired: "rt_expires_at token < js_now E"
  shows "fst (AuthService_refresh E raw d) = Inl (UnauthorizedException Msg_REFRESH_TOKEN_EXPIRED) \<and>
    sessions (snd (AuthService_refresh E raw d)) = sessions d \<and>
    refresh_tokens (snd (AuthService_refresh E raw d)) = refresh_tokens d"
  using assms by (simp add: AuthService_refresh_def SessionsService_rotateRefreshToken_def RefreshTokenRepository_rotate_def op_simps)

subsection \<open>Logout\<close>

text \<open>
  C4. Logout is final for HTTP. After \<open>logout\<close> of a session, or \<open>logoutAll\<close> of its user, and any
  further run of requests, that session's access tokens are refused by the JWT strategy, which all guarded routes
  go through, and none of its refresh tokens returns tokens. The handshake of a socket does not go through the
  strategy (\<open>logout_keeps_sockets\<close> in \<open>GatewayEffects\<close>).
\<close>

theorem logout_is_final:
  assumes ok: "auth_ok d" and s: "s \<in> set (sessions d)"
    and out: "d1 = snd (AuthService_logout (s_id s) d) \<or> d1 = snd (AuthService_logoutAll (s_user_id s) d)"
    and later: "d' = run auth_step es d1"
  shows "(jwt_sid p = s_id s \<longrightarrow>
      fst (JwtStrategy_validate E p d') = Inl (UnauthorizedException Msg_SESSION_INVALID)) \<and>
    (token \<in> set (refresh_tokens d') \<and> rt_session_id token = s_id s \<and> rt_token_hash token = sha256 E raw
      \<longrightarrow> \<not> succeeds (AuthService_refresh E raw d'))"
proof -
  have "s\<lparr>s_is_revoked := True\<rparr> \<in> set (sessions d1)"
    using s out by (auto simp: AuthService_logout_def AuthService_logoutAll_def service_defs
        SessionRepository_revoke_def SessionRepository_revokeAllForUser_def op_simps intro: update_where_hit)
  then have "\<exists>s' \<in> set (sessions d1). s_id s' = s_id s \<and> s_is_revoked s'"
    by (rule bexI [rotated]) simp
  moreover have "auth_ok d1"
    using out movesD [OF kept_auth(5), of d "s_id s"] movesD [OF kept_auth(6), of d "s_user_id s"] ok
    by (auto simp: auth_ok_kept_def)
  ultimately have "dead_session (s_id s) d1" by (simp add: dead_session_def)
  then have "dead_session (s_id s) d'" unfolding later by (rule dead_session_run)
  with dead_no_access [of p d' E] dead_no_refresh [of "s_id s" d' token E raw] show ?thesis by auto
qed

theorem logout_is_final_witness:
  "fst (JwtStrategy_validate (example_env 4000 ''4'') \<lparr>jwt_sub = ''u0'', jwt_sid = ''s1''\<rparr>
       (snd (AuthService_logoutAll ''u0'' example_refreshed))) = Inl (UnauthorizedException Msg_SESSION_INVALID) \<and>
   \<not> succeeds (AuthService_refresh (example_env 4000 ''4'') ''r2''
       (snd (AuthService_logoutAll ''u0'' example_refreshed)))"
proof -
  let ?d = "example_refreshed" and ?E = "example_env 4000 ''4''"
  let ?s = "sessions ?d ! 0" and ?d' = "snd (AuthService_logoutAll ''u0'' ?d)"
  let ?t = "refresh_tokens ?d' ! 1" and ?p = "\<lparr>jwt_sub = ''u0'', jwt_sid = ''s1''\<rparr>"
  have "?s \<in> set (sessions ?d)" "s_user_id ?s = ''u0''" "jwt_sid ?p = s_id ?s"
    "?t \<in> set (refresh_tokens ?d')" "rt_session_id ?t = s_id ?s" "rt_token_hash ?t = sha256 ?E ''r2''"
    by code_simp+
  with logout_is_final [OF example_ok(2), of ?s ?d' ?d' "[]" ?p ?E ?t "''r2''"] show ?thesis by simp
qed

subsection \<open>The other witnesses\<close>

theorem refresh_single_use_witness:
  "succeeds (AuthService_refresh (example_env 2000 ''2'') ''r1'' example_logged_in) \<and>
   (\<exists>m. fst (AuthService_refresh (example_env 3000 ''3'') ''r1''
      (run auth_step [(example_env 2500 ''7'', ReqLogin example_dto ''ip'' ''ua'')]
        (snd (AuthService_refresh (example_env 2000 ''2'') ''r1'' example_logged_in)))) = Inl (UnauthorizedException m))"
proof -
  obtain toks where "fst (AuthService_refresh (example_env 2000 ''2'') ''r1'' example_logged_in) = Inr toks"
    using example_refresh_succeeds by (auto simp: succeeds_iff)
  from refresh_single_use [OF this refl, where E' = "example_env 3000 ''3''"
      and es = "[(example_env 2500 ''7'', ReqLogin example_dto ''ip'' ''ua'')]"] example_refresh_succeeds
  show ?thesis by (simp add: example_sha256)
qed

theorem refresh_returns_iff_witness:
  "\<exists>token s. refreshable (example_env 2000 ''2'') ''r1'' example_logged_in token s"
proof -
  have "fst (AuthService_refresh (example_env 2000 ''2'') ''r1'' example_logged_in) =
      Inr (refreshed_tokens (example_env 2000 ''2'') (sessions example_logged_in ! 0))"
    and "new_rt_id (example_env 2000 ''2'') \<notin> rt_id ` set (refresh_tokens example_logged_in)"
    and "sha256 (example_env 2000 ''2'') (new_raw_token (example_env 2000 ''2'')) \<notin>
           rt_token_hash ` set (refresh_tokens example_logged_in)"
    by code_simp+
  with refresh_returns_iff [OF example_ok(1)] show ?thesis by blast
qed

end
