(* ===== verification/AuthFamilies.thy ===== *)
theory AuthFamilies
  imports AuthExamples
begin

text \<open>
  The token families: all rotations of one login share a family, a family belongs to one
  session, and at most one of its tokens is unspent. Invariant of every run in which a
  login draws a family id (\<open>uuidv4()\<close>) that is not yet in the table.
\<close>

definition families_ok :: "refresh_token_row list \<Rightarrow> bool" where
  "families_ok ts \<longleftrightarrow> (\<forall>r \<in> set ts. \<forall>r' \<in> set ts. rt_family_id r = rt_family_id r' \<longrightarrow>
     rt_session_id r = rt_session_id r' \<and>
     (\<not> rt_is_used r \<and> \<not> rt_is_used r' \<longrightarrow> rt_id r = rt_id r'))"

lemma families_okD:
  assumes "families_ok ts" "r \<in> set ts" "r' \<in> set ts" "rt_family_id r = rt_family_id r'"
  shows "rt_session_id r = rt_session_id r'"
    and "\<not> rt_is_used r \<Longrightarrow> \<not> rt_is_used r' \<Longrightarrow> rt_id r = rt_id r'"
  using assms unfolding families_ok_def by blast+

text \<open>Appending a row that agrees with the rows of its family.\<close>

lemma families_ok_append:
  assumes "families_ok ts"
    and "\<And>r. r \<in> set ts \<Longrightarrow> rt_family_id r = rt_family_id n \<Longrightarrow> rt_session_id r = rt_session_id n \<and> rt_is_used r"
  shows "families_ok (ts @ [n])"
  unfolding families_ok_def
proof (intro ballI impI)
  fix r r' assume "r \<in> set (ts @ [n])" "r' \<in> set (ts @ [n])" and eq: "rt_family_id r = rt_family_id r'"
  then consider "r \<in> set ts" "r' \<in> set ts" | "r \<in> set ts" "r' = n" | "r = n" "r' \<in> set ts" | "r = n" "r' = n"
    by auto
  then show "rt_session_id r = rt_session_id r' \<and> (\<not> rt_is_used r \<and> \<not> rt_is_used r' \<longrightarrow> rt_id r = rt_id r')"
  proof cases
    case 1
    with families_okD [OF assms(1) this eq] show ?thesis by blast
  next
    case 2
    with assms(2) [of r] eq show ?thesis by simp
  next
    case 3
    with assms(2) [of r'] eq show ?thesis by simp
  qed simp
qed

lemma families_ok_mark:
  assumes "families_ok ts"
  shows "families_ok (update_where p (rt_is_used_update (\<lambda>_. True)) ts)"
  unfolding families_ok_def
proof (intro ballI impI)
  fix r r' :: refresh_token_row
  let ?mark = "\<lambda>q. if p q then rt_is_used_update (\<lambda>_. True) q else q"
  assume "r \<in> set (update_where p (rt_is_used_update (\<lambda>_. True)) ts)"
    "r' \<in> set (update_where p (rt_is_used_update (\<lambda>_. True)) ts)"
  then obtain q q' where q: "q \<in> set ts" "q' \<in> set ts" "r = ?mark q" "r' = ?mark q'"
    by (auto simp: in_update_where)
  assume "rt_family_id r = rt_family_id r'"
  with q(3,4) have "rt_family_id q = rt_family_id q'" by (simp split: if_splits)
  from families_okD [OF assms q(1,2) this] q(3,4)
  show "rt_session_id r = rt_session_id r' \<and> (\<not> rt_is_used r \<and> \<not> rt_is_used r' \<longrightarrow> rt_id r = rt_id r')"
    by simp
qed

lemma families_ok_new:
  "families_ok ts \<Longrightarrow> rt_family_id r \<notin> rt_family_id ` set ts \<Longrightarrow> families_ok (ts @ [r])"
  by (rule families_ok_append) (auto, (metis image_eqI)+)

text \<open>Spending the family's unspent token and appending its successor.\<close>

lemma families_ok_rotate:
  assumes ok: "families_ok ts" and t: "t \<in> set ts" "\<not> rt_is_used t"
    and n: "rt_family_id n = rt_family_id t" "rt_session_id n = rt_session_id t"
  shows "families_ok (update_where (\<lambda>r. rt_id r = rt_id t) (rt_is_used_update (\<lambda>_. True)) ts @ [n])"
proof (rule families_ok_append [OF families_ok_mark [OF ok]])
  fix r assume "r \<in> set (update_where (\<lambda>r. rt_id r = rt_id t) (rt_is_used_update (\<lambda>_. True)) ts)"
  then obtain q where q: "q \<in> set ts" "r = (if rt_id q = rt_id t then rt_is_used_update (\<lambda>_. True) q else q)"
    by (auto simp: in_update_where)
  assume "rt_family_id r = rt_family_id n"
  with q(2) n(1) have "rt_family_id q = rt_family_id t" by (simp split: if_splits)
  from families_okD [OF ok q(1) t(1) this] t(2) q(2) n(2)
  show "rt_session_id r = rt_session_id n \<and> rt_is_used r" by auto
qed

subsection \<open>What each request does to the token table\<close>

text \<open>At most one row is appended, with family \<open>F\<close>.\<close>

definition one_more :: "string \<Rightarrow> refresh_token_row list \<Rightarrow> refresh_token_row list \<Rightarrow> bool" where
  "one_more F ts ts' \<longleftrightarrow> ts' = ts \<or> (\<exists>r. rt_family_id r = F \<and> ts' = ts @ [r])"

lemma one_more_refl: "one_more F ts ts"
  by (simp add: one_more_def)

lemma tokens_same:
  "moves (same refresh_tokens) (log_line l e)"
  "moves (same refresh_tokens) (SessionRepository_create E u ip ua)"
  "moves (same refresh_tokens) (SessionRepository_revoke sid)"
  "moves (same refresh_tokens) (SessionRepository_revokeAllForUser uid)"
  "moves (same refresh_tokens) (SessionsService_findActiveSession G sid)"
  "moves (same refresh_tokens) (CsrfTokenRepository_upsert E sid)"
  "moves (same refresh_tokens) (CsrfTokenRepository_isValid E sid raw)"
  by (simp_all add: moves_def same_def op_simps SessionRepository_create_def SessionRepository_revoke_def
      SessionRepository_revokeAllForUser_def CsrfTokenRepository_upsert_def CsrfTokenRepository_isValid_def
      SessionRepository_findActiveById_def service_defs Let_def)

lemma tokens_same_users:
  "moves (same refresh_tokens) (UsersService_findByEmail em)"
  "moves (same refresh_tokens) (UsersService_create F i em ph)"
  "moves (same refresh_tokens) (UsersService_incrementFailedAttempts F u)"
  "moves (same refresh_tokens) (UsersService_resetFailedAttempts F u)"
  unfolding moves_def same_def
  by (simp_all add: op_simps UsersService_create_apply UsersService_incrementFailedAttempts_def
      UserRepository_incrementFailedAttempts_def UsersService_resetFailedAttempts_def
      UserRepository_resetFailedAttempts_def)

lemma tokens_same_sessions:
  "moves (same refresh_tokens) (SessionsService_createSession E u ip ua)"
  "moves (same refresh_tokens) (AuthService_logout sid)"
  "moves (same refresh_tokens) (AuthService_logoutAll uid)"
  "moves (same refresh_tokens) (JwtAuthGuard_canActivate G req)"
  "moves (same refresh_tokens) (CsrfGuard_canActivate E req)"
  "moves (same refresh_tokens) (register_check A dto)"
  "moves (same refresh_tokens) (register_create A dto)"
  "moves (same refresh_tokens) (AuthService_register A dto)"
  unfolding service_defs(1,3,4) AuthService_logout_def AuthService_logoutAll_def JwtAuthGuard_canActivate_def
    JwtStrategy_validate_def CsrfGuard_canActivate_def AuthService_register_def register_check_def register_create_def
  by (auto intro!: same_view.moves_rules tokens_same tokens_same_users split: prod.splits exn.splits option.splits)

lemmas tokens_unchanged = tokens_same_sessions [THEN movesD, unfolded same_def]

lemma token_create_one_more:
  "moves (through (one_more F) refresh_tokens) (RefreshTokenRepository_create E sid h F)"
  by (rule movesI)
    (auto simp: through_def RefreshTokenRepository_create_def op_simps Let_def one_more_def new_refresh_token_def)

lemma issueTokenSet_one_more:
  "moves (through (one_more (new_family_id E)) refresh_tokens) (SessionsService_issueTokenSet E sid)"
  unfolding SessionsService_issueTokenSet_def
  by (rule through_andthen_after [OF token_create_one_more])
    (intro same_view.moves_rules tokens_same)

lemma issueTokens_one_more:
  "moves (through (one_more (new_family_id E)) refresh_tokens) (issueTokens E u ip ua)"
  unfolding issueTokens_def
  by (rule through_bnd_before [OF one_more_refl tokens_same_sessions(1)])
    (auto intro!: through_bnd_after issueTokenSet_one_more same_view.moves_rules split: prod.splits)

lemma login_one_more:
  "moves (through (one_more (new_family_id E)) refresh_tokens) (AuthService_login E dto ip ua)"
proof -
  let ?moves = "moves (through (one_more (new_family_id E)) refresh_tokens)"
  note quiet = through_same [where Q = "one_more (new_family_id E)" and f = refresh_tokens, OF one_more_refl]
  have ends: "?moves (andthen (UsersService_resetFailedAttempts E (u_id u))
     (bnd (issueTokens E (u_id u) ip ua) (\<lambda>tokens. andthen (log_line INFO LOGIN_SUCCESS) (ret tokens))))" for u
    by (rule through_andthen_before [OF one_more_refl tokens_same_users(4)])
      (intro through_bnd_after issueTokens_one_more same_view.moves_rules tokens_same)
  have refused: "?moves (andthen m (andthen (log_line l v) (raise e)))" if "moves (same refresh_tokens) m"
    for l v e and m :: "('z db_scheme, unit) op"
    by (rule quiet, intro same_view.moves_rules tokens_same that)
  have raised: "?moves (andthen (log_line l v) (raise e))" "?moves (raise e)" for l v e
    by (rule quiet, intro same_view.moves_rules tokens_same)+
  have found: "?moves (bnd (UsersService_findByEmail em) k)" if "\<And>u. ?moves (k u)" for em k
    by (rule through_bnd_before [OF one_more_refl tokens_same_users(1) that])
  have started: "?moves (andthen (log_line l v) m)" if "?moves m" for l v m
    by (rule through_andthen_before [OF one_more_refl tokens_same(1) that])
  show ?thesis
    unfolding AuthService_login_def Let_def
    by (rule started, rule found) (simp add: ends refused raised tokens_same tokens_same_users same_view.moves_rules
        split: sum.splits option.splits)
qed

lemma refresh_tokens_refresh:
  "refresh_tokens (snd (AuthService_refresh E raw d)) = refresh_tokens (snd (RefreshTokenRepository_rotate E raw d))"
proof (cases "RefreshTokenRepository_rotate E raw d")
  case (Pair r t)
  have "moves (same refresh_tokens) (after_rotation E x)" for x
    unfolding after_rotation_def by (auto intro!: same_view.moves_rules tokens_same tokens_same_users split: prod.splits)
  then show ?thesis
    using Pair refresh_rotate_fails(2) [of E raw d] refresh_rotate_returns [of E raw d]
    by (cases r) (auto simp: moves_def same_def)
qed

lemma rotate_families_ok:
  assumes "families_ok (refresh_tokens d)"
  shows "families_ok (refresh_tokens (snd (RefreshTokenRepository_rotate E raw d)))"
proof (cases rule: rotate_cases [of E raw d])
  case (rotated token)
  then show ?thesis
    using assms families_ok_rotate [OF assms, of token "new_refresh_token E (rt_session_id token)
        (sha256 E (new_raw_token E)) (rt_family_id token)"]
    by (auto simp: new_refresh_token_def dest: find_SomeD)
qed (use assms in \<open>auto simp: families_ok_mark\<close>)

subsection \<open>The invariant of runs\<close>

fun fresh_family :: "'z db_scheme \<Rightarrow> 'e auth_env_scheme \<times> auth_request \<Rightarrow> bool" where
  "fresh_family d (E, ReqLogin dto ip ua) = (new_family_id E \<notin> rt_family_id ` set (refresh_tokens d))"
| "fresh_family d (E, _) = True"

definition token_families :: "'z db_scheme \<Rightarrow> bool" where
  "token_families d \<longleftrightarrow> auth_ok d \<and> families_ok (refresh_tokens d)"

lemma step_families_ok:
  assumes "families_ok (refresh_tokens d)" "fresh_family d (E, req)"
  shows "families_ok (refresh_tokens (auth_step (E, req) d))"
proof (cases req)
  case (ReqLogin dto ip ua)
  then have "one_more (new_family_id E) (refresh_tokens d) (refresh_tokens (auth_step (E, req) d))"
    using movesD [OF login_one_more, of E d dto ip ua] by (simp add: through_def)
  then consider "refresh_tokens (auth_step (E, req) d) = refresh_tokens d"
    | r where "rt_family_id r = new_family_id E" "refresh_tokens (auth_step (E, req) d) = refresh_tokens d @ [r]"
    by (auto simp: one_more_def)
  then show ?thesis
    using assms ReqLogin by cases (simp_all add: families_ok_new)
next
  case (ReqRefresh cookie body)
  then show ?thesis
    using assms(1) by (simp add: AuthController_refresh_def raise_apply refresh_tokens_refresh
        rotate_families_ok split: option.splits)
qed (simp_all add: assms(1) tokens_unchanged)

interpretation families_run: guarded_machine fresh_family auth_step token_families
proof unfold_locales
  fix d :: "'z db_scheme" and e :: "'e auth_env_scheme \<times> auth_request"
  assume "token_families d" "fresh_family d e"
  then show "token_families (auth_step e d)"
    using step_families_ok [of d "fst e" "snd e"] auth_step_kept [of d e]
    by (simp add: token_families_def auth_ok_kept_def)
qed

text \<open>
  C5. In every state the service can reach from an empty database, all tokens of a family
  belong to the same session, and a family has at most one unspent token.
\<close>

theorem one_live_token_per_family:
  assumes "reaches fresh_family auth_step empty_db d"
    and "r \<in> set (refresh_tokens d)" "r' \<in> set (refresh_tokens d)" "rt_family_id r = rt_family_id r'"
  shows "rt_session_id r = rt_session_id r' \<and> (\<not> rt_is_used r \<and> \<not> rt_is_used r' \<longrightarrow> r = r')"
proof -
  have "token_families (empty_db :: db)"
    by (simp add: token_families_def auth_ok_def users_ok_def families_ok_def empty_db_def)
  from families_run.reaches_keeps [OF assms(1) this]
  have ok: "distinct (map rt_id (refresh_tokens d))" "families_ok (refresh_tokens d)"
    by (simp_all add: token_families_def auth_ok_def)
  note families_okD [OF ok(2) assms(2-4)]
  moreover have "r = r'" if "rt_id r = rt_id r'"
    using ok(1) that assms(2,3)
    by (metis (no_types) distinct_map inj_onD)
  ultimately show ?thesis by blast
qed

theorem one_live_token_per_family_witness:
  "refresh_tokens example_refreshed ! 0 \<noteq> refresh_tokens example_refreshed ! 1 \<and>
   rt_session_id (refresh_tokens example_refreshed ! 0) = rt_session_id (refresh_tokens example_refreshed ! 1)"
proof -
  let ?es = "[(example_env 0 ''0'', ReqRegister example_dto), (example_env 1000 ''1'', ReqLogin example_dto ''ip'' ''ua''),
     (example_env 2000 ''2'', ReqRefresh (Some ''r1'') None)]"
  have guarded: "run_guarded fresh_family auth_step ?es (empty_db :: db)" by code_simp
  note run_reaches [OF guarded]
  moreover have "run auth_step ?es empty_db = example_refreshed"
    by (simp add: example_refreshed_def example_logged_in_def example_registered_def)
  moreover have "refresh_tokens example_refreshed ! 0 \<in> set (refresh_tokens example_refreshed)"
    "refresh_tokens example_refreshed ! 1 \<in> set (refresh_tokens example_refreshed)"
    "rt_family_id (refresh_tokens example_refreshed ! 0) = rt_family_id (refresh_tokens example_refreshed ! 1)"
    "refresh_tokens example_refreshed ! 0 \<noteq> refresh_tokens example_refreshed ! 1"
    by code_simp+
  ultimately show ?thesis using one_live_token_per_family by metis
qed

end
