(* ===== verification/AuthLogin.thy ===== *)
theory AuthLogin
  imports AuthExamples
begin

text \<open>
  Login and registration: exactly when a login succeeds, that its failures and the answers
  of a registration do not tell whether an address is registered, the lockout after five
  failures, and registration followed by login.
\<close>

subsection \<open>The outcomes of a login\<close>

abbreviation find_user :: "string \<Rightarrow> 'z db_scheme \<Rightarrow> user_row option" where
  "find_user em d \<equiv> find (\<lambda>u. u_email u = em) (users d)"

definition stored_hash :: "user_row option \<Rightarrow> string" where
  "stored_hash user = (case user of None \<Rightarrow> DUMMY_HASH | Some u \<Rightarrow> u_password_hash u)"

text \<open>A login that counts: the password is right, the account is active and not locked.\<close>

definition may_login :: "'e auth_env_scheme \<Rightarrow> user_row \<Rightarrow> bool \<Rightarrow> bool" where
  "may_login E u passwordValid \<longleftrightarrow> passwordValid \<and> u_is_active u \<and> \<not> UsersService_isLocked E u"

text \<open>A failure that is counted: a wrong password for an active account that is not locked.\<close>

definition counts_failure :: "'e auth_env_scheme \<Rightarrow> user_row \<Rightarrow> bool \<Rightarrow> bool" where
  "counts_failure E u passwordValid \<longleftrightarrow> \<not> passwordValid \<and> u_is_active u \<and> \<not> UsersService_isLocked E u"

abbreviation invalid_credentials :: "exn + 'a" where
  "invalid_credentials \<equiv> Inl (UnauthorizedException Msg_INVALID_CREDENTIALS)"

lemma login_unknown:
  assumes "find_user (dto_email dto) d = None" "argon2_verify E DUMMY_HASH (dto_password dto) = Inr b"
  shows "fst (AuthService_login E dto ip ua d) = invalid_credentials"
    and "users (snd (AuthService_login E dto ip ua d)) = users d"
    and "sessions (snd (AuthService_login E dto ip ua d)) = sessions d"
    and "refresh_tokens (snd (AuthService_login E dto ip ua d)) = refresh_tokens d"
  using assms by (simp_all add: AuthService_login_def op_simps)

lemma login_refused:
  assumes "find_user (dto_email dto) d = Some u" "argon2_verify E (u_password_hash u) (dto_password dto) = Inr b"
    and "\<not> may_login E u b"
  shows "fst (AuthService_login E dto ip ua d) = invalid_credentials"
    and "users (snd (AuthService_login E dto ip ua d)) =
      (if counts_failure E u b then update_where (\<lambda>r. u_id r = u_id u) (bump_failed_attempts E) (users d) else users d)"
    and "sessions (snd (AuthService_login E dto ip ua d)) = sessions d"
    and "refresh_tokens (snd (AuthService_login E dto ip ua d)) = refresh_tokens d"
  using assms
  by (auto simp: AuthService_login_def op_simps may_login_def counts_failure_def
      UsersService_incrementFailedAttempts_def UserRepository_incrementFailedAttempts_def)


lemma login_passes:
  assumes "find_user (dto_email dto) d = Some u" "argon2_verify E (u_password_hash u) (dto_password dto) = Inr b"
    and "may_login E u b"
  shows "AuthService_login E dto ip ua d =
    andthen (log_line INFO LOGIN_ATTEMPT)
      (andthen (UsersService_resetFailedAttempts E (u_id u))
        (bnd (issueTokens E (u_id u) ip ua) (\<lambda>tokens. andthen (log_line INFO LOGIN_SUCCESS) (ret tokens)))) d"
  using assms by (simp add: AuthService_login_def may_login_def op_simps)

text \<open>The random values of a login are not in the tables yet.\<close>

definition fresh_login :: "'e auth_env_scheme \<Rightarrow> 'z db_scheme \<Rightarrow> bool" where
  "fresh_login E d \<longleftrightarrow> new_session_id E \<notin> s_id ` set (sessions d) \<and>
     new_rt_id E \<notin> rt_id ` set (refresh_tokens d) \<and>
     sha256 E (new_raw_token E) \<notin> rt_token_hash ` set (refresh_tokens d)"

definition login_tokens :: "'e auth_env_scheme \<Rightarrow> user_row \<Rightarrow> AuthTokens" where
  "login_tokens E u = \<lparr>accessToken = signAccessToken E (u_id u) (new_session_id E),
     refreshToken = new_raw_token E, csrfToken = new_raw_csrf E,
     expiresIn = accessTokenExpirySeconds (jwt_access_expiry E)\<rparr>"

lemma upsert_result:
  assumes "session_exists sid d"
  shows "fst (CsrfTokenRepository_upsert E sid d) = Inr (new_raw_csrf E)"
    "users (snd (CsrfTokenRepository_upsert E sid d)) = users d"
    "sessions (snd (CsrfTokenRepository_upsert E sid d)) = sessions d"
    "refresh_tokens (snd (CsrfTokenRepository_upsert E sid d)) = refresh_tokens d"
  using assms by (simp_all add: CsrfTokenRepository_upsert_def Let_def)

lemma issueTokens_result:
  assumes "user_exists uid d" "fresh_login E d"
  shows "let (r, d') = issueTokens E uid ip ua d in
    r = Inr \<lparr>accessToken = signAccessToken E uid (new_session_id E), refreshToken = new_raw_token E,
       csrfToken = new_raw_csrf E, expiresIn = accessTokenExpirySeconds (jwt_access_expiry E)\<rparr> \<and>
    users d' = users d \<and>
    sessions d' = sessions d @ [new_session E uid ip ua] \<and>
    refresh_tokens d' = refresh_tokens d @
      [new_refresh_token E (new_session_id E) (sha256 E (new_raw_token E)) (new_family_id E)]"
proof -
  let ?d1 = "d\<lparr>sessions := sessions d @ [new_session E uid ip ua],
     log_lines := log_lines d @ [(INFO, SESSION_CREATED)]\<rparr>"
  let ?d2 = "?d1\<lparr>refresh_tokens := refresh_tokens d @
     [new_refresh_token E (new_session_id E) (sha256 E (new_raw_token E)) (new_family_id E)]\<rparr>"
  have id: "s_id (new_session E uid ip ua) = new_session_id E" by (simp add: new_session_def)
  have here: "session_exists (new_session_id E) ?d1" "session_exists (new_session_id E) ?d2"
    by (auto simp: session_exists_iff id)
  have 1: "SessionsService_createSession E uid ip ua d = (Inr (new_session E uid ip ua), ?d1)"
    using assms by (auto simp: SessionsService_createSession_def SessionRepository_create_def op_simps Let_def
        fresh_login_def session_exists_image)
  have 2: "RefreshTokenRepository_create E (new_session_id E) (sha256 E (new_raw_token E)) (new_family_id E) ?d1 =
      (Inr (new_refresh_token E (new_session_id E) (sha256 E (new_raw_token E)) (new_family_id E)), ?d2)"
    using assms here by (simp add: RefreshTokenRepository_create_def Let_def fresh_login_def list_ex_keys)
  obtain d3 where 3: "CsrfTokenRepository_upsert E (new_session_id E) ?d2 = (Inr (new_raw_csrf E), d3)"
    "users d3 = users ?d2" "sessions d3 = sessions ?d2" "refresh_tokens d3 = refresh_tokens ?d2"
    using upsert_result [OF here(2), of E] by (metis prod.collapse)
  show ?thesis
    by (simp add: issueTokens_def SessionsService_issueTokenSet_def bnd_apply andthen_apply 1 2 3 id
        log_line_apply ret_apply Let_def)
qed

lemma user_exists_update:
  "(\<And>u. u_id (f u) = u_id u) \<Longrightarrow> user_exists i (d\<lparr>users := update_where p f (users d)\<rparr>) = user_exists i d"
  by (simp add: user_exists_image image_update_where)

lemma login_succeeds:
  assumes "find_user (dto_email dto) d = Some u" "argon2_verify E (u_password_hash u) (dto_password dto) = Inr b"
    and "may_login E u b" and fresh: "fresh_login E d"
  shows "let (r, d') = AuthService_login E dto ip ua d in
    r = Inr (login_tokens E u) \<and>
    users d' = update_where (\<lambda>r. u_id r = u_id u) (clear_failed_attempts E) (users d) \<and>
    sessions d' = sessions d @ [new_session E (u_id u) ip ua] \<and>
    refresh_tokens d' = refresh_tokens d @
      [new_refresh_token E (new_session_id E) (sha256 E (new_raw_token E)) (new_family_id E)]"
proof -
  let ?d0 = "d\<lparr>users := update_where (\<lambda>r. u_id r = u_id u) (clear_failed_attempts E) (users d),
     log_lines := log_lines d @ [(INFO, LOGIN_ATTEMPT), (INFO, ACCOUNT_LOCK_CLEARED)]\<rparr>"
  have "user_exists (u_id u) ?d0"
    using find_SomeD [OF assms(1)] by (simp add: user_exists_image image_update_where)
  moreover have "fresh_login E ?d0" using fresh by (simp add: fresh_login_def)
  ultimately have issued: "let (r, d') = issueTokens E (u_id u) ip ua ?d0 in r = Inr (login_tokens E u) \<and>
      users d' = users ?d0 \<and> sessions d' = sessions d @ [new_session E (u_id u) ip ua] \<and>
      refresh_tokens d' = refresh_tokens d @
        [new_refresh_token E (new_session_id E) (sha256 E (new_raw_token E)) (new_family_id E)]"
    using issueTokens_result [of "u_id u" ?d0 E ip ua] by (simp add: login_tokens_def)
  have start: "andthen (log_line INFO LOGIN_ATTEMPT) (andthen (UsersService_resetFailedAttempts E (u_id u)) m) d = m ?d0"
    for m
    by (simp add: andthen_apply log_line_apply UsersService_resetFailedAttempts_def
        UserRepository_resetFailedAttempts_def modify_apply)
  show ?thesis
    unfolding login_passes [OF assms(1-3)] start
    using issued by (auto simp: bnd_apply andthen_apply log_line_apply ret_apply split: prod.splits)
qed




text \<open>
  C16. A login. Whatever is wrong (no such address, wrong password, inactive or locked
  account) the answer is the same \<open>Invalid email or password\<close>, no session and no token is
  created, and the failure is counted only for a wrong password on an active, unlocked account.
  Otherwise it answers with an access token for the user's new session and clears the
  failure count. (The verification itself must not raise an error, and the random values
  of the call must be new.)
\<close>

theorem login_outcome:
  assumes verify: "argon2_verify E (stored_hash (find_user (dto_email dto) d)) (dto_password dto) = Inr b"
    and fresh: "fresh_login E d"
  shows "let (r, d') = AuthService_login E dto ip ua d; user = find_user (dto_email dto) d;
      untouched = (r = invalid_credentials \<and> sessions d' = sessions d \<and> refresh_tokens d' = refresh_tokens d)
    in case user of
      None \<Rightarrow> untouched \<and> users d' = users d
    | Some u \<Rightarrow>
        if \<not> may_login E u b then untouched \<and> users d' =
          (if counts_failure E u b then update_where (\<lambda>r. u_id r = u_id u) (bump_failed_attempts E) (users d)
           else users d)
        else r = Inr (login_tokens E u) \<and>
          users d' = update_where (\<lambda>r. u_id r = u_id u) (clear_failed_attempts E) (users d) \<and>
          sessions d' = sessions d @ [new_session E (u_id u) ip ua] \<and>
          refresh_tokens d' = refresh_tokens d @
            [new_refresh_token E (new_session_id E) (sha256 E (new_raw_token E)) (new_family_id E)]"
proof (cases "find_user (dto_email dto) d")
  case None
  with verify have "argon2_verify E DUMMY_HASH (dto_password dto) = Inr b" by (simp add: stored_hash_def)
  from login_unknown [OF None this] None show ?thesis by (simp add: case_prod_beta Let_def)
next
  case (Some u)
  with verify have v: "argon2_verify E (u_password_hash u) (dto_password dto) = Inr b" by (simp add: stored_hash_def)
  show ?thesis
  proof (cases "may_login E u b")
    case True
    from login_succeeds [OF Some v True fresh] Some True show ?thesis by (simp add: case_prod_beta Let_def)
  next
    case False
    from login_refused [OF Some v False] Some False show ?thesis by (simp add: case_prod_beta Let_def)
  qed
qed

subsection \<open>Lockout\<close>

text \<open>What a wrong password does to the account's row.\<close>

definition failed_login :: "'e auth_env_scheme \<Rightarrow> user_row \<Rightarrow> user_row" where
  "failed_login E u = (if UsersService_isLocked E u then u else bump_failed_attempts E u)"



lemma failed_login_keys [simp]:
  "u_password_hash (failed_login E u) = u_password_hash u" "u_is_active (failed_login E u) = u_is_active u"
  by (simp_all add: failed_login_def)





text \<open>Requests that touch no user, and what registration does to the users.\<close>

lemma users_same_parts:
  "moves (same users) (log_line l e)" "moves (same users) (SessionRepository_revoke sid)"
  "moves (same users) (SessionRepository_revokeAllForUser uid)"
  "moves (same users) (SessionsService_findActiveSession G sid)"
  "moves (same users) (CsrfTokenRepository_upsert E sid)"
  "moves (same users) (CsrfTokenRepository_isValid E sid raw)"
  "moves (same users) (UsersService_findByEmail em)"
  by (simp_all add: moves_def same_def op_simps SessionRepository_revoke_def SessionRepository_revokeAllForUser_def
      CsrfTokenRepository_upsert_def CsrfTokenRepository_isValid_def SessionRepository_findActiveById_def
      service_defs Let_def)

lemma users_same_rotate: "moves (same users) (RefreshTokenRepository_rotate E raw)"
proof (rule movesI)
  fix d :: "'a db_scheme"
  show "same users d (snd (RefreshTokenRepository_rotate E raw d))"
    by (cases rule: rotate_cases [of E raw d]) (simp_all add: same_def)
qed

lemma users_same_requests:
  "moves (same users) (AuthController_refresh E cookie body)" "moves (same users) (AuthService_logout sid)"
  "moves (same users) (AuthService_logoutAll uid)" "moves (same users) (JwtAuthGuard_canActivate G req)"
  "moves (same users) (CsrfGuard_canActivate E req)" "moves (same users) (register_check A dto)"
  unfolding service_defs AuthController_refresh_def AuthService_refresh_def AuthService_logout_def
    AuthService_logoutAll_def JwtAuthGuard_canActivate_def JwtStrategy_validate_def CsrfGuard_canActivate_def
    register_check_def
  by (auto intro!: same_view.moves_rules users_same_parts [unfolded service_defs] users_same_rotate
      split: prod.splits exn.splits option.splits)

lemmas users_unchanged = users_same_requests [THEN movesD, unfolded same_def]

lemma register_create_users:
  "users (snd (register_create E dto d)) =
     (if list_ex (\<lambda>u. u_id u = new_user_id E \<or> u_email u = dto_email dto) (users d) then users d
      else users d @ [new_user E (new_user_id E) (dto_email dto) (argon2_hash E (dto_password dto))])"
  "fst (register_create E dto d) = Inr Msg_REGISTER_SUCCESS"
  by (simp_all add: register_create_def op_simps UsersService_create_apply)

lemma register_check_result:
  "fst (register_check E dto d) = (case zxcvbn E (dto_password dto) [dto_email dto] of (score, suggestions) \<Rightarrow>
     if score < MINIMUM_PASSWORD_SCORE
     then Inl (BadRequestException (case suggestions of [] \<Rightarrow> Msg_PASSWORD_TOO_WEAK | s # _ \<Rightarrow> s))
     else Inr (find_user (dto_email dto) d = None))"
  by (auto simp: register_check_def op_simps split: prod.splits)

lemma register_result:
  "fst (AuthService_register E dto d) = (case fst (register_check E dto d) of
     Inl e \<Rightarrow> Inl e | Inr _ \<Rightarrow> Inr Msg_REGISTER_SUCCESS)"
  by (auto simp: AuthService_register_def op_simps register_create_users split: prod.splits sum.splits)

lemma register_users:
  "users (snd (AuthService_register E dto d)) =
     (if fst (register_check E dto d) = Inr True then users (snd (register_create E dto d)) else users d)"
proof -
  have "users (snd (register_check E dto d)) = users d" by (rule users_unchanged(6))
  then show ?thesis
    by (cases "register_check E dto d") (auto simp: AuthService_register_def op_simps register_create_users
      split: prod.splits sum.splits)
qed

lemma register_frames:
  "sessions (snd (AuthService_register E dto d)) = sessions d"
  "refresh_tokens (snd (AuthService_register E dto d)) = refresh_tokens d"
  by (simp_all add: AuthService_register_def register_check_def register_create_def op_simps
      UsersService_create_apply split: prod.splits)

lemma create_keeps_found:
  "find_user em d = Some u \<Longrightarrow> find_user em (snd (register_create E dto d)) = Some u"
  by (simp add: register_create_users find_append)




subsection \<open>Registration\<close>

text \<open>
  C18. Registration does not tell whether an address is taken: the answer is a function of
  the password's strength alone, the same for every state of the database, also when another
  registration of the same address comes between its look-up and its insertion. A new
  user is stored only for an accepted password and a free address.
\<close>

theorem register_reveals_nothing:
  "(let answer = (case zxcvbn E (dto_password dto) [dto_email dto] of (score, suggestions) \<Rightarrow>
       if score < MINIMUM_PASSWORD_SCORE
       then Inl (BadRequestException (case suggestions of [] \<Rightarrow> Msg_PASSWORD_TOO_WEAK | s # _ \<Rightarrow> s))
       else Inr Msg_REGISTER_SUCCESS)
    in fst (AuthService_register E dto d) = answer \<and>
       (case fst (register_check E dto d) of
          Inl e \<Rightarrow> answer = Inl e
        | Inr absent \<Rightarrow> answer = Inr Msg_REGISTER_SUCCESS \<and>
            fst (register_create E dto d') = Inr Msg_REGISTER_SUCCESS)) \<and>
   (users (snd (AuthService_register E dto d)) = users d \<or>
    find_user (dto_email dto) d = None \<and>
    users (snd (AuthService_register E dto d)) =
      users d @ [new_user E (new_user_id E) (dto_email dto) (argon2_hash E (dto_password dto))])"
  by (auto simp: register_result register_check_result register_users register_create_users Let_def
      split: prod.splits if_splits)

text \<open>
  One account per address. In every run of the service from an empty database, with
  registrations interleaved in any way, no two users have the same e-mail address or id.
\<close>

theorem one_account_per_email:
  "distinct (map u_email (users (run auth_step es empty_db))) \<and> distinct (map u_id (users (run auth_step es empty_db)))"
proof -
  have "auth_ok (empty_db :: db)" by (simp add: auth_ok_def users_ok_def empty_db_def)
  from run_auth_ok [OF this, of es] show ?thesis by (simp add: auth_ok_def users_ok_def)
qed

text \<open>
  From registration to a first refresh. After registering with an accepted password
  and a free address, a login with the same password returns tokens, and the refresh token
  it returns can be exchanged within seven days.
\<close>

theorem register_login_refresh:
  assumes ok: "auth_ok d" and free: "find_user (dto_email dto) d = None" "new_user_id R \<notin> u_id ` set (users d)"
    and strong: "\<not> fst (zxcvbn R (dto_password dto) [dto_email dto]) < MINIMUM_PASSWORD_SCORE"
    and verify: "argon2_verify L (argon2_hash R (dto_password dto)) (dto_password dto) = Inr True"
    and freshL: "fresh_login L d"
    and freshF: "new_rt_id F \<notin> rt_id ` set (refresh_tokens d) \<union> {new_rt_id L}"
      "sha256 F (new_raw_token F) \<notin> rt_token_hash ` set (refresh_tokens d) \<union> {sha256 L (new_raw_token L)}"
    and same_hash: "sha256 F (new_raw_token L) = sha256 L (new_raw_token L)"
    and within: "js_now F \<le> db_now L + days 7" "db_now F < db_now L + days 7"
  shows "let d1 = snd (AuthService_register R dto d); (r, d2) = AuthService_login L dto ip ua d1
    in (\<exists>tokens. r = Inr tokens \<and> succeeds (AuthService_refresh F (refreshToken tokens) d2))"
proof -
  let ?u = "new_user R (new_user_id R) (dto_email dto) (argon2_hash R (dto_password dto))"
  let ?d1 = "snd (AuthService_register R dto d)"
  have not_there: "\<not> list_ex (\<lambda>u. u_id u = new_user_id R \<or> u_email u = dto_email dto) (users d)"
    using free by (auto simp: list_ex_keys find_None_iff)
  have users1: "users ?d1 = users d @ [?u]"
    using strong free(1) not_there
    by (auto simp: register_users register_check_result register_create_users split: prod.splits)
  have other1: "sessions ?d1 = sessions d" "refresh_tokens ?d1 = refresh_tokens d"
    by (simp_all add: register_frames)
  have ok1: "auth_ok ?d1" using movesD [OF kept_auth(2), of d R dto] ok by (simp add: auth_ok_kept_def)
  have found: "find_user (dto_email dto) ?d1 = Some ?u"
    using free(1) by (simp add: users1 find_append new_user_def)
  have may: "may_login L ?u True"
    by (simp add: may_login_def new_user_def UsersService_isLocked_def)
  have fresh1: "fresh_login L ?d1" using freshL by (simp add: fresh_login_def other1)
  have v: "argon2_verify L (u_password_hash ?u) (dto_password dto) = Inr True"
    using verify by (simp add: new_user_def)
  let ?d2 = "snd (AuthService_login L dto ip ua ?d1)"
  let ?t = "new_refresh_token L (new_session_id L) (sha256 L (new_raw_token L)) (new_family_id L)"
  let ?s = "new_session L (u_id ?u) ip ua"
  from login_succeeds [OF found v may fresh1, of ip ua]
  have login: "fst (AuthService_login L dto ip ua ?d1) = Inr (login_tokens L ?u)"
    "sessions ?d2 = sessions d @ [?s]" "refresh_tokens ?d2 = refresh_tokens d @ [?t]"
    by (simp_all add: case_prod_beta Let_def other1)
  have ok2: "auth_ok ?d2" using movesD [OF kept_auth(3), of ?d1 L dto ip ua] ok1 by (simp add: auth_ok_kept_def)
  have "refreshable F (new_raw_token L) ?d2 ?t ?s"
    using within same_hash
    by (simp add: refreshable_def login new_refresh_token_def new_session_def session_active_def)
  moreover have "new_rt_id F \<notin> rt_id ` set (refresh_tokens ?d2)"
    "sha256 F (new_raw_token F) \<notin> rt_token_hash ` set (refresh_tokens ?d2)"
    using freshF by (simp_all add: login new_refresh_token_def)
  ultimately have "fst (AuthService_refresh F (new_raw_token L) ?d2) = Inr (refreshed_tokens F ?s)"
    using refreshable_refreshes [OF ok2] by blast
  then show ?thesis
    using login(1) by (simp add: case_prod_beta Let_def login_tokens_def succeeds_def)
qed

end
