(* ===== verification/AuthGuards.thy ===== *)
theory AuthGuards
  imports AuthLogin
begin

text \<open>
  The CSRF token a session was last given, the guard that asks for it, and the access
  token's lifetime.
\<close>

subsection \<open>CSRF tokens\<close>

lemma isValid_after_upsert:
  assumes "session_exists sid d"
  shows "CsrfTokenRepository_isValid F sid tok (snd (CsrfTokenRepository_upsert E sid d)) =
    (Inr (sha256 F tok = sha256 E (new_raw_csrf E) \<and> db_now F < db_now E + days 1),
     snd (CsrfTokenRepository_upsert E sid d))"
proof (cases "list_ex (\<lambda>r. csrf_session_id r = sid) (csrf_tokens d)")
  case True
  have only: "(\<exists>r \<in> set (csrf_tokens d). (csrf_session_id r = sid \<longrightarrow> c) \<and> csrf_session_id r = sid) \<longleftrightarrow> c" for c
    using True by (auto simp: list_ex_iff)
  then show ?thesis
    using assms True
    by (simp add: CsrfTokenRepository_isValid_def CsrfTokenRepository_upsert_def gets_apply Let_def
        list_ex_update_where only eq_commute [of "sha256 F tok"])
next
  case False
  then show ?thesis
    using assms by (auto simp: CsrfTokenRepository_isValid_def CsrfTokenRepository_upsert_def gets_apply Let_def list_ex_iff)
qed

text \<open>
  C19. The CSRF token of a session. Once a token has been issued for a session, a guarded
  request of it with an unsafe method passes exactly with that token (or one with the same
  hash) and within twenty-four hours: the one before it no longer passes, and a missing or
  empty header never does. A request with a safe method passes without a token. Tokens of
  other sessions are not affected.
\<close>

theorem csrf_token_of_session:
  assumes s: "session_exists sid d" "sid \<noteq> ''''"
    and req: "\<not> req_isPublic req" "req_user req = Some user" "jwt_sid user = sid"
  shows "let d' = snd (CsrfTokenRepository_upsert E sid d) in
    (succeeds (CsrfGuard_canActivate F req d') \<longleftrightarrow>
       toUpperCase (req_method req) \<notin> {''POST'', ''PUT'', ''PATCH'', ''DELETE''} \<or>
       (\<exists>tok. req_csrf_header req = Some tok \<and> tok \<noteq> '''' \<and>
          sha256 F tok = sha256 E (new_raw_csrf E) \<and> db_now F < db_now E + days 1)) \<and>
    (\<forall>other tok. other \<noteq> sid \<longrightarrow>
       fst (CsrfTokenRepository_isValid F other tok d') = fst (CsrfTokenRepository_isValid F other tok d))"
proof -
  let ?d = "snd (CsrfTokenRepository_upsert E sid d)"
  have unsafe: "set UnsafeHttpMethod = {''POST'', ''PUT'', ''PATCH'', ''DELETE''}"
    by (simp add: UnsafeHttpMethod_def)
  have pass: "succeeds (CsrfGuard_canActivate F req ?d) \<longleftrightarrow>
       toUpperCase (req_method req) \<notin> {''POST'', ''PUT'', ''PATCH'', ''DELETE''} \<or>
       (\<exists>tok. req_csrf_header req = Some tok \<and> tok \<noteq> '''' \<and>
          sha256 F tok = sha256 E (new_raw_csrf E) \<and> db_now F < db_now E + days 1)"
  proof (cases "toUpperCase (req_method req) \<in> {''POST'', ''PUT'', ''PATCH'', ''DELETE''}")
    case True
    then show ?thesis
      using req s(2) isValid_after_upsert [OF s(1), of F _ E]
      by (simp add: CsrfGuard_canActivate_def unsafe op_simps bnd_apply split: option.splits)
  next
    case False
    then show ?thesis using req(1) by (simp add: CsrfGuard_canActivate_def unsafe ret_apply)
  qed
  have "list_ex (\<lambda>r. csrf_session_id r = other \<and> P r) (csrf_tokens ?d) =
      list_ex (\<lambda>r. csrf_session_id r = other \<and> P r) (csrf_tokens d)" if "other \<noteq> sid" for other P
    using that s(1) by (simp add: CsrfTokenRepository_upsert_def Let_def list_ex_update_where) (auto simp: list_ex_iff)
  with pass show ?thesis by (simp add: CsrfTokenRepository_isValid_def gets_apply)
qed

subsection \<open>The access token's lifetime\<close>

text \<open>
  The reported lifetime of an access token. For a setting of a decimal number and a
  unit it is that number of minutes, hours or days in seconds, and for every other
  setting (seconds included) it is 900.
\<close>

theorem access_expiry_units:
  "accessTokenExpirySeconds (Some (decimal n @ ''m'')) = 60 * n \<and>
   accessTokenExpirySeconds (Some (decimal n @ ''h'')) = 3600 * n \<and>
   accessTokenExpirySeconds (Some (decimal n @ ''d'')) = 86400 * n \<and>
   accessTokenExpirySeconds (Some (decimal n @ ''s'')) = 900 \<and>
   accessTokenExpirySeconds None = 900 \<and>
   (accessTokenExpirySeconds (Some s) \<noteq> 900 \<longrightarrow>
      (\<exists>ds u. s = ds @ [u] \<and> ds \<noteq> '''' \<and> list_all is_digit ds \<and> u \<in> {CHR ''m'', CHR ''h'', CHR ''d''}))"
proof -
  have digits: "list_all is_digit (decimal n)" by (simp add: list_all_iff decimal_digits)
  have "s = ds @ [u] \<and> ds \<noteq> '''' \<and> list_all is_digit ds \<and> u \<in> {CHR ''m'', CHR ''h'', CHR ''d''}"
    if "match_expiry s = Some (ds, u)" for ds u
    using that by (auto simp: match_expiry_def split: if_splits) (metis append_butlast_last_id)+
  then have "accessTokenExpirySeconds (Some s) \<noteq> 900 \<longrightarrow>
      (\<exists>ds u. s = ds @ [u] \<and> ds \<noteq> '''' \<and> list_all is_digit ds \<and> u \<in> {CHR ''m'', CHR ''h'', CHR ''d''})"
    by (fastforce simp: accessTokenExpirySeconds_def split: option.splits)
  moreover have "accessTokenExpirySeconds None = 900" by code_simp
  ultimately show ?thesis
    using digits by (simp add: accessTokenExpirySeconds_def match_expiry_def Let_def)
qed

end
