(* ===== verification/AuthLoginExamples.thy ===== *)
theory AuthLoginExamples
  imports AuthGuards
begin

text \<open>
  Concrete runs for the login, lockout, registration and CSRF properties: the user of
  \<open>AuthExamples\<close>, five wrong passwords, and the first refresh.
\<close>

theorem login_outcome_witness:
  "fst (AuthService_login (example_env 1000 ''1'') example_dto ''ip'' ''ua'' example_registered) =
     Inr (login_tokens (example_env 1000 ''1'') (hd (users example_registered))) \<and>
   fst (AuthService_login (example_env 1000 ''1'') wrong_dto ''ip'' ''ua'' example_registered) = invalid_credentials \<and>
   map u_failed_attempts (users (snd (AuthService_login (example_env 1000 ''1'') wrong_dto ''ip'' ''ua'' example_registered))) = [1]"
proof -
  let ?E = "example_env 1000 ''1''" and ?d = example_registered
  have fresh: "fresh_login ?E ?d" by code_simp
  have v: "argon2_verify ?E (stored_hash (find_user (dto_email example_dto) ?d)) (dto_password example_dto) = Inr True"
    "argon2_verify ?E (stored_hash (find_user (dto_email wrong_dto) ?d)) (dto_password wrong_dto) = Inr False"
    by code_simp+
  have f: "find_user (dto_email example_dto) ?d = Some (hd (users ?d))"
    "find_user (dto_email wrong_dto) ?d = Some (hd (users ?d))"
    "may_login ?E (hd (users ?d)) True" "\<not> may_login ?E (hd (users ?d)) False"
    by code_simp+
  have "map u_failed_attempts (users (snd (AuthService_login ?E wrong_dto ''ip'' ''ua'' ?d))) = [1]" by code_simp
  with login_outcome [OF v(1) fresh, of "''ip''" "''ua''"] login_outcome [OF v(2) fresh, of "''ip''" "''ua''"]
  show ?thesis by (simp add: f case_prod_beta Let_def)
qed



theorem register_login_refresh_witness:
  "let d1 = snd (AuthService_register (example_env 0 ''0'') example_dto empty_db);
       (r, d2) = AuthService_login (example_env 1000 ''1'') example_dto ''ip'' ''ua'' d1
   in (\<exists>tokens. r = Inr tokens \<and> succeeds (AuthService_refresh (example_env 2000 ''2'') (refreshToken tokens) d2))"
  by (rule register_login_refresh; code_simp)

theorem csrf_token_of_session_witness:
  "succeeds (CsrfGuard_canActivate (example_env 3000 ''4'')
     \<lparr>req_isPublic = False, req_method = ''post'', req_csrf_header = Some ''c3'',
      req_user = Some \<lparr>jwt_sub = ''u0'', jwt_sid = ''s1''\<rparr>, req_bearer = None\<rparr>
     (snd (CsrfTokenRepository_upsert (example_env 2500 ''3'') ''s1'' example_logged_in)))"
proof -
  let ?user = "\<lparr>jwt_sub = ''u0'', jwt_sid = ''s1''\<rparr>"
  let ?req = "\<lparr>req_isPublic = False, req_method = ''post'', req_csrf_header = Some ''c3'',
      req_user = Some ?user, req_bearer = None\<rparr>"
  have pre: "session_exists ''s1'' example_logged_in" "''s1'' \<noteq> ''''" "\<not> req_isPublic ?req"
    "req_user ?req = Some ?user" "jwt_sid ?user = ''s1''"
    by code_simp+
  have "sha256 (example_env 3000 ''4'') ''c3'' = sha256 (example_env 2500 ''3'') (new_raw_csrf (example_env 2500 ''3''))"
    "db_now (example_env 3000 ''4'') < db_now (example_env 2500 ''3'') + days 1"
    by code_simp+
  then show ?thesis
    using csrf_token_of_session [OF pre, of "example_env 2500 ''3''" "example_env 3000 ''4''"]
    by (simp add: Let_def)
qed

theorem access_expiry_units_witness:
  "accessTokenExpirySeconds (Some ''12h'') = 43200 \<and>
   (\<exists>ds u. ''12h'' = ds @ [u] \<and> list_all is_digit ds)"
proof -
  have "decimal 12 = ''12''" by code_simp
  with access_expiry_units [of 12 "''12h''"] have v: "accessTokenExpirySeconds (Some ''12h'') = 43200" by simp
  then have "accessTokenExpirySeconds (Some ''12h'') \<noteq> 900" by simp
  with access_expiry_units [of 12 "''12h''"] v show ?thesis by iprover
qed

end
