(* ===== verification/Calls.thy ===== *)
theory Calls
  imports JsLib AuditTrail Tables
begin

text \<open>
  \<open>src/calls\<close>: the repository of call sessions and participants, and the service the
  gateway and the REST controller use. Rows are the records the queries return;
  \<open>duration_seconds\<close>, a generated column, is a function of the row.
\<close>

record comms_env = env +
  new_call_id :: string
  new_room_id :: string
  new_participant_id :: "ParticipantRole \<Rightarrow> string"

subsection \<open>Call sessions\<close>

text \<open>\<open>EXTRACT(EPOCH FROM (ended_at - answered_at))::INTEGER\<close>, which rounds.\<close>

definition round_seconds :: "time \<Rightarrow> int" where
  "round_seconds ms = sgn ms * ((\<bar>ms\<bar> + 500) div 1000)"

definition durationSeconds :: "call_session_row \<Rightarrow> int option" where
  "durationSeconds r = (case (cs_answered_at r, cs_ended_at r) of
     (Some a, Some e) \<Rightarrow> Some (round_seconds (e - a)) | _ \<Rightarrow> None)"

definition new_call_session ::
    "'e comms_env_scheme \<Rightarrow> string option \<Rightarrow> CallType \<Rightarrow> bool \<Rightarrow> string option \<Rightarrow> call_session_row" where
  "new_call_session E initiator callType isAnonymous roomId =
     \<lparr>cs_id = new_call_id E, cs_initiator_id = initiator, cs_call_type = callType,
      cs_status = Initiated, cs_is_anonymous = isAnonymous, cs_room_id = roomId,
      cs_started_at = db_now E, cs_answered_at = None, cs_ended_at = None\<rparr>"

definition insert_call_session ::
    "'e comms_env_scheme \<Rightarrow> string option \<Rightarrow> CallType \<Rightarrow> bool \<Rightarrow> string option \<Rightarrow>
     ('z db_scheme, call_session_row) op" where
  "insert_call_session E initiator callType isAnonymous roomId d =
     (if call_exists (new_call_id E) d then raise (PgError UNIQUE_VIOLATION) d
      else if \<not> user_ref_ok initiator d then raise (PgError FK_VIOLATION) d
      else (let row = new_call_session E initiator callType isAnonymous roomId
            in (Inr row, d\<lparr>call_sessions := call_sessions d @ [row]\<rparr>)))"

definition CallsRepository_createSession ::
    "'e comms_env_scheme \<Rightarrow> string option \<Rightarrow> CallType \<Rightarrow> bool \<Rightarrow> string option \<Rightarrow>
     ('z db_scheme, call_session_row) op" where
  "CallsRepository_createSession E initiatorId callType isAnonymous roomId =
     with_uuid_or_null E initiatorId (\<lambda>initiator. insert_call_session E initiator callType isAnonymous roomId)"

text \<open>The \<open>SET\<close> list that \<open>updateStatus\<close> assembles from its optional arguments.\<close>

definition set_status ::
    "'e env_scheme \<Rightarrow> CallStatus \<Rightarrow> bool \<Rightarrow> bool \<Rightarrow> string option \<Rightarrow> call_session_row \<Rightarrow> call_session_row" where
  "set_status E status answeredAt endedAt roomId r =
     r\<lparr>cs_status := status,
       cs_answered_at := if answeredAt then Some (db_now E) else cs_answered_at r,
       cs_ended_at := if endedAt then Some (db_now E) else cs_ended_at r,
       cs_room_id := if truthy roomId then roomId else cs_room_id r\<rparr>"

definition CallsRepository_updateStatus ::
    "'e env_scheme \<Rightarrow> string \<Rightarrow> CallStatus \<Rightarrow> bool \<Rightarrow> bool \<Rightarrow> string option \<Rightarrow> ('z db_scheme, unit) op" where
  "CallsRepository_updateStatus E callId status answeredAt endedAt roomId =
     with_uuid E callId (\<lambda>i. modify (\<lambda>d. d\<lparr>call_sessions :=
       update_where (\<lambda>r. cs_id r = i) (set_status E status answeredAt endedAt roomId) (call_sessions d)\<rparr>))"

definition CallsRepository_findById ::
    "'e env_scheme \<Rightarrow> string \<Rightarrow> ('z db_scheme, call_session_row option) op" where
  "CallsRepository_findById E callId =
     with_uuid E callId (\<lambda>i. gets (\<lambda>d. find (\<lambda>r. cs_id r = i) (call_sessions d)))"

text \<open>
  \<open>call_sessions JOIN call_participants\<close> on the user's participations: a session once per
  participation.
\<close>

definition history_join :: "string \<Rightarrow> 'z db_scheme \<Rightarrow> call_session_row list" where
  "history_join u d = concat (map (\<lambda>cs. map (\<lambda>_. cs)
     (filter (\<lambda>cp. cp_call_session_id cp = cs_id cs \<and> cp_user_id cp = Some u) (call_participants d)))
     (call_sessions d))"

definition CallsRepository_findHistory ::
    "'e env_scheme \<Rightarrow> string \<Rightarrow> int \<Rightarrow> int \<Rightarrow> ('z db_scheme, call_session_row list) op" where
  "CallsRepository_findHistory E userId limit offset =
     with_uuid E userId (\<lambda>u. bnd (gets (\<lambda>d. order_by_desc cs_started_at (history_join u d)))
       (page limit offset))"

subsection \<open>Participants\<close>

definition new_participant ::
    "'e comms_env_scheme \<Rightarrow> string \<Rightarrow> string option \<Rightarrow> string option \<Rightarrow> ParticipantRole \<Rightarrow> bool \<Rightarrow>
     call_participant_row" where
  "new_participant E callId userId anonymousId role camera =
     \<lparr>cp_id = new_participant_id E role, cp_call_session_id = callId, cp_user_id = userId,
      cp_anonymous_id = anonymousId, cp_role = role, cp_joined_at = db_now E, cp_left_at = None,
      cp_mic_enabled = True, cp_camera_enabled = camera\<rparr>"

definition insert_participant ::
    "'e comms_env_scheme \<Rightarrow> string \<Rightarrow> string option \<Rightarrow> string option \<Rightarrow> ParticipantRole \<Rightarrow> bool \<Rightarrow>
     ('z db_scheme, call_participant_row) op" where
  "insert_participant E callId user anonymousId role cameraEnabled d =
     (if new_participant_id E role \<in> cp_id ` set (call_participants d)
      then raise (PgError UNIQUE_VIOLATION) d
      else if \<not> call_exists callId d \<or> \<not> user_ref_ok user d then raise (PgError FK_VIOLATION) d
      else (let row = new_participant E callId user anonymousId role cameraEnabled
            in (Inr row, d\<lparr>call_participants := call_participants d @ [row]\<rparr>)))"

definition CallsRepository_addParticipant ::
    "'e comms_env_scheme \<Rightarrow> string \<Rightarrow> string option \<Rightarrow> string option \<Rightarrow> ParticipantRole \<Rightarrow> bool \<Rightarrow>
     ('z db_scheme, call_participant_row) op" where
  "CallsRepository_addParticipant E callSessionId userId anonymousId role cameraEnabled =
     with_uuid E callSessionId (\<lambda>callId. with_uuid_or_null E userId (\<lambda>user.
       insert_participant E callId user anonymousId role cameraEnabled))"

text \<open>
  The participant a query means: by \<open>anonymous_id\<close> when there is one, else by \<open>user_id\<close>,
  and only while it has not left.
\<close>

definition is_present :: "string \<Rightarrow> string \<Rightarrow> string option \<Rightarrow> call_participant_row \<Rightarrow> bool" where
  "is_present callId userId anonymousId r \<longleftrightarrow>
     cp_call_session_id r = callId \<and> cp_left_at r = None \<and>
     (if truthy anonymousId then cp_anonymous_id r = anonymousId else cp_user_id r = Some userId)"

definition with_participant ::
    "'e env_scheme \<Rightarrow> string \<Rightarrow> string \<Rightarrow> string option \<Rightarrow>
     ((call_participant_row \<Rightarrow> bool) \<Rightarrow> ('z db_scheme, 'a) op) \<Rightarrow> ('z db_scheme, 'a) op" where
  "with_participant E callSessionId userId anonymousId f =
     with_uuid E callSessionId (\<lambda>callId.
       if truthy anonymousId then f (is_present callId userId anonymousId)
       else with_uuid E userId (\<lambda>u. f (is_present callId u anonymousId)))"

definition set_media :: "bool option \<Rightarrow> bool option \<Rightarrow> call_participant_row \<Rightarrow> call_participant_row" where
  "set_media mic camera r =
     r\<lparr>cp_mic_enabled := (case mic of None \<Rightarrow> cp_mic_enabled r | Some b \<Rightarrow> b),
       cp_camera_enabled := (case camera of None \<Rightarrow> cp_camera_enabled r | Some b \<Rightarrow> b)\<rparr>"

definition CallsRepository_updateParticipantMedia ::
    "'e env_scheme \<Rightarrow> string \<Rightarrow> string \<Rightarrow> bool option \<Rightarrow> bool option \<Rightarrow> string option \<Rightarrow>
     ('z db_scheme, unit) op" where
  "CallsRepository_updateParticipantMedia E callSessionId userId mic camera anonymousId =
     (if mic = None \<and> camera = None then ret ()
      else with_participant E callSessionId userId anonymousId (\<lambda>p. modify (\<lambda>d.
        d\<lparr>call_participants := update_where p (set_media mic camera) (call_participants d)\<rparr>)))"

definition set_left :: "'e env_scheme \<Rightarrow> call_participant_row \<Rightarrow> call_participant_row" where
  "set_left E r = r\<lparr>cp_left_at := Some (db_now E)\<rparr>"

definition CallsRepository_markParticipantLeft ::
    "'e env_scheme \<Rightarrow> string \<Rightarrow> string \<Rightarrow> string option \<Rightarrow> ('z db_scheme, unit) op" where
  "CallsRepository_markParticipantLeft E callSessionId userId anonymousId =
     with_participant E callSessionId userId anonymousId (\<lambda>p. modify (\<lambda>d.
       d\<lparr>call_participants := update_where p (set_left E) (call_participants d)\<rparr>))"

definition CallsRepository_getParticipants ::
    "'e env_scheme \<Rightarrow> string \<Rightarrow> ('z db_scheme, call_participant_row list) op" where
  "CallsRepository_getParticipants E callSessionId =
     with_uuid E callSessionId (\<lambda>i. gets (\<lambda>d. filter (\<lambda>r. cp_call_session_id r = i) (call_participants d)))"

subsection \<open>The service\<close>

definition call_audit ::
    "string option \<Rightarrow> AuditEventType \<Rightarrow> (string \<times> json) list \<Rightarrow> string \<Rightarrow> string \<Rightarrow> AuditEntry" where
  "call_audit u ev payload ip ua =
     (audit_entry u ev payload)\<lparr>ae_ipAddress := Some ip, ae_userAgent := Some ua\<rparr>"

definition or_else :: "'a option \<Rightarrow> 'a option \<Rightarrow> 'a option" where
  "or_else x y = (case x of None \<Rightarrow> y | Some _ \<Rightarrow> x)"

definition CallsService_initiateCall ::
    "'e comms_env_scheme \<Rightarrow> string option \<Rightarrow> string option \<Rightarrow> CallType \<Rightarrow> bool \<Rightarrow> string \<Rightarrow> string \<Rightarrow>
     ('z db_scheme, call_session_row) op" where
  "CallsService_initiateCall E initiatorId anonymousId callType isAnonymous ip ua =
     bnd (CallsRepository_createSession E initiatorId callType isAnonymous
            (if callType = Group then Some (new_room_id E) else None)) (\<lambda>session.
     andthen (bnd (CallsRepository_addParticipant E (cs_id session)
            (if isAnonymous then None else initiatorId)
            (if isAnonymous then or_else anonymousId initiatorId else None)
            Host (callType \<noteq> Voice)) (\<lambda>_. ret ()))
    (andthen (AuditService_log E (call_audit initiatorId CALL_INITIATED
            [(''callId'', JStr (cs_id session)), (''callType'', JType callType),
             (''isAnonymous'', JBool isAnonymous)] ip ua))
    (ret session)))"

text \<open>\<open>params.isAnonymous ?? !params.userId\<close>\<close>

definition accept_anonymous :: "bool option \<Rightarrow> string option \<Rightarrow> bool" where
  "accept_anonymous isAnonymous userId =
     (case isAnonymous of Some b \<Rightarrow> b | None \<Rightarrow> \<not> truthy userId)"

definition CallsService_acceptCall ::
    "'e comms_env_scheme \<Rightarrow> string \<Rightarrow> string option \<Rightarrow> string option \<Rightarrow> bool option \<Rightarrow> CallType \<Rightarrow>
     string \<Rightarrow> string \<Rightarrow> ('z db_scheme, call_session_row option) op" where
  "CallsService_acceptCall E callId userId anonymousId isAnonymous callType ip ua =
     bnd (CallsRepository_findById E callId) (\<lambda>session.
     if session = None then raise (NotFoundException ''Call not found'')
     else
     (let anon = accept_anonymous isAnonymous userId in
      andthen (CallsRepository_updateStatus E callId Active True False None)
     (andthen (bnd (CallsRepository_addParticipant E callId
             (if anon then None else userId)
             (if anon then or_else anonymousId userId else None)
             Guest (callType = Video)) (\<lambda>_. ret ()))
     (andthen (AuditService_log E (call_audit (if anon then None else userId) CALL_ACCEPTED
             [(''callId'', JStr callId)] ip ua))
     (CallsRepository_findById E callId)))))"

definition end_event :: "CallStatus \<Rightarrow> AuditEventType" where
  "end_event reason = (case reason of Rejected \<Rightarrow> CALL_REJECTED | Missed \<Rightarrow> CALL_MISSED | _ \<Rightarrow> CALL_ENDED)"

definition CallsService_endCall ::
    "'e env_scheme \<Rightarrow> string \<Rightarrow> string \<Rightarrow> string option \<Rightarrow> CallStatus \<Rightarrow> string \<Rightarrow> string \<Rightarrow>
     ('z db_scheme, unit) op" where
  "CallsService_endCall E callId userId anonymousId reason ip ua =
     andthen (CallsRepository_updateStatus E callId reason False True None)
    (andthen (CallsRepository_markParticipantLeft E callId userId anonymousId)
    (AuditService_log E (call_audit (Some userId) (end_event reason)
       [(''callId'', JStr callId)] ip ua)))"

definition CallsService_toggleCallType ::
    "'e env_scheme \<Rightarrow> string \<Rightarrow> string \<Rightarrow> CallType \<Rightarrow> string \<Rightarrow> string \<Rightarrow> ('z db_scheme, unit) op" where
  "CallsService_toggleCallType E callId userId newType ip ua =
     andthen (CallsRepository_updateStatus E callId Active False False None)
    (AuditService_log E (call_audit (Some userId)
       (if newType = Video then CALL_UPGRADED else CALL_DOWNGRADED)
       [(''callId'', JStr callId), (''newType'', JType newType)] ip ua))"

text \<open>The two audit entries of \<open>toggleMedia\<close>: one per device that was given.\<close>

definition media_entries :: "string \<Rightarrow> string \<Rightarrow> bool option \<Rightarrow> bool option \<Rightarrow> AuditEntry list" where
  "media_entries callId userId mic camera =
     (case mic of None \<Rightarrow> [] | Some b \<Rightarrow>
        [audit_entry (Some userId) MEDIA_MIC_TOGGLED [(''callId'', JStr callId), (''mic'', JBool b)]]) @
     (case camera of None \<Rightarrow> [] | Some b \<Rightarrow>
        [audit_entry (Some userId) MEDIA_CAMERA_TOGGLED [(''callId'', JStr callId), (''camera'', JBool b)]])"

definition CallsService_toggleMedia ::
    "'e env_scheme \<Rightarrow> string \<Rightarrow> string \<Rightarrow> string option \<Rightarrow> bool option \<Rightarrow> bool option \<Rightarrow>
     ('z db_scheme, unit) op" where
  "CallsService_toggleMedia E callId userId anonymousId mic camera =
     andthen (CallsRepository_updateParticipantMedia E callId userId mic camera anonymousId)
       (for_each (media_entries callId userId mic camera) (AuditService_log E))"

definition CallsService_getCallHistory ::
    "'e env_scheme \<Rightarrow> string \<Rightarrow> int \<Rightarrow> int \<Rightarrow> ('z db_scheme, call_session_row list) op" where
  "CallsService_getCallHistory E userId limit offset = CallsRepository_findHistory E userId limit offset"

definition CallsService_getCallById ::
    "'e env_scheme \<Rightarrow> string \<Rightarrow> ('z db_scheme, call_session_row) op" where
  "CallsService_getCallById E callId =
     bnd (CallsRepository_findById E callId) (\<lambda>session. case session of
       None \<Rightarrow> raise (NotFoundException ''Call not found'') | Some s \<Rightarrow> ret s)"

definition CallsService_getParticipants ::
    "'e env_scheme \<Rightarrow> string \<Rightarrow> ('z db_scheme, call_participant_row list) op" where
  "CallsService_getParticipants E callId = CallsRepository_getParticipants E callId"

end
