(* ===== verification/CallHistory.thy ===== *)
theory CallHistory
  imports Calls
begin

text \<open>
  What the calls service does to its tables over time: identities never change, a call
  leaves \<open>initiated\<close> once and for all, times once set stay set, and a participant that has
  left is never written again. Then the invariant of the tables.
\<close>

subsection \<open>How rows change\<close>

definition same_call :: "call_session_row \<Rightarrow> call_session_row \<Rightarrow> bool" where
  "same_call r r' \<longleftrightarrow> cs_id r' = cs_id r \<and> cs_initiator_id r' = cs_initiator_id r \<and>
     cs_call_type r' = cs_call_type r \<and> cs_is_anonymous r' = cs_is_anonymous r \<and>
     cs_started_at r' = cs_started_at r"

definition call_progress :: "call_session_row \<Rightarrow> call_session_row \<Rightarrow> bool" where
  "call_progress r r' \<longleftrightarrow> r' = r \<or>
     same_call r r' \<and> cs_status r' \<noteq> Initiated \<and>
     (cs_answered_at r \<noteq> None \<longrightarrow> cs_answered_at r' \<noteq> None) \<and>
     (cs_ended_at r \<noteq> None \<longrightarrow> cs_ended_at r' \<noteq> None)"

definition same_participant :: "call_participant_row \<Rightarrow> call_participant_row \<Rightarrow> bool" where
  "same_participant r r' \<longleftrightarrow> cp_id r' = cp_id r \<and> cp_call_session_id r' = cp_call_session_id r \<and>
     cp_user_id r' = cp_user_id r \<and> cp_anonymous_id r' = cp_anonymous_id r \<and> cp_role r' = cp_role r \<and>
     cp_joined_at r' = cp_joined_at r"

definition participant_progress :: "call_participant_row \<Rightarrow> call_participant_row \<Rightarrow> bool" where
  "participant_progress r r' \<longleftrightarrow> same_participant r r' \<and> (cp_left_at r \<noteq> None \<longrightarrow> r' = r)"

interpretation call_rows: table call_progress call_sessions
  by unfold_locales (auto simp: call_progress_def same_call_def)

interpretation participant_rows: table participant_progress call_participants
  by unfold_locales (auto simp: participant_progress_def same_participant_def)

definition calls_later :: "'z db_scheme \<Rightarrow> 'z db_scheme \<Rightarrow> bool" where
  "calls_later d d' \<longleftrightarrow> later call_progress call_sessions d d' \<and>
     later participant_progress call_participants d d'"

interpretation call_hist: progress calls_later
  by unfold_locales
    (auto simp: calls_later_def intro: call_rows.later_refl participant_rows.later_refl
      call_rows.later_trans participant_rows.later_trans)

lemma moves_calls_later:
  "moves (later call_progress call_sessions) m \<Longrightarrow> moves (later participant_progress call_participants) m \<Longrightarrow>
   moves calls_later m"
  by (simp add: moves_def calls_later_def)

lemma set_status_progress: "st \<noteq> Initiated \<Longrightarrow> call_progress r (set_status E st a e room r)"
  by (simp add: call_progress_def same_call_def set_status_def)

lemma set_media_progress: "is_present c u a r \<Longrightarrow> participant_progress r (set_media mic cam r)"
  by (simp add: participant_progress_def same_participant_def set_media_def is_present_def)

lemma set_left_progress: "is_present c u a r \<Longrightarrow> participant_progress r (set_left E r)"
  by (simp add: participant_progress_def same_participant_def set_left_def is_present_def)

lemma moves_with_participant:
  "(\<And>s. R s s) \<Longrightarrow> (\<And>i u. moves R (f (is_present i u a))) \<Longrightarrow> moves R (with_participant E c u a f)"
  unfolding with_participant_def by (auto intro!: moves_with_uuid)

lemma calls_later_same:
  "call_sessions d' = call_sessions d \<Longrightarrow> call_participants d' = call_participants d \<Longrightarrow> calls_later d d'"
  by (simp add: calls_later_def call_rows.later_same participant_rows.later_same)

lemma moves_insert_call:
  "moves calls_later (insert_call_session E u ct anon room)"
  "moves calls_later (insert_participant E c u an role cam)"
  by (rule movesI, auto simp: insert_call_session_def insert_participant_def op_simps Let_def calls_later_def
      call_hist.R_refl [unfolded calls_later_def] call_rows.later_insert participant_rows.later_insert
      call_rows.later_same participant_rows.later_same)+

lemma moves_update_call:
  assumes "\<And>r. p r \<Longrightarrow> call_progress r (f r)"
  shows "moves calls_later (modify (\<lambda>d. d\<lparr>call_sessions := update_where p f (call_sessions d)\<rparr>))"
  using assms
  by (intro moves_calls_later call_rows.moves_modify_update [where p = p and f = f]
      participant_rows.moves_modify_same) simp_all

lemma moves_update_participant:
  assumes "\<And>r. p r \<Longrightarrow> participant_progress r (f r)"
  shows "moves calls_later (modify (\<lambda>d. d\<lparr>call_participants := update_where p f (call_participants d)\<rparr>))"
  using assms
  by (intro moves_calls_later participant_rows.moves_modify_update [where p = p and f = f]
      call_rows.moves_modify_same) simp_all

lemma moves_call_repository [op_moves]:
  "moves calls_later (CallsRepository_createSession E u ct anon room)"
  "st \<noteq> Initiated \<Longrightarrow> moves calls_later (CallsRepository_updateStatus F c st a e room)"
  "moves calls_later (CallsRepository_findById F c)"
  "moves calls_later (CallsRepository_addParticipant E c u an role cam)"
  "moves calls_later (CallsRepository_updateParticipantMedia F c uid mic camera an)"
  "moves calls_later (CallsRepository_markParticipantLeft F c uid an)"
  unfolding CallsRepository_createSession_def CallsRepository_updateStatus_def CallsRepository_findById_def
    CallsRepository_addParticipant_def CallsRepository_updateParticipantMedia_def
    CallsRepository_markParticipantLeft_def
  by (auto intro!: moves_with_uuid moves_with_uuid_or_null moves_with_participant call_hist.R_refl
      call_hist.moves_rules moves_insert_call moves_update_call moves_update_participant
      set_status_progress set_media_progress set_left_progress)

lemma moves_audit_calls [op_moves]: "moves calls_later (AuditService_log F e)"
  by (simp add: moves_def AuditService_log_apply calls_later_same)

lemma moves_calls_service [op_moves]:
  "moves calls_later (CallsService_initiateCall E u an ct anon ip ua)"
  "moves calls_later (CallsService_acceptCall E c v an b ct ip ua)"
  "st \<noteq> Initiated \<Longrightarrow> moves calls_later (CallsService_endCall F c w an st ip ua)"
  "moves calls_later (CallsService_toggleCallType F c w ct ip ua)"
  "moves calls_later (CallsService_toggleMedia F c w an mic cam)"
  unfolding CallsService_initiateCall_def CallsService_acceptCall_def CallsService_endCall_def
    CallsService_toggleCallType_def CallsService_toggleMedia_def Let_def
  by (auto intro!: call_hist.moves_rules op_moves)

end
