(* ===== verification/CallInvariant.thy ===== *)
theory CallInvariant
  imports CallHistory
begin

text \<open>
  The invariant of the call tables: keys are unique, references resolve, a status agrees
  with the times, and every call has exactly one host, the participant that
  \<open>initiateCall\<close> inserted with it.
\<close>

subsection \<open>The invariant\<close>

definition call_dates_ok :: "call_session_row \<Rightarrow> bool" where
  "call_dates_ok r \<longleftrightarrow>
     (cs_status r = Initiated \<longrightarrow> cs_answered_at r = None \<and> cs_ended_at r = None) \<and>
     (cs_status r \<in> {Ended, Missed, Rejected} \<longrightarrow> cs_ended_at r \<noteq> None)"

definition calls_ok :: "'z db_scheme \<Rightarrow> bool" where
  "calls_ok d \<longleftrightarrow>
     distinct (map cs_id (call_sessions d)) \<and> distinct (map cp_id (call_participants d)) \<and>
     (\<forall>p \<in> set (call_participants d). call_exists (cp_call_session_id p) d \<and> user_ref_ok (cp_user_id p) d) \<and>
     (\<forall>r \<in> set (call_sessions d). user_ref_ok (cs_initiator_id r) d \<and> call_dates_ok r)"

text \<open>The calls of the hosts, in order, are the calls.\<close>

definition hosts_ok :: "'z db_scheme \<Rightarrow> bool" where
  "hosts_ok d \<longleftrightarrow> map cp_call_session_id (filter (\<lambda>p. cp_role p = Host) (call_participants d)) =
     map cs_id (call_sessions d)"

definition calls_kept :: "'z db_scheme \<Rightarrow> 'z db_scheme \<Rightarrow> bool" where
  "calls_kept d d' \<longleftrightarrow> (calls_ok d \<longrightarrow> calls_ok d') \<and> (hosts_ok d \<longrightarrow> hosts_ok d')"

interpretation calls_inv: progress calls_kept
  by unfold_locales (auto simp: calls_kept_def)

lemma kept_same_tables:
  "call_sessions d' = call_sessions d \<Longrightarrow> call_participants d' = call_participants d \<Longrightarrow>
   users d' = users d \<Longrightarrow> calls_kept d d'"
  unfolding calls_kept_def calls_ok_def hosts_ok_def call_exists_def user_ref_ok_def user_exists_def
  by (simp cong: option.case_cong)

subsection \<open>The operations keep it\<close>

lemma call_exists_update [simp]:
  "(\<And>r. cs_id (f r) = cs_id r) \<Longrightarrow>
   call_exists i (d\<lparr>call_sessions := update_where p f (call_sessions d)\<rparr>) = call_exists i d"
  by (auto simp: call_exists_def list_ex_iff update_where_def)

lemma call_exists_frame [simp]:
  "call_exists i (call_participants_update x d) = call_exists i d"
  "user_ref_ok u (call_participants_update x d) = user_ref_ok u d"
  "user_ref_ok u (call_sessions_update y d) = user_ref_ok u d"
  by (simp_all add: call_exists_def user_ref_ok_def user_exists_def split: option.splits)

lemma user_ref_ok_None [simp]: "user_ref_ok None d"
  by (simp add: user_ref_ok_def)

lemma kept_update_call:
  assumes "\<And>r. cs_id (f r) = cs_id r" "\<And>r. cs_initiator_id (f r) = cs_initiator_id r"
    and "\<And>r. call_dates_ok r \<Longrightarrow> call_dates_ok (f r)"
  shows "moves calls_kept (modify (\<lambda>d. d\<lparr>call_sessions := update_where p f (call_sessions d)\<rparr>))"
proof (rule movesI)
  fix d :: "'z db_scheme"
  show "calls_kept d (snd (modify (\<lambda>d. d\<lparr>call_sessions := update_where p f (call_sessions d)\<rparr>) d))"
    using assms by (auto simp: calls_kept_def calls_ok_def hosts_ok_def op_simps map_update_where in_update_where)
qed

lemma kept_update_participant:
  assumes "\<And>r. same_participant r (f r)"
  shows "moves calls_kept (modify (\<lambda>d. d\<lparr>call_participants := update_where p f (call_participants d)\<rparr>))"
proof (rule movesI)
  fix d :: "'z db_scheme"
  have keys: "cp_id (f r) = cp_id r" "cp_call_session_id (f r) = cp_call_session_id r"
    "cp_user_id (f r) = cp_user_id r" "cp_role (f r) = cp_role r" for r
    using assms [of r] by (simp_all add: same_participant_def)
  have "map cp_call_session_id (filter (\<lambda>p. cp_role p = Host) (update_where p f rows)) =
      map cp_call_session_id (filter (\<lambda>p. cp_role p = Host) rows)" for rows
    by (induction rows) (auto simp: keys)
  then show "calls_kept d (snd (modify (\<lambda>d. d\<lparr>call_participants := update_where p f (call_participants d)\<rparr>) d))"
    using keys by (auto simp: calls_kept_def calls_ok_def hosts_ok_def op_simps map_update_where in_update_where)
qed

lemma kept_insert_guest: "moves calls_kept (insert_participant E c u an Guest cam)"
  by (rule movesI)
    (auto simp: insert_participant_def op_simps Let_def calls_kept_def calls_ok_def hosts_ok_def new_participant_def)

lemma set_status_dates:
  "st \<noteq> Initiated \<Longrightarrow> st = Active \<or> e \<Longrightarrow> call_dates_ok (set_status E st a e room r)"
  by (auto simp: call_dates_ok_def set_status_def)

lemma kept_update_status:
  "st \<noteq> Initiated \<Longrightarrow> st = Active \<or> e \<Longrightarrow> moves calls_kept (CallsRepository_updateStatus F c st a e room)"
  unfolding CallsRepository_updateStatus_def
  by (rule moves_with_uuid [OF calls_inv.R_refl], rule kept_update_call)
    (simp_all add: set_status_dates, simp_all add: set_status_def)

lemma kept_participant_updates:
  "moves calls_kept (CallsRepository_updateParticipantMedia F c uid mic camera an)"
  "moves calls_kept (CallsRepository_markParticipantLeft F c uid an)"
  unfolding CallsRepository_updateParticipantMedia_def CallsRepository_markParticipantLeft_def
  by (auto intro!: moves_with_participant calls_inv.R_refl calls_inv.moves_rules kept_update_participant
      simp: same_participant_def set_media_def set_left_def)

lemma kept_audit: "moves calls_kept (AuditService_log F e)"
  by (simp add: moves_def AuditService_log_apply kept_same_tables)

lemma kept_add_guest: "moves calls_kept (CallsRepository_addParticipant E c u an Guest cam)"
  unfolding CallsRepository_addParticipant_def
  by (auto intro!: moves_with_uuid moves_with_uuid_or_null calls_inv.R_refl kept_insert_guest)

lemma kept_find_call: "moves calls_kept (CallsRepository_findById F c)"
  unfolding CallsRepository_findById_def
  by (auto intro!: moves_with_uuid calls_inv.moves_rules calls_inv.R_refl)

lemma kept_calls_service:
  "moves calls_kept (CallsService_acceptCall E c v an b ct ip ua)"
  "st \<in> {Ended, Missed, Rejected} \<Longrightarrow> moves calls_kept (CallsService_endCall F c w an st ip ua)"
  "moves calls_kept (CallsService_toggleCallType F c w ct ip ua)"
  "moves calls_kept (CallsService_toggleMedia F c w an mic cam)"
  unfolding CallsService_acceptCall_def CallsService_endCall_def CallsService_toggleCallType_def
    CallsService_toggleMedia_def Let_def
  by (auto intro!: calls_inv.moves_rules kept_update_status kept_participant_updates kept_audit kept_add_guest
      kept_find_call)

subsection \<open>Initiating a call\<close>

text \<open>
  What the generated ids have to be: in the spelling the database gives them, and not in use.
\<close>

definition fresh_call_ids :: "'e comms_env_scheme \<Rightarrow> 'z db_scheme \<Rightarrow> bool" where
  "fresh_call_ids E d \<longleftrightarrow> uuid_of E (new_call_id E) = Some (new_call_id E) \<and>
     \<not> call_exists (new_call_id E) d \<and> new_participant_id E Host \<notin> cp_id ` set (call_participants d)"

text \<open>The initiator as the database reads it: \<open>null\<close>, a user, or no user.\<close>

fun initiator_ref :: "'e env_scheme \<Rightarrow> string option \<Rightarrow> 'z db_scheme \<Rightarrow> (exn + string option)" where
  "initiator_ref E None d = Inr None"
| "initiator_ref E (Some t) d = (case uuid_of E t of
     None \<Rightarrow> Inl (PgError INVALID_TEXT_REPRESENTATION)
   | Some i \<Rightarrow> if user_exists i d then Inr (Some i) else Inl (PgError FK_VIOLATION))"

definition initiated :: "'e comms_env_scheme \<Rightarrow> string option \<Rightarrow> CallType \<Rightarrow> bool \<Rightarrow> call_session_row" where
  "initiated E i ct anon = new_call_session E i ct anon (if ct = Group then Some (new_room_id E) else None)"

definition initial_host ::
    "'e comms_env_scheme \<Rightarrow> string option \<Rightarrow> string option \<Rightarrow> string option \<Rightarrow> CallType \<Rightarrow> bool \<Rightarrow> call_participant_row" where
  "initial_host E i u an ct anon = new_participant E (new_call_id E) (if anon then None else i)
     (if anon then or_else an u else None) Host (ct \<noteq> Voice)"

lemma initiateCall_fails:
  assumes "fresh_call_ids E d" "initiator_ref E u d = Inl e"
  shows "CallsService_initiateCall E u an ct anon ip ua d = (Inl e, d)"
proof (cases u)
  case (Some t)
  then show ?thesis
    using assms by (cases "uuid_of E t")
      (auto simp: CallsService_initiateCall_def CallsRepository_createSession_def insert_call_session_def
        op_simps fresh_call_ids_def user_ref_ok_def split: if_splits)
qed (use assms in simp)

lemma call_exists_append [simp]:
  "call_exists i (d\<lparr>call_sessions := call_sessions d @ [r]\<rparr>) = (call_exists i d \<or> cs_id r = i)"
  by (auto simp: call_exists_def)

lemma initiateCall_succeeds:
  assumes fresh: "fresh_call_ids E d" and i: "initiator_ref E u d = Inr i"
  shows "CallsService_initiateCall E u an ct anon ip ua d =
     (Inr (initiated E i ct anon),
      snd (AuditService_log E (call_audit u CALL_INITIATED [(''callId'', JStr (new_call_id E)),
             (''callType'', JType ct), (''isAnonymous'', JBool anon)] ip ua)
        (d\<lparr>call_sessions := call_sessions d @ [initiated E i ct anon],
           call_participants := call_participants d @ [initial_host E i u an ct anon]\<rparr>)))"
proof -
  let ?d1 = "d\<lparr>call_sessions := call_sessions d @ [initiated E i ct anon]\<rparr>"
  let ?d2 = "?d1\<lparr>call_participants := call_participants d @ [initial_host E i u an ct anon]\<rparr>"
  have at: "with_uuid_or_null E u f d' = f i d'" for f :: "string option \<Rightarrow> ('z db_scheme, 'c) op" and d'
    using i by (cases u) (auto simp: op_simps split: option.splits if_splits)
  have ref: "user_ref_ok i d"
    using i by (cases u) (auto simp: user_ref_ok_def split: option.splits if_splits)
  have 1: "CallsRepository_createSession E u ct anon (if ct = Group then Some (new_room_id E) else None) d =
      (Inr (initiated E i ct anon), ?d1)"
    using fresh ref
    by (simp add: CallsRepository_createSession_def at insert_call_session_def fresh_call_ids_def initiated_def Let_def)
  have id: "cs_id (initiated E i ct anon) = new_call_id E" by (simp add: initiated_def new_call_session_def)
  have inserted: "insert_participant E (new_call_id E) (if anon then None else i)
      (if anon then or_else an u else None) Host (ct \<noteq> Voice) ?d1 = (Inr (initial_host E i u an ct anon), ?d2)"
    using fresh ref
    by (simp add: insert_participant_def fresh_call_ids_def initial_host_def id Let_def)
  have 2: "CallsRepository_addParticipant E (new_call_id E) (if anon then None else u)
      (if anon then or_else an u else None) Host (ct \<noteq> Voice) ?d1 = (Inr (initial_host E i u an ct anon), ?d2)"
    using fresh inserted
    by (cases anon) (simp_all add: CallsRepository_addParticipant_def with_uuid_apply fresh_call_ids_def at
        with_uuid_or_null_None)
  show ?thesis
    unfolding CallsService_initiateCall_def
      bnd_Inr [where m = "CallsRepository_createSession _ _ _ _ _", OF 1] id
    by (simp add: andthen_apply [where m = "bnd _ _"] bnd_Inr [where m = "CallsRepository_addParticipant _ _ _ _ _ _", OF 2]
        audit.log_then ret_apply)
qed

end
