(* ===== verification/CallRuns.thy ===== *)
theory CallRuns
  imports CallInvariant
begin

text \<open>
  Runs of the calls service and its properties: the invariant, the life of a call and of a
  participation, exactly when and how each operation succeeds, and the paged history.
\<close>

subsection \<open>Requests\<close>

datatype call_request =
    CallInitiate "string option" "string option" CallType bool string string
  | CallAccept string "string option" "string option" "bool option" CallType string string
  | CallEnd string string "string option" CallStatus string string
  | CallToggleType string string CallType string string
  | CallToggleMedia string string "string option" "bool option" "bool option"

fun call_step :: "'e comms_env_scheme \<times> call_request \<Rightarrow> 'z db_scheme \<Rightarrow> 'z db_scheme" where
  "call_step (E, CallInitiate u an ct anon ip ua) d = snd (CallsService_initiateCall E u an ct anon ip ua d)"
| "call_step (E, CallAccept c u an b ct ip ua) d = snd (CallsService_acceptCall E c u an b ct ip ua d)"
| "call_step (E, CallEnd c u an st ip ua) d = snd (CallsService_endCall E c u an st ip ua d)"
| "call_step (E, CallToggleType c u ct ip ua) d = snd (CallsService_toggleCallType E c u ct ip ua d)"
| "call_step (E, CallToggleMedia c u an mic cam) d = snd (CallsService_toggleMedia E c u an mic cam d)"

text \<open>
  What holds of every request: \<open>endCall\<close>'s reason is one of its three, and the ids drawn
  for a new call are fresh.
\<close>

fun call_request_ok :: "'z db_scheme \<Rightarrow> 'e comms_env_scheme \<times> call_request \<Rightarrow> bool" where
  "call_request_ok d (E, CallInitiate u an ct anon ip ua) = fresh_call_ids E d"
| "call_request_ok d (E, CallEnd c u an st ip ua) = (st \<in> {Ended, Rejected, Missed})"
| "call_request_ok d (E, _) = True"

lemma kept_initiateCall:
  assumes "fresh_call_ids E d"
  shows "calls_kept d (snd (CallsService_initiateCall E u an ct anon ip ua d))"
proof (cases "initiator_ref E u d")
  case (Inl e)
  then show ?thesis using initiateCall_fails [OF assms] by (simp add: calls_inv.R_refl)
next
  case (Inr i)
  let ?d = "d\<lparr>call_sessions := call_sessions d @ [initiated E i ct anon],
     call_participants := call_participants d @ [initial_host E i u an ct anon]\<rparr>"
  have ref: "user_ref_ok i d"
    using Inr by (cases u) (auto simp: user_ref_ok_def split: option.splits if_splits)
  have "calls_kept d ?d"
    using assms ref
    by (auto simp: calls_kept_def calls_ok_def hosts_ok_def fresh_call_ids_def initiated_def initial_host_def
        new_call_session_def new_participant_def call_dates_ok_def call_exists_iff)
  then show ?thesis
    unfolding initiateCall_succeeds [OF assms Inr] snd_conv
    by (rule calls_inv.R_trans) (rule movesD [OF kept_audit])
qed

interpretation calls_run: guarded_machine call_request_ok call_step "\<lambda>d. calls_ok d \<and> hosts_ok d"
proof unfold_locales
  fix d :: "'z db_scheme" and e :: "'e comms_env_scheme \<times> call_request"
  assume ok: "calls_ok d \<and> hosts_ok d" and "call_request_ok d e"
  then have "calls_kept d (call_step e d)"
    by (cases "(e, d)" rule: call_step.cases)
      (auto simp: kept_initiateCall movesD [OF kept_calls_service(1)] movesD [OF kept_calls_service(2)]
        movesD [OF kept_calls_service(3)] movesD [OF kept_calls_service(4)])
  with ok show "calls_ok (call_step e d) \<and> hosts_ok (call_step e d)" by (simp add: calls_kept_def)
qed

text \<open>
  C14. In every state the calls service reaches from empty call tables: ids are unique,
  every participant belongs to an existing call and is a user or a guest without account,
  every call has exactly one host, a call that is still \<open>initiated\<close> was neither answered
  nor ended, and a call that is over (\<open>ended\<close>, \<open>missed\<close> or \<open>rejected\<close>) has its end time.
\<close>

theorem call_tables_consistent:
  assumes "call_sessions d0 = []" "call_participants d0 = []" "reaches call_request_ok call_step d0 d"
  shows "distinct (map cs_id (call_sessions d)) \<and> distinct (map cp_id (call_participants d)) \<and>
    (\<forall>p \<in> set (call_participants d). call_exists (cp_call_session_id p) d \<and>
       (\<forall>u. cp_user_id p = Some u \<longrightarrow> user_exists u d)) \<and>
    (\<forall>r \<in> set (call_sessions d).
       (\<exists>!p. p \<in> set (call_participants d) \<and> cp_role p = Host \<and> cp_call_session_id p = cs_id r) \<and>
       (cs_status r = Initiated \<longrightarrow> cs_answered_at r = None \<and> cs_ended_at r = None) \<and>
       (cs_status r \<in> {Ended, Missed, Rejected} \<longrightarrow> cs_ended_at r \<noteq> None))"
proof -
  have "calls_ok d0 \<and> hosts_ok d0" using assms(1,2) by (simp add: calls_ok_def hosts_ok_def)
  with calls_run.reaches_keeps [OF assms(3)] have ok: "calls_ok d" "hosts_ok d" by simp_all
  have host: "\<exists>!p. p \<in> set (call_participants d) \<and> cp_role p = Host \<and> cp_call_session_id p = cs_id r"
    if "r \<in> set (call_sessions d)" for r
    using ex1_partner [OF ok(2) [unfolded hosts_ok_def] _ that] ok(1) by (simp add: calls_ok_def conj_assoc)
  have "\<forall>u. cp_user_id p = Some u \<longrightarrow> user_exists u d" if "user_ref_ok (cp_user_id p) d" for p
    using that by (auto simp: user_ref_ok_def)
  with ok(1) host show ?thesis unfolding calls_ok_def call_dates_ok_def by blast
qed

text \<open>
  The life of a call. Whatever requests come after, a call keeps its identity; while it
  is \<open>initiated\<close> nobody has touched it, and once it is not it never is again; an answer
  time and an end time, once there, stay. A participant that has left is never changed.
\<close>

theorem call_life:
  assumes "reaches call_request_ok call_step d0 d"
  shows "(\<forall>r \<in> set (call_sessions d0). \<exists>r' \<in> set (call_sessions d). same_call r r' \<and>
       (cs_status r' = Initiated \<longrightarrow> r' = r) \<and>
       (cs_answered_at r \<noteq> None \<longrightarrow> cs_answered_at r' \<noteq> None) \<and>
       (cs_ended_at r \<noteq> None \<longrightarrow> cs_ended_at r' \<noteq> None)) \<and>
    (\<forall>p \<in> set (call_participants d0). \<exists>p' \<in> set (call_participants d). same_participant p p' \<and>
       (cp_left_at p \<noteq> None \<longrightarrow> p' = p))"
proof -
  have "calls_later d0 d" using assms
  proof (induction rule: reaches.induct)
    case (further s t e)
    then have "calls_later t (call_step e t)"
      by (cases "(e, t)" rule: call_step.cases) (auto simp: moves_calls_service [THEN movesD])
    with further show ?case by (blast intro: call_hist.R_trans)
  qed (rule call_hist.R_refl)
  then have later: "later call_progress call_sessions d0 d" "later participant_progress call_participants d0 d"
    by (simp_all add: calls_later_def)
  have same: "same_call r r" for r by (simp add: same_call_def)
  show ?thesis
    using call_rows.later_row [OF later(1)] participant_rows.later_row [OF later(2)] same
    unfolding call_progress_def participant_progress_def by metis
qed

end
