(* ===== verification/CallEffects.thy ===== *)
theory CallEffects
  imports CallRuns
begin

text \<open>
  Exactly when each operation of the calls service succeeds and what it does to the
  tables, and the paged history of a user.
\<close>

subsection \<open>Initiating and accepting\<close>

text \<open>
  Initiating a call. When the initiator is not a user (or its id is no uuid) the call
  fails with the database's error and nothing is changed; otherwise exactly one call, in
  state \<open>initiated\<close>, and its host are appended, and the call is returned.
\<close>

theorem initiate_outcome:
  assumes "fresh_call_ids E d"
  shows "case initiator_ref E u d of
      Inl e \<Rightarrow> CallsService_initiateCall E u an ct anon ip ua d = (Inl e, d)
    | Inr i \<Rightarrow> (let (r, d') = CallsService_initiateCall E u an ct anon ip ua d in
        r = Inr (initiated E i ct anon) \<and>
        call_sessions d' = call_sessions d @ [initiated E i ct anon] \<and>
        call_participants d' = call_participants d @ [initial_host E i u an ct anon] \<and>
        cs_status (initiated E i ct anon) = Initiated \<and> cs_initiator_id (initiated E i ct anon) = i)"
  using initiateCall_fails [OF assms] initiateCall_succeeds [OF assms]
  by (simp add: AuditService_log_apply initiated_def new_call_session_def split: sum.splits)

definition accepted_row :: "'e env_scheme \<Rightarrow> call_session_row \<Rightarrow> call_session_row" where
  "accepted_row E r = r\<lparr>cs_status := Active, cs_answered_at := Some (db_now E)\<rparr>"

lemma set_status_accept: "set_status E Active True False None = accepted_row E"
  by (simp add: fun_eq_iff set_status_def accepted_row_def truthy_def)

lemma find_call_update:
  "(\<And>r. cs_id (f r) = cs_id r) \<Longrightarrow>
   find (\<lambda>r. cs_id r = i) (update_where (\<lambda>r. cs_id r = i) f rows) = map_option f (find (\<lambda>r. cs_id r = i) rows)"
  by (induction rows) auto

text \<open>Accepting a known call, as a registered user or as a guest.\<close>

lemma acceptCall_apply:
  assumes c: "uuid_of E c = Some i" and r: "find (\<lambda>r. cs_id r = i) (call_sessions d) = Some r"
    and new: "new_participant_id E Guest \<notin> cp_id ` set (call_participants d)"
    and who: "if accept_anonymous b v then u = None else \<exists>t. v = Some t \<and> uuid_of E t = u \<and> u \<noteq> None \<and> user_exists (the u) d"
  shows "CallsService_acceptCall E c v an b ct ip ua d =
    (Inr (Some (accepted_row E r)),
     snd (AuditService_log E (call_audit (if accept_anonymous b v then None else v) CALL_ACCEPTED [(''callId'', JStr c)] ip ua)
       (d\<lparr>call_sessions := update_where (\<lambda>r. cs_id r = i) (accepted_row E) (call_sessions d),
          call_participants := call_participants d @ [new_participant E i u
            (if accept_anonymous b v then or_else an v else None) Guest (ct = Video)]\<rparr>)))"
proof -
  let ?anon = "accept_anonymous b v" and ?guest = "if accept_anonymous b v then or_else an v else None"
  let ?d1 = "d\<lparr>call_sessions := update_where (\<lambda>r. cs_id r = i) (accepted_row E) (call_sessions d)\<rparr>"
  let ?p = "new_participant E i u ?guest Guest (ct = Video)"
  let ?d2 = "?d1\<lparr>call_participants := call_participants d @ [?p]\<rparr>"
  have keeps: "cs_id (accepted_row E r) = cs_id r" for r by (simp add: accepted_row_def)
  have here: "call_exists i d" using find_SomeD [OF r] by (auto simp: call_exists_iff)
  have found: "CallsRepository_findById E c d = (Inr (Some r), d)"
    using c r by (simp add: CallsRepository_findById_def op_simps)
  have updated: "CallsRepository_updateStatus E c Active True False None d = (Inr (), ?d1)"
    using c by (simp add: CallsRepository_updateStatus_def op_simps set_status_accept)
  have inserted: "insert_participant E i u ?guest Guest (ct = Video) ?d1 = (Inr ?p, ?d2)"
    using new here who
    by (auto simp: insert_participant_def op_simps keeps Let_def user_ref_ok_def user_exists_def split: if_splits)
  have added: "CallsRepository_addParticipant E c (if ?anon then None else v) ?guest Guest (ct = Video) ?d1 = (Inr ?p, ?d2)"
    using who c inserted by (cases ?anon) (auto simp: CallsRepository_addParticipant_def op_simps)
  have again: "CallsRepository_findById E c d' = (Inr (Some (accepted_row E r)), d')"
    if "call_sessions d' = call_sessions ?d1" for d' :: "'b db_scheme"
    using c r that by (simp add: CallsRepository_findById_def op_simps find_call_update keeps)
  show ?thesis
    by (simp add: CallsService_acceptCall_def bnd_apply andthen_apply found updated added ret_apply Let_def
        AuditService_log_apply again)
qed

text \<open>
  Accepting as a registered user. An unknown call is answered with \<open>NotFound\<close> and
  nothing changes. A known one, whatever its status was, becomes \<open>active\<close> with a new answer
  time, the acceptor is appended as a guest, and the updated call is returned.
\<close>

theorem accept_outcome:
  assumes "uuid_of E c = Some i" "uuid_of E v = Some u" "v \<noteq> ''''" "user_exists u d"
    and "new_participant_id E Guest \<notin> cp_id ` set (call_participants d)"
  shows "case find (\<lambda>r. cs_id r = i) (call_sessions d) of
      None \<Rightarrow> CallsService_acceptCall E c (Some v) an None ct ip ua d =
                (Inl (NotFoundException ''Call not found''), d)
    | Some r \<Rightarrow> (let (res, d') = CallsService_acceptCall E c (Some v) an None ct ip ua d in
        res = Inr (Some (accepted_row E r)) \<and>
        call_sessions d' = update_where (\<lambda>r. cs_id r = i) (accepted_row E) (call_sessions d) \<and>
        call_participants d' =
          call_participants d @ [new_participant E i (Some u) None Guest (ct = Video)])"
proof (cases "find (\<lambda>r. cs_id r = i) (call_sessions d)")
  case None
  then show ?thesis
    using assms(1) by (simp add: CallsService_acceptCall_def CallsRepository_findById_def op_simps)
next
  case (Some r)
  have "\<not> accept_anonymous None (Some v)" using assms(3) by (simp add: accept_anonymous_def truthy_def)
  with Some assms acceptCall_apply [OF assms(1) Some assms(5), of None "Some v" "Some u" an ct ip ua]
  show ?thesis by (simp add: Let_def AuditService_log_apply)
qed

subsection \<open>Ending\<close>

lemma endCall_apply:
  assumes "uuid_of E c = Some i" "truthy an \<or> uuid_of E u = Some u"
  shows "CallsService_endCall E c u an reason ip ua d =
    AuditService_log E (call_audit (Some u) (end_event reason) [(''callId'', JStr c)] ip ua)
      (d\<lparr>call_sessions := update_where (\<lambda>r. cs_id r = i)
           (\<lambda>r. r\<lparr>cs_status := reason, cs_ended_at := Some (db_now E)\<rparr>) (call_sessions d),
         call_participants := update_where (is_present i u an) (set_left E) (call_participants d)\<rparr>)"
proof -
  have row: "set_status E reason False True None = (\<lambda>r. r\<lparr>cs_status := reason, cs_ended_at := Some (db_now E)\<rparr>)"
    by (simp add: fun_eq_iff set_status_def truthy_def)
  show ?thesis
    using assms
    by (auto simp: CallsService_endCall_def CallsRepository_updateStatus_def CallsRepository_markParticipantLeft_def
        with_participant_def op_simps row)
qed

text \<open>
  C15. Ending a call (hang-up, rejection, missed call) gives the call the reason as its status
  and now as its end time, and marks as left exactly the participations of the caller in it
  that are still open. The hang-up is audited exactly when the caller is a registered user
  and the address is one the database accepts: that of a guest without account is lost.
\<close>

theorem end_outcome:
  assumes "uuid_of E c = Some i" "truthy an \<or> uuid_of E u = Some u"
  shows "let (r, d') = CallsService_endCall E c u an reason ip ua d in
    r = Inr () \<and>
    call_sessions d' = update_where (\<lambda>r. cs_id r = i)
      (\<lambda>r. r\<lparr>cs_status := reason, cs_ended_at := Some (db_now E)\<rparr>) (call_sessions d) \<and>
    call_participants d' = update_where
      (\<lambda>p. cp_call_session_id p = i \<and> cp_left_at p = None \<and>
           (if truthy an then cp_anonymous_id p = an else cp_user_id p = Some u))
      (\<lambda>p. p\<lparr>cp_left_at := Some (db_now E)\<rparr>) (call_participants d) \<and>
    (if user_exists u d \<and> (isValidIp ip \<longrightarrow> ip = '''' \<or> inet_ok E ip)
     then length (audit_logs d') = Suc (length (audit_logs d)) \<and> al_user_id (last (audit_logs d')) = Some u \<and>
          al_event_type (last (audit_logs d')) = end_event reason
     else audit_logs d' = audit_logs d)"
proof -
  have who: "is_present i u an = (\<lambda>p. cp_call_session_id p = i \<and> cp_left_at p = None \<and>
      (if truthy an then cp_anonymous_id p = an else cp_user_id p = Some u))"
    by (simp add: fun_eq_iff is_present_def)
  have left: "set_left E = (\<lambda>p. p\<lparr>cp_left_at := Some (db_now E)\<rparr>)"
    by (simp add: fun_eq_iff set_left_def)
  have accepted: "audit_accepted E (call_audit (Some u) ev pl ip ua) d' \<longleftrightarrow>
      user_exists u d \<and> (isValidIp ip \<longrightarrow> ip = '''' \<or> inet_ok E ip)"
    if "users d' = users d" for ev pl and d' :: "'b db_scheme"
    using that by (auto simp: audit_accepted_def inet_cast_ok_def call_audit_def audit_entry_def audit_ip_def user_ref_ok_def user_exists_def)
  let ?d1 = "d\<lparr>call_sessions := update_where (\<lambda>r. cs_id r = i)
       (\<lambda>r. r\<lparr>cs_status := reason, cs_ended_at := Some (db_now E)\<rparr>) (call_sessions d),
     call_participants := update_where (is_present i u an) (set_left E) (call_participants d)\<rparr>"
  let ?e = "call_audit (Some u) (end_event reason) [(''callId'', JStr c)] ip ua"
  note endCall_apply [OF assms, of reason ip ua d]
  moreover have "al_user_id (audit_row_of E ?e) = Some u" "al_event_type (audit_row_of E ?e) = end_event reason"
    by (simp_all add: audit_row_of_def call_audit_def audit_entry_def)
  ultimately show ?thesis
    using accepted [of ?d1] by (simp add: AuditService_log_apply who left)
qed

text \<open>The requests that name a guest by an \<open>anonymousId\<close>.\<close>

fun names_guest :: "string \<Rightarrow> call_request \<Rightarrow> bool" where
  "names_guest x (CallEnd c u an st ip ua) = (an = Some x)"
| "names_guest x (CallToggleMedia c u an mic cam) = (an = Some x)"
| "names_guest x _ = False"

definition untouched :: "call_participant_row \<Rightarrow> 'z db_scheme \<Rightarrow> 'z db_scheme \<Rightarrow> bool" where
  "untouched p d d' \<longleftrightarrow> (p \<in> set (call_participants d) \<longrightarrow> p \<in> set (call_participants d'))"

interpretation untouched_row: progress "untouched p" for p
  by unfold_locales (auto simp: untouched_def)

lemma untouched_same: "moves (same call_participants) m \<Longrightarrow> moves (untouched p) m"
  by (simp add: moves_def same_def untouched_def)

lemma untouched_update:
  "\<not> q p \<Longrightarrow> moves (untouched p) (modify (\<lambda>d. d\<lparr>call_participants := update_where q f (call_participants d)\<rparr>))"
  by (auto simp: moves_def untouched_def op_simps in_update_where)

lemma untouched_repository:
  "moves (untouched p) (CallsRepository_createSession E v ct anon room)"
  "moves (untouched p) (CallsRepository_updateStatus F c st a e room)"
  "moves (untouched p) (CallsRepository_findById F c)"
  "moves (untouched p) (CallsRepository_addParticipant E c v an role cam)"
  "moves (untouched p) (AuditService_log F entry)"
  unfolding CallsRepository_createSession_def CallsRepository_updateStatus_def CallsRepository_findById_def
    CallsRepository_addParticipant_def
  by (auto simp: moves_def untouched_def op_simps insert_call_session_def insert_participant_def Let_def
      AuditService_log_apply split: option.splits)

lemma untouched_by_others:
  assumes "cp_user_id p = None" "cp_anonymous_id p = Some x" "an \<noteq> Some x"
  shows "moves (untouched p) (CallsRepository_updateParticipantMedia F c w mic cam an)"
    and "moves (untouched p) (CallsRepository_markParticipantLeft F c w an)"
proof -
  have "\<not> is_present i u an p" for i u using assms by (simp add: is_present_def)
  then show "moves (untouched p) (CallsRepository_updateParticipantMedia F c w mic cam an)"
    "moves (untouched p) (CallsRepository_markParticipantLeft F c w an)"
    unfolding CallsRepository_updateParticipantMedia_def CallsRepository_markParticipantLeft_def
    by (auto intro!: moves_with_participant untouched_update untouched_row.R_refl untouched_row.moves_rules)
qed

lemma untouched_service:
  "moves (untouched p) (CallsService_initiateCall E v an ct anon ip ua)"
  "moves (untouched p) (CallsService_acceptCall E c v an b ct ip ua)"
  "moves (untouched p) (CallsService_toggleCallType F c w ct ip ua)"
  unfolding CallsService_initiateCall_def CallsService_acceptCall_def CallsService_toggleCallType_def Let_def
  by (auto intro!: untouched_row.moves_rules untouched_repository)

lemma untouched_service_by_others:
  assumes "cp_user_id p = None" "cp_anonymous_id p = Some x" "an \<noteq> Some x"
  shows "moves (untouched p) (CallsService_endCall F c w an st ip ua)"
    and "moves (untouched p) (CallsService_toggleMedia F c w an mic cam)"
  unfolding CallsService_endCall_def CallsService_toggleMedia_def
  by (auto intro!: untouched_row.moves_rules untouched_repository untouched_by_others [OF assms])

lemma untouched_step:
  assumes "cp_user_id p = None" "cp_anonymous_id p = Some x" "\<not> names_guest x (snd e)"
  shows "untouched p d (call_step e d)"
  using assms(3)
  by (cases "(e, d)" rule: call_step.cases)
    (simp_all add: untouched_service [THEN movesD] untouched_service_by_others [OF assms(1,2), THEN movesD])

text \<open>
  A matched call of two registered users. The pairing initiates it with the first user as
  initiator and \<open>isAnonymous = true\<close>, which stores the host under \<open>anonymous_id\<close>. As long
  as no request names that user as a guest (the gateway never does: it sends a registered
  user's hang-up and media changes with the user id alone), the host stays in the call
  for ever: whatever requests follow, its row is unchanged, not left.
\<close>

theorem matched_host_never_leaves:
  assumes fresh: "fresh_call_ids E d" and u: "uuid_of E u = Some u" "user_exists u d"
    and later: "reaches (\<lambda>_ e. \<not> names_guest u (snd e)) call_step
      (snd (CallsService_initiateCall E (Some u) None ct True ip ua d)) d'"
  shows "\<exists>p \<in> set (call_participants d'). cp_call_session_id p = new_call_id E \<and> cp_role p = Host \<and>
     cp_user_id p = None \<and> cp_anonymous_id p = Some u \<and> cp_left_at p = None"
proof -
  let ?p = "initial_host E (Some u) (Some u) None ct True"
  have "initiator_ref E (Some u) d = Inr (Some u)" using u by simp
  from initiateCall_succeeds [OF fresh this]
  have start: "?p \<in> set (call_participants (snd (CallsService_initiateCall E (Some u) None ct True ip ua d)))"
    by (simp add: AuditService_log_apply)
  have shape: "cp_call_session_id ?p = new_call_id E" "cp_role ?p = Host" "cp_user_id ?p = None"
    "cp_anonymous_id ?p = Some u" "cp_left_at ?p = None"
    by (simp_all add: initial_host_def new_participant_def or_else_def)
  from later start have "?p \<in> set (call_participants d')"
  proof (induction rule: reaches.induct)
    case (further s t e)
    then show ?case using untouched_step [OF shape(3,4) further(2), of t] by (simp add: untouched_def)
  qed
  with shape show ?thesis by blast
qed

subsection \<open>History\<close>

lemma set_history_join:
  "set (history_join u d) = {cs \<in> set (call_sessions d). \<exists>cp \<in> set (call_participants d).
     cp_call_session_id cp = cs_id cs \<and> cp_user_id cp = Some u}"
  by (auto simp: history_join_def)

text \<open>
  The call history of a user lists exactly the calls the user takes part in as a
  registered participant, newest first, and its pages fit together: a page followed by the
  next one is the page of the added length, and nothing is changed. A negative count is
  refused by the database.
\<close>

theorem history_pages:
  assumes "uuid_of E u = Some i"
  shows "let all = order_by_desc cs_started_at (history_join i d); page = CallsService_getCallHistory E u in
    set all = {cs \<in> set (call_sessions d). \<exists>cp \<in> set (call_participants d).
       cp_call_session_id cp = cs_id cs \<and> cp_user_id cp = Some i} \<and>
    (\<forall>j k. j < k \<longrightarrow> k < length all \<longrightarrow> cs_started_at (all ! k) \<le> cs_started_at (all ! j)) \<and>
    (\<forall>n m off. page (int n) (int off) d = (Inr (take n (drop off all)), d) \<and>
       take n (drop off all) @ take m (drop (off + n) all) = take (n + m) (drop off all)) \<and>
    (\<forall>n off. n < 0 \<or> off < 0 \<longrightarrow> page n off d = (Inl (PgError INVALID_ROW_COUNT), d))"
proof -
  let ?all = "order_by_desc cs_started_at (history_join i d)"
  have sorted: "cs_started_at (?all ! k) \<le> cs_started_at (?all ! j)" if "j < k" "k < length ?all" for j k
    using sorted_wrt_nth_less [OF sorted_order_by_desc [of cs_started_at "history_join i d"], of j k] that
    by simp
  have "page n off ?all d = (if n < 0 \<or> off < 0 then (Inl (PgError INVALID_ROW_COUNT), d)
      else (Inr (take (nat n) (drop (nat off) ?all)), d))" for n off
    by (simp add: page_def op_simps)
  then have pages: "CallsService_getCallHistory E u n off d =
      (if n < 0 \<or> off < 0 then (Inl (PgError INVALID_ROW_COUNT), d)
       else (Inr (take (nat n) (drop (nat off) ?all)), d))" for n off
    using assms by (simp add: CallsService_getCallHistory_def CallsRepository_findHistory_def op_simps)
  have "take n (drop off ?all) @ take m (drop (off + n) ?all) = take (n + m) (drop off ?all)" for n m off
    by (simp add: take_add add.commute [of off n])
  then show ?thesis using sorted by (simp add: pages set_history_join)
qed

end
