(* ===== verification/CallExamples.thy ===== *)
theory CallExamples
  imports CallEffects
begin

text \<open>
  Concrete runs of the calls service: two registered users, a call that is initiated,
  accepted and ended, and a match between them. They show that the hypotheses of the
  properties hold together.
\<close>

definition comms_at :: "time \<Rightarrow> string \<Rightarrow> comms_env" where
  "comms_at t k = \<lparr>js_now = t, db_now = t, inet_ok = (\<lambda>_. True), uuid_of = Some,
     new_call_id = CHR ''c'' # k, new_room_id = CHR ''o'' # k,
     new_participant_id = (\<lambda>role. (if role = Host then CHR ''h'' else CHR ''g'') # k)\<rparr>"

definition example_user :: "string \<Rightarrow> user_row" where
  "example_user i = \<lparr>u_id = i, u_email = i @ ''@b'', u_password_hash = '''', u_mfa_enabled = False,
     u_failed_attempts = 0, u_locked_until = None, u_is_active = True, u_created_at = 0, u_updated_at = 0\<rparr>"

definition two_users :: db where
  "two_users = empty_db\<lparr>users := [example_user ''ann'', example_user ''bob'']\<rparr>"

text \<open>Ann calls Bob, Bob accepts, Ann hangs up.\<close>

definition example_call :: "(comms_env \<times> call_request) list" where
  "example_call =
     [(comms_at 0 ''1'', CallInitiate (Some ''ann'') None Video False ''1.2.3.4'' ''ua''),
      (comms_at 1000 ''2'', CallAccept ''c1'' (Some ''bob'') None None Video ''1.2.3.4'' ''ua''),
      (comms_at 61000 ''3'', CallEnd ''c1'' ''ann'' None Ended ''1.2.3.4'' ''ua'')]"

definition called :: db where
  "called = run call_step (take 1 example_call) two_users"

definition talked :: db where
  "talked = run call_step example_call two_users"

abbreviation comms_step :: "comms_env \<times> call_request \<Rightarrow> db \<Rightarrow> db" where
  "comms_step \<equiv> call_step"

lemma example_call_runs:
  "reaches call_request_ok comms_step two_users talked"
  "reaches call_request_ok comms_step called talked"
proof -
  have "run_guarded call_request_ok comms_step example_call two_users" by code_simp
  from run_reaches [OF this] show "reaches call_request_ok comms_step two_users talked"
    by (simp add: talked_def)
  have "run_guarded call_request_ok comms_step (drop 1 example_call) called" by code_simp
  from run_reaches [OF this] show "reaches call_request_ok comms_step called talked"
    by (simp add: talked_def called_def example_call_def)
qed

lemma two_users_empty: "call_sessions two_users = []" "call_participants two_users = []"
  by code_simp+

theorem call_tables_consistent_witness:
  "length (call_sessions talked) = 1 \<and> length (call_participants talked) = 2 \<and>
   distinct (map cp_id (call_participants talked))"
proof (intro conjI)
  show "length (call_sessions talked) = 1" "length (call_participants talked) = 2" by code_simp+
  show "distinct (map cp_id (call_participants talked))"
    using call_tables_consistent [OF two_users_empty example_call_runs(1)] by blast
qed

theorem call_life_witness:
  "cs_status (call_sessions called ! 0) = Initiated \<and>
   (\<exists>r' \<in> set (call_sessions talked). same_call (call_sessions called ! 0) r')"
proof -
  have "call_sessions called ! 0 \<in> set (call_sessions called)" by code_simp
  moreover have "cs_status (call_sessions called ! 0) = Initiated" by code_simp
  ultimately show ?thesis using call_life [OF example_call_runs(2)] by blast
qed

theorem initiate_outcome_witness:
  "fst (CallsService_initiateCall (comms_at 0 ''1'') (Some ''ann'') None Video False ''ip'' ''ua'' two_users) =
     Inr (initiated (comms_at 0 ''1'') (Some ''ann'') Video False) \<and>
   fst (CallsService_initiateCall (comms_at 0 ''1'') (Some ''guest'') (Some ''guest'') Video True ''ip'' ''ua'' two_users) =
     Inl (PgError FK_VIOLATION)"
proof -
  have fresh: "fresh_call_ids (comms_at 0 ''1'') two_users" by code_simp
  have refs: "initiator_ref (comms_at 0 ''1'') (Some ''ann'') two_users = Inr (Some ''ann'')"
    "initiator_ref (comms_at 0 ''1'') (Some ''guest'') two_users = Inl (PgError FK_VIOLATION)"
    by code_simp+
  show ?thesis
    using initiate_outcome [OF fresh, of "Some ''ann''" None Video False "''ip''" "''ua''"]
      initiate_outcome [OF fresh, of "Some ''guest''" "Some ''guest''" Video True "''ip''" "''ua''"]
    by (simp add: refs case_prod_beta Let_def del: initiator_ref.simps)
qed

theorem accept_outcome_witness:
  "fst (CallsService_acceptCall (comms_at 1000 ''2'') ''c1'' (Some ''bob'') None None Video ''ip'' ''ua'' called) =
     Inr (Some (accepted_row (comms_at 1000 ''2'') (call_sessions called ! 0)))"
proof -
  have "uuid_of (comms_at 1000 ''2'') ''c1'' = Some ''c1''" "uuid_of (comms_at 1000 ''2'') ''bob'' = Some ''bob''"
    "user_exists ''bob'' called" "new_participant_id (comms_at 1000 ''2'') Guest \<notin> cp_id ` set (call_participants called)"
    "find (\<lambda>r. cs_id r = ''c1'') (call_sessions called) = Some (call_sessions called ! 0)"
    by code_simp+
  then show ?thesis
    using accept_outcome [of "comms_at 1000 ''2''" "''c1''" "''c1''" "''bob''" "''bob''" called None Video "''ip''" "''ua''"]
    by (simp add: case_prod_beta Let_def)
qed

theorem end_outcome_witness:
  "fst (CallsService_endCall (comms_at 61000 ''3'') ''c1'' ''ann'' None Ended ''ip'' ''ua'' called) = Inr () \<and>
   map cp_left_at (call_participants (snd (CallsService_endCall (comms_at 61000 ''3'') ''c1'' ''ann'' None Ended ''ip'' ''ua'' called)))
     = [Some 61000]"
proof -
  have "uuid_of (comms_at 61000 ''3'') ''c1'' = Some ''c1''"
    "truthy None \<or> uuid_of (comms_at 61000 ''3'') ''ann'' = Some ''ann''"
    by code_simp+
  from end_outcome [OF this, of Ended "''ip''" "''ua''" called]
  have "fst (CallsService_endCall (comms_at 61000 ''3'') ''c1'' ''ann'' None Ended ''ip'' ''ua'' called) = Inr ()"
    by (simp add: case_prod_beta Let_def)
  moreover have "map cp_left_at (call_participants (snd (CallsService_endCall (comms_at 61000 ''3'') ''c1'' ''ann'' None
      Ended ''ip'' ''ua'' called))) = [Some 61000]"
    by code_simp
  ultimately show ?thesis by simp
qed

text \<open>Ann and Bob are matched, and both hang up: Ann's participation stays open.\<close>

theorem matched_host_never_leaves_witness:
  "\<exists>p \<in> set (call_participants (run call_step
       [(comms_at 1 ''2'', CallAccept ''c1'' (Some ''bob'') None (Some False) Video ''anonymous'' ''''),
        (comms_at 2 ''3'', CallEnd ''c1'' ''ann'' None Ended ''ip'' ''ua''),
        (comms_at 3 ''4'', CallEnd ''c1'' ''bob'' None Ended ''ip'' ''ua'')]
       (snd (CallsService_initiateCall (comms_at 0 ''1'') (Some ''ann'') None Video True ''anonymous'' '''' two_users)))).
     cp_anonymous_id p = Some ''ann'' \<and> cp_left_at p = None"
proof -
  let ?d = "snd (CallsService_initiateCall (comms_at 0 ''1'') (Some ''ann'') None Video True ''anonymous'' '''' two_users)"
  let ?es = "[(comms_at 1 ''2'', CallAccept ''c1'' (Some ''bob'') None (Some False) Video ''anonymous'' ''''),
        (comms_at 2 ''3'', CallEnd ''c1'' ''ann'' None Ended ''ip'' ''ua''),
        (comms_at 3 ''4'', CallEnd ''c1'' ''bob'' None Ended ''ip'' ''ua'')]"
  have pre: "fresh_call_ids (comms_at 0 ''1'') two_users" "uuid_of (comms_at 0 ''1'') ''ann'' = Some ''ann''"
    "user_exists ''ann'' two_users"
    by code_simp+
  have guarded: "run_guarded (\<lambda>_ e. \<not> names_guest ''ann'' (snd e)) call_step ?es ?d" by code_simp
  show ?thesis using matched_host_never_leaves [OF pre run_reaches [OF guarded]] by blast
qed

theorem history_pages_witness:
  "CallsService_getCallHistory (comms_at 0 ''1'') ''ann'' 1 0 talked = (Inr [call_sessions talked ! 0], talked)"
proof -
  have u: "uuid_of (comms_at 0 ''1'') ''ann'' = Some ''ann''" by code_simp
  have all: "take 1 (drop 0 (order_by_desc cs_started_at (history_join ''ann'' talked))) = [call_sessions talked ! 0]"
    by code_simp
  have "CallsService_getCallHistory (comms_at 0 ''1'') ''ann'' (int 1) (int 0) talked =
      (Inr (take 1 (drop 0 (order_by_desc cs_started_at (history_join ''ann'' talked)))), talked)"
    using history_pages [OF u, of talked] unfolding Let_def by blast
  then show ?thesis unfolding all by simp
qed

end
