(* ===== verification/Contacts.thy ===== *)
theory Contacts
  imports JsLib AuditTrail Tables
begin

text \<open>
  \<open>src/contacts/contacts.service.ts\<close>: contact requests after a call, their acceptance,
  which makes the two users contacts of each other, their rejection, and the contact list.
\<close>

record contact_env = env +
  new_request_id :: string
  new_contact_ids :: "string \<times> string"

subsection \<open>Requests\<close>

definition same_request :: "string \<Rightarrow> string \<Rightarrow> string \<Rightarrow> contact_save_request_row \<Rightarrow> bool" where
  "same_request c f t r \<longleftrightarrow> csr_call_session_id r = c \<and> csr_from_user_id r = f \<and> csr_to_user_id r = t"

definition new_request :: "'e contact_env_scheme \<Rightarrow> string \<Rightarrow> string \<Rightarrow> string \<Rightarrow> contact_save_request_row" where
  "new_request E c f t = \<lparr>csr_id = new_request_id E, csr_call_session_id = c, csr_from_user_id = f,
     csr_to_user_id = t, csr_status = SavePending, csr_created_at = db_now E, csr_resolved_at = None\<rparr>"

text \<open>
  \<open>INSERT ... ON CONFLICT (call_session_id, from_user_id, to_user_id) DO NOTHING RETURNING\<close>:
  no row when the triple is already there.
\<close>

definition insert_request ::
    "'e contact_env_scheme \<Rightarrow> string \<Rightarrow> string \<Rightarrow> string \<Rightarrow> ('z db_scheme, contact_save_request_row option) op" where
  "insert_request E c f t d =
     (if list_ex (same_request c f t) (contact_save_requests d) then (Inr None, d)
      else if new_request_id E \<in> csr_id ` set (contact_save_requests d) then (Inl (PgError UNIQUE_VIOLATION), d)
      else if \<not> call_exists c d \<or> \<not> user_exists f d \<or> \<not> user_exists t d then (Inl (PgError FK_VIOLATION), d)
      else (let row = new_request E c f t
            in (Inr (Some row), d\<lparr>contact_save_requests := contact_save_requests d @ [row]\<rparr>)))"

definition contact_audit :: "string \<Rightarrow> AuditEventType \<Rightarrow> (string \<times> json) list \<Rightarrow> string option \<Rightarrow> AuditEntry" where
  "contact_audit u ev payload ip = (audit_entry (Some u) ev payload)\<lparr>ae_ipAddress := ip\<rparr>"

definition ContactsService_requestContactSave ::
    "'e contact_env_scheme \<Rightarrow> string \<Rightarrow> string \<Rightarrow> string \<Rightarrow> string \<Rightarrow> ('z db_scheme, contact_save_request_row) op" where
  "ContactsService_requestContactSave E callSessionId fromUserId toUserId ip =
     with_uuid E callSessionId (\<lambda>c. with_uuid E fromUserId (\<lambda>f. with_uuid E toUserId (\<lambda>t.
       bnd (insert_request E c f t) (\<lambda>inserted. case inserted of
         None \<Rightarrow> bnd (gets (\<lambda>d. find (same_request c f t) (contact_save_requests d))) (\<lambda>existing.
           case existing of
             None \<Rightarrow> raise (ConflictException ''Contact save request could not be created.'')
           | Some r \<Rightarrow> ret r)
       | Some row \<Rightarrow>
           andthen (AuditService_log E (contact_audit fromUserId CONTACT_SAVE_REQUESTED
             [(''callSessionId'', JStr callSessionId), (''toUserId'', JStr toUserId)] (Some ip)))
           (ret row)))))"

text \<open>\<open>UPDATE contact_save_requests SET status, resolved_at WHERE id AND to_user_id AND pending\<close>\<close>

definition is_pending_for :: "string \<Rightarrow> string \<Rightarrow> contact_save_request_row \<Rightarrow> bool" where
  "is_pending_for i u r \<longleftrightarrow> csr_id r = i \<and> csr_to_user_id r = u \<and> csr_status r = SavePending"

definition resolve_as :: "'e env_scheme \<Rightarrow> SaveStatus \<Rightarrow> contact_save_request_row \<Rightarrow> contact_save_request_row" where
  "resolve_as E st r = r\<lparr>csr_status := st, csr_resolved_at := Some (db_now E)\<rparr>"

text \<open>The rows updated, as \<open>RETURNING\<close> gives them.\<close>

definition resolve_request ::
    "'e env_scheme \<Rightarrow> string \<Rightarrow> string \<Rightarrow> SaveStatus \<Rightarrow> ('z db_scheme, contact_save_request_row list) op" where
  "resolve_request E i u st d =
     (Inr (map (resolve_as E st) (filter (is_pending_for i u) (contact_save_requests d))),
      d\<lparr>contact_save_requests := update_where (is_pending_for i u) (resolve_as E st) (contact_save_requests d)\<rparr>)"

subsection \<open>Contacts\<close>

definition has_contact :: "string \<Rightarrow> string \<Rightarrow> 'z db_scheme \<Rightarrow> bool" where
  "has_contact owner other d \<longleftrightarrow>
     list_ex (\<lambda>r. c_owner_id r = owner \<and> c_contact_user_id r = other) (contacts d)"

text \<open>One row of the \<open>INSERT\<close>; a pair that is already there is skipped.\<close>

definition insert_contact :: "'e env_scheme \<Rightarrow> string \<Rightarrow> string \<Rightarrow> string \<Rightarrow> ('z db_scheme, unit) op" where
  "insert_contact E i owner other d =
     (if has_contact owner other d then (Inr (), d)
      else if i \<in> c_id ` set (contacts d) then (Inl (PgError UNIQUE_VIOLATION), d)
      else if \<not> user_exists owner d \<or> \<not> user_exists other d then (Inl (PgError FK_VIOLATION), d)
      else (Inr (), d\<lparr>contacts := contacts d @ [\<lparr>c_id = i, c_owner_id = owner, c_contact_user_id = other,
              c_nickname = None, c_saved_at = db_now E\<rparr>]\<rparr>))"

text \<open>\<open>INSERT INTO contacts VALUES ($1, $2), ($2, $1)\<close>: one statement, all or nothing.\<close>

definition insert_both :: "'e contact_env_scheme \<Rightarrow> string \<Rightarrow> string \<Rightarrow> ('z db_scheme, unit) op" where
  "insert_both E a b = transaction
     (andthen (insert_contact E (fst (new_contact_ids E)) a b) (insert_contact E (snd (new_contact_ids E)) b a))"

definition ContactsService_acceptContactSave ::
    "'e contact_env_scheme \<Rightarrow> string \<Rightarrow> string \<Rightarrow> string option \<Rightarrow> ('z db_scheme, bool) op" where
  "ContactsService_acceptContactSave E requestId acceptorId ip =
     with_uuid E requestId (\<lambda>i. with_uuid E acceptorId (\<lambda>u.
       bnd (resolve_request E i u SaveAccepted) (\<lambda>reqRows. case reqRows of
         [] \<Rightarrow> ret False
       | r # _ \<Rightarrow>
           andthen (insert_both E (csr_from_user_id r) (csr_to_user_id r))
          (andthen (AuditService_log E (contact_audit acceptorId CONTACT_SAVED
              [(''fromUserId'', JStr (csr_from_user_id r)), (''toUserId'', JStr (csr_to_user_id r)),
               (''requestId'', JStr requestId)] ip))
          (ret True)))))"

definition ContactsService_rejectContactSave :: "'e env_scheme \<Rightarrow> string \<Rightarrow> string \<Rightarrow> ('z db_scheme, unit) op" where
  "ContactsService_rejectContactSave E requestId userId =
     with_uuid E requestId (\<lambda>i. with_uuid E userId (\<lambda>u.
       andthen (bnd (resolve_request E i u SaveRejected) (\<lambda>_. ret ()))
         (AuditService_log E (contact_audit userId CONTACT_SAVE_REJECTED [(''requestId'', JStr requestId)] None))))"

text \<open>\<open>contacts JOIN users ON u.id = c.contact_user_id\<close>: the contact and its address.\<close>

definition ContactsService_listContacts ::
    "'e env_scheme \<Rightarrow> string \<Rightarrow> ('z db_scheme, (contact_row \<times> string) list) op" where
  "ContactsService_listContacts E userId =
     with_uuid E userId (\<lambda>i. gets (\<lambda>d. order_by_desc (\<lambda>(c, _). c_saved_at c)
       (concat (map (\<lambda>c. map (\<lambda>u. (c, u_email u)) (filter (\<lambda>u. u_id u = c_contact_user_id c) (users d)))
          (filter (\<lambda>c. c_owner_id c = i) (contacts d))))))"

definition ContactsService_updateNickname ::
    "'e env_scheme \<Rightarrow> string \<Rightarrow> string \<Rightarrow> string \<Rightarrow> ('z db_scheme, unit) op" where
  "ContactsService_updateNickname E ownerId contactId nickname =
     with_uuid E contactId (\<lambda>c. with_uuid E ownerId (\<lambda>owner. modify (\<lambda>d. d\<lparr>contacts :=
       update_where (\<lambda>r. c_id r = c \<and> c_owner_id r = owner) (c_nickname_update (\<lambda>_. Some nickname)) (contacts d)\<rparr>)))"

definition ContactsService_removeContact ::
    "'e env_scheme \<Rightarrow> string \<Rightarrow> string \<Rightarrow> ('z db_scheme, unit) op" where
  "ContactsService_removeContact E ownerId contactId =
     with_uuid E contactId (\<lambda>c. with_uuid E ownerId (\<lambda>owner. modify (\<lambda>d. d\<lparr>contacts :=
       filter (\<lambda>r. \<not> (c_id r = c \<and> c_owner_id r = owner)) (contacts d)\<rparr>)))"

end
