(* ===== verification/ContactRuns.thy ===== *)
theory ContactRuns
  imports Contacts
begin

text \<open>
  The contact handshake over runs: a request is resolved once, by the user it was sent to;
  a contact exists only with an accepted request between the two users; accepting makes
  the contact mutual; asking again changes nothing.
\<close>

subsection \<open>Runs\<close>

datatype contact_op =
    OpRequest string string string string
  | OpAccept string string "string option"
  | OpReject string string
  | OpNickname string string string
  | OpRemove string string
  | OpList string

fun contact_step :: "'e contact_env_scheme \<times> contact_op \<Rightarrow> 'z db_scheme \<Rightarrow> 'z db_scheme" where
  "contact_step (E, OpRequest c f t ip) d = snd (ContactsService_requestContactSave E c f t ip d)"
| "contact_step (E, OpAccept i u ip) d = snd (ContactsService_acceptContactSave E i u ip d)"
| "contact_step (E, OpReject i u) d = snd (ContactsService_rejectContactSave E i u d)"
| "contact_step (E, OpNickname owner c n) d = snd (ContactsService_updateNickname E owner c n d)"
| "contact_step (E, OpRemove owner c) d = snd (ContactsService_removeContact E owner c d)"
| "contact_step (E, OpList u) d = snd (ContactsService_listContacts E u d)"

subsection \<open>The life of a request\<close>

definition same_request_keys :: "contact_save_request_row \<Rightarrow> contact_save_request_row \<Rightarrow> bool" where
  "same_request_keys r r' \<longleftrightarrow> csr_id r' = csr_id r \<and> csr_call_session_id r' = csr_call_session_id r \<and>
     csr_from_user_id r' = csr_from_user_id r \<and> csr_to_user_id r' = csr_to_user_id r"

definition request_progress :: "contact_save_request_row \<Rightarrow> contact_save_request_row \<Rightarrow> bool" where
  "request_progress r r' \<longleftrightarrow> same_request_keys r r' \<and> (csr_status r \<noteq> SavePending \<longrightarrow> r' = r)"

interpretation requests: table request_progress contact_save_requests
  by unfold_locales (auto simp: request_progress_def same_request_keys_def)

lemma resolve_progress: "is_pending_for i u r \<Longrightarrow> request_progress r (resolve_as E st r)"
  by (simp add: request_progress_def same_request_keys_def is_pending_for_def resolve_as_def)

lemma requests_parts [op_moves]:
  "moves (later request_progress contact_save_requests) (insert_request E c f t)"
  "moves (later request_progress contact_save_requests) (resolve_request F i u st)"
  "moves (later request_progress contact_save_requests) (insert_contact F k owner other)"
  "moves (later request_progress contact_save_requests) (AuditService_log F entry)"
proof -
  show "moves (later request_progress contact_save_requests) (resolve_request F i u st)"
    by (rule movesI, rule requests.later_update [where p = "is_pending_for i u" and f = "resolve_as F st"])
      (simp_all add: resolve_request_def resolve_progress)
  show "moves (later request_progress contact_save_requests) (insert_request E c f t)"
    by (rule movesI) (simp add: insert_request_def Let_def requests.later_refl requests.later_insert)
qed (simp_all add: moves_def insert_contact_def AuditService_log_apply requests.later_refl requests.later_same)

lemma requests_service:
  "moves (later request_progress contact_save_requests) (ContactsService_requestContactSave E c f t ip)"
  "moves (later request_progress contact_save_requests) (ContactsService_acceptContactSave E i u ipo)"
  "moves (later request_progress contact_save_requests) (ContactsService_rejectContactSave F i u)"
  "moves (later request_progress contact_save_requests) (ContactsService_updateNickname F owner k n)"
  "moves (later request_progress contact_save_requests) (ContactsService_removeContact F owner k)"
  "moves (later request_progress contact_save_requests) (ContactsService_listContacts F u)"
  unfolding ContactsService_requestContactSave_def ContactsService_acceptContactSave_def
    ContactsService_rejectContactSave_def ContactsService_updateNickname_def
    ContactsService_removeContact_def ContactsService_listContacts_def insert_both_def
  by (auto intro!: moves_with_uuid requests.later_refl requests.moves_rules op_moves requests.moves_modify_same
      split: list.splits option.splits)

interpretation requests_run: monotone_machine "later request_progress contact_save_requests" contact_step
proof unfold_locales
  fix d :: "'z db_scheme" and e :: "'e contact_env_scheme \<times> contact_op"
  show "later request_progress contact_save_requests d (contact_step e d)"
    by (cases "(e, d)" rule: contact_step.cases) (simp_all add: requests_service [THEN movesD])
qed

subsection \<open>Consent\<close>

definition between :: "string \<Rightarrow> string \<Rightarrow> contact_save_request_row \<Rightarrow> bool" where
  "between a b r \<longleftrightarrow> csr_from_user_id r = a \<and> csr_to_user_id r = b \<or> csr_from_user_id r = b \<and> csr_to_user_id r = a"

definition consented :: "'z db_scheme \<Rightarrow> bool" where
  "consented d \<longleftrightarrow> (\<forall>c \<in> set (contacts d). \<exists>r \<in> set (contact_save_requests d).
     csr_status r = SaveAccepted \<and> between (c_owner_id c) (c_contact_user_id c) r)"

lemma consented_later:
  assumes "consented d" "later request_progress contact_save_requests d d'"
    and "\<And>c. c \<in> set (contacts d') \<Longrightarrow> (\<exists>c' \<in> set (contacts d). c_owner_id c' = c_owner_id c \<and>
        c_contact_user_id c' = c_contact_user_id c) \<or>
      (\<exists>r \<in> set (contact_save_requests d'). csr_status r = SaveAccepted \<and> between (c_owner_id c) (c_contact_user_id c) r)"
  shows "consented d'"
  unfolding consented_def
proof
  fix c assume "c \<in> set (contacts d')"
  from assms(3) [OF this]
  consider c' where "c' \<in> set (contacts d)" "c_owner_id c' = c_owner_id c" "c_contact_user_id c' = c_contact_user_id c"
    | (now) "\<exists>r \<in> set (contact_save_requests d'). csr_status r = SaveAccepted \<and> between (c_owner_id c) (c_contact_user_id c) r"
    by blast
  then show "\<exists>r \<in> set (contact_save_requests d'). csr_status r = SaveAccepted \<and> between (c_owner_id c) (c_contact_user_id c) r"
  proof cases
    case 1
    with assms(1) obtain r where r: "r \<in> set (contact_save_requests d)" "csr_status r = SaveAccepted"
      "between (c_owner_id c) (c_contact_user_id c) r"
      unfolding consented_def by metis
    then have "r \<in> set (contact_save_requests d')"
      using requests.later_row [OF assms(2) r(1)] by (auto simp: request_progress_def)
    with r show ?thesis by blast
  qed
qed

text \<open>The contacts a statement leaves: those there were, and possibly the pair, both ways.\<close>

lemma insert_both_contacts:
  assumes "c \<in> set (contacts (snd (insert_both E a b d)))"
  shows "c \<in> set (contacts d) \<or> c_owner_id c = a \<and> c_contact_user_id c = b \<or> c_owner_id c = b \<and> c_contact_user_id c = a"
  using assms
  by (auto simp: insert_both_def insert_contact_def op_simps split: if_splits)

lemma insert_both_requests: "contact_save_requests (snd (insert_both E a b d)) = contact_save_requests d"
  by (auto simp: insert_both_def insert_contact_def op_simps)

lemma insert_contact_succeeds:
  assumes "user_exists a d" "user_exists b d" "k \<notin> c_id ` set (contacts d)"
  shows "\<exists>d'. insert_contact E k a b d = (Inr (), d') \<and> has_contact a b d' \<and>
    (\<forall>x y. has_contact x y d \<longrightarrow> has_contact x y d') \<and> c_id ` set (contacts d') \<subseteq> insert k (c_id ` set (contacts d)) \<and>
    users d' = users d \<and> contact_save_requests d' = contact_save_requests d"
proof (cases "has_contact a b d")
  case True
  then show ?thesis by (simp add: insert_contact_def subset_insertI)
next
  case False
  with assms show ?thesis by (simp add: insert_contact_def has_contact_def)
qed

lemma insert_both_succeeds:
  assumes users: "user_exists a d" "user_exists b d"
    and keys: "fst (new_contact_ids E) \<noteq> snd (new_contact_ids E)"
      "{fst (new_contact_ids E), snd (new_contact_ids E)} \<inter> c_id ` set (contacts d) = {}"
  shows "\<exists>d'. insert_both E a b d = (Inr (), d') \<and> has_contact a b d' \<and> has_contact b a d' \<and>
    contact_save_requests d' = contact_save_requests d"
proof -
  have "fst (new_contact_ids E) \<notin> c_id ` set (contacts d)" using keys(2) by simp
  from insert_contact_succeeds [OF users this, of E] obtain d1
    where 1: "insert_contact E (fst (new_contact_ids E)) a b d = (Inr (), d1)" "has_contact a b d1"
      "c_id ` set (contacts d1) \<subseteq> insert (fst (new_contact_ids E)) (c_id ` set (contacts d))"
      "users d1 = users d" "contact_save_requests d1 = contact_save_requests d" by (elim exE conjE) (rule that; assumption)
  have "snd (new_contact_ids E) \<notin> c_id ` set (contacts d)" using keys(2) by simp
  with keys(1) 1(3) have fresh: "snd (new_contact_ids E) \<notin> c_id ` set (contacts d1)" by (metis insertE subsetD)
  have "user_exists b d1" "user_exists a d1" using users 1(4) by (simp_all add: user_exists_def)
  from insert_contact_succeeds [OF this fresh, of E] obtain d2 where 2: "insert_contact E (snd (new_contact_ids E)) b a d1 = (Inr (), d2)"
      "has_contact b a d2" "\<forall>x y. has_contact x y d1 \<longrightarrow> has_contact x y d2"
      "contact_save_requests d2 = contact_save_requests d1"
    by (elim exE conjE) (rule that; assumption)
  from 1 2 show ?thesis by (simp add: insert_both_def transaction_apply andthen_apply)
qed

lemma accept_cases:
  fixes d :: "'z db_scheme"
  obtains (bad) "ContactsService_acceptContactSave E i u ip d = (Inl (PgError INVALID_TEXT_REPRESENTATION), d)"
      "uuid_of E i = None \<or> uuid_of E u = None"
  | (none) j v where "uuid_of E i = Some j" "uuid_of E u = Some v"
      "\<not> list_ex (is_pending_for j v) (contact_save_requests d)"
      "ContactsService_acceptContactSave E i u ip d = (Inr False, d)"
  | (found) j v r where "uuid_of E i = Some j" "uuid_of E u = Some v"
      "r \<in> set (contact_save_requests d)" "is_pending_for j v r"
      "ContactsService_acceptContactSave E i u ip d =
        andthen (insert_both E (csr_from_user_id r) (csr_to_user_id r))
          (andthen (AuditService_log E (contact_audit u CONTACT_SAVED
              [(''fromUserId'', JStr (csr_from_user_id r)), (''toUserId'', JStr (csr_to_user_id r)),
               (''requestId'', JStr i)] ip)) (ret True))
          (d\<lparr>contact_save_requests :=
             update_where (is_pending_for j v) (resolve_as E SaveAccepted) (contact_save_requests d)\<rparr>)"
proof (cases "uuid_of E i = None \<or> uuid_of E u = None")
  case True
  then show ?thesis by (intro bad) (auto simp: ContactsService_acceptContactSave_def op_simps split: option.splits)
next
  case False
  then obtain j v where ids: "uuid_of E i = Some j" "uuid_of E u = Some v" by auto
  show ?thesis
  proof (cases "filter (is_pending_for j v) (contact_save_requests d)")
    case Nil
    then have quiet: "\<not> list_ex (is_pending_for j v) (contact_save_requests d)"
      by (auto simp: list_ex_iff filter_empty_conv)
    then have "update_where (is_pending_for j v) (resolve_as E SaveAccepted) (contact_save_requests d) =
        contact_save_requests d"
      by (intro update_where_none) (simp add: list_ex_iff)
    with Nil show ?thesis
      by (intro none [OF ids quiet]) (simp add: ContactsService_acceptContactSave_def resolve_request_def op_simps ids)
  next
    case (Cons r rs)
    then have "r \<in> set (contact_save_requests d)" "is_pending_for j v r" by (auto dest: filter_eq_ConsD)
    with Cons show ?thesis
      by (intro found [OF ids, of r])
        (simp_all add: ContactsService_acceptContactSave_def resolve_request_def op_simps ids resolve_as_def)
  qed
qed

lemma contacts_same_parts:
  "moves (same contacts) (insert_request E c f t)" "moves (same contacts) (resolve_request F i u st)"
  "moves (same contacts) (AuditService_log F entry)"
  by (simp_all add: moves_def same_def insert_request_def resolve_request_def AuditService_log_apply Let_def)

lemma contacts_same:
  "moves (same contacts) (ContactsService_requestContactSave E c f t ip)"
  "moves (same contacts) (ContactsService_rejectContactSave F i u)"
  "moves (same contacts) (ContactsService_listContacts F u)"
  unfolding ContactsService_requestContactSave_def ContactsService_rejectContactSave_def ContactsService_listContacts_def
  by (auto intro!: moves_with_uuid same_view.R_refl same_view.moves_rules contacts_same_parts split: option.splits)

lemmas contacts_unchanged = contacts_same [THEN movesD, unfolded same_def]

lemma contacts_edited:
  "c \<in> set (contacts (snd (ContactsService_updateNickname F owner k n d))) \<Longrightarrow>
     \<exists>c' \<in> set (contacts d). c_owner_id c' = c_owner_id c \<and> c_contact_user_id c' = c_contact_user_id c"
  "c \<in> set (contacts (snd (ContactsService_removeContact F owner k d))) \<Longrightarrow> c \<in> set (contacts d)"
  by (auto simp: ContactsService_updateNickname_def ContactsService_removeContact_def op_simps in_update_where
      split: option.splits if_splits)

lemma accept_contacts:
  assumes "c \<in> set (contacts (snd (ContactsService_acceptContactSave E i u ip d)))"
  shows "c \<in> set (contacts d) \<or>
    (\<exists>r \<in> set (contact_save_requests (snd (ContactsService_acceptContactSave E i u ip d))).
       csr_status r = SaveAccepted \<and> between (c_owner_id c) (c_contact_user_id c) r)"
proof (cases rule: accept_cases [of E i u ip d])
  case (found j v r)
  let ?d = "d\<lparr>contact_save_requests :=
    update_where (is_pending_for j v) (resolve_as E SaveAccepted) (contact_save_requests d)\<rparr>"
  let ?b = "insert_both E (csr_from_user_id r) (csr_to_user_id r) ?d"
  have end_state: "contacts (snd (ContactsService_acceptContactSave E i u ip d)) = contacts (snd ?b)"
    "contact_save_requests (snd (ContactsService_acceptContactSave E i u ip d)) = contact_save_requests ?d"
    using insert_both_requests [of E "csr_from_user_id r" "csr_to_user_id r" ?d]
    unfolding found(5) by (cases ?b; simp add: andthen_apply AuditService_log_apply ret_apply split: sum.splits)+
  have "resolve_as E SaveAccepted r \<in> set (contact_save_requests ?d)"
    using update_where_hit [where p = "is_pending_for j v", OF found(3,4)] by simp
  moreover have "csr_status (resolve_as E SaveAccepted r) = SaveAccepted"
    "csr_from_user_id (resolve_as E SaveAccepted r) = csr_from_user_id r"
    "csr_to_user_id (resolve_as E SaveAccepted r) = csr_to_user_id r"
    by (simp_all add: resolve_as_def)
  ultimately show ?thesis
    using assms insert_both_contacts [of c E "csr_from_user_id r" "csr_to_user_id r" ?d]
    unfolding end_state between_def by auto
qed (use assms in auto)

interpretation consent_run: guarded_machine "\<lambda>_ _. True" contact_step consented
proof unfold_locales
  fix d :: "'z db_scheme" and e :: "'e contact_env_scheme \<times> contact_op"
  assume ok: "consented d"
  show "consented (contact_step e d)"
    by (rule consented_later [OF ok requests_run.step_moves], cases "(e, d)" rule: contact_step.cases)
      (auto simp: contacts_unchanged dest: contacts_edited accept_contacts)
qed

text \<open>
  C22. Consent. In every state the contacts service reaches from empty tables, whoever has a
  contact has it by a request between the two users that its addressee accepted.
\<close>

theorem contacts_by_consent:
  assumes "contacts d0 = []" "reaches (\<lambda>_ _. True) contact_step d0 d" "c \<in> set (contacts d)"
  shows "\<exists>r \<in> set (contact_save_requests d). csr_status r = SaveAccepted \<and>
    {csr_from_user_id r, csr_to_user_id r} = {c_owner_id c, c_contact_user_id c}"
proof -
  have "consented d0" using assms(1) by (simp add: consented_def)
  from consent_run.reaches_keeps [OF assms(2) this] assms(3)
  obtain r where "r \<in> set (contact_save_requests d)" "csr_status r = SaveAccepted"
    "between (c_owner_id c) (c_contact_user_id c) r" by (auto simp: consented_def)
  then show ?thesis by (auto simp: between_def)
qed

text \<open>
  A request is resolved once. After any requests to the service a contact request is
  still there with its parties, and one that was accepted or rejected is unchanged.
\<close>

theorem request_resolved_once:
  assumes "r \<in> set (contact_save_requests d)"
  shows "\<exists>r' \<in> set (contact_save_requests (run contact_step es d)). same_request_keys r r' \<and>
    (csr_status r \<noteq> SavePending \<longrightarrow> r' = r)"
  using requests.later_row [OF requests_run.run_moves assms] by (simp add: request_progress_def)

text \<open>
  Accepting. The service says \<open>saved\<close> exactly when there is a pending request of that
  id addressed to the acceptor, and then each of the two users has the other as a contact and
  the request is accepted; otherwise it says not saved and nothing at all has changed.
\<close>

theorem accept_contact_outcome:
  assumes ids: "uuid_of E i = Some j" "uuid_of E u = Some v"
    and keys: "fst (new_contact_ids E) \<noteq> snd (new_contact_ids E)"
      "{fst (new_contact_ids E), snd (new_contact_ids E)} \<inter> c_id ` set (contacts d) = {}"
    and refs: "\<forall>r \<in> set (contact_save_requests d). user_exists (csr_from_user_id r) d \<and> user_exists (csr_to_user_id r) d"
  shows "let (res, d') = ContactsService_acceptContactSave E i u ip d;
      pending = (\<exists>r \<in> set (contact_save_requests d). csr_id r = j \<and> csr_to_user_id r = v \<and> csr_status r = SavePending)
    in res = Inr pending \<and>
       (if pending
        then \<exists>r \<in> set (contact_save_requests d). csr_id r = j \<and> csr_to_user_id r = v \<and> csr_status r = SavePending \<and>
               resolve_as E SaveAccepted r \<in> set (contact_save_requests d') \<and>
               has_contact (csr_from_user_id r) v d' \<and> has_contact v (csr_from_user_id r) d'
        else d' = d)"
proof (cases rule: accept_cases [of E i u ip d])
  case bad
  with ids show ?thesis by simp
next
  case (none j' v')
  then have "(\<exists>r \<in> set (contact_save_requests d). csr_id r = j \<and> csr_to_user_id r = v \<and> csr_status r = SavePending) = False"
    using ids by (auto simp: list_ex_iff is_pending_for_def)
  with none(4) show ?thesis by (simp only: case_prod_conv Let_def if_False simp_thms)
next
  case (found j' v' r)
  let ?d = "d\<lparr>contact_save_requests :=
    update_where (is_pending_for j v) (resolve_as E SaveAccepted) (contact_save_requests d)\<rparr>"
  let ?f = "csr_from_user_id r"
  have j: "j' = j" "v' = v" using found(1,2) ids by simp_all
  have r: "csr_id r = j" "csr_to_user_id r = v" "csr_status r = SavePending"
    using found(4) by (simp_all add: is_pending_for_def j)
  have users: "user_exists ?f ?d" "user_exists v ?d"
    using refs found(3) r(2) by (auto simp: user_exists_def)
  obtain d2 where both: "insert_both E ?f v ?d = (Inr (), d2)" "has_contact ?f v d2" "has_contact v ?f d2"
    "contact_save_requests d2 = contact_save_requests ?d"
    using insert_both_succeeds [OF users, of E] keys by auto
  have hit: "resolve_as E SaveAccepted r \<in> set (contact_save_requests d2)"
    using update_where_hit [where p = "is_pending_for j v" and f = "resolve_as E SaveAccepted", OF found(3)] found(4)
    by (simp add: both(4) j)
  have res: "ContactsService_acceptContactSave E i u ip d =
      (Inr True, snd (AuditService_log E (contact_audit u CONTACT_SAVED [(''fromUserId'', JStr ?f),
         (''toUserId'', JStr v), (''requestId'', JStr i)] ip) d2))"
    unfolding found(5) j by (simp add: andthen_apply both(1) r(2) AuditService_log_apply ret_apply)
  have "\<exists>r \<in> set (contact_save_requests d). csr_id r = j \<and> csr_to_user_id r = v \<and> csr_status r = SavePending"
    using found(3) r by blast
  moreover have "has_contact a b (d2\<lparr>audit_logs := x\<rparr>) = has_contact a b d2" for a b x
    by (simp add: has_contact_def)
  ultimately show ?thesis
    using hit both r found(3) unfolding res
    by (auto simp: AuditService_log_apply Let_def intro!: bexI [of _ r])
qed

text \<open>
  Asking again. When a request for the same call, sender and addressee is already
  there, asking for it once more returns that request, resolved or not, writes no audit entry
  and changes nothing; so a rejected request can never be renewed.
\<close>

theorem request_idempotent:
  assumes "uuid_of E c = Some c'" "uuid_of E f = Some f'" "uuid_of E t = Some t'"
    and "find (same_request c' f' t') (contact_save_requests d) = Some r"
  shows "ContactsService_requestContactSave E c f t ip d = (Inr r, d)"
proof -
  have "list_ex (same_request c' f' t') (contact_save_requests d)"
    using find_SomeD [OF assms(4)] by (auto simp: list_ex_iff)
  with assms show ?thesis
    by (simp add: ContactsService_requestContactSave_def insert_request_def op_simps)
qed

end
