(* ===== verification/ContactExamples.thy ===== *)
theory ContactExamples
  imports ContactRuns CallExamples
begin

text \<open>Ann asks Bob after their call, Bob accepts: the hypotheses of the contact properties hold.\<close>

definition contact_at :: "time \<Rightarrow> string \<Rightarrow> contact_env" where
  "contact_at t k = \<lparr>js_now = t, db_now = t, inet_ok = (\<lambda>_. True), uuid_of = Some,
     new_request_id = CHR ''r'' # k, new_contact_ids = (CHR ''x'' # k, CHR ''y'' # k)\<rparr>"

abbreviation contact_run_step :: "contact_env \<times> contact_op \<Rightarrow> db \<Rightarrow> db" where
  "contact_run_step \<equiv> contact_step"

definition asked :: db where
  "asked = run contact_run_step [(contact_at 70000 ''1'', OpRequest ''c1'' ''ann'' ''bob'' ''ip'')] talked"

definition befriended :: db where
  "befriended = run contact_run_step [(contact_at 71000 ''2'', OpAccept ''r1'' ''bob'' None)] asked"

lemma befriended_reached: "reaches (\<lambda>_ _. True) contact_run_step talked befriended"
proof -
  have "run_guarded (\<lambda>_ _. True) contact_run_step
     [(contact_at 70000 ''1'', OpRequest ''c1'' ''ann'' ''bob'' ''ip''), (contact_at 71000 ''2'', OpAccept ''r1'' ''bob'' None)] talked"
    by simp
  from run_reaches [OF this] show ?thesis by (simp add: befriended_def asked_def)
qed

theorem contacts_by_consent_witness:
  "contacts befriended \<noteq> [] \<and> (\<exists>r \<in> set (contact_save_requests befriended). csr_status r = SaveAccepted \<and>
     {csr_from_user_id r, csr_to_user_id r} = {c_owner_id (hd (contacts befriended)), c_contact_user_id (hd (contacts befriended))})"
proof -
  have none: "contacts talked = []" by code_simp
  have some: "contacts befriended \<noteq> []" by code_simp
  then have "hd (contacts befriended) \<in> set (contacts befriended)" by simp
  from contacts_by_consent [OF none befriended_reached this] some show ?thesis by blast
qed

theorem request_resolved_once_witness:
  "csr_status (hd (contact_save_requests befriended)) = SaveAccepted \<and>
   hd (contact_save_requests befriended) \<in> set (contact_save_requests
     (run contact_run_step [(contact_at 72000 ''3'', OpReject ''r1'' ''bob'')] befriended))"
proof -
  have r: "csr_status (hd (contact_save_requests befriended)) = SaveAccepted"
    "hd (contact_save_requests befriended) \<in> set (contact_save_requests befriended)"
    by code_simp+
  from request_resolved_once [OF r(2), of "[(contact_at 72000 ''3'', OpReject ''r1'' ''bob'')]"] r(1)
  show ?thesis by (metis SaveStatus.distinct(1))
qed

theorem accept_contact_outcome_witness:
  "fst (ContactsService_acceptContactSave (contact_at 71000 ''2'') ''r1'' ''bob'' None asked) = Inr True \<and>
   fst (ContactsService_acceptContactSave (contact_at 71000 ''2'') ''r1'' ''ann'' None asked) = Inr False"
proof -
  have ids: "uuid_of (contact_at 71000 ''2'') ''r1'' = Some ''r1''"
    "uuid_of (contact_at 71000 ''2'') ''bob'' = Some ''bob''" "uuid_of (contact_at 71000 ''2'') ''ann'' = Some ''ann''"
    and keys: "fst (new_contact_ids (contact_at 71000 ''2'')) \<noteq> snd (new_contact_ids (contact_at 71000 ''2''))"
      "{fst (new_contact_ids (contact_at 71000 ''2'')), snd (new_contact_ids (contact_at 71000 ''2''))} \<inter>
        c_id ` set (contacts asked) = {}"
    and refs: "\<forall>r \<in> set (contact_save_requests asked). user_exists (csr_from_user_id r) asked \<and> user_exists (csr_to_user_id r) asked"
    and pending: "\<exists>r \<in> set (contact_save_requests asked). csr_id r = ''r1'' \<and> csr_to_user_id r = ''bob'' \<and> csr_status r = SavePending"
      "\<not> (\<exists>r \<in> set (contact_save_requests asked). csr_id r = ''r1'' \<and> csr_to_user_id r = ''ann'' \<and> csr_status r = SavePending)"
    by code_simp+
  show ?thesis
    using accept_contact_outcome [OF ids(1,2) keys refs, of None] accept_contact_outcome [OF ids(1,3) keys refs, of None]
      pending by (simp add: case_prod_beta Let_def)
qed

theorem request_idempotent_witness:
  "ContactsService_requestContactSave (contact_at 73000 ''4'') ''c1'' ''ann'' ''bob'' ''ip'' befriended =
     (Inr (hd (contact_save_requests befriended)), befriended)"
  by (rule request_idempotent [where c' = "''c1''" and f' = "''ann''" and t' = "''bob''"]; code_simp)

end
