(* ===== verification/Matchmaking.thy ===== *)
theory Matchmaking
  imports JsLib AuditTrail Machines
begin

text \<open>
  \<open>src/matchmaking/matchmaking.service.ts\<close>: the queue of users waiting for a partner, kept
  in Redis as a list, with a hash from socket ids to queued entries. Redis itself is a
  parameter of the operations; the locale below states the documented behaviour of the
  commands the service uses. The service's JSON strings are represented by the entries they
  encode: \<open>JSON.stringify\<close> writes the fields of an entry in one order, so two strings are
  equal exactly when the entries are.
\<close>

subsection \<open>Entries\<close>

record QueueEntry =
  qe_anonymousId :: string
  qe_userId :: "string option"
  qe_socketId :: string
  qe_preferredType :: CallType
  qe_isAnonymous :: bool

record TimedEntry = QueueEntry +
  qe_enqueuedAt :: time

definition QUEUE_KEY :: string where
  "QUEUE_KEY = ''matchmaking:queue''"

definition SOCKETS_KEY :: string where
  "SOCKETS_KEY = ''matchmaking:sockets''"

definition QUEUE_TTL :: int where
  "QUEUE_TTL = 300"

subsection \<open>Redis\<close>

text \<open>The commands, as functions of the server's state.\<close>

record ('r, 'v) redis_ops =
  rpush :: "string \<Rightarrow> 'v \<Rightarrow> 'r \<Rightarrow> 'r"
  lpush :: "string \<Rightarrow> 'v \<Rightarrow> 'r \<Rightarrow> 'r"
  lpop :: "string \<Rightarrow> 'r \<Rightarrow> 'v option \<times> 'r"
  llen :: "string \<Rightarrow> 'r \<Rightarrow> nat"
  lrem :: "string \<Rightarrow> nat \<Rightarrow> 'v \<Rightarrow> 'r \<Rightarrow> 'r"
  hset :: "string \<Rightarrow> string \<Rightarrow> 'v \<Rightarrow> 'r \<Rightarrow> 'r"
  hget :: "string \<Rightarrow> string \<Rightarrow> 'r \<Rightarrow> 'v option"
  hdel :: "string \<Rightarrow> string list \<Rightarrow> 'r \<Rightarrow> 'r"

text \<open>The state of the server process with its Redis connection.\<close>

record 'r redis_db = db +
  redis :: 'r

type_synonym 'r queue_ops = "('r, TimedEntry) redis_ops"

definition command :: "('r \<Rightarrow> 'r) \<Rightarrow> (('r, 'z) redis_db_scheme, unit) op" where
  "command f = modify (redis_update f)"

text \<open>The script of \<open>tryMatch\<close>; Redis runs it without interleaving other commands.\<close>

definition pop_two :: "('r, 'v) redis_ops \<Rightarrow> 'r \<Rightarrow> ('v \<times> 'v) option \<times> 'r" where
  "pop_two R r =
     (if llen R QUEUE_KEY r < 2 then (None, r)
      else (case lpop R QUEUE_KEY r of
        (Some a, r1) \<Rightarrow> (case lpop R QUEUE_KEY r1 of
            (Some b, r2) \<Rightarrow> (Some (a, b), r2)
          | (None, r2) \<Rightarrow> (None, r2))
      | (None, r1) \<Rightarrow> (None, r1)))"

definition eval_pop_two :: "'r queue_ops \<Rightarrow> (('r, 'z) redis_db_scheme, (TimedEntry \<times> TimedEntry) option) op" where
  "eval_pop_two R s = (case pop_two R (redis s) of (pair, r) \<Rightarrow> (Inr pair, s\<lparr>redis := r\<rparr>))"

subsection \<open>The service\<close>

definition timed :: "'e env_scheme \<Rightarrow> QueueEntry \<Rightarrow> TimedEntry" where
  "timed E entry = QueueEntry.extend entry (TimedEntry.fields (js_now E))"

definition match_audit ::
    "string option \<Rightarrow> string option \<Rightarrow> AuditEventType \<Rightarrow> (string \<times> json) list \<Rightarrow> AuditEntry" where
  "match_audit u anon ev payload = (audit_entry u ev payload)\<lparr>ae_anonymousId := anon\<rparr>"

definition MatchmakingService_enqueue ::
    "'r queue_ops \<Rightarrow> 'e env_scheme \<Rightarrow> QueueEntry \<Rightarrow> (('r, 'z) redis_db_scheme, nat) op" where
  "MatchmakingService_enqueue R E entry =
     andthen (command (rpush R QUEUE_KEY (timed E entry)))
    (andthen (command (hset R SOCKETS_KEY (qe_socketId entry) (timed E entry)))
    (andthen (AuditService_log E (match_audit (qe_userId entry) (Some (qe_anonymousId entry)) MATCH_QUEUED
        [(''socketId'', JStr (qe_socketId entry)), (''preferredType'', JType (qe_preferredType entry))]))
    (gets (\<lambda>s. llen R QUEUE_KEY (redis s)))))"

text \<open>\<open>!enqueuedAt || now - enqueuedAt < ttlMs\<close>\<close>

definition is_fresh :: "'e env_scheme \<Rightarrow> TimedEntry \<Rightarrow> bool" where
  "is_fresh E e \<longleftrightarrow> qe_enqueuedAt e = 0 \<or> js_now E - qe_enqueuedAt e < QUEUE_TTL * 1000"

definition user_or_anon :: "TimedEntry \<Rightarrow> string" where
  "user_or_anon e = (case qe_userId e of Some u \<Rightarrow> u | None \<Rightarrow> qe_anonymousId e)"

definition MatchmakingService_tryMatch ::
    "'r queue_ops \<Rightarrow> 'e env_scheme \<Rightarrow> (('r, 'z) redis_db_scheme, (TimedEntry \<times> TimedEntry) option) op" where
  "MatchmakingService_tryMatch R E =
     bnd (eval_pop_two R) (\<lambda>popped. case popped of
       None \<Rightarrow> ret None
     | Some (e1, e2) \<Rightarrow>
         if \<not> is_fresh E e1 \<and> \<not> is_fresh E e2
         then andthen (command (hdel R SOCKETS_KEY [qe_socketId e1, qe_socketId e2])) (ret None)
         else if \<not> is_fresh E e1
         then andthen (command (lpush R QUEUE_KEY e2))
             (andthen (command (hdel R SOCKETS_KEY [qe_socketId e1])) (ret None))
         else if \<not> is_fresh E e2
         then andthen (command (lpush R QUEUE_KEY e1))
             (andthen (command (hdel R SOCKETS_KEY [qe_socketId e2])) (ret None))
         else andthen (command (hdel R SOCKETS_KEY [qe_socketId e1, qe_socketId e2]))
             (andthen (AuditService_log E (match_audit None None MATCH_FOUND
                 [(''user1'', JStr (user_or_anon e1)), (''user2'', JStr (user_or_anon e2))]))
             (ret (Some (e1, e2)))))"

definition MatchmakingService_dequeue ::
    "'r queue_ops \<Rightarrow> 'e env_scheme \<Rightarrow> string \<Rightarrow> (('r, 'z) redis_db_scheme, unit) op" where
  "MatchmakingService_dequeue R E socketId =
     bnd (gets (\<lambda>s. hget R SOCKETS_KEY socketId (redis s))) (\<lambda>raw. case raw of
       None \<Rightarrow> ret ()
     | Some entry \<Rightarrow>
         andthen (command (lrem R QUEUE_KEY 1 entry))
        (andthen (command (hdel R SOCKETS_KEY [socketId]))
        (AuditService_log E (match_audit (qe_userId entry) (Some (qe_anonymousId entry)) MATCH_CANCELLED
           [(''socketId'', JStr socketId)]))))"

definition MatchmakingService_queueDepth :: "'r queue_ops \<Rightarrow> (('r, 'z) redis_db_scheme, nat) op" where
  "MatchmakingService_queueDepth R = gets (\<lambda>s. llen R QUEUE_KEY (redis s))"

subsection \<open>The documented behaviour of the commands\<close>

text \<open>
  \<open>elems r k\<close> is the list stored at a key, \<open>fields_of r k\<close> the hash stored at a key: how
  the commands read and change them (\<open>LREM key 1 v\<close> removes the first element equal
  to \<open>v\<close>).
\<close>

locale redis_store =
  fixes R :: "('r, 'v) redis_ops"
    and elems :: "'r \<Rightarrow> string \<Rightarrow> 'v list"
    and fields_of :: "'r \<Rightarrow> string \<Rightarrow> string \<Rightarrow> 'v option"
  assumes rpush_elems: "elems (rpush R k v r) = (elems r)(k := elems r k @ [v])"
    and rpush_fields: "fields_of (rpush R k v r) = fields_of r"
    and lpush_elems: "elems (lpush R k v r) = (elems r)(k := v # elems r k)"
    and lpush_fields: "fields_of (lpush R k v r) = fields_of r"
    and lpop_empty: "elems r k = [] \<Longrightarrow> lpop R k r = (None, r)"
    and lpop_value: "elems r k = v # vs \<Longrightarrow> fst (lpop R k r) = Some v"
    and lpop_elems: "elems r k = v # vs \<Longrightarrow> elems (snd (lpop R k r)) = (elems r)(k := vs)"
    and lpop_fields: "fields_of (snd (lpop R k r)) = fields_of r"
    and llen_elems: "llen R k r = length (elems r k)"
    and lrem_elems: "elems (lrem R k 1 v r) = (elems r)(k := remove1 v (elems r k))"
    and lrem_fields: "fields_of (lrem R k 1 v r) = fields_of r"
    and hset_elems: "elems (hset R k f v r) = elems r"
    and hset_fields: "fields_of (hset R k f v r) = (fields_of r)(k := (fields_of r k)(f := Some v))"
    and hget_fields: "hget R k f r = fields_of r k f"
    and hdel_elems: "elems (hdel R k fs r) = elems r"
    and hdel_fields: "fields_of (hdel R k fs r) = (fields_of r)(k := fields_of r k |` (- set fs))"
begin

lemmas redis_laws = rpush_elems rpush_fields lpush_elems lpush_fields lpop_fields llen_elems lrem_elems
  lrem_fields hset_elems hset_fields hget_fields hdel_elems hdel_fields

text \<open>The script pops the two oldest elements, or nothing when there are fewer than two.\<close>

lemma pop_two_short: "length (elems r QUEUE_KEY) < 2 \<Longrightarrow> pop_two R r = (None, r)"
  by (simp add: pop_two_def llen_elems)

lemma pop_two_pair:
  assumes "elems r QUEUE_KEY = a # b # vs"
  shows "fst (pop_two R r) = Some (a, b)"
    and "elems (snd (pop_two R r)) = (elems r)(QUEUE_KEY := vs)"
    and "fields_of (snd (pop_two R r)) = fields_of r"
proof -
  obtain r1 where r1: "lpop R QUEUE_KEY r = (Some a, r1)" "elems r1 = (elems r)(QUEUE_KEY := b # vs)"
    "fields_of r1 = fields_of r"
    using lpop_value [OF assms] lpop_elems [OF assms] lpop_fields [of QUEUE_KEY r] by (metis prod.collapse)
  then have here: "elems r1 QUEUE_KEY = b # vs" by simp
  obtain r2 where r2: "lpop R QUEUE_KEY r1 = (Some b, r2)" "elems r2 = (elems r1)(QUEUE_KEY := vs)"
    "fields_of r2 = fields_of r1"
    using lpop_value [OF here] lpop_elems [OF here] lpop_fields [of QUEUE_KEY r1] by (metis prod.collapse)
  show "fst (pop_two R r) = Some (a, b)" "elems (snd (pop_two R r)) = (elems r)(QUEUE_KEY := vs)"
    "fields_of (snd (pop_two R r)) = fields_of r"
    using assms r1 r2 by (simp_all add: pop_two_def llen_elems)
qed

end

end
