(* ===== verification/Sfu.thy ===== *)
theory Sfu
  imports Matchmaking
begin

text \<open>
  \<open>src/sfu/sfu.service.ts\<close>: the manager of group-call rooms. The mediasoup library is a
  parameter: its calls are operations on a media state of their own, which may fail (a
  rejected promise), and its objects are represented by their identity. Capabilities and RTP,
  ICE and DTLS parameters are passed through unread, as texts.
\<close>

subsection \<open>What is asked of mediasoup\<close>

type_synonym obj = nat

datatype MediaKind = AudioKind | VideoKind

text \<open>A setting from the environment is a text, a default may be a number.\<close>

datatype setting = Text string | Number int

record RtpCodec =
  codec_kind :: MediaKind
  mimeType :: string
  clockRate :: int
  channels :: "int option"
  codec_parameters :: "(string \<times> setting) list"

record TransportOptions =
  listen_ip :: setting
  announced_ip :: setting
  enableUdp :: bool
  enableTcp :: bool
  preferUdp :: bool
  initialAvailableOutgoingBitrate :: int

record WorkerSettings =
  ws_logLevel :: string
  rtcMinPort :: setting
  rtcMaxPort :: setting

record 'm mediasoup =
  createWorker :: "WorkerSettings \<Rightarrow> ('m, obj) op"
  createRouter :: "obj \<Rightarrow> RtpCodec list \<Rightarrow> ('m, obj) op"
  rtpCapabilities :: "obj \<Rightarrow> string"
  createTransport :: "obj \<Rightarrow> TransportOptions \<Rightarrow> ('m, obj) op"
  transport_params :: "obj \<Rightarrow> string \<times> string \<times> string"
  transport_connect :: "obj \<Rightarrow> string \<Rightarrow> ('m, unit) op"
  transport_produce :: "obj \<Rightarrow> MediaKind \<Rightarrow> string \<Rightarrow> ('m, obj) op"
  transport_consume :: "obj \<Rightarrow> string \<Rightarrow> string \<Rightarrow> bool \<Rightarrow> ('m, obj) op"
  canConsume :: "obj \<Rightarrow> string \<Rightarrow> string \<Rightarrow> 'm \<Rightarrow> bool"
  consumer_info :: "obj \<Rightarrow> MediaKind \<times> string"
  consumer_resume :: "obj \<Rightarrow> ('m, unit) op"
  close_obj :: "obj \<Rightarrow> 'm \<Rightarrow> 'm"
  id_of :: "obj \<Rightarrow> string"

text \<open>The library, whether it can be loaded, the settings and the number of processors.\<close>

record 'm sfu_env =
  ms :: "'m mediasoup"
  installed :: bool
  config :: "string \<Rightarrow> string option"
  cpus :: nat

definition config_get :: "'m sfu_env \<Rightarrow> string \<Rightarrow> setting \<Rightarrow> setting" where
  "config_get M key dflt = (case config M key of Some t \<Rightarrow> Text t | None \<Rightarrow> dflt)"

subsection \<open>The state\<close>

record room =
  router :: obj
  transports :: "(string, obj) jsmap"
  producers :: "(string, obj) jsmap"
  consumers :: "(string, obj) jsmap"
  participants :: "string list"

text \<open>\<open>watched\<close> are the workers that have a listener for \<open>died\<close>.\<close>

record ('r, 'm) media_db = "'r redis_db" +
  media :: 'm
  mediasoup_loaded :: bool
  workers :: "obj list"
  workerIndex :: nat
  watched :: "obj list"
  rooms :: "(string, room) jsmap"

record RoomInfo =
  ri_roomId :: string
  ri_routerRtpCaps :: string
  ri_participantCount :: nat

definition on_media :: "('m, 'a) op \<Rightarrow> (('r, 'm, 'z) media_db_scheme, 'a) op" where
  "on_media f s = (case f (media s) of (r, m) \<Rightarrow> (r, s\<lparr>media := m\<rparr>))"

definition js_error :: "string \<Rightarrow> exn" where
  "js_error msg = JsError msg None"

subsection \<open>Workers\<close>

definition worker_settings :: "'m sfu_env \<Rightarrow> WorkerSettings" where
  "worker_settings M = \<lparr>ws_logLevel = ''warn'',
     rtcMinPort = config_get M ''MEDIASOUP_MIN_PORT'' (Number 40000),
     rtcMaxPort = config_get M ''MEDIASOUP_MAX_PORT'' (Number 49999)\<rparr>"

definition numWorkers :: "'m sfu_env \<Rightarrow> nat" where
  "numWorkers M = max 1 (min (cpus M) 4)"

fun spawn_loop :: "'m sfu_env \<Rightarrow> nat \<Rightarrow> (('r, 'm, 'z) media_db_scheme, unit) op" where
  "spawn_loop M 0 = ret ()"
| "spawn_loop M (Suc n) =
     bnd (on_media (createWorker (ms M) (worker_settings M))) (\<lambda>w.
     andthen (modify (\<lambda>s. s\<lparr>watched := watched s @ [w], workers := workers s @ [w]\<rparr>))
       (spawn_loop M n))"

definition SfuService_spawnWorkers :: "'m sfu_env \<Rightarrow> (('r, 'm, 'z) media_db_scheme, unit) op" where
  "SfuService_spawnWorkers M =
     bnd (gets mediasoup_loaded) (\<lambda>loaded. if \<not> loaded then ret () else spawn_loop M (numWorkers M))"

definition SfuService_onModuleInit :: "'m sfu_env \<Rightarrow> (('r, 'm, 'z) media_db_scheme, unit) op" where
  "SfuService_onModuleInit M = catch
     (andthen (if installed M then ret () else raise (js_error ''Cannot find module mediasoup''))
     (andthen (modify (mediasoup_loaded_update (\<lambda>_. True))) (SfuService_spawnWorkers M)))
     (\<lambda>_. ret ())"

text \<open>\<open>workers.indexOf(dead)\<close>\<close>

fun indexOf :: "'a \<Rightarrow> 'a list \<Rightarrow> nat option" where
  "indexOf x [] = None"
| "indexOf x (y # ys) = (if x = y then Some 0 else map_option Suc (indexOf x ys))"

definition SfuService_replaceWorker :: "'m sfu_env \<Rightarrow> obj \<Rightarrow> (('r, 'm, 'z) media_db_scheme, unit) op" where
  "SfuService_replaceWorker M dead =
     bnd (gets (\<lambda>s. (indexOf dead (workers s), mediasoup_loaded s))) (\<lambda>(idx, loaded).
     case idx of None \<Rightarrow> ret ()
     | Some i \<Rightarrow> if \<not> loaded then ret ()
         else bnd (on_media (createWorker (ms M) (worker_settings M))) (\<lambda>w.
           modify (\<lambda>s. s\<lparr>workers := (workers s)[i := w]\<rparr>)))"

text \<open>The event \<open>died\<close> of a worker: the listener of \<open>spawnWorkers\<close>, where there is one.\<close>

definition worker_died :: "'m sfu_env \<Rightarrow> obj \<Rightarrow> (('r, 'm, 'z) media_db_scheme, unit) op" where
  "worker_died M w =
     bnd (gets watched) (\<lambda>ws. if w \<in> set ws then SfuService_replaceWorker M w else ret ())"

definition SfuService_nextWorker :: "(('r, 'm, 'z) media_db_scheme, obj option) op" where
  "SfuService_nextWorker s =
     (if workers s = [] then (Inr None, s)
      else (Inr (Some (workers s ! (workerIndex s mod length (workers s)))),
            s\<lparr>workerIndex := workerIndex s + 1\<rparr>))"

definition SfuService_isAvailable :: "('r, 'm, 'z) media_db_scheme \<Rightarrow> bool" where
  "SfuService_isAvailable s \<longleftrightarrow> mediasoup_loaded s \<and> workers s \<noteq> []"

definition SfuService_onModuleDestroy :: "'m sfu_env \<Rightarrow> (('r, 'm, 'z) media_db_scheme, unit) op" where
  "SfuService_onModuleDestroy M =
     modify (\<lambda>s. s\<lparr>media := fold (close_obj (ms M)) (workers s) (media s)\<rparr>)"

subsection \<open>Rooms\<close>

definition mediaCodecs :: "RtpCodec list" where
  "mediaCodecs =
     [\<lparr>codec_kind = AudioKind, mimeType = ''audio/opus'', clockRate = 48000, channels = Some 2,
       codec_parameters = []\<rparr>,
      \<lparr>codec_kind = VideoKind, mimeType = ''video/VP8'', clockRate = 90000, channels = None,
       codec_parameters = [(''x-google-start-bitrate'', Number 1000)]\<rparr>,
      \<lparr>codec_kind = VideoKind, mimeType = ''video/H264'', clockRate = 90000, channels = None,
       codec_parameters = [(''packetization-mode'', Number 1), (''profile-level-id'', Text ''42e01f''),
         (''level-asymmetry-allowed'', Number 1)]\<rparr>]"

definition new_room :: "obj \<Rightarrow> room" where
  "new_room r = \<lparr>router = r, transports = [], producers = [], consumers = [], participants = []\<rparr>"

text \<open>
  \<open>createRoom\<close> in two halves, at its \<open>await\<close>: other handlers may run between them.
\<close>

definition createRoom_router :: "'m sfu_env \<Rightarrow> (('r, 'm, 'z) media_db_scheme, obj) op" where
  "createRoom_router M =
     bnd (gets SfuService_isAvailable) (\<lambda>available.
     if \<not> available then raise (js_error ''MediaSoup not available'')
     else bnd SfuService_nextWorker (\<lambda>worker. on_media (createRouter (ms M) (the worker) mediaCodecs)))"

definition createRoom_store :: "'m sfu_env \<Rightarrow> string \<Rightarrow> obj \<Rightarrow> (('r, 'm, 'z) media_db_scheme, RoomInfo) op" where
  "createRoom_store M roomId r =
     andthen (modify (\<lambda>s. s\<lparr>rooms := map_set roomId (new_room r) (rooms s)\<rparr>))
       (ret \<lparr>ri_roomId = roomId, ri_routerRtpCaps = rtpCapabilities (ms M) r, ri_participantCount = 0\<rparr>)"

definition SfuService_createRoom :: "'m sfu_env \<Rightarrow> string \<Rightarrow> (('r, 'm, 'z) media_db_scheme, RoomInfo) op" where
  "SfuService_createRoom M roomId = bnd (createRoom_router M) (createRoom_store M roomId)"

text \<open>\<open>const room = this.rooms.get(roomId); if (!room) throw ...\<close>\<close>

definition with_room ::
    "string \<Rightarrow> (room \<Rightarrow> (('r, 'm, 'z) media_db_scheme, 'a) op) \<Rightarrow> (('r, 'm, 'z) media_db_scheme, 'a) op" where
  "with_room roomId f =
     bnd (gets (\<lambda>s. map_of (rooms s) roomId)) (\<lambda>r. case r of
       None \<Rightarrow> raise (js_error (''Room '' @ roomId @ '' not found''))
     | Some room \<Rightarrow> f room)"

definition put_room :: "string \<Rightarrow> room \<Rightarrow> (('r, 'm, 'z) media_db_scheme, unit) op" where
  "put_room roomId room = modify (\<lambda>s. s\<lparr>rooms := map_set roomId room (rooms s)\<rparr>)"

definition transport_options :: "'m sfu_env \<Rightarrow> TransportOptions" where
  "transport_options M = \<lparr>listen_ip = config_get M ''MEDIASOUP_LISTEN_IP'' (Text ''0.0.0.0''),
     announced_ip = config_get M ''MEDIASOUP_ANNOUNCED_IP'' (Text ''127.0.0.1''),
     enableUdp = True, enableTcp = True, preferUdp = True, initialAvailableOutgoingBitrate = 1000000\<rparr>"

definition transport_key :: "string \<Rightarrow> string \<Rightarrow> string" where
  "transport_key peerId tid = peerId @ '':'' @ tid"

definition add_transport :: "'m sfu_env \<Rightarrow> string \<Rightarrow> obj \<Rightarrow> room \<Rightarrow> room" where
  "add_transport M peerId t room =
     room\<lparr>transports := map_set (transport_key peerId (id_of (ms M) t)) t (transports room),
          participants := set_add peerId (participants room)\<rparr>"

definition SfuService_createWebRtcTransport ::
    "'m sfu_env \<Rightarrow> string \<Rightarrow> string \<Rightarrow> (('r, 'm, 'z) media_db_scheme, string \<times> string \<times> string \<times> string) op" where
  "SfuService_createWebRtcTransport M roomId peerId =
     with_room roomId (\<lambda>room.
       bnd (on_media (createTransport (ms M) (router room) (transport_options M))) (\<lambda>t.
       andthen (put_room roomId (add_transport M peerId t room))
         (ret (id_of (ms M) t, transport_params (ms M) t))))"

text \<open>The first transport of the room with that id, whichever peer it belongs to.\<close>

definition find_transport :: "'m sfu_env \<Rightarrow> string \<Rightarrow> room \<Rightarrow> obj option" where
  "find_transport M tid room = find (\<lambda>t. id_of (ms M) t = tid) (map snd (transports room))"

definition with_transport ::
    "'m sfu_env \<Rightarrow> string \<Rightarrow> room \<Rightarrow> (obj \<Rightarrow> (('r, 'm, 'z) media_db_scheme, 'a) op) \<Rightarrow>
     (('r, 'm, 'z) media_db_scheme, 'a) op" where
  "with_transport M tid room f = (case find_transport M tid room of
     None \<Rightarrow> raise (js_error (''Transport '' @ tid @ '' not found'')) | Some t \<Rightarrow> f t)"

definition SfuService_connectTransport ::
    "'m sfu_env \<Rightarrow> string \<Rightarrow> string \<Rightarrow> string \<Rightarrow> (('r, 'm, 'z) media_db_scheme, unit) op" where
  "SfuService_connectTransport M roomId tid dtls =
     with_room roomId (\<lambda>room. with_transport M tid room (\<lambda>t. on_media (transport_connect (ms M) t dtls)))"

definition SfuService_produce ::
    "'m sfu_env \<Rightarrow> string \<Rightarrow> string \<Rightarrow> MediaKind \<Rightarrow> string \<Rightarrow> string \<Rightarrow> (('r, 'm, 'z) media_db_scheme, string) op" where
  "SfuService_produce M roomId tid kind rtp peerId =
     with_room roomId (\<lambda>room. with_transport M tid room (\<lambda>t.
       bnd (on_media (transport_produce (ms M) t kind rtp)) (\<lambda>p.
       andthen (put_room roomId (room\<lparr>producers := map_set (id_of (ms M) p) p (producers room)\<rparr>))
         (ret (id_of (ms M) p)))))"

definition SfuService_consume ::
    "'m sfu_env \<Rightarrow> string \<Rightarrow> string \<Rightarrow> string \<Rightarrow> string \<Rightarrow> string \<Rightarrow>
     (('r, 'm, 'z) media_db_scheme, string \<times> string \<times> MediaKind \<times> string) op" where
  "SfuService_consume M roomId peerId producerId caps tid =
     with_room roomId (\<lambda>room.
       bnd (gets (\<lambda>s. canConsume (ms M) (router room) producerId caps (media s))) (\<lambda>can.
       if \<not> can then raise (js_error ''Cannot consume - incompatible RTP capabilities'')
       else with_transport M tid room (\<lambda>t.
         bnd (on_media (transport_consume (ms M) t producerId caps True)) (\<lambda>c.
         andthen (put_room roomId (room\<lparr>consumers := map_set (id_of (ms M) c) c (consumers room)\<rparr>))
           (ret (id_of (ms M) c, producerId, consumer_info (ms M) c))))))"

definition SfuService_resumeConsumer ::
    "'m sfu_env \<Rightarrow> string \<Rightarrow> string \<Rightarrow> (('r, 'm, 'z) media_db_scheme, unit) op" where
  "SfuService_resumeConsumer M roomId consumerId =
     with_room roomId (\<lambda>room. case map_of (consumers room) consumerId of
       None \<Rightarrow> raise (js_error (''Consumer '' @ consumerId @ '' not found''))
     | Some c \<Rightarrow> on_media (consumer_resume (ms M) c))"

text \<open>\<open>key.startsWith(`${peerId}:`)\<close>\<close>

definition of_peer :: "string \<Rightarrow> string \<times> obj \<Rightarrow> bool" where
  "of_peer peerId kt \<longleftrightarrow> startsWith (fst kt) (peerId @ '':'')"

definition without_peer :: "string \<Rightarrow> room \<Rightarrow> room" where
  "without_peer peerId room =
     room\<lparr>transports := filter (\<lambda>kt. \<not> of_peer peerId kt) (transports room),
          participants := set_delete peerId (participants room)\<rparr>"

definition SfuService_removeParticipant ::
    "'m sfu_env \<Rightarrow> string \<Rightarrow> string \<Rightarrow> (('r, 'm, 'z) media_db_scheme, unit) op" where
  "SfuService_removeParticipant M roomId peerId =
     bnd (gets (\<lambda>s. map_of (rooms s) roomId)) (\<lambda>r. case r of
       None \<Rightarrow> ret ()
     | Some room \<Rightarrow>
         andthen (modify (\<lambda>s. s\<lparr>media :=
            fold (\<lambda>kt. close_obj (ms M) (snd kt)) (filter (of_peer peerId) (transports room)) (media s)\<rparr>))
         (if participants (without_peer peerId room) = []
          then modify (\<lambda>s. s\<lparr>media := close_obj (ms M) (router room) (media s), rooms := map_delete roomId (rooms s)\<rparr>)
          else put_room roomId (without_peer peerId room)))"

definition SfuService_getRoomInfo :: "'m sfu_env \<Rightarrow> string \<Rightarrow> ('r, 'm, 'z) media_db_scheme \<Rightarrow> RoomInfo option" where
  "SfuService_getRoomInfo M roomId s = map_option (\<lambda>room.
     \<lparr>ri_roomId = roomId, ri_routerRtpCaps = rtpCapabilities (ms M) (router room),
      ri_participantCount = length (participants room)\<rparr>) (map_of (rooms s) roomId)"

lemma on_media_apply [op_simps]: "on_media f s = (fst (f (media s)), s\<lparr>media := snd (f (media s))\<rparr>)"
  by (simp add: on_media_def split: prod.splits)

lemma with_room_apply [op_simps]:
  "with_room i f s = (case map_of (rooms s) i of None \<Rightarrow> (Inl (js_error (''Room '' @ i @ '' not found'')), s) | Some r \<Rightarrow> f r s)"
  by (simp add: with_room_def op_simps split: option.splits)

lemma put_room_apply [op_simps]: "put_room i r s = (Inr (), s\<lparr>rooms := map_set i r (rooms s)\<rparr>)"
  by (simp add: put_room_def op_simps)

lemma with_transport_apply [op_simps]:
  "with_transport M tid room f s = (case find_transport M tid room of
     None \<Rightarrow> (Inl (js_error (''Transport '' @ tid @ '' not found'')), s) | Some t \<Rightarrow> f t s)"
  by (simp add: with_transport_def op_simps split: option.splits)

end
