(* ===== verification/SfuRooms.thy ===== *)
theory SfuRooms
  imports Sfu
begin

text \<open>
  The rooms over runs of the service: who is in a room is exactly who has a transport there,
  an operation touches its own room only, a transport can be used until its peer is removed,
  and removing a peer closes its transports and, after the last one, the room.
\<close>

subsection \<open>Runs\<close>

datatype sfu_op =
    SfuCreate string
  | SfuTransport string string
  | SfuConnect string string string
  | SfuProduce string string MediaKind string string
  | SfuConsume string string string string string
  | SfuResume string string
  | SfuRemove string string

fun sfu_step :: "'m sfu_env \<Rightarrow> sfu_op \<Rightarrow> ('r, 'm, 'z) media_db_scheme \<Rightarrow> ('r, 'm, 'z) media_db_scheme" where
  "sfu_step M (SfuCreate i) s = snd (SfuService_createRoom M i s)"
| "sfu_step M (SfuTransport i p) s = snd (SfuService_createWebRtcTransport M i p s)"
| "sfu_step M (SfuConnect i t dtls) s = snd (SfuService_connectTransport M i t dtls s)"
| "sfu_step M (SfuProduce i t k rtp p) s = snd (SfuService_produce M i t k rtp p s)"
| "sfu_step M (SfuConsume i p pid caps t) s = snd (SfuService_consume M i p pid caps t s)"
| "sfu_step M (SfuResume i c) s = snd (SfuService_resumeConsumer M i c s)"
| "sfu_step M (SfuRemove i p) s = snd (SfuService_removeParticipant M i p s)"

fun op_room :: "sfu_op \<Rightarrow> string" where
  "op_room (SfuCreate i) = i"
| "op_room (SfuTransport i p) = i"
| "op_room (SfuConnect i t dtls) = i"
| "op_room (SfuProduce i t k rtp p) = i"
| "op_room (SfuConsume i p pid caps t) = i"
| "op_room (SfuResume i c) = i"
| "op_room (SfuRemove i p) = i"

text \<open>Peers are socket ids, which hold no colon.\<close>

fun plain_peer :: "'s \<Rightarrow> sfu_op \<Rightarrow> bool" where
  "plain_peer s (SfuTransport i p) = (CHR '':'' \<notin> set p)"
| "plain_peer s (SfuRemove i p) = (CHR '':'' \<notin> set p)"
| "plain_peer s _ = True"

subsection \<open>What each operation does to the rooms\<close>

lemma rooms_createRoom:
  "rooms (snd (SfuService_createRoom M i s)) =
     (case fst (createRoom_router M s) of Inl _ \<Rightarrow> rooms s | Inr r \<Rightarrow> map_set i (new_room r) (rooms s))"
  by (auto simp: SfuService_createRoom_def createRoom_router_def createRoom_store_def op_simps
      SfuService_nextWorker_def split: sum.splits prod.splits option.splits)

lemma rooms_createTransport:
  "rooms (snd (SfuService_createWebRtcTransport M i p s)) =
     (case map_of (rooms s) i of None \<Rightarrow> rooms s
      | Some room \<Rightarrow> (case fst (createTransport (ms M) (router room) (transport_options M) (media s)) of
           Inl _ \<Rightarrow> rooms s | Inr t \<Rightarrow> map_set i (add_transport M p t room) (rooms s)))"
  by (auto simp: SfuService_createWebRtcTransport_def op_simps split: sum.splits prod.splits option.splits)

lemma rooms_connect: "rooms (snd (SfuService_connectTransport M i t dtls s)) = rooms s"
  by (auto simp: SfuService_connectTransport_def op_simps split: option.splits)

lemma rooms_resume: "rooms (snd (SfuService_resumeConsumer M i c s)) = rooms s"
  by (auto simp: SfuService_resumeConsumer_def op_simps split: option.splits)

text \<open>\<open>produce\<close> and \<open>consume\<close> only add to the room's producers and consumers.\<close>

lemma rooms_produce:
  "rooms (snd (SfuService_produce M i t k rtp p s)) = rooms s \<or>
   (\<exists>room ps. map_of (rooms s) i = Some room \<and>
     rooms (snd (SfuService_produce M i t k rtp p s)) = map_set i (room\<lparr>producers := ps\<rparr>) (rooms s))"
  by (fastforce simp: SfuService_produce_def op_simps split: sum.splits option.splits)

lemma rooms_consume:
  "rooms (snd (SfuService_consume M i p pid caps t s)) = rooms s \<or>
   (\<exists>room cs. map_of (rooms s) i = Some room \<and>
     rooms (snd (SfuService_consume M i p pid caps t s)) = map_set i (room\<lparr>consumers := cs\<rparr>) (rooms s))"
  by (fastforce simp: SfuService_consume_def op_simps split: sum.splits option.splits)

lemma rooms_remove:
  "rooms (snd (SfuService_removeParticipant M i p s)) =
     (case map_of (rooms s) i of None \<Rightarrow> rooms s
      | Some room \<Rightarrow> if participants (without_peer p room) = [] then map_delete i (rooms s)
                     else map_set i (without_peer p room) (rooms s))"
  by (auto simp: SfuService_removeParticipant_def op_simps split: option.splits)

lemmas room_effects = rooms_createRoom rooms_createTransport rooms_connect rooms_resume rooms_remove

text \<open>
  A predicate on rooms that new rooms have, that adding a transport and removing a peer keep
  and that does not look at producers and consumers holds for all rooms of every run.
\<close>

definition rooms_all :: "(room \<Rightarrow> bool) \<Rightarrow> ('r, 'm, 'z) media_db_scheme \<Rightarrow> bool" where
  "rooms_all P s \<longleftrightarrow> (\<forall>i r. map_of (rooms s) i = Some r \<longrightarrow> P r)"

lemma rooms_all_eq: "rooms s' = rooms s \<Longrightarrow> rooms_all P s \<Longrightarrow> rooms_all P s'"
  by (simp add: rooms_all_def)

lemma rooms_all_set:
  "rooms s' = map_set i r (rooms s) \<Longrightarrow> P r \<Longrightarrow> rooms_all P s \<Longrightarrow> rooms_all P s'"
  by (simp add: rooms_all_def)

lemma rooms_all_delete: "rooms s' = map_delete i (rooms s) \<Longrightarrow> rooms_all P s \<Longrightarrow> rooms_all P s'"
  by (simp add: rooms_all_def)

locale room_predicate =
  fixes M :: "'m sfu_env" and P :: "room \<Rightarrow> bool"
  assumes P_new: "P (new_room r)"
    and P_transport: "P room \<Longrightarrow> CHR '':'' \<notin> set p \<Longrightarrow> P (add_transport M p t room)"
    and P_without: "P room \<Longrightarrow> CHR '':'' \<notin> set p \<Longrightarrow> P (without_peer p room)"
    and P_producers: "P room \<Longrightarrow> P (room\<lparr>producers := ps\<rparr>)"
    and P_consumers: "P room \<Longrightarrow> P (room\<lparr>consumers := ps\<rparr>)"
begin

lemma step_rooms_all:
  assumes "rooms_all P s" "plain_peer s ev"
  shows "rooms_all P (sfu_step M ev s)"
proof (cases ev)
  case (SfuCreate i)
  with assms(1) show ?thesis
    by (auto simp: rooms_all_def room_effects P_new split: sum.splits)
next
  case (SfuTransport i p)
  with assms show ?thesis
    by (auto simp: rooms_all_def room_effects P_transport split: sum.splits option.splits)
next
  case (SfuProduce i t k rtp p)
  show ?thesis
    using rooms_produce [of M i t k rtp p s] assms(1) SfuProduce
    by (auto simp: rooms_all_def P_producers split: if_splits)
next
  case (SfuConsume i p pid caps t)
  show ?thesis
    using rooms_consume [of M i p pid caps t s] assms(1) SfuConsume
    by (auto simp: rooms_all_def P_consumers split: if_splits)
next
  case (SfuRemove i p)
  with assms show ?thesis
    by (auto simp: rooms_all_def room_effects P_without split: option.splits)
qed (use assms(1) in \<open>simp_all add: rooms_all_def room_effects\<close>)

end

subsection \<open>Who is in a room\<close>

text \<open>
  The participants of a room are exactly the peers that have a transport in it, and every
  transport is stored under its peer and its id.
\<close>

definition room_ok :: "'m sfu_env \<Rightarrow> room \<Rightarrow> bool" where
  "room_ok M r \<longleftrightarrow> distinct (participants r) \<and> map_ok (transports r) \<and>
     (\<forall>p \<in> set (participants r). CHR '':'' \<notin> set p) \<and>
     (\<forall>k t. (k, t) \<in> set (transports r) \<longrightarrow>
        (\<exists>p \<in> set (participants r). k = transport_key p (id_of (ms M) t))) \<and>
     (\<forall>p \<in> set (participants r). \<exists>t. (transport_key p (id_of (ms M) t), t) \<in> set (transports r))"

lemma transport_key_peer: "CHR '':'' \<notin> set p \<Longrightarrow> takeWhile (\<lambda>c. c \<noteq> CHR '':'') (transport_key p t) = p"
  by (induction p) (auto simp: transport_key_def)

lemma of_peer_key:
  "CHR '':'' \<notin> set p \<Longrightarrow> CHR '':'' \<notin> set q \<Longrightarrow> of_peer q (transport_key p tid, t) \<longleftrightarrow> p = q"
proof
  assume pq: "CHR '':'' \<notin> set p" "CHR '':'' \<notin> set q" and "of_peer q (transport_key p tid, t)"
  then obtain z where "transport_key p tid = transport_key q z"
    by (auto simp: of_peer_def startsWith_iff transport_key_def)
  then show "p = q" using transport_key_peer pq by metis
qed (auto simp: of_peer_def startsWith_iff transport_key_def)

lemma set_map_set: "map_ok m \<Longrightarrow> set (map_set k v m) = insert (k, v) {x \<in> set m. fst x \<noteq> k}"
  by (auto simp: map_ok_get [symmetric] set_eq_iff) (auto simp: map_ok_get split: if_splits)

lemma set_set_add: "set (set_add x xs) = insert x (set xs)"
  by auto

lemma room_ok_transport:
  assumes "room_ok M room" "CHR '':'' \<notin> set p"
  shows "room_ok M (add_transport M p t room)"
proof -
  have ts: "set (transports (add_transport M p t room)) =
      insert (transport_key p (id_of (ms M) t), t) {x \<in> set (transports room). fst x \<noteq> transport_key p (id_of (ms M) t)}"
    using assms(1) by (simp add: add_transport_def room_ok_def set_map_set)
  have "\<exists>t'. (transport_key q (id_of (ms M) t'), t') \<in> set (transports (add_transport M p t room))"
    if "q = p \<or> q \<in> set (participants room)" for q
  proof (cases "q = p")
    case False
    with that assms(1) obtain t' where t': "(transport_key q (id_of (ms M) t'), t') \<in> set (transports room)"
      "CHR '':'' \<notin> set q" by (auto simp: room_ok_def)
    have "transport_key q (id_of (ms M) t') \<noteq> transport_key p (id_of (ms M) t)"
      using transport_key_peer t'(2) assms(2) False by metis
    with t'(1) show ?thesis unfolding ts by auto
  qed (auto simp: ts)
  with assms show ?thesis
    unfolding room_ok_def by (auto simp: ts) (auto simp: add_transport_def set_set_add)
qed

lemma room_ok_without:
  assumes ok: "room_ok M room" and p: "CHR '':'' \<notin> set p"
  shows "room_ok M (without_peer p room)"
proof -
  have "map_ok (filter P (transports room))" for P
    using ok by (auto simp: room_ok_def map_ok_def distinct_map_filter)
  moreover have "of_peer p (transport_key q tid, t) \<longleftrightarrow> q = p" if "q \<in> set (participants room)" for q tid t
    using that ok p by (auto simp: room_ok_def of_peer_key)
  ultimately show ?thesis
    using ok unfolding room_ok_def without_peer_def by fastforce
qed

interpretation occupied: room_predicate M "room_ok M" for M
  by unfold_locales
    (auto simp: room_ok_transport room_ok_without, auto simp: room_ok_def new_room_def)

abbreviation sfu_ok :: "'m sfu_env \<Rightarrow> ('r, 'm, 'z) media_db_scheme \<Rightarrow> bool" where
  "sfu_ok M \<equiv> rooms_all (room_ok M)"

interpretation sfu_machine: guarded_machine plain_peer "sfu_step M" "sfu_ok M" for M
  by unfold_locales (rule occupied.step_rooms_all)

end
