(* ===== verification/GatewayState.thy ===== *)
theory GatewayState
  imports SfuRooms Calls Contacts Users
begin

text \<open>
  The state of \<open>src/gateway/signaling.gateway.ts\<close>: what it keeps for each connected socket,
  its maps, the timers it has set, and the list of everything it has told Socket.IO to do
  (emit an event, let a socket join or leave a room), in order. Socket.IO itself is not
  modelled: which sockets a room has is read off that list.
\<close>

subsection \<open>Messages\<close>

text \<open>The events the server emits, with their payloads; SDP and ICE are passed on unread.\<close>

datatype ws_event =
    EvIncoming string "string option" CallType
  | EvAccepted string string "string option"
  | EvRejected string
  | EvEnded string string
  | EvMissed string
  | EvOffer string string
  | EvAnswer string string
  | EvIce string string
  | EvMedia string "string option" "bool option" "bool option"
  | EvTypeChanged string CallType
  | EvQueued nat nat nat
  | EvQueueStatus nat nat
  | EvFound string CallType bool bool "string option"
  | EvJoined string "string option"
  | EvLeft string
  | EvNewProducer string string
  | EvSaveRequest string string string

text \<open>
  \<open>server.emit\<close>, \<open>server.to(room).emit\<close> (a socket's id is a room of its own),
  \<open>socket.to(room).emit\<close> (everyone in it but that socket) and \<open>socket.emit\<close>.
\<close>

datatype target = ToAll | ToRoom string | ToOthers string string | ToSocket string

datatype io_action = Emit target ws_event | Join string string | Leave string string

subsection \<open>State\<close>

record SocketMeta =
  m_userId :: "string option"
  m_anonymousId :: string
  m_callId :: "string option"
  m_roomId :: "string option"
  m_ipAddress :: string
  m_userAgent :: string

text \<open>What the closure of a missed-call timer refers to.\<close>

record missed_call =
  mc_callId :: string
  mc_socket :: string
  mc_meta :: SocketMeta

text \<open>\<open>timeouts\<close> are the timers that are set, by handle; a new one gets a new handle.\<close>

record ('r, 'm) world = "('r, 'm) media_db" +
  sockets :: "(string, SocketMeta) jsmap"
  userSockets :: "(string, string list) jsmap"
  pendingCallTargets :: "(string, string) jsmap"
  missedCallTimers :: "(string, nat) jsmap"
  timeouts :: "(nat, missed_call) jsmap"
  next_timeout :: nat
  io :: "io_action list"

type_synonym ('r, 'm, 'z, 'a) handler = "(('r, 'm, 'z) world_scheme, 'a) op"

text \<open>
  The environment of a handler: that of the calls, the ids of a contact request, the
  uuid of a new connection and the verification of a token, which fails or gives the
  subject of the payload.
\<close>

record gateway_env = comms_env +
  gw_request_id :: string
  gw_anonymous_id :: string
  jwt_verify :: "string \<Rightarrow> exn + string option"

definition contact_part :: "'e gateway_env_scheme \<Rightarrow> contact_env" where
  "contact_part G = \<lparr>js_now = js_now G, db_now = db_now G, inet_ok = inet_ok G, uuid_of = uuid_of G,
     new_request_id = gw_request_id G, new_contact_ids = ([], [])\<rparr>"

subsection \<open>Steps of the handlers\<close>

definition does :: "io_action \<Rightarrow> ('r, 'm, 'z, unit) handler" where
  "does a = modify (\<lambda>w. w\<lparr>io := io w @ [a]\<rparr>)"

definition emit :: "target \<Rightarrow> ws_event \<Rightarrow> ('r, 'm, 'z, unit) handler" where
  "emit t ev = does (Emit t ev)"

definition getMeta :: "string \<Rightarrow> ('r, 'm, 'z, SocketMeta) handler" where
  "getMeta sid = bnd (gets (\<lambda>w. map_of (sockets w) sid)) (\<lambda>meta. case meta of
     None \<Rightarrow> raise (WsException ''Socket not initialised'') | Some m \<Rightarrow> ret m)"

text \<open>An assignment to a field of the socket's \<open>meta\<close>, if it has one.\<close>

definition update_meta :: "string \<Rightarrow> (SocketMeta \<Rightarrow> SocketMeta) \<Rightarrow> ('r, 'm, 'z, unit) handler" where
  "update_meta sid f = modify (\<lambda>w. case map_of (sockets w) sid of
     None \<Rightarrow> w | Some m \<Rightarrow> w\<lparr>sockets := map_set sid (f m) (sockets w)\<rparr>)"

text \<open>\<open>meta.userId ?? meta.anonymousId\<close>, and \<open>meta.userId ? undefined : meta.anonymousId\<close>.\<close>

definition caller :: "SocketMeta \<Rightarrow> string" where
  "caller m = (case m_userId m of Some u \<Rightarrow> u | None \<Rightarrow> m_anonymousId m)"

definition guest_id :: "SocketMeta \<Rightarrow> string option" where
  "guest_id m = (if truthy (m_userId m) then None else Some (m_anonymousId m))"

definition set_timeout :: "missed_call \<Rightarrow> ('r, 'm, 'z, nat) handler" where
  "set_timeout c w = (Inr (next_timeout w),
     w\<lparr>timeouts := map_set (next_timeout w) c (timeouts w), next_timeout := next_timeout w + 1\<rparr>)"

definition clear_timeout :: "nat \<Rightarrow> ('r, 'm, 'z, unit) handler" where
  "clear_timeout h = modify (\<lambda>w. w\<lparr>timeouts := map_delete h (timeouts w)\<rparr>)"

definition cancel_missed_timer :: "string \<Rightarrow> ('r, 'm, 'z, unit) handler" where
  "cancel_missed_timer callId =
     bnd (gets (\<lambda>w. map_of (missedCallTimers w) callId)) (\<lambda>timer. case timer of
       None \<Rightarrow> ret ()
     | Some h \<Rightarrow> andthen (clear_timeout h)
         (modify (\<lambda>w. w\<lparr>missedCallTimers := map_delete callId (missedCallTimers w)\<rparr>)))"

definition drop_target :: "string \<Rightarrow> ('r, 'm, 'z, unit) handler" where
  "drop_target callId = modify (\<lambda>w. w\<lparr>pendingCallTargets := map_delete callId (pendingCallTargets w)\<rparr>)"

definition countOnlineUsers :: "('r, 'm, 'z) world_scheme \<Rightarrow> nat" where
  "countOnlineUsers w = length (remdups (map (caller \<circ> snd) (sockets w)))"

definition broadcastQueueStatus :: "'r queue_ops \<Rightarrow> ('r, 'm, 'z, unit) handler" where
  "broadcastQueueStatus R =
     bnd (gets countOnlineUsers) (\<lambda>onlineUsers.
     bnd (MatchmakingService_queueDepth R) (\<lambda>searchingUsers.
     emit ToAll (EvQueueStatus onlineUsers searchingUsers)))"

lemma getMeta_apply [op_simps]:
  "getMeta sid w = (case map_of (sockets w) sid of
     None \<Rightarrow> (Inl (WsException ''Socket not initialised''), w) | Some m \<Rightarrow> (Inr m, w))"
  by (simp add: getMeta_def op_simps split: option.splits)

lemma emit_apply [op_simps]: "emit t ev w = (Inr (), w\<lparr>io := io w @ [Emit t ev]\<rparr>)"
  by (simp add: emit_def does_def op_simps)

lemma does_apply [op_simps]: "does a w = (Inr (), w\<lparr>io := io w @ [a]\<rparr>)"
  by (simp add: does_def op_simps)

lemma update_meta_apply [op_simps]:
  "update_meta sid f w = (Inr (), case map_of (sockets w) sid of
     None \<Rightarrow> w | Some m \<Rightarrow> w\<lparr>sockets := map_set sid (f m) (sockets w)\<rparr>)"
  by (simp add: update_meta_def op_simps)

lemma clear_timeout_apply [op_simps]: "clear_timeout h w = (Inr (), w\<lparr>timeouts := map_delete h (timeouts w)\<rparr>)"
  by (simp add: clear_timeout_def op_simps)

lemma drop_target_apply [op_simps]:
  "drop_target c w = (Inr (), w\<lparr>pendingCallTargets := map_delete c (pendingCallTargets w)\<rparr>)"
  by (simp add: drop_target_def op_simps)

lemma cancel_missed_timer_apply [op_simps]:
  "cancel_missed_timer c w = (Inr (), case map_of (missedCallTimers w) c of None \<Rightarrow> w
     | Some h \<Rightarrow> w\<lparr>timeouts := map_delete h (timeouts w), missedCallTimers := map_delete c (missedCallTimers w)\<rparr>)"
  by (simp add: cancel_missed_timer_def op_simps split: option.splits)

lemma set_timeout_apply [op_simps]: "set_timeout c w = (Inr (next_timeout w),
     w\<lparr>timeouts := map_set (next_timeout w) c (timeouts w), next_timeout := next_timeout w + 1\<rparr>)"
  by (simp add: set_timeout_def)

lemma queueDepth_apply [op_simps]: "MatchmakingService_queueDepth R w = (Inr (llen R QUEUE_KEY (redis w)), w)"
  by (simp add: MatchmakingService_queueDepth_def op_simps)

lemma broadcast_apply [op_simps]:
  "broadcastQueueStatus R w =
     (Inr (), w\<lparr>io := io w @ [Emit ToAll (EvQueueStatus (countOnlineUsers w) (llen R QUEUE_KEY (redis w)))]\<rparr>)"
  by (simp add: broadcastQueueStatus_def op_simps)

end
