(* ===== verification/Gateway.thy ===== *)
theory Gateway
  imports GatewayState
begin

text \<open>
  The handlers of \<open>src/gateway/signaling.gateway.ts\<close>, each as one operation that runs to its
  end, and the step function of the gateway over them. The socket that sent a message
  is named by its id.
\<close>

subsection \<open>Connections\<close>

definition add_user_socket :: "string \<Rightarrow> string \<Rightarrow> ('r, 'm, 'z, unit) handler" where
  "add_user_socket u sid = modify (\<lambda>w. w\<lparr>userSockets :=
     (case map_of (userSockets w) u of
        Some existing \<Rightarrow> map_set u (set_add sid existing) (userSockets w)
      | None \<Rightarrow> map_set u [sid] (userSockets w))\<rparr>)"

text \<open>The user of a token: \<open>payload.sub?.trim() || undefined\<close>; an invalid token is no token.\<close>

definition token_user :: "'e gateway_env_scheme \<Rightarrow> string option \<Rightarrow> string option" where
  "token_user G token =
     (if \<not> truthy token then None
      else case jwt_verify G (the token) of
        Inl _ \<Rightarrow> None
      | Inr sub \<Rightarrow> (case sub of None \<Rightarrow> None | Some s \<Rightarrow> if trim s = [] then None else Some (trim s)))"

definition handleConnection ::
    "'r queue_ops \<Rightarrow> 'e gateway_env_scheme \<Rightarrow> string \<Rightarrow> string option \<Rightarrow> string option \<Rightarrow> string option \<Rightarrow>
     string option \<Rightarrow> ('r, 'm, 'z, unit) handler" where
  "handleConnection R G sid token forwarded address agent =
     (let userId = token_user G token;
          meta = \<lparr>m_userId = userId, m_anonymousId = gw_anonymous_id G, m_callId = None, m_roomId = None,
            m_ipAddress = the (or_else (or_else forwarded address) (Some ''unknown'')),
            m_userAgent = the (or_else agent (Some []))\<rparr> in
      andthen (case userId of None \<Rightarrow> ret () | Some u \<Rightarrow> add_user_socket u sid)
     (andthen (modify (\<lambda>w. w\<lparr>sockets := map_set sid meta (sockets w)\<rparr>))
     (broadcastQueueStatus R)))"

definition remove_user_socket :: "string \<Rightarrow> string \<Rightarrow> ('r, 'm, 'z, unit) handler" where
  "remove_user_socket u sid = modify (\<lambda>w. case map_of (userSockets w) u of
     None \<Rightarrow> w
   | Some socketSet \<Rightarrow> w\<lparr>userSockets :=
       (if set_delete sid socketSet = [] then map_delete u (userSockets w)
        else map_set u (set_delete sid socketSet) (userSockets w))\<rparr>)"

definition end_as :: "'e env_scheme \<Rightarrow> SocketMeta \<Rightarrow> string \<Rightarrow> CallStatus \<Rightarrow> ('r, 'm, 'z, unit) handler" where
  "end_as E m callId reason =
     CallsService_endCall E callId (caller m) (guest_id m) reason (m_ipAddress m) (m_userAgent m)"

definition handleDisconnect ::
    "'r queue_ops \<Rightarrow> 'm sfu_env \<Rightarrow> 'e gateway_env_scheme \<Rightarrow> string \<Rightarrow> ('r, 'm, 'z, unit) handler" where
  "handleDisconnect R M G sid =
     bnd (gets (\<lambda>w. map_of (sockets w) sid)) (\<lambda>meta. case meta of
       None \<Rightarrow> ret ()
     | Some m \<Rightarrow>
         andthen (MatchmakingService_dequeue R G sid)
        (andthen (case m_callId m of
            None \<Rightarrow> ret ()
          | Some c \<Rightarrow> if c = [] then ret () else
              andthen (end_as G m c Ended)
             (andthen (emit (ToRoom c) (EvEnded c ''peer_disconnected'')) (cancel_missed_timer c)))
        (andthen (case m_roomId m of
            None \<Rightarrow> ret ()
          | Some r \<Rightarrow> if r = [] then ret () else
              andthen (SfuService_removeParticipant M r sid) (emit (ToOthers r sid) (EvLeft sid)))
        (andthen (case m_userId m of None \<Rightarrow> ret () | Some u \<Rightarrow> remove_user_socket u sid)
        (andthen (modify (\<lambda>w. w\<lparr>sockets := map_delete sid (sockets w)\<rparr>))
        (broadcastQueueStatus R))))))"

subsection \<open>Calls between two\<close>

text \<open>The user called: by address, else by id; neither is an error.\<close>

definition call_target :: "string option \<Rightarrow> string option \<Rightarrow> ('r, 'm, 'z, string) handler" where
  "call_target email targetUserId =
     bnd (if truthy email
          then bnd (UsersService_findByEmail (toLowerCase (trim (the email)))) (\<lambda>user. case user of
                 None \<Rightarrow> raise (WsException ''User not found with that email address'')
               | Some u \<Rightarrow> ret (Some (u_id u)))
          else ret targetUserId) (\<lambda>targetId.
     if truthy targetId then ret (the targetId)
     else raise (WsException ''targetUserId or targetEmail must be provided''))"

definition onCallInitiate ::
    "'e gateway_env_scheme \<Rightarrow> string \<Rightarrow> string option \<Rightarrow> string option \<Rightarrow> CallType \<Rightarrow> ('r, 'm, 'z, string) handler" where
  "onCallInitiate G sid email targetUserId callType =
     bnd (getMeta sid) (\<lambda>m.
     bnd (call_target email targetUserId) (\<lambda>targetId.
     bnd (CallsService_initiateCall G (Some (caller m)) (guest_id m) callType (\<not> truthy (m_userId m))
            (m_ipAddress m) (m_userAgent m)) (\<lambda>session.
     andthen (update_meta sid (m_callId_update (\<lambda>_. Some (cs_id session))))
    (andthen (does (Join sid (cs_id session)))
    (andthen (modify (\<lambda>w. w\<lparr>pendingCallTargets := map_set (cs_id session) targetId (pendingCallTargets w)\<rparr>))
    (bnd (gets (\<lambda>w. map_of (userSockets w) targetId)) (\<lambda>targetSockets.
     andthen (for_each (case targetSockets of None \<Rightarrow> [] | Some s \<Rightarrow> s)
       (\<lambda>t. emit (ToRoom t) (EvIncoming (cs_id session) (m_userId m) callType)))
    (bnd (set_timeout \<lparr>mc_callId = cs_id session, mc_socket = sid, mc_meta = m\<rparr>) (\<lambda>timer.
     andthen (modify (\<lambda>w. w\<lparr>missedCallTimers := map_set (cs_id session) timer (missedCallTimers w)\<rparr>))
       (ret (cs_id session)))))))))))"

text \<open>The callback of the timer, thirty seconds later.\<close>

definition missed_call_fires :: "'e gateway_env_scheme \<Rightarrow> missed_call \<Rightarrow> ('r, 'm, 'z, unit) handler" where
  "missed_call_fires G c =
     andthen (modify (\<lambda>w. w\<lparr>missedCallTimers := map_delete (mc_callId c) (missedCallTimers w)\<rparr>))
    (andthen (drop_target (mc_callId c))
    (bnd (catch (bnd (CallsService_getCallById G (mc_callId c)) (\<lambda>s. ret (Some s))) (\<lambda>_. ret None)) (\<lambda>s.
     if map_option cs_status s = Some Initiated
     then andthen (end_as G (mc_meta c) (mc_callId c) Missed)
       (emit (ToSocket (mc_socket c)) (EvMissed (mc_callId c)))
     else ret ())))"

definition onCallAccept ::
    "'e gateway_env_scheme \<Rightarrow> string \<Rightarrow> string \<Rightarrow> CallType \<Rightarrow> ('r, 'm, 'z, unit) handler" where
  "onCallAccept G sid callId callType =
     bnd (getMeta sid) (\<lambda>m.
     andthen (reject_if (\<not> truthy (m_userId m)) (WsException ''Authentication required''))
    (bnd (gets (\<lambda>w. map_of (pendingCallTargets w) callId)) (\<lambda>expectedTarget.
     andthen (reject_if (truthy expectedTarget \<and> expectedTarget \<noteq> m_userId m)
       (WsException ''You are not the intended recipient of this call''))
    (bnd (CallsService_acceptCall G callId (m_userId m) None None callType (m_ipAddress m) (m_userAgent m)) (\<lambda>session.
     andthen (update_meta sid (m_callId_update (\<lambda>_. Some callId)))
    (andthen (does (Join sid callId))
    (andthen (cancel_missed_timer callId)
    (andthen (drop_target callId)
    (case session of
       None \<Rightarrow> raise (JsError ''TypeError'' None)
     | Some s \<Rightarrow> emit (ToRoom callId) (EvAccepted callId (caller m) (cs_initiator_id s)))))))))))"

definition onCallReject :: "'e gateway_env_scheme \<Rightarrow> string \<Rightarrow> string \<Rightarrow> ('r, 'm, 'z, unit) handler" where
  "onCallReject G sid callId =
     bnd (getMeta sid) (\<lambda>m.
     andthen (reject_if (\<not> truthy (m_userId m)) (WsException ''Authentication required''))
    (andthen (CallsService_endCall G callId (caller m) None Rejected (m_ipAddress m) (m_userAgent m))
    (andthen (cancel_missed_timer callId)
    (andthen (drop_target callId)
    (emit (ToRoom callId) (EvRejected callId))))))"

definition onCallEnd :: "'e gateway_env_scheme \<Rightarrow> string \<Rightarrow> string \<Rightarrow> ('r, 'm, 'z, unit) handler" where
  "onCallEnd G sid callId =
     bnd (getMeta sid) (\<lambda>m.
     andthen (end_as G m callId Ended)
    (andthen (cancel_missed_timer callId)
    (andthen (drop_target callId)
    (andthen (emit (ToRoom callId) (EvEnded callId ''ended''))
    (andthen (does (Leave sid callId))
    (update_meta sid (m_callId_update (\<lambda>_. None))))))))"

text \<open>The three relays: no look at the sender or the call.\<close>

definition onOffer :: "string \<Rightarrow> string \<Rightarrow> string \<Rightarrow> ('r, 'm, 'z, unit) handler" where
  "onOffer sid callId sdp = emit (ToOthers callId sid) (EvOffer callId sdp)"

definition onAnswer :: "string \<Rightarrow> string \<Rightarrow> string \<Rightarrow> ('r, 'm, 'z, unit) handler" where
  "onAnswer sid callId sdp = emit (ToOthers callId sid) (EvAnswer callId sdp)"

definition onIce :: "string \<Rightarrow> string \<Rightarrow> string \<Rightarrow> ('r, 'm, 'z, unit) handler" where
  "onIce sid callId candidate = emit (ToOthers callId sid) (EvIce callId candidate)"

definition onMediaToggle ::
    "'e gateway_env_scheme \<Rightarrow> string \<Rightarrow> string \<Rightarrow> bool option \<Rightarrow> bool option \<Rightarrow> ('r, 'm, 'z, unit) handler" where
  "onMediaToggle G sid callId mic camera =
     bnd (getMeta sid) (\<lambda>m.
     andthen (CallsService_toggleMedia G callId (caller m) (guest_id m) mic camera)
       (emit (ToOthers callId sid) (EvMedia sid (m_userId m) mic camera)))"

definition onSwitchType ::
    "'e gateway_env_scheme \<Rightarrow> string \<Rightarrow> string \<Rightarrow> CallType \<Rightarrow> ('r, 'm, 'z, unit) handler" where
  "onSwitchType G sid callId newType =
     bnd (getMeta sid) (\<lambda>m.
     andthen (CallsService_toggleCallType G callId (caller m) newType (m_ipAddress m) (m_userAgent m))
       (emit (ToRoom callId) (EvTypeChanged callId newType)))"

subsection \<open>Matchmaking\<close>

definition entry_of :: "string \<Rightarrow> SocketMeta \<Rightarrow> CallType option \<Rightarrow> QueueEntry" where
  "entry_of sid m preferred = \<lparr>qe_anonymousId = m_anonymousId m, qe_userId = m_userId m, qe_socketId = sid,
     qe_preferredType = the (or_else preferred (Some Video)), qe_isAnonymous = (\<not> truthy (m_userId m))\<rparr>"

definition match_type :: "TimedEntry \<Rightarrow> TimedEntry \<Rightarrow> CallType" where
  "match_type a b = (if qe_preferredType a = qe_preferredType b then qe_preferredType a else Video)"

text \<open>The call of a matched pair: \<open>a\<close> starts it, \<open>b\<close> accepts it.\<close>

definition pair_call :: "'e gateway_env_scheme \<Rightarrow> TimedEntry \<Rightarrow> TimedEntry \<Rightarrow> ('r, 'm, 'z, string) handler" where
  "pair_call G a b =
     bnd (CallsService_initiateCall G (qe_userId a) (if truthy (qe_userId a) then None else Some (qe_anonymousId a))
            (match_type a b) True ''anonymous'' []) (\<lambda>session.
     andthen (bnd (CallsService_acceptCall G (cs_id session)
            (Some (if truthy (qe_userId b) then the (qe_userId b) else qe_anonymousId b))
            (if truthy (qe_userId b) then None else Some (qe_anonymousId b))
            (Some (\<not> truthy (qe_userId b))) (match_type a b) ''anonymous'' []) (\<lambda>_. ret ()))
       (ret (cs_id session)))"

definition tryPairUsers :: "'r queue_ops \<Rightarrow> 'e gateway_env_scheme \<Rightarrow> ('r, 'm, 'z, unit) handler" where
  "tryPairUsers R G =
     bnd (MatchmakingService_tryMatch R G) (\<lambda>pair. case pair of
       None \<Rightarrow> ret ()
     | Some (a, b) \<Rightarrow>
         bnd (pair_call G a b) (\<lambda>callId.
         andthen (does (Join (qe_socketId a) callId))
        (andthen (does (Join (qe_socketId b) callId))
        (andthen (update_meta (qe_socketId a) (m_callId_update (\<lambda>_. Some callId)))
        (andthen (update_meta (qe_socketId b) (m_callId_update (\<lambda>_. Some callId)))
        (let bothRegistered = truthy (qe_userId a) \<and> truthy (qe_userId b) in
         andthen (emit (ToRoom (qe_socketId a)) (EvFound callId (match_type a b) True bothRegistered (qe_userId b)))
           (emit (ToRoom (qe_socketId b)) (EvFound callId (match_type a b) False bothRegistered (qe_userId a)))))))))"

definition onJoinQueue ::
    "'r queue_ops \<Rightarrow> 'e gateway_env_scheme \<Rightarrow> string \<Rightarrow> CallType option \<Rightarrow> ('r, 'm, 'z, nat \<times> nat) handler" where
  "onJoinQueue R G sid preferred =
     bnd (getMeta sid) (\<lambda>m.
     bnd (MatchmakingService_enqueue R G (entry_of sid m preferred)) (\<lambda>position.
     bnd (gets countOnlineUsers) (\<lambda>onlineUsers.
     bnd (MatchmakingService_queueDepth R) (\<lambda>searchingUsers.
     andthen (emit (ToSocket sid) (EvQueued position onlineUsers searchingUsers))
    (andthen (tryPairUsers R G)
    (andthen (broadcastQueueStatus R)
    (ret (onlineUsers, searchingUsers))))))))"

definition onLeaveQueue :: "'r queue_ops \<Rightarrow> 'e gateway_env_scheme \<Rightarrow> string \<Rightarrow> ('r, 'm, 'z, unit) handler" where
  "onLeaveQueue R G sid = andthen (MatchmakingService_dequeue R G sid) (broadcastQueueStatus R)"

definition onQueueStatusRequest :: "'r queue_ops \<Rightarrow> string \<Rightarrow> ('r, 'm, 'z, nat \<times> nat) handler" where
  "onQueueStatusRequest R sid =
     bnd (gets (\<lambda>w. length (sockets w))) (\<lambda>onlineUsers.
     bnd (MatchmakingService_queueDepth R) (\<lambda>searchingUsers.
     andthen (emit (ToSocket sid) (EvQueueStatus onlineUsers searchingUsers))
       (ret (onlineUsers, searchingUsers))))"

subsection \<open>Group calls\<close>

definition room_audit :: "SocketMeta \<Rightarrow> AuditEventType \<Rightarrow> string \<Rightarrow> AuditEntry" where
  "room_audit m ev roomId = (audit_entry (m_userId m) ev [(''roomId'', JStr roomId)])\<lparr>ae_ipAddress := Some (m_ipAddress m)\<rparr>"

text \<open>The dash of the message is a long one in the source.\<close>

definition onSfuJoin :: "'m sfu_env \<Rightarrow> 'e gateway_env_scheme \<Rightarrow> string \<Rightarrow> string \<Rightarrow> ('r, 'm, 'z, string) handler" where
  "onSfuJoin M G sid roomId =
     bnd (gets SfuService_isAvailable) (\<lambda>available.
     andthen (reject_if (\<not> available) (WsException ''Group calls not available - MediaSoup not initialised''))
    (bnd (getMeta sid) (\<lambda>m.
     bnd (gets (SfuService_getRoomInfo M roomId)) (\<lambda>existing.
     bnd (case existing of
            Some info \<Rightarrow> ret info
          | None \<Rightarrow> bnd (SfuService_createRoom M roomId) (\<lambda>info.
              andthen (AuditService_log G (room_audit m ROOM_CREATED roomId)) (ret info))) (\<lambda>roomInfo.
     andthen (update_meta sid (m_roomId_update (\<lambda>_. Some roomId)))
    (andthen (does (Join sid roomId))
    (andthen (emit (ToOthers roomId sid) (EvJoined sid (m_userId m)))
    (andthen (AuditService_log G (room_audit m PARTICIPANT_JOINED roomId))
    (ret (ri_routerRtpCaps roomInfo))))))))))"

definition onCreateTransport ::
    "'m sfu_env \<Rightarrow> string \<Rightarrow> string \<Rightarrow> ('r, 'm, 'z, string \<times> string \<times> string \<times> string) handler" where
  "onCreateTransport M sid roomId = SfuService_createWebRtcTransport M roomId sid"

definition onConnectTransport :: "'m sfu_env \<Rightarrow> string \<Rightarrow> string \<Rightarrow> string \<Rightarrow> ('r, 'm, 'z, unit) handler" where
  "onConnectTransport M roomId transportId dtls = SfuService_connectTransport M roomId transportId dtls"

definition onProduce ::
    "'m sfu_env \<Rightarrow> string \<Rightarrow> string \<Rightarrow> string \<Rightarrow> MediaKind \<Rightarrow> string \<Rightarrow> ('r, 'm, 'z, string) handler" where
  "onProduce M sid roomId transportId kind rtp =
     bnd (SfuService_produce M roomId transportId kind rtp sid) (\<lambda>producerId.
     andthen (emit (ToOthers roomId sid) (EvNewProducer producerId sid)) (ret producerId))"

definition onConsume ::
    "'m sfu_env \<Rightarrow> string \<Rightarrow> string \<Rightarrow> string \<Rightarrow> string \<Rightarrow> string \<Rightarrow>
     ('r, 'm, 'z, string \<times> string \<times> MediaKind \<times> string) handler" where
  "onConsume M sid roomId producerId caps transportId = SfuService_consume M roomId sid producerId caps transportId"

definition onResumeConsumer :: "'m sfu_env \<Rightarrow> string \<Rightarrow> string \<Rightarrow> ('r, 'm, 'z, unit) handler" where
  "onResumeConsumer M roomId consumerId = SfuService_resumeConsumer M roomId consumerId"

subsection \<open>Contacts\<close>

definition onRequestContactSave ::
    "'e gateway_env_scheme \<Rightarrow> string \<Rightarrow> string \<Rightarrow> string \<Rightarrow> ('r, 'm, 'z, string) handler" where
  "onRequestContactSave G sid callId toUserId =
     bnd (getMeta sid) (\<lambda>m.
     andthen (reject_if (\<not> truthy (m_userId m)) (WsException ''Must be registered to save contacts''))
    (bnd (ContactsService_requestContactSave (contact_part G) callId (caller m) toUserId (m_ipAddress m)) (\<lambda>request.
     bnd (gets (\<lambda>w. map_of (userSockets w) toUserId)) (\<lambda>targetSockets.
     andthen (for_each (case targetSockets of None \<Rightarrow> [] | Some s \<Rightarrow> s)
       (\<lambda>t. emit (ToRoom t) (EvSaveRequest (csr_id request) callId (caller m))))
       (ret (csr_id request))))))"

subsection \<open>The gateway's steps\<close>

datatype ws_request =
    WsConnect "string option" "string option" "string option" "string option"
  | WsDisconnect
  | WsInitiate "string option" "string option" CallType
  | WsAccept string CallType
  | WsReject string
  | WsEnd string
  | WsOffer string string
  | WsAnswer string string
  | WsIce string string
  | WsMedia string "bool option" "bool option"
  | WsSwitchType string CallType
  | WsJoinQueue "CallType option"
  | WsLeaveQueue
  | WsQueueStatus
  | WsSfuJoin string
  | WsCreateTransport string
  | WsConnectTransport string string string
  | WsProduce string string MediaKind string
  | WsConsume string string string string
  | WsResume string string
  | WsSaveContact string string

text \<open>A message of a socket, or a timer that has run out.\<close>

datatype gw_event = Message string ws_request | Timer nat

definition no_reply :: "('s, 'a) op \<Rightarrow> ('s, unit) op" where
  "no_reply m = bnd m (\<lambda>_. ret ())"

fun handle ::
    "'r queue_ops \<Rightarrow> 'm sfu_env \<Rightarrow> 'e gateway_env_scheme \<Rightarrow> string \<Rightarrow> ws_request \<Rightarrow> ('r, 'm, 'z, unit) handler" where
  "handle R M G sid (WsConnect token fwd addr agent) = handleConnection R G sid token fwd addr agent"
| "handle R M G sid WsDisconnect = handleDisconnect R M G sid"
| "handle R M G sid (WsInitiate email target ct) = no_reply (onCallInitiate G sid email target ct)"
| "handle R M G sid (WsAccept c ct) = onCallAccept G sid c ct"
| "handle R M G sid (WsReject c) = onCallReject G sid c"
| "handle R M G sid (WsEnd c) = onCallEnd G sid c"
| "handle R M G sid (WsOffer c sdp) = onOffer sid c sdp"
| "handle R M G sid (WsAnswer c sdp) = onAnswer sid c sdp"
| "handle R M G sid (WsIce c cand) = onIce sid c cand"
| "handle R M G sid (WsMedia c mic cam) = onMediaToggle G sid c mic cam"
| "handle R M G sid (WsSwitchType c ct) = onSwitchType G sid c ct"
| "handle R M G sid (WsJoinQueue p) = no_reply (onJoinQueue R G sid p)"
| "handle R M G sid WsLeaveQueue = onLeaveQueue R G sid"
| "handle R M G sid WsQueueStatus = no_reply (onQueueStatusRequest R sid)"
| "handle R M G sid (WsSfuJoin r) = no_reply (onSfuJoin M G sid r)"
| "handle R M G sid (WsCreateTransport r) = no_reply (onCreateTransport M sid r)"
| "handle R M G sid (WsConnectTransport r t dtls) = onConnectTransport M r t dtls"
| "handle R M G sid (WsProduce r t k rtp) = no_reply (onProduce M sid r t k rtp)"
| "handle R M G sid (WsConsume r p caps t) = no_reply (onConsume M sid r p caps t)"
| "handle R M G sid (WsResume r c) = onResumeConsumer M r c"
| "handle R M G sid (WsSaveContact c u) = no_reply (onRequestContactSave G sid c u)"

text \<open>A timer that runs out is no longer set; one that is not set does not run out.\<close>

definition timer_fires :: "'e gateway_env_scheme \<Rightarrow> nat \<Rightarrow> ('r, 'm, 'z, unit) handler" where
  "timer_fires G h =
     bnd (gets (\<lambda>w. map_of (timeouts w) h)) (\<lambda>c. case c of
       None \<Rightarrow> ret ()
     | Some c \<Rightarrow> andthen (clear_timeout h) (missed_call_fires G c))"

fun gateway_step ::
    "'r queue_ops \<Rightarrow> 'm sfu_env \<Rightarrow> 'e gateway_env_scheme \<times> gw_event \<Rightarrow> ('r, 'm, 'z) world_scheme \<Rightarrow> ('r, 'm, 'z) world_scheme" where
  "gateway_step R M (G, Message sid req) w = snd (handle R M G sid req w)"
| "gateway_step R M (G, Timer h) w = snd (timer_fires G h w)"

end
