(* ===== verification/MatchQueue.thy ===== *)
theory MatchQueue
  imports Matchmaking "HOL-Library.Sublist"
begin

text \<open>
  The matchmaking service implements a first-in first-out queue with a socket index. The
  queue is specified on lists; the service's operations refine it over every Redis that
  behaves as documented, and the properties follow from the specification. A store in memory
  shows that the documented behaviour is consistent.
\<close>

subsection \<open>The specification\<close>

type_synonym waiting = "TimedEntry list \<times> (string \<rightharpoonup> TimedEntry)"

definition enqueue_spec :: "TimedEntry \<Rightarrow> waiting \<Rightarrow> waiting" where
  "enqueue_spec e w = (fst w @ [e], (snd w)(qe_socketId e \<mapsto> e))"

text \<open>
  The two oldest leave the queue together when both are fresh; a stale one of the two is
  discarded and the other one goes back to its place.
\<close>

definition match_spec :: "(TimedEntry \<Rightarrow> bool) \<Rightarrow> waiting \<Rightarrow> (TimedEntry \<times> TimedEntry) option \<times> waiting" where
  "match_spec fresh w = (case w of
     (a # b # rest, m) \<Rightarrow>
       if fresh a \<and> fresh b then (Some (a, b), rest, m |` (- {qe_socketId a, qe_socketId b}))
       else if fresh b then (None, b # rest, m |` (- {qe_socketId a}))
       else if fresh a then (None, a # rest, m |` (- {qe_socketId b}))
       else (None, rest, m |` (- {qe_socketId a, qe_socketId b}))
   | _ \<Rightarrow> (None, w))"

definition dequeue_spec :: "string \<Rightarrow> waiting \<Rightarrow> waiting" where
  "dequeue_spec sid w = (case snd w sid of
     None \<Rightarrow> w | Some e \<Rightarrow> (remove1 e (fst w), snd w |` (- {sid})))"

subsection \<open>Refinement\<close>

definition waiting_of ::
    "('r \<Rightarrow> string \<Rightarrow> TimedEntry list) \<Rightarrow> ('r \<Rightarrow> string \<Rightarrow> string \<Rightarrow> TimedEntry option) \<Rightarrow>
     ('r, 'z) redis_db_scheme \<Rightarrow> waiting" where
  "waiting_of elems fields_of s = (elems (redis s) QUEUE_KEY, fields_of (redis s) SOCKETS_KEY)"

lemma redis_audit: "redis (snd (AuditService_log E e s)) = redis s"
  by (simp add: AuditService_log_apply)

lemma timed_socket [simp]: "qe_socketId (timed E e) = qe_socketId e"
  by (simp add: timed_def QueueEntry.defs)

locale match_queue = redis_store R elems fields_of
  for R :: "('r, TimedEntry) redis_ops"
    and elems :: "'r \<Rightarrow> string \<Rightarrow> TimedEntry list"
    and fields_of :: "'r \<Rightarrow> string \<Rightarrow> string \<Rightarrow> TimedEntry option"
begin

lemma enqueue_refines:
  "waiting_of elems fields_of (snd (MatchmakingService_enqueue R E e s)) =
     enqueue_spec (timed E e) (waiting_of elems fields_of s)"
  "fst (MatchmakingService_enqueue R E e s) = Inr (Suc (length (fst (waiting_of elems fields_of s))))"
  by (simp_all add: MatchmakingService_enqueue_def command_def andthen_apply modify_apply gets_apply
      AuditService_log_apply waiting_of_def enqueue_spec_def redis_laws)

lemma dequeue_refines:
  "waiting_of elems fields_of (snd (MatchmakingService_dequeue R E sid s)) =
     dequeue_spec sid (waiting_of elems fields_of s)"
  "fst (MatchmakingService_dequeue R E sid s) = Inr ()"
  by (auto simp: MatchmakingService_dequeue_def command_def op_simps AuditService_log_apply waiting_of_def
      dequeue_spec_def redis_laws redis_laws [unfolded One_nat_def] split: option.splits)

lemma depth_refines:
  "MatchmakingService_queueDepth R s = (Inr (length (fst (waiting_of elems fields_of s))), s)"
  by (simp add: MatchmakingService_queueDepth_def gets_apply waiting_of_def redis_laws)

lemma match_refines:
  "fst (MatchmakingService_tryMatch R E s) = Inr (fst (match_spec (is_fresh E) (waiting_of elems fields_of s)))"
  "waiting_of elems fields_of (snd (MatchmakingService_tryMatch R E s)) =
     snd (match_spec (is_fresh E) (waiting_of elems fields_of s))"
proof -
  consider (short) "length (elems (redis s) QUEUE_KEY) < 2"
    | (pair) a b rest where "elems (redis s) QUEUE_KEY = a # b # rest"
    by (metis One_nat_def Suc_1 length_Cons lessI less_Suc_eq list.exhaust list.size(3) zero_less_Suc)
  then have "fst (MatchmakingService_tryMatch R E s) = Inr (fst (match_spec (is_fresh E) (waiting_of elems fields_of s))) \<and>
    waiting_of elems fields_of (snd (MatchmakingService_tryMatch R E s)) =
     snd (match_spec (is_fresh E) (waiting_of elems fields_of s))"
  proof cases
    case short
    then have "match_spec (is_fresh E) (waiting_of elems fields_of s) = (None, waiting_of elems fields_of s)"
      by (auto simp: match_spec_def waiting_of_def split: list.splits)
    with short show ?thesis
      by (simp add: MatchmakingService_tryMatch_def eval_pop_two_def bnd_apply pop_two_short ret_apply)
  next
    case pair
    obtain r where r: "pop_two R (redis s) = (Some (a, b), r)"
      "elems r = (elems (redis s))(QUEUE_KEY := rest)" "fields_of r = fields_of (redis s)"
      using pop_two_pair [OF pair] by (metis prod.collapse)
    have keys: "QUEUE_KEY \<noteq> SOCKETS_KEY" by (simp add: QUEUE_KEY_def SOCKETS_KEY_def)
    show ?thesis
      using pair keys
      by (auto simp: MatchmakingService_tryMatch_def eval_pop_two_def command_def op_simps r
          AuditService_log_apply waiting_of_def match_spec_def redis_laws)
  qed
  then show "fst (MatchmakingService_tryMatch R E s) = Inr (fst (match_spec (is_fresh E) (waiting_of elems fields_of s)))"
    "waiting_of elems fields_of (snd (MatchmakingService_tryMatch R E s)) =
       snd (match_spec (is_fresh E) (waiting_of elems fields_of s))"
    by simp_all
qed

end

subsection \<open>A store in memory\<close>

record 'v mem =
  mem_lists :: "string \<Rightarrow> 'v list"
  mem_hashes :: "string \<Rightarrow> string \<Rightarrow> 'v option"

definition mem_empty :: "'v mem" where
  "mem_empty = \<lparr>mem_lists = (\<lambda>_. []), mem_hashes = (\<lambda>_ _. None)\<rparr>"

definition mem_redis :: "('v mem, 'v) redis_ops" where
  "mem_redis = \<lparr>
     rpush = (\<lambda>k v r. r\<lparr>mem_lists := (mem_lists r)(k := mem_lists r k @ [v])\<rparr>),
     lpush = (\<lambda>k v r. r\<lparr>mem_lists := (mem_lists r)(k := v # mem_lists r k)\<rparr>),
     lpop = (\<lambda>k r. case mem_lists r k of [] \<Rightarrow> (None, r)
        | v # vs \<Rightarrow> (Some v, r\<lparr>mem_lists := (mem_lists r)(k := vs)\<rparr>)),
     llen = (\<lambda>k r. length (mem_lists r k)),
     lrem = (\<lambda>k n v r. r\<lparr>mem_lists := (mem_lists r)(k := (remove1 v ^^ n) (mem_lists r k))\<rparr>),
     hset = (\<lambda>k f v r. r\<lparr>mem_hashes := (mem_hashes r)(k := (mem_hashes r k)(f := Some v))\<rparr>),
     hget = (\<lambda>k f r. mem_hashes r k f),
     hdel = (\<lambda>k fs r. r\<lparr>mem_hashes := (mem_hashes r)(k := (\<lambda>f. if f \<in> set fs then None else mem_hashes r k f))\<rparr>)\<rparr>"

interpretation mem: redis_store mem_redis mem_lists mem_hashes
  by unfold_locales (simp_all add: mem_redis_def restrict_map_def fun_eq_iff split: list.splits)

interpretation mem_queue: match_queue mem_redis mem_lists mem_hashes
  by unfold_locales

subsection \<open>Runs\<close>

datatype match_op = MEnqueue QueueEntry | MTryMatch | MDequeue string

text \<open>A step gives the entries it matched, in order.\<close>

fun match_step ::
    "'r queue_ops \<Rightarrow> 'e env_scheme \<times> match_op \<Rightarrow> ('r, 'z) redis_db_scheme \<Rightarrow> TimedEntry list \<times> ('r, 'z) redis_db_scheme" where
  "match_step R (E, MEnqueue e) s = ([], snd (MatchmakingService_enqueue R E e s))"
| "match_step R (E, MTryMatch) s =
     (case MatchmakingService_tryMatch R E s of
        (Inr (Some (a, b)), s') \<Rightarrow> ([a, b], s') | (_, s') \<Rightarrow> ([], s'))"
| "match_step R (E, MDequeue sid) s = ([], snd (MatchmakingService_dequeue R E sid s))"

fun match_run ::
    "'r queue_ops \<Rightarrow> ('e env_scheme \<times> match_op) list \<Rightarrow> ('r, 'z) redis_db_scheme \<Rightarrow>
     TimedEntry list \<times> ('r, 'z) redis_db_scheme" where
  "match_run R [] s = ([], s)"
| "match_run R (ev # evs) s =
     (let (m, s1) = match_step R ev s; (ms, s2) = match_run R evs s1 in (m @ ms, s2))"

fun enqueued :: "('e env_scheme \<times> match_op) list \<Rightarrow> TimedEntry list" where
  "enqueued [] = []"
| "enqueued ((E, MEnqueue e) # evs) = timed E e # enqueued evs"
| "enqueued (ev # evs) = enqueued evs"

lemma match_spec_subseq:
  "subseq ((case fst (match_spec fresh w) of None \<Rightarrow> [] | Some (a, b) \<Rightarrow> [a, b]) @ fst (snd (match_spec fresh w))) (fst w)"
  by (auto simp: match_spec_def split: list.splits prod.splits)

lemma subseq_remove1: "subseq (remove1 x xs) xs"
  by (induction xs) auto

context match_queue
begin

abbreviation queue :: "('r, 'z) redis_db_scheme \<Rightarrow> TimedEntry list" where
  "queue s \<equiv> fst (waiting_of elems fields_of s)"

lemma step_subseq:
  "subseq (fst (match_step R (E, op) s) @ queue (snd (match_step R (E, op) s))) (queue s @ enqueued [(E, op)])"
proof (cases op)
  case (MEnqueue e)
  then show ?thesis by (simp add: enqueue_refines enqueue_spec_def)
next
  case MTryMatch
  obtain r s' where rs: "MatchmakingService_tryMatch R E s = (r, s')" by fastforce
  then have "r = Inr (fst (match_spec (is_fresh E) (waiting_of elems fields_of s)))"
    "waiting_of elems fields_of s' = snd (match_spec (is_fresh E) (waiting_of elems fields_of s))"
    using match_refines [of E s] by simp_all
  with rs MTryMatch match_spec_subseq [of "is_fresh E" "waiting_of elems fields_of s"]
  show ?thesis by (auto split: option.splits prod.splits)
next
  case (MDequeue sid)
  then show ?thesis
    by (simp add: dequeue_refines dequeue_spec_def subseq_remove1 split: option.splits)
qed

lemma run_subseq:
  "subseq (fst (match_run R evs s) @ queue (snd (match_run R evs s))) (queue s @ enqueued evs)"
proof (induction evs arbitrary: s)
  case (Cons ev evs)
  obtain E op where ev: "ev = (E, op)" by (cases ev)
  obtain m s1 where 1: "match_step R ev s = (m, s1)" by fastforce
  obtain ms s2 where 2: "match_run R evs s1 = (ms, s2)" by fastforce
  have first: "subseq (m @ queue s1) (queue s @ enqueued [ev])"
    using step_subseq [of E op s] 1 ev by simp
  have ih: "subseq (ms @ queue s2) (queue s1 @ enqueued evs)" using Cons.IH [of s1] 2 by simp
  have all: "enqueued (ev # evs) = enqueued [ev] @ enqueued evs"
    by (cases ev; cases op) (simp_all add: ev)
  have "subseq (m @ (ms @ queue s2)) (m @ (queue s1 @ enqueued evs))"
    by (rule list_emb_append_mono [OF subseq_order.order_refl ih])
  moreover have "subseq ((m @ queue s1) @ enqueued evs) ((queue s @ enqueued [ev]) @ enqueued evs)"
    by (rule list_emb_append_mono [OF first subseq_order.order_refl])
  ultimately have "subseq (m @ (ms @ queue s2)) (queue s @ enqueued (ev # evs))"
    unfolding all append_assoc by (rule subseq_order.order_trans)
  then show ?case using 1 2 by (simp del: enqueued.simps)
qed simp

end


subsection \<open>Properties\<close>

text \<open>
  C20. The matchmaking service is a first-in first-out queue. Over every Redis that behaves
  as documented: \<open>enqueue\<close> appends the entry and answers with the queue's length,
  \<open>tryMatch\<close> takes the two oldest entries at once, returns them when both have waited less
  than five minutes and otherwise discards the stale ones and leaves the other in front,
  and \<open>dequeue\<close> removes the entry last stored for the socket.
\<close>

theorem matchmaking_refines_queue:
  fixes R :: "('r, TimedEntry) redis_ops"
  assumes redis: "redis_store R elems fields_of"
  shows "(let (r, s') = MatchmakingService_enqueue R E e s in
      r = Inr (Suc (length (elems (redis s) QUEUE_KEY))) \<and>
      waiting_of elems fields_of s' = enqueue_spec (timed E e) (waiting_of elems fields_of s)) \<and>
    (let (r, s') = MatchmakingService_tryMatch R E s; (pair, w) = match_spec (is_fresh E) (waiting_of elems fields_of s) in
      r = Inr pair \<and> waiting_of elems fields_of s' = w) \<and>
    (let (r, s') = MatchmakingService_dequeue R E sid s in
      r = Inr () \<and> waiting_of elems fields_of s' = dequeue_spec sid (waiting_of elems fields_of s)) \<and>
    MatchmakingService_queueDepth R s = (Inr (length (elems (redis s) QUEUE_KEY)), s)"
proof -
  have q: "match_queue R elems fields_of" by (simp add: match_queue_def redis)
  show ?thesis
    using match_queue.enqueue_refines [OF q, of E e s] match_queue.match_refines [OF q, of E s]
      match_queue.dequeue_refines [OF q, of E sid s] match_queue.depth_refines [OF q, of s]
    by (simp add: case_prod_beta Let_def waiting_of_def)
qed

text \<open>
  No one is matched twice and no one overtakes. In any run of enqueuing, matching and
  leaving, the entries matched so far followed by those still waiting are a subsequence of
  the entries that waited at the start followed by those enqueued: matches come in order of
  arrival, each entry is matched at most once, and no matched entry is still in the queue.
\<close>

theorem matches_in_order:
  fixes R :: "('r, TimedEntry) redis_ops"
  assumes redis: "redis_store R elems fields_of"
  shows "let (matched, s') = match_run R evs s in
    subseq (matched @ elems (redis s') QUEUE_KEY) (elems (redis s) QUEUE_KEY @ enqueued evs)"
proof -
  have q: "match_queue R elems fields_of" by (simp add: match_queue_def redis)
  show ?thesis
    using match_queue.run_subseq [OF q, of evs s] by (simp add: case_prod_beta Let_def waiting_of_def)
qed

end
