(* ===== verification/GatewayFrames.thy ===== *)
theory GatewayFrames
  imports Gateway CallRuns ContactRuns MatchQueue
begin

text \<open>
  What the services leave alone. A view of the state that does not look at the tables a
  service writes is the same after each of its operations: proved once per service, for every
  such view, and then interpreted for the views that the gateway's properties need.
\<close>

subsection \<open>Frames of the services\<close>

locale audit_frame =
  fixes f :: "'z db_scheme \<Rightarrow> 'v"
  assumes audit_indep: "f (d\<lparr>audit_logs := x1\<rparr>) = f d"
begin

lemma same_log: "moves (same f) (AuditService_log E e)"
  by (rule same_AuditService_log) (rule audit_indep)

end

text \<open>The repository of the calls does not write the audit log.\<close>

locale call_tables_frame =
  fixes f :: "'z db_scheme \<Rightarrow> 'v"
  assumes sessions_indep: "f (d\<lparr>call_sessions := x2\<rparr>) = f d"
    and participants_indep: "f (d\<lparr>call_participants := x3\<rparr>) = f d"
begin

lemma same_inserts:
  "moves (same f) (insert_call_session E u ct anon room)"
  "moves (same f) (insert_participant F c u an role cam)"
  by (rule movesI; simp add: same_def insert_call_session_def insert_participant_def op_simps Let_def
      sessions_indep participants_indep)+

lemma same_call_repository:
  "moves (same f) (CallsRepository_createSession E u ct anon room)"
  "moves (same f) (CallsRepository_updateStatus F c st a e room)"
  "moves (same f) (CallsRepository_findById F c)"
  "moves (same f) (CallsRepository_addParticipant E c u an role cam)"
  "moves (same f) (CallsRepository_updateParticipantMedia F c uid mic camera an)"
  "moves (same f) (CallsRepository_markParticipantLeft F c uid an)"
  unfolding CallsRepository_createSession_def CallsRepository_updateStatus_def CallsRepository_findById_def
    CallsRepository_addParticipant_def CallsRepository_updateParticipantMedia_def
    CallsRepository_markParticipantLeft_def
  by (auto intro!: moves_with_uuid moves_with_uuid_or_null moves_with_participant same_view.R_refl
      same_view.moves_rules same_inserts same_modify simp: sessions_indep participants_indep)

end

locale calls_frame = audit_frame f + call_tables_frame f for f :: "'z db_scheme \<Rightarrow> 'v"
begin

lemma same_calls:
  "moves (same f) (CallsService_initiateCall E u an ct anon ip ua)"
  "moves (same f) (CallsService_acceptCall E c v an b ct ip ua)"
  "moves (same f) (CallsService_endCall F c w an st ip ua)"
  "moves (same f) (CallsService_toggleCallType F c w ct ip ua)"
  "moves (same f) (CallsService_toggleMedia F c w an mic cam)"
  "moves (same f) (CallsService_getCallById F c)"
  unfolding CallsService_initiateCall_def CallsService_acceptCall_def CallsService_endCall_def
    CallsService_toggleCallType_def CallsService_toggleMedia_def CallsService_getCallById_def Let_def
  by (auto intro!: same_view.moves_rules same_call_repository same_log split: option.splits)

end

locale request_table_frame =
  fixes f :: "'z db_scheme \<Rightarrow> 'v"
  assumes requests_indep: "f (d\<lparr>contact_save_requests := x2\<rparr>) = f d"
begin

lemma same_insert_request: "moves (same f) (insert_request E c u t)"
  by (rule movesI) (simp add: same_def insert_request_def Let_def requests_indep)

end

locale contacts_frame = audit_frame f + request_table_frame f for f :: "'z db_scheme \<Rightarrow> 'v"
begin

lemma same_request_save: "moves (same f) (ContactsService_requestContactSave E c u t ip)"
  unfolding ContactsService_requestContactSave_def
  by (auto intro!: moves_with_uuid same_view.R_refl same_view.moves_rules same_insert_request same_log
      split: option.splits)

end

locale redis_frame =
  fixes f :: "('r, 'z) redis_db_scheme \<Rightarrow> 'v"
  assumes redis_indep: "f (d\<lparr>redis := x2\<rparr>) = f d"
begin

lemma same_command: "moves (same f) (command c)"
proof -
  have "redis_update c d = d\<lparr>redis := c (redis d)\<rparr>" for d :: "('r, 'z) redis_db_scheme"
    by (cases d) simp
  then have "f (redis_update c d) = f d" for d by (metis redis_indep)
  then show ?thesis unfolding command_def by (rule same_modify)
qed

lemma same_pop: "moves (same f) (eval_pop_two R)"
  using redis_indep by (simp add: moves_def same_def eval_pop_two_def split: prod.splits)

end

locale queue_frame = audit_frame f + redis_frame f for f :: "('r, 'z) redis_db_scheme \<Rightarrow> 'v"
begin

lemma same_queue:
  "moves (same f) (MatchmakingService_enqueue R E e)"
  "moves (same f) (MatchmakingService_tryMatch R E)"
  "moves (same f) (MatchmakingService_dequeue R E sid)"
  unfolding MatchmakingService_enqueue_def MatchmakingService_tryMatch_def MatchmakingService_dequeue_def
  by (auto intro!: same_view.moves_rules same_command same_pop same_log split: option.splits)

end

locale sfu_frame =
  fixes f :: "('r, 'm, 'z) media_db_scheme \<Rightarrow> 'v"
  assumes media_indep: "f (d\<lparr>media := x1\<rparr>) = f d"
    and index_indep: "f (d\<lparr>workerIndex := x2\<rparr>) = f d"
    and rooms_indep: "f (d\<lparr>rooms := x3\<rparr>) = f d"
begin

lemma same_on_media: "moves (same f) (on_media m)"
  using media_indep by (simp add: moves_def same_def on_media_def split: prod.splits)

lemma same_next_worker: "moves (same f) SfuService_nextWorker"
  using index_indep by (simp add: moves_def same_def SfuService_nextWorker_def)

lemma same_put_room: "moves (same f) (put_room i r)"
  using rooms_indep by (simp add: put_room_def same_modify)

lemma same_with: "(\<And>r. moves (same f) (g r)) \<Longrightarrow> moves (same f) (with_room i g)"
  "(\<And>t. moves (same f) (h t)) \<Longrightarrow> moves (same f) (with_transport M tid room h)"
  unfolding with_room_def with_transport_def
  by (auto intro!: same_view.moves_rules split: option.splits)

lemma same_sfu:
  "moves (same f) (SfuService_createRoom M i)"
  "moves (same f) (SfuService_createWebRtcTransport M i p)"
  "moves (same f) (SfuService_connectTransport M i t dtls)"
  "moves (same f) (SfuService_produce M i t k rtp p)"
  "moves (same f) (SfuService_consume M i p pid caps t)"
  "moves (same f) (SfuService_resumeConsumer M i c)"
  "moves (same f) (SfuService_removeParticipant M i p)"
  unfolding SfuService_createRoom_def createRoom_router_def createRoom_store_def
    SfuService_createWebRtcTransport_def SfuService_connectTransport_def SfuService_produce_def
    SfuService_consume_def SfuService_resumeConsumer_def SfuService_removeParticipant_def
  by (auto intro!: same_view.moves_rules same_with same_on_media same_next_worker same_put_room same_modify
      simp: media_indep rooms_indep split: option.splits)

end

subsection \<open>Views\<close>

text \<open>What the gateway itself keeps: no service writes it.\<close>

definition own :: "('r, 'm, 'z) world_scheme \<Rightarrow>
    (string, SocketMeta) jsmap \<times> (string, string list) jsmap \<times> (string, string) jsmap \<times>
    (string, nat) jsmap \<times> (nat, missed_call) jsmap \<times> nat \<times> io_action list" where
  "own w = (sockets w, userSockets w, pendingCallTargets w, missedCallTimers w, timeouts w, next_timeout w, io w)"

interpretation own_calls: calls_frame own
  by unfold_locales (simp_all add: own_def)

interpretation own_contacts: contacts_frame own
  by unfold_locales (simp_all add: own_def)

interpretation own_queue: queue_frame own
  by unfold_locales (simp_all add: own_def)

interpretation own_sfu: sfu_frame own
  by unfold_locales (simp_all add: own_def)

lemma own_register [simp]: "moves (same own) (UsersService_findByEmail e)"
  by (simp add: moves_def same_def op_simps)

lemmas own_services = own_calls.same_log own_calls.same_calls own_contacts.same_request_save own_queue.same_queue
  own_sfu.same_sfu own_register

lemmas own_fields = own_services [THEN movesD, unfolded same_def own_def prod.inject]

text \<open>
  The gateway's own steps change nothing else: what is left of the state when its own
  fields are blanked out.
\<close>

definition own_free :: "('r, 'm, 'z) world_scheme \<Rightarrow> ('r, 'm, 'z) world_scheme" where
  "own_free w = w\<lparr>sockets := [], userSockets := [], pendingCallTargets := [], missedCallTimers := [],
     timeouts := [], next_timeout := 0, io := []\<rparr>"

lemma own_free_simps [simp]:
  "own_free (w\<lparr>sockets := x1\<rparr>) = own_free w" "own_free (w\<lparr>userSockets := x2\<rparr>) = own_free w"
  "own_free (w\<lparr>pendingCallTargets := x3\<rparr>) = own_free w" "own_free (w\<lparr>missedCallTimers := x4\<rparr>) = own_free w"
  "own_free (w\<lparr>timeouts := x5\<rparr>) = own_free w" "own_free (w\<lparr>next_timeout := x6\<rparr>) = own_free w"
  "own_free (w\<lparr>io := x7\<rparr>) = own_free w"
  by (simp_all add: own_free_def)

lemma own_free_steps:
  "moves (same own_free) (does a)"
  "moves (same own_free) (emit t ev)"
  "moves (same own_free) (clear_timeout h)"
  "moves (same own_free) (set_timeout mc)"
  "moves (same own_free) (drop_target c)"
  "moves (same own_free) (cancel_missed_timer c)"
  "moves (same own_free) (update_meta sid f)"
  "moves (same own_free) (broadcastQueueStatus R)"
  "moves (same own_free) (getMeta sid)"
  "moves (same own_free) (MatchmakingService_queueDepth R)"
  "moves (same own_free) (UsersService_findByEmail e)"
  "moves (same own_free) (CallsService_getCallById G c)"
  "moves (same own_free) (add_user_socket u sid)"
  "moves (same own_free) (remove_user_socket u sid)"
  "moves (same own_free) (modify (\<lambda>w. w\<lparr>sockets := p w\<rparr>))"
  "moves (same own_free) (modify (\<lambda>w. w\<lparr>pendingCallTargets := q w\<rparr>))"
  "moves (same own_free) (modify (\<lambda>w. w\<lparr>missedCallTimers := t' w\<rparr>))"
  by (simp_all add: moves_def same_def op_simps add_user_socket_def remove_user_socket_def
      CallsService_getCallById_def CallsRepository_findById_def split: option.splits)

lemma own_free_fields: "own_free t = own_free w \<Longrightarrow>
   users t = users w \<and> sessions t = sessions w \<and> refresh_tokens t = refresh_tokens w \<and>
   csrf_tokens t = csrf_tokens w \<and> call_sessions t = call_sessions w \<and> call_participants t = call_participants w \<and>
   contacts t = contacts w \<and> contact_save_requests t = contact_save_requests w \<and>
   audit_logs t = audit_logs w \<and> redis t = redis w \<and> media t = media w \<and> rooms t = rooms w"
  by (cases t; cases w) (simp add: own_free_def)

text \<open>The accounts, sessions and tokens: nothing of the gateway writes them.\<close>

definition auth_view :: "'z db_scheme \<Rightarrow>
    user_row list \<times> session_row list \<times> refresh_token_row list \<times> csrf_token_row list" where
  "auth_view d = (users d, sessions d, refresh_tokens d, csrf_tokens d)"

interpretation auth_calls: calls_frame auth_view
  by unfold_locales (simp_all add: auth_view_def)

interpretation auth_contacts: contacts_frame auth_view
  by unfold_locales (simp_all add: auth_view_def)

interpretation auth_queue: queue_frame auth_view
  by unfold_locales (simp_all add: auth_view_def)

interpretation auth_sfu: sfu_frame auth_view
  by unfold_locales (simp_all add: auth_view_def)

text \<open>The call tables with the accounts they refer to.\<close>

definition call_view :: "'z db_scheme \<Rightarrow> call_session_row list \<times> call_participant_row list \<times> user_row list" where
  "call_view d = (call_sessions d, call_participants d, users d)"

interpretation call_contacts: contacts_frame call_view
  by unfold_locales (simp_all add: call_view_def)

interpretation call_queue: queue_frame call_view
  by unfold_locales (simp_all add: call_view_def)

interpretation call_sfu: sfu_frame call_view
  by unfold_locales (simp_all add: call_view_def)

text \<open>The rooms.\<close>

interpretation rooms_calls: calls_frame rooms
  by unfold_locales simp_all

interpretation rooms_contacts: contacts_frame rooms
  by unfold_locales simp_all

interpretation rooms_queue: queue_frame rooms
  by unfold_locales simp_all

text \<open>The audit log, which the tables and Redis do not share.\<close>

interpretation audit_tables: call_tables_frame audit_logs
  by unfold_locales simp_all

interpretation audit_requests: request_table_frame audit_logs
  by unfold_locales simp_all

interpretation audit_redis: redis_frame audit_logs
  by unfold_locales simp_all

interpretation audit_rooms: sfu_frame audit_logs
  by unfold_locales simp_all

end
