(* ===== verification/GatewayRegistry.thy ===== *)
theory GatewayRegistry
  imports GatewayFrames
begin

text \<open>
  The register of connected sockets: \<open>sockets\<close> and \<open>userSockets\<close> agree in every reachable
  state, so a user is reachable exactly through its open tabs, and a socket that has
  disconnected is in neither.
\<close>

subsection \<open>Runs of the gateway\<close>

text \<open>
  What holds of every event: socket ids hold no colon and a new connection has a new id;
  the ids drawn for a new call are fresh.
\<close>

fun gw_guard :: "('r, 'm, 'z) world_scheme \<Rightarrow> 'e gateway_env_scheme \<times> gw_event \<Rightarrow> bool" where
  "gw_guard w (G, Timer h) = True"
| "gw_guard w (G, Message sid req) \<longleftrightarrow> CHR '':'' \<notin> set sid \<and>
     (case req of
        WsConnect token fwd addr agent \<Rightarrow> map_of (sockets w) sid = None
      | WsInitiate email target ct \<Rightarrow> fresh_call_ids G w
      | WsJoinQueue p \<Rightarrow> fresh_call_ids G w
      | _ \<Rightarrow> True)"

lemmas handler_defs = onCallInitiate_def call_target_def onCallAccept_def onCallReject_def onCallEnd_def
  onOffer_def onAnswer_def onIce_def onMediaToggle_def onSwitchType_def onJoinQueue_def onLeaveQueue_def
  onQueueStatusRequest_def onSfuJoin_def onCreateTransport_def onConnectTransport_def onProduce_def onConsume_def
  onResumeConsumer_def onRequestContactSave_def tryPairUsers_def pair_call_def no_reply_def end_as_def
  missed_call_fires_def

subsection \<open>The invariant\<close>

definition registered :: "('r, 'm, 'z) world_scheme \<Rightarrow> (string, SocketMeta) jsmap \<times> (string, string list) jsmap" where
  "registered w = (sockets w, userSockets w)"

text \<open>Who has which socket, according to each of the two maps.\<close>

definition tabs :: "(string, string list) jsmap \<Rightarrow> (string \<times> string) set" where
  "tabs us = {(u, sid). \<exists>s. map_of us u = Some s \<and> sid \<in> set s}"

definition owners :: "(string, SocketMeta) jsmap \<Rightarrow> (string \<times> string) set" where
  "owners ss = {(u, sid). \<exists>m. map_of ss sid = Some m \<and> m_userId m = Some u}"

definition sets_ok :: "(string, string list) jsmap \<Rightarrow> bool" where
  "sets_ok us \<longleftrightarrow> map_ok us \<and> (\<forall>u s. map_of us u = Some s \<longrightarrow> s \<noteq> [] \<and> distinct s)"

definition registry_ok :: "('r, 'm, 'z) world_scheme \<Rightarrow> bool" where
  "registry_ok w \<longleftrightarrow> map_ok (sockets w) \<and> sets_ok (userSockets w) \<and> tabs (userSockets w) = owners (sockets w)"

lemma tabs_set: "tabs (map_set u s us) = {(v, x) \<in> tabs us. v \<noteq> u} \<union> {u} \<times> set s"
  by (auto simp: tabs_def split: if_splits)

lemma tabs_delete: "tabs (map_delete u us) = {(v, x) \<in> tabs us. v \<noteq> u}"
  by (auto simp: tabs_def split: if_splits)

lemma owners_set: "owners (map_set sid m ss) =
    {(v, x) \<in> owners ss. x \<noteq> sid} \<union> (case m_userId m of None \<Rightarrow> {} | Some u \<Rightarrow> {(u, sid)})"
  by (auto simp: owners_def split: if_splits option.splits)

lemma owners_delete: "owners (map_delete sid ss) = {(v, x) \<in> owners ss. x \<noteq> sid}"
  by (auto simp: owners_def split: if_splits)

lemma sets_ok_set: "sets_ok us \<Longrightarrow> s \<noteq> [] \<Longrightarrow> distinct s \<Longrightarrow> sets_ok (map_set u s us)"
  unfolding sets_ok_def by (metis map_get_set map_ok_set option.inject)

lemma sets_ok_delete: "sets_ok us \<Longrightarrow> sets_ok (map_delete u us)"
  unfolding sets_ok_def by (metis map_get_delete map_ok_delete option.distinct(1))

lemma sets_ok_distinct: "sets_ok us \<Longrightarrow> map_of us u = Some s \<Longrightarrow> distinct s"
  unfolding sets_ok_def by blast

lemma registry_registered: "registered t = registered s \<Longrightarrow> registry_ok s \<Longrightarrow> registry_ok t"
  unfolding registered_def registry_ok_def by (simp only: prod.inject)

lemma registered_own: "moves (same own) m \<Longrightarrow> moves (same registered) m"
  by (simp add: moves_def same_def own_def registered_def)

lemmas registered_services = own_services [THEN registered_own]

lemma registered_steps:
  "moves (same registered) (does a)"
  "moves (same registered) (emit t ev)"
  "moves (same registered) (clear_timeout h)"
  "moves (same registered) (set_timeout mc)"
  "moves (same registered) (drop_target c)"
  "moves (same registered) (cancel_missed_timer c)"
  "moves (same registered) (broadcastQueueStatus R)"
  "moves (same registered) (getMeta sid)"
  "moves (same registered) (MatchmakingService_queueDepth R)"
  "moves (same registered) (modify (\<lambda>w. w\<lparr>pendingCallTargets := p w\<rparr>))"
  "moves (same registered) (modify (\<lambda>w. w\<lparr>missedCallTimers := q w\<rparr>))"
  by (simp_all add: moves_def same_def op_simps registered_def split: option.splits)

lemma registry_same: "moves (same registered) m \<Longrightarrow> moves (keeps registry_ok) m"
  by (rule keeps_same [OF registry_registered])

lemma registry_update_meta:
  assumes "\<And>m. m_userId (f m) = m_userId m"
  shows "moves (keeps registry_ok) (update_meta sid f)"
proof (rule movesI)
  fix w :: "('a, 'b, 'c) world_scheme"
  show "keeps registry_ok w (snd (update_meta sid f w))"
  proof (cases "map_of (sockets w) sid")
    case (Some m)
    then have "owners (map_set sid (f m) (sockets w)) = owners (sockets w)"
      using assms by (auto simp: owners_def)
    with Some show ?thesis by (simp add: keeps_def update_meta_apply registry_ok_def)
  qed (simp add: keeps_def update_meta_apply)
qed

lemma registry_handlers:
  "moves (keeps registry_ok) (onCallInitiate G sid email target ct)"
  "moves (keeps registry_ok) (onCallAccept G sid c ct)"
  "moves (keeps registry_ok) (onCallReject G sid c)"
  "moves (keeps registry_ok) (onCallEnd G sid c)"
  "moves (keeps registry_ok) (onMediaToggle G sid c mic cam)"
  "moves (keeps registry_ok) (onSwitchType G sid c ct)"
  "moves (keeps registry_ok) (onJoinQueue R G sid p)"
  "moves (keeps registry_ok) (onSfuJoin M G sid r)"
  "moves (keeps registry_ok) (onRequestContactSave G sid c u)"
  "moves (keeps registry_ok) (timer_fires G h)"
  unfolding handler_defs timer_fires_def Let_def
  by (auto intro!: keeps_inv.moves_rules registry_update_meta registered_steps [THEN registry_same]
      registered_services [THEN registry_same] split: option.splits)

lemma registry_others:
  "moves (same registered) (onOffer sid c x)" "moves (same registered) (onAnswer sid c x)"
  "moves (same registered) (onIce sid c x)" "moves (same registered) (onLeaveQueue R G sid)"
  "moves (same registered) (onQueueStatusRequest R sid)" "moves (same registered) (onCreateTransport M sid r)"
  "moves (same registered) (onConnectTransport M r t d)" "moves (same registered) (onProduce M sid r t k rtp)"
  "moves (same registered) (onConsume M sid r p caps t)" "moves (same registered) (onResumeConsumer M r c)"
  unfolding handler_defs
  by (auto intro!: same_view.moves_rules registered_steps registered_services)

subsection \<open>Connecting and disconnecting\<close>

lemma connect_fields:
  fixes w :: "('r, 'm, 'z) world_scheme"
  assumes "w' = snd (handleConnection R G sid token fwd addr agent w)"
  shows "sockets w' = map_set sid \<lparr>m_userId = token_user G token, m_anonymousId = gw_anonymous_id G,
      m_callId = None, m_roomId = None, m_ipAddress = the (or_else (or_else fwd addr) (Some ''unknown'')),
      m_userAgent = the (or_else agent (Some []))\<rparr> (sockets w)"
    and "userSockets w' = (case token_user G token of None \<Rightarrow> userSockets w
      | Some u \<Rightarrow> map_set u (case map_of (userSockets w) u of Some s \<Rightarrow> set_add sid s | None \<Rightarrow> [sid]) (userSockets w))"
  unfolding assms
  by (auto simp: handleConnection_def add_user_socket_def op_simps Let_def split: option.splits)

lemma registry_connect:
  assumes ok: "registry_ok w" and new: "map_of (sockets w) sid = None"
  shows "registry_ok (snd (handleConnection R G sid token fwd addr agent w))"
proof -
  let ?w = "snd (handleConnection R G sid token fwd addr agent w)"
  have out: "{(v, x) \<in> owners (sockets w). x \<noteq> sid} = owners (sockets w)"
    using new by (auto simp: owners_def)
  have same: "{(v, x) \<in> tabs us. v \<noteq> u} \<union> {u} \<times> set (set_add sid s) = tabs us \<union> {(u, sid)}"
    if "map_of us u = Some s" for us u s
    using that by (auto simp: tabs_def)
  show ?thesis
  proof (cases "token_user G token")
    case None
    then show ?thesis
      using ok out by (simp add: registry_ok_def connect_fields [OF refl] owners_set)
  next
    case (Some u)
    show ?thesis
    proof (cases "map_of (userSockets w) u")
      case None
      then have "{(v, x) \<in> tabs (userSockets w). v \<noteq> u} = tabs (userSockets w)" by (auto simp: tabs_def)
      with Some None ok out show ?thesis
        by (simp add: registry_ok_def connect_fields [OF refl] owners_set tabs_set sets_ok_set)
    next
      case s: (Some s)
      have "distinct s" using ok sets_ok_distinct [OF _ s] by (simp add: registry_ok_def)
      with Some s ok out same [OF s] show ?thesis
        by (simp add: registry_ok_def connect_fields [OF refl] owners_set tabs_set sets_ok_set)
    qed
  qed
qed

text \<open>Taking a socket out of both maps.\<close>

definition forget :: "'r queue_ops \<Rightarrow> SocketMeta \<Rightarrow> string \<Rightarrow> ('r, 'm, 'z, unit) handler" where
  "forget R m sid = andthen (case m_userId m of None \<Rightarrow> ret () | Some u \<Rightarrow> remove_user_socket u sid)
     (andthen (modify (\<lambda>w. w\<lparr>sockets := map_delete sid (sockets w)\<rparr>)) (broadcastQueueStatus R))"

lemma registry_forget:
  assumes ok: "registry_ok w" and m: "map_of (sockets w) sid = Some m"
  shows "registry_ok (snd (forget R m sid w))"
proof (cases "m_userId m")
  case None
  then have "{(v, x) \<in> owners (sockets w). x \<noteq> sid} = owners (sockets w)"
    using m by (auto simp: owners_def)
  with None ok show ?thesis by (simp add: forget_def registry_ok_def op_simps owners_delete)
next
  case (Some u)
  then have "(u, sid) \<in> tabs (userSockets w)" using ok m by (auto simp: registry_ok_def owners_def)
  then obtain s where s: "map_of (userSockets w) u = Some s" "sid \<in> set s" by (auto simp: tabs_def)
  have "(v, sid) \<in> owners (sockets w) \<longleftrightarrow> v = u" for v using m Some by (auto simp: owners_def)
  then have only: "(v, sid) \<in> tabs (userSockets w) \<longleftrightarrow> v = u" for v using ok by (simp add: registry_ok_def)
  have mine: "(u, x) \<in> tabs (userSockets w) \<longleftrightarrow> x \<in> set s" for x using s by (auto simp: tabs_def)
  have left: "{(v, x) \<in> T. v \<noteq> u} \<union> {u} \<times> set (set_delete sid s) = {(v, x) \<in> T. x \<noteq> sid}"
    if "\<And>v. (v, sid) \<in> T \<longleftrightarrow> v = u" "\<And>x. (u, x) \<in> T \<longleftrightarrow> x \<in> set s" for T :: "(string \<times> string) set"
    using that by auto
  note left = left [OF only mine]
  have gone: "{(v, x) \<in> tabs (userSockets w). v \<noteq> u} = {(v, x) \<in> tabs (userSockets w). x \<noteq> sid}"
    if "set_delete sid s = []"
    using left unfolding that by simp
  let ?us = "if set_delete sid s = [] then map_delete u (userSockets w) else map_set u (set_delete sid s) (userSockets w)"
  have fields: "sockets (snd (forget R m sid w)) = map_delete sid (sockets w)" "userSockets (snd (forget R m sid w)) = ?us"
    using Some s(1) by (simp_all add: forget_def op_simps remove_user_socket_def)
  have "sets_ok (userSockets w)" using ok by (simp add: registry_ok_def)
  from sets_ok_distinct [OF this s(1)] have "distinct (set_delete sid s)" by simp
  with ok have "sets_ok ?us" by (simp add: registry_ok_def sets_ok_set sets_ok_delete)
  moreover have "tabs ?us = {(v, x) \<in> tabs (userSockets w). x \<noteq> sid}"
  proof (cases "set_delete sid s = []")
    case True
    show ?thesis unfolding if_P [OF True] tabs_delete by (rule gone [OF True])
  next
    case False
    show ?thesis unfolding if_not_P [OF False] tabs_set by (rule left)
  qed
  ultimately show ?thesis
    using ok unfolding registry_ok_def fields owners_delete by simp
qed

lemma registry_disconnect:
  assumes ok: "registry_ok w"
  shows "registry_ok (snd (handleDisconnect R M G sid w))"
proof (cases "map_of (sockets w) sid")
  case None
  with ok show ?thesis by (simp add: handleDisconnect_def op_simps)
next
  case (Some m)
  have first: "moves (same registered) (MatchmakingService_dequeue R G sid)"
    "moves (same registered) (case m_callId m of None \<Rightarrow> ret () | Some c \<Rightarrow> if c = [] then ret () else
       andthen (end_as G m c Ended)
         (andthen (emit (ToRoom c) (EvEnded c ''peer_disconnected'')) (cancel_missed_timer c)))"
    "moves (same registered) (case m_roomId m of None \<Rightarrow> ret () | Some r \<Rightarrow> if r = [] then ret () else
       andthen (SfuService_removeParticipant M r sid) (emit (ToOthers r sid) (EvLeft sid)))"
    unfolding end_as_def
    by (auto intro!: same_view.moves_rules registered_services registered_steps split: option.splits)
  have here: "registered t = registered w \<Longrightarrow> registry_ok t \<and> map_of (sockets t) sid = Some m" for t
    using ok Some registry_registered by (auto simp: registered_def)
  show ?thesis
    unfolding handleDisconnect_def bnd_apply gets_apply prod.case sum.case Some option.case forget_def [symmetric]
    by (rule andthen_frame [OF first(1)], simp add: here,
        rule andthen_frame [OF first(2)], simp add: here,
        rule andthen_frame [OF first(3)], simp add: here,
        rule registry_forget) (simp_all add: here)
qed

lemma registry_step:
  assumes "registry_ok w" "gw_guard w ev"
  shows "registry_ok (gateway_step R M ev w)"
proof -
  obtain G e where ev: "ev = (G, e)" by (cases ev)
  have reply: "moves (keeps registry_ok) (no_reply m)" if "moves (keeps registry_ok) m" for m :: "('a, 'b, 'c, 'x) handler"
    using that unfolding no_reply_def by (auto intro!: keeps_inv.moves_rules)
  have kept: "registry_ok (snd (m w))" if "moves (keeps registry_ok) m" for m :: "('a, 'b, 'c, unit) handler"
    using assms(1) movesD [OF that, of w] by (simp add: keeps_def)
  show ?thesis
  proof (cases e)
    case (Message sid req)
    show ?thesis
    proof (cases req)
      case (WsConnect token fwd addr agent)
      with assms ev Message show ?thesis by (simp add: registry_connect)
    next
      case WsDisconnect
      with assms ev Message show ?thesis by (simp add: registry_disconnect)
    qed (auto simp: ev Message intro!: kept reply registry_handlers registry_others [THEN registry_same])
  next
    case (Timer h)
    then show ?thesis unfolding ev Timer gateway_step.simps by (intro kept registry_handlers)
  qed
qed

interpretation registry_run: guarded_machine gw_guard "gateway_step R M" registry_ok for R M
  by unfold_locales (rule registry_step)

end
