(* ===== verification/GatewayTimers.thy ===== *)
theory GatewayTimers
  imports GatewayRegistry
begin

text \<open>
  The missed-call timers: what \<open>call:initiate\<close> does in full, and that in every reachable state
  the timers that are set are exactly those that \<open>missedCallTimers\<close> can cancel, one per call.
\<close>

subsection \<open>Initiating a call, in full\<close>

lemma call_target_state [simp]: "snd (call_target email target w) = w"
  by (simp add: call_target_def op_simps split: option.splits)

lemma emit_each:
  "for_each ts (\<lambda>t. emit (dest t) ev) w = (Inr (), w\<lparr>io := io w @ map (\<lambda>t. Emit (dest t) ev) ts\<rparr>)"
  by (induction ts arbitrary: w) (simp_all add: op_simps)

definition ring :: "('r, 'm, 'z) world_scheme \<Rightarrow> string \<Rightarrow> string list" where
  "ring w t = (case map_of (userSockets w) t of None \<Rightarrow> [] | Some s \<Rightarrow> s)"

lemma initiate_cases:
  assumes m: "map_of (sockets w) sid = Some m"
    and call: "CallsService_initiateCall G (Some (caller m)) (guest_id m) ct (\<not> truthy (m_userId m))
      (m_ipAddress m) (m_userAgent m) w = (res, w1)"
  shows "onCallInitiate G sid email target ct w = (case fst (call_target email target w) of
      Inl e \<Rightarrow> (Inl e, w)
    | Inr t \<Rightarrow> (case res of Inl e \<Rightarrow> (Inl e, w1)
      | Inr s \<Rightarrow> (Inr (cs_id s), w1\<lparr>
          sockets := map_set sid (m\<lparr>m_callId := Some (cs_id s)\<rparr>) (sockets w),
          pendingCallTargets := map_set (cs_id s) t (pendingCallTargets w),
          missedCallTimers := map_set (cs_id s) (next_timeout w) (missedCallTimers w),
          timeouts := map_set (next_timeout w) \<lparr>mc_callId = cs_id s, mc_socket = sid, mc_meta = m\<rparr> (timeouts w),
          next_timeout := next_timeout w + 1,
          io := io w @ Join sid (cs_id s) #
            map (\<lambda>x. Emit (ToRoom x) (EvIncoming (cs_id s) (m_userId m) ct)) (ring w t)\<rparr>)))"
proof -
  have "same own w (snd (CallsService_initiateCall G (Some (caller m)) (guest_id m) ct (\<not> truthy (m_userId m))
      (m_ipAddress m) (m_userAgent m) w))"
    by (rule movesD [OF own_calls.same_calls(1)])
  then have w1: "sockets w1 = sockets w" "userSockets w1 = userSockets w" "pendingCallTargets w1 = pendingCallTargets w"
    "missedCallTimers w1 = missedCallTimers w" "timeouts w1 = timeouts w" "next_timeout w1 = next_timeout w" "io w1 = io w"
    unfolding call by (simp_all add: same_def own_def)
  obtain r where r: "call_target email target w = (r, w)"
    using call_target_state [of email target w] by (metis prod.collapse)
  show ?thesis
    using m w1 r call
    by (cases r; cases res) (simp_all add: onCallInitiate_def bnd_apply andthen_apply getMeta_apply gets_apply
        modify_apply update_meta_apply does_apply emit_each set_timeout_apply ret_apply ring_def)
qed

subsection \<open>The timers that are set\<close>

definition armed :: "(string, nat) jsmap \<Rightarrow> (string \<times> nat) set" where
  "armed mt = {(c, h). map_of mt c = Some h}"

definition due :: "(nat, missed_call) jsmap \<Rightarrow> (string \<times> nat) set" where
  "due ts = {(c, h). \<exists>mc. map_of ts h = Some mc \<and> mc_callId mc = c}"

definition call_ids :: "'z db_scheme \<Rightarrow> string set" where
  "call_ids d = cs_id ` set (call_sessions d)"

definition timers_ok :: "('r, 'm, 'z) world_scheme \<Rightarrow> bool" where
  "timers_ok w \<longleftrightarrow> map_ok (missedCallTimers w) \<and> map_ok (timeouts w) \<and>
     armed (missedCallTimers w) = due (timeouts w) \<and> snd ` due (timeouts w) \<subseteq> {..<next_timeout w} \<and>
     fst ` due (timeouts w) \<subseteq> call_ids w"

lemma armed_set: "armed (map_set c h mt) = {(c', h') \<in> armed mt. c' \<noteq> c} \<union> {(c, h)}"
  by (auto simp: armed_def split: if_splits)

lemma armed_delete: "armed (map_delete c mt) = {(c', h') \<in> armed mt. c' \<noteq> c}"
  by (auto simp: armed_def split: if_splits)

lemma due_set: "due (map_set h mc ts) = {(c', h') \<in> due ts. h' \<noteq> h} \<union> {(mc_callId mc, h)}"
  by (auto simp: due_def split: if_splits)

lemma due_delete: "due (map_delete h ts) = {(c', h') \<in> due ts. h' \<noteq> h}"
  by (auto simp: due_def split: if_splits)

lemma armed_unique: "(c, h) \<in> armed mt \<Longrightarrow> (c, h') \<in> armed mt \<Longrightarrow> h' = h"
  by (auto simp: armed_def)

lemma due_unique: "(c, h) \<in> due ts \<Longrightarrow> (c', h) \<in> due ts \<Longrightarrow> c' = c"
  by (auto simp: due_def)

text \<open>Dropping a pair from both sides, by its call or by its handle, is the same.\<close>

lemma drop_pair:
  assumes "armed mt = due ts" "(c, h) \<in> due ts"
  shows "{(c', h') \<in> armed mt. c' \<noteq> c} = {(c', h') \<in> due ts. h' \<noteq> h}"
proof -
  have "c' = c \<longleftrightarrow> h' = h" if "(c', h') \<in> due ts" for c' h'
    using assms that by (metis armed_unique due_unique)
  with assms(1) show ?thesis by auto
qed

lemma timers_dropped:
  assumes ok: "timers_ok w" and pair: "(c, h) \<in> due (timeouts w)"
    and w': "missedCallTimers w' = map_delete c (missedCallTimers w)" "timeouts w' = map_delete h (timeouts w)"
      "next_timeout w' = next_timeout w" "call_sessions w' = call_sessions w"
  shows "timers_ok w'"
proof -
  have "armed (map_delete c (missedCallTimers w)) = due (map_delete h (timeouts w))"
    unfolding armed_delete due_delete using ok pair by (intro drop_pair) (simp_all add: timers_ok_def)
  moreover have "due (map_delete h (timeouts w)) \<subseteq> due (timeouts w)" by (auto simp: due_delete)
  ultimately show ?thesis
    using ok unfolding timers_ok_def w' call_ids_def by (meson image_mono map_ok_delete subset_trans)
qed

definition ids_grow :: "'z db_scheme \<Rightarrow> 'z db_scheme \<Rightarrow> bool" where
  "ids_grow d d' \<longleftrightarrow> call_ids d \<subseteq> call_ids d'"

lemma calls_later_ids: "calls_later d d' \<Longrightarrow> ids_grow d d'"
proof -
  assume "calls_later d d'"
  then have "\<exists>r' \<in> set (call_sessions d'). call_progress r r'" if "r \<in> set (call_sessions d)" for r
    using that call_rows.later_row by (auto simp: calls_later_def)
  then have "cs_id r \<in> call_ids d'" if "r \<in> set (call_sessions d)" for r
    using that unfolding call_progress_def same_call_def call_ids_def by (metis image_eqI)
  then show ?thesis by (auto simp: ids_grow_def call_ids_def)
qed

lemma ids_later: "moves calls_later m \<Longrightarrow> moves ids_grow m"
  by (auto simp: moves_def calls_later_ids)

lemma ids_same: "moves (same call_view) m \<Longrightarrow> moves ids_grow m"
  by (simp add: moves_def same_def call_view_def ids_grow_def call_ids_def)

lemma timers_services:
  assumes "moves (same own) m" "moves ids_grow m"
  shows "moves (keeps timers_ok) m"
proof (rule movesI)
  fix w
  have "own (snd (m w)) = own w" "call_ids w \<subseteq> call_ids (snd (m w))"
    using movesD [OF assms(1), of w] movesD [OF assms(2), of w] by (simp_all add: same_def ids_grow_def)
  then show "keeps timers_ok w (snd (m w))"
    unfolding keeps_def timers_ok_def own_def prod.inject by (simp, blast)
qed

lemmas timers_calls =
  timers_services [OF own_calls.same_calls(1) ids_later [OF moves_calls_service(1)]]
  timers_services [OF own_calls.same_calls(2) ids_later [OF moves_calls_service(2)]]
  timers_services [OF own_calls.same_calls(3) ids_later [OF moves_calls_service(3)]]
  timers_services [OF own_calls.same_calls(4) ids_later [OF moves_calls_service(4)]]
  timers_services [OF own_calls.same_calls(5) ids_later [OF moves_calls_service(5)]]

lemma get_call_view: "moves (same call_view) (CallsService_getCallById G c)"
  by (simp add: moves_def same_def CallsService_getCallById_def CallsRepository_findById_def op_simps split: option.splits)

lemma register_view: "moves (same call_view) (UsersService_findByEmail e)"
  by (simp add: moves_def same_def op_simps)

lemmas timers_others =
  timers_services [OF own_calls.same_calls(6) ids_same [OF get_call_view]]
  timers_services [OF own_register ids_same [OF register_view]]
  timers_services [OF own_calls.same_log ids_same [OF call_contacts.same_log]]
  timers_services [OF own_contacts.same_request_save ids_same [OF call_contacts.same_request_save]]
  timers_services [OF own_queue.same_queue(1) ids_same [OF call_queue.same_queue(1)]]
  timers_services [OF own_queue.same_queue(2) ids_same [OF call_queue.same_queue(2)]]
  timers_services [OF own_queue.same_queue(3) ids_same [OF call_queue.same_queue(3)]]
  timers_services [OF own_sfu.same_sfu(1) ids_same [OF call_sfu.same_sfu(1)]]
  timers_services [OF own_sfu.same_sfu(2) ids_same [OF call_sfu.same_sfu(2)]]
  timers_services [OF own_sfu.same_sfu(3) ids_same [OF call_sfu.same_sfu(3)]]
  timers_services [OF own_sfu.same_sfu(4) ids_same [OF call_sfu.same_sfu(4)]]
  timers_services [OF own_sfu.same_sfu(5) ids_same [OF call_sfu.same_sfu(5)]]
  timers_services [OF own_sfu.same_sfu(6) ids_same [OF call_sfu.same_sfu(6)]]
  timers_services [OF own_sfu.same_sfu(7) ids_same [OF call_sfu.same_sfu(7)]]

subsection \<open>The invariant\<close>

definition timer_view :: "('r, 'm, 'z) world_scheme \<Rightarrow>
    (string, nat) jsmap \<times> (nat, missed_call) jsmap \<times> nat \<times> call_session_row list" where
  "timer_view w = (missedCallTimers w, timeouts w, next_timeout w, call_sessions w)"

lemma timers_view: "timer_view t = timer_view s \<Longrightarrow> timers_ok s \<Longrightarrow> timers_ok t"
  unfolding timer_view_def timers_ok_def call_ids_def by (simp only: prod.inject)

lemma timer_view_steps:
  "moves (same timer_view) (does a)"
  "moves (same timer_view) (emit t ev)"
  "moves (same timer_view) (drop_target c)"
  "moves (same timer_view) (update_meta sid f)"
  "moves (same timer_view) (broadcastQueueStatus R)"
  "moves (same timer_view) (getMeta sid)"
  "moves (same timer_view) (MatchmakingService_queueDepth R)"
  "moves (same timer_view) (call_target email target)"
  "moves (same timer_view) (remove_user_socket u sid)"
  "moves (same timer_view) (modify (\<lambda>w. w\<lparr>sockets := p w\<rparr>))"
  "moves (same timer_view) (modify (\<lambda>w. w\<lparr>userSockets := q w\<rparr>))"
  by (simp_all add: moves_def same_def op_simps timer_view_def remove_user_socket_def split: option.splits)

lemma timers_cancel: "moves (keeps timers_ok) (cancel_missed_timer c)"
proof (rule movesI)
  fix w :: "('a, 'b, 'c) world_scheme"
  show "keeps timers_ok w (snd (cancel_missed_timer c w))"
  proof (cases "map_of (missedCallTimers w) c")
    case (Some h)
    then have "timers_ok w \<Longrightarrow> (c, h) \<in> due (timeouts w)" by (auto simp: timers_ok_def armed_def)
    with Some show ?thesis
      by (auto simp: keeps_def cancel_missed_timer_apply intro: timers_dropped)
  qed (simp add: keeps_def cancel_missed_timer_apply)
qed

lemma timers_same: "moves (same timer_view) m \<Longrightarrow> moves (keeps timers_ok) m"
  by (rule keeps_same [OF timers_view])

lemmas timers_steps = timer_view_steps [THEN timers_same] timers_cancel

lemma timers_handlers:
  "moves (keeps timers_ok) (onCallAccept G sid c ct)"
  "moves (keeps timers_ok) (onCallReject G sid c)"
  "moves (keeps timers_ok) (onCallEnd G sid c)"
  "moves (keeps timers_ok) (onMediaToggle G sid c mic cam)"
  "moves (keeps timers_ok) (onSwitchType G sid c ct)"
  "moves (keeps timers_ok) (onJoinQueue R G sid p)"
  "moves (keeps timers_ok) (onLeaveQueue R G sid)"
  "moves (keeps timers_ok) (onQueueStatusRequest R sid)"
  "moves (keeps timers_ok) (onSfuJoin M G sid r)"
  "moves (keeps timers_ok) (onProduce M sid r t k rtp)"
  "moves (keeps timers_ok) (onRequestContactSave G sid c u)"
  unfolding onCallAccept_def onCallReject_def onCallEnd_def onMediaToggle_def onSwitchType_def onJoinQueue_def
    onLeaveQueue_def onQueueStatusRequest_def onSfuJoin_def onProduce_def onRequestContactSave_def
    tryPairUsers_def pair_call_def end_as_def Let_def
  by (auto intro!: keeps_inv.moves_rules timers_steps timers_calls timers_others split: option.splits)

lemma timers_connections:
  "moves (keeps timers_ok) (handleConnection R G sid token fwd addr agent)"
  "moves (keeps timers_ok) (handleDisconnect R M G sid)"
  unfolding handleConnection_def handleDisconnect_def add_user_socket_def end_as_def Let_def
  by (auto intro!: keeps_inv.moves_rules timers_steps timers_calls timers_others split: option.splits)

lemma timers_simple:
  "moves (keeps timers_ok) (onOffer sid c x)" "moves (keeps timers_ok) (onAnswer sid c x)"
  "moves (keeps timers_ok) (onIce sid c x)" "moves (keeps timers_ok) (onCreateTransport M sid r)"
  "moves (keeps timers_ok) (onConnectTransport M r t d)" "moves (keeps timers_ok) (onConsume M sid r p caps t)"
  "moves (keeps timers_ok) (onResumeConsumer M r c)"
  unfolding onOffer_def onAnswer_def onIce_def onCreateTransport_def onConnectTransport_def onConsume_def
    onResumeConsumer_def
  by (rule timers_steps timers_others)+

subsection \<open>Setting a timer, and a timer that runs out\<close>

text \<open>Every call gets a timer of its own.\<close>

lemma timers_set:
  assumes ok: "timers_ok w" and new: "c \<notin> call_ids w" and ids: "call_ids w \<subseteq> call_ids w'" "c \<in> call_ids w'"
    and w': "missedCallTimers w' = map_set c (next_timeout w) (missedCallTimers w)"
      "timeouts w' = map_set (next_timeout w) mc (timeouts w)" "next_timeout w' = next_timeout w + 1" "mc_callId mc = c"
  shows "timers_ok w'"
proof -
  have eq: "armed (missedCallTimers w) = due (timeouts w)" and small: "snd ` due (timeouts w) \<subseteq> {..<next_timeout w}"
    and known: "fst ` due (timeouts w) \<subseteq> call_ids w" using ok by (simp_all add: timers_ok_def)
  have "h \<noteq> next_timeout w \<and> c' \<noteq> c" if "(c', h) \<in> due (timeouts w)" for c' h
    using that small known new by force
  then have "{(c', h) \<in> due (timeouts w). h \<noteq> next_timeout w} = due (timeouts w)"
    "{(c', h) \<in> due (timeouts w). c' \<noteq> c} = due (timeouts w)" by auto
  then have "armed (missedCallTimers w') = due (timeouts w) \<union> {(c, next_timeout w)}"
    "due (timeouts w') = due (timeouts w) \<union> {(c, next_timeout w)}"
    unfolding w' armed_set due_set eq by (simp_all only: w')
  then show ?thesis
    using ok small known ids unfolding timers_ok_def w'(1-3) by auto
qed

lemma timers_initiate:
  assumes ok: "timers_ok w" and fresh: "fresh_call_ids G w"
  shows "timers_ok (snd (onCallInitiate G sid email target ct w))"
proof (cases "map_of (sockets w) sid")
  case None
  with ok show ?thesis by (simp add: onCallInitiate_def op_simps)
next
  case (Some m)
  obtain res w1 where call: "CallsService_initiateCall G (Some (caller m)) (guest_id m) ct (\<not> truthy (m_userId m))
      (m_ipAddress m) (m_userAgent m) w = (res, w1)" by fastforce
  have kept: "timers_ok w1"
    using movesD [OF timers_calls(1), of w G "Some (caller m)" "guest_id m" ct "\<not> truthy (m_userId m)"
        "m_ipAddress m" "m_userAgent m"] ok by (simp add: keeps_def call)
  show ?thesis
  proof (cases "initiator_ref G (Some (caller m)) w")
    case (Inl e)
    with call have "res = Inl e" using initiateCall_fails [OF fresh Inl] by simp
    with kept ok show ?thesis
      by (auto simp: initiate_cases [OF Some call] split: sum.splits)
  next
    case (Inr i)
    have w1: "res = Inr (initiated G i ct (\<not> truthy (m_userId m)))"
      "call_sessions w1 = call_sessions w @ [initiated G i ct (\<not> truthy (m_userId m))]"
      using initiateCall_succeeds [OF fresh Inr, of "guest_id m" ct "\<not> truthy (m_userId m)" "m_ipAddress m" "m_userAgent m"]
        call by (simp_all add: AuditService_log_apply)
    have id: "cs_id (initiated G i ct b) = new_call_id G" for b
      by (simp add: initiated_def new_call_session_def)
    have new: "new_call_id G \<notin> call_ids w"
      using fresh by (auto simp: fresh_call_ids_def call_exists_iff call_ids_def)
    show ?thesis
    proof (cases "fst (call_target email target w)")
      case (Inr t)
      show ?thesis
        by (rule timers_set [OF ok new])
          (auto simp: initiate_cases [OF Some call] Inr w1 id call_ids_def)
    qed (use ok in \<open>simp add: initiate_cases [OF Some call]\<close>)
  qed
qed

text \<open>The part of the callback after the timer has been taken out of both maps.\<close>

definition missed_rest :: "'e gateway_env_scheme \<Rightarrow> missed_call \<Rightarrow> ('r, 'm, 'z, unit) handler" where
  "missed_rest G c =
     andthen (drop_target (mc_callId c))
    (bnd (catch (bnd (CallsService_getCallById G (mc_callId c)) (\<lambda>s. ret (Some s))) (\<lambda>_. ret None)) (\<lambda>s.
     if map_option cs_status s = Some Initiated
     then andthen (end_as G (mc_meta c) (mc_callId c) Missed)
       (emit (ToSocket (mc_socket c)) (EvMissed (mc_callId c)))
     else ret ()))"

lemma timer_fires_apply:
  "timer_fires G h w = (case map_of (timeouts w) h of None \<Rightarrow> (Inr (), w)
     | Some c \<Rightarrow> missed_rest G c (w\<lparr>timeouts := map_delete h (timeouts w),
         missedCallTimers := map_delete (mc_callId c) (missedCallTimers w)\<rparr>))"
  by (simp add: timer_fires_def missed_call_fires_def missed_rest_def op_simps split: option.splits)

lemma timers_missed_rest: "moves (keeps timers_ok) (missed_rest G c)"
  unfolding missed_rest_def end_as_def
  by (auto intro!: keeps_inv.moves_rules timers_steps timers_calls timers_others split: option.splits)

lemma timers_fire:
  assumes ok: "timers_ok w"
  shows "timers_ok (snd (timer_fires G h w))"
proof (cases "map_of (timeouts w) h")
  case None
  with ok show ?thesis by (simp add: timer_fires_apply)
next
  case (Some c)
  let ?w = "w\<lparr>timeouts := map_delete h (timeouts w), missedCallTimers := map_delete (mc_callId c) (missedCallTimers w)\<rparr>"
  have "timers_ok ?w"
    using Some by (intro timers_dropped [OF ok, of "mc_callId c" h]) (auto simp: due_def)
  then show ?thesis
    using Some movesD [OF timers_missed_rest, of ?w G c] by (simp add: timer_fires_apply keeps_def)
qed

lemma timers_step:
  assumes "timers_ok w" "gw_guard w ev"
  shows "timers_ok (gateway_step R M ev w)"
proof -
  obtain G e where ev: "ev = (G, e)" by (cases ev)
  have reply: "moves (keeps timers_ok) (no_reply m)" if "moves (keeps timers_ok) m" for m :: "('a, 'b, 'c, 'x) handler"
    using that unfolding no_reply_def by (auto intro!: keeps_inv.moves_rules)
  have kept: "timers_ok (snd (m w))" if "moves (keeps timers_ok) m" for m :: "('a, 'b, 'c, unit) handler"
    using assms(1) movesD [OF that, of w] by (simp add: keeps_def)
  have same: "snd (no_reply m w) = snd (m w)" for m :: "('a, 'b, 'c, 'x) handler"
    by (simp add: no_reply_def op_simps split: sum.splits prod.splits)
  show ?thesis
  proof (cases e)
    case (Message sid req)
    show ?thesis
    proof (cases req)
      case (WsInitiate email target ct)
      with assms ev Message show ?thesis by (simp add: same timers_initiate)
    qed (auto simp: ev Message intro!: kept reply timers_handlers timers_connections timers_simple)
  qed (use assms(1) in \<open>simp add: ev timers_fire\<close>)
qed

interpretation timers_run: guarded_machine gw_guard "gateway_step R M" timers_ok for R M
  by unfold_locales (rule timers_step)

end
