(* ===== verification/GatewayCompose.thy ===== *)
theory GatewayCompose
  imports GatewayTimers
begin

text \<open>
  The gateway as a client of its services: a relation between states that the gateway's own
  steps and every operation of the services keep is kept by every event. The contract is a
  locale; its instances are the histories of the tables, the audit log and the rooms.
\<close>

subsection \<open>The contract\<close>

text \<open>
  \<open>peer\<close> says which names of peers the relation can cope with; socket ids have to be such.
\<close>

locale gateway_client = progress P
  for P :: "('r, 'm, 'z) world_scheme \<Rightarrow> ('r, 'm, 'z) world_scheme \<Rightarrow> bool" +
  fixes R :: "'r queue_ops" and M :: "'m sfu_env" and G :: "'e gateway_env_scheme" and peer :: "string \<Rightarrow> bool"
  assumes own_step: "own_free w' = own_free w \<Longrightarrow> P w w'"
    and calls: "moves P (CallsService_initiateCall G u an ct anon ip ua)"
      "moves P (CallsService_acceptCall G c v an b ct ip ua)"
      "st \<in> {Ended, Rejected, Missed} \<Longrightarrow> moves P (CallsService_endCall G c i an st ip ua)"
      "moves P (CallsService_toggleCallType G c i ct ip ua)"
      "moves P (CallsService_toggleMedia G c i an mic cam)"
    and audit_log: "moves P (AuditService_log G e)"
    and request: "moves P (ContactsService_requestContactSave (contact_part G) c i t ip)"
    and queue: "moves P (MatchmakingService_enqueue R G q)" "moves P (MatchmakingService_tryMatch R G)"
      "moves P (MatchmakingService_dequeue R G i)"
    and sfu: "moves P (SfuService_createRoom M i)"
      "peer p \<Longrightarrow> moves P (SfuService_createWebRtcTransport M i p)"
      "moves P (SfuService_connectTransport M i t dtls)" "moves P (SfuService_produce M i t k rtp p)"
      "moves P (SfuService_consume M i p pid caps t)" "moves P (SfuService_resumeConsumer M i c)"
      "peer p \<Longrightarrow> moves P (SfuService_removeParticipant M i p)"
begin

lemma own: "moves (same own_free) m \<Longrightarrow> moves P m"
  by (simp add: moves_def same_def own_step)

lemmas steps = moves_rules own_free_steps [THEN own] calls audit_log request queue sfu

lemma moves_target: "moves P (call_target email t)"
  unfolding call_target_def by (auto intro!: steps split: option.splits)

lemma moves_end: "st \<in> {Ended, Rejected, Missed} \<Longrightarrow> moves P (end_as G m c st)"
  unfolding end_as_def by (rule calls)

lemma moves_pairing: "moves P (tryPairUsers R G)"
  unfolding tryPairUsers_def pair_call_def Let_def by (auto intro!: steps split: option.splits)

lemma moves_call_handlers:
  "moves P (onCallInitiate G sid email t ct)" "moves P (onCallAccept G sid c ct)" "moves P (onCallReject G sid c)"
  "moves P (onCallEnd G sid c)" "moves P (onOffer sid c x)" "moves P (onAnswer sid c x)" "moves P (onIce sid c x)"
  "moves P (onMediaToggle G sid c mic cam)" "moves P (onSwitchType G sid c ct)"
  unfolding onCallInitiate_def onCallAccept_def onCallReject_def onCallEnd_def onOffer_def onAnswer_def onIce_def
    onMediaToggle_def onSwitchType_def
  by (auto intro!: steps moves_target moves_end split: option.splits)

lemma moves_other_handlers:
  "moves P (onJoinQueue R G sid p)" "moves P (onLeaveQueue R G sid)" "moves P (onQueueStatusRequest R sid)"
  "moves P (onSfuJoin M G sid r)" "peer sid \<Longrightarrow> moves P (onCreateTransport M sid r)"
  "moves P (onConnectTransport M r t d)" "moves P (onProduce M sid r t k rtp)" "moves P (onConsume M sid r i caps t)"
  "moves P (onResumeConsumer M r c)" "moves P (onRequestContactSave G sid c u)"
  "moves P (handleConnection R G sid token fwd addr agent)" "peer sid \<Longrightarrow> moves P (handleDisconnect R M G sid)"
  unfolding onJoinQueue_def onLeaveQueue_def onQueueStatusRequest_def onSfuJoin_def onCreateTransport_def
    onConnectTransport_def onProduce_def onConsume_def onResumeConsumer_def onRequestContactSave_def
    handleConnection_def handleDisconnect_def Let_def
  by (auto intro!: steps moves_pairing moves_end split: option.splits)

lemma moves_reply: "moves P m \<Longrightarrow> moves P (no_reply m)"
  unfolding no_reply_def by (intro steps)

lemma moves_handle: "peer sid \<Longrightarrow> moves P (handle R M G sid req)"
  by (cases req) (auto intro!: moves_reply moves_call_handlers moves_other_handlers)

lemma moves_timer: "moves P (timer_fires G h)"
  unfolding timer_fires_def missed_call_fires_def by (auto intro!: steps moves_end split: option.splits)

text \<open>Every event keeps the relation.\<close>

lemma step_moves: "(\<And>sid req. ev = Message sid req \<Longrightarrow> peer sid) \<Longrightarrow> P w (gateway_step R M (G, ev) w)"
  by (cases ev) (auto simp: movesD [OF moves_handle] movesD [OF moves_timer])

end

end
