(* ===== verification/GatewaySystem.thy ===== *)
theory GatewaySystem
  imports GatewayCompose
begin

text \<open>
  The gateway as the composition of its services: every event keeps the invariants of the
  call tables and of the rooms, only appends to the audit log, and never writes accounts,
  sessions or tokens.
\<close>

subsection \<open>The call tables\<close>

definition tables_ok :: "'z db_scheme \<Rightarrow> bool" where
  "tables_ok d \<longleftrightarrow> calls_ok d \<and> hosts_ok d"

lemma tables_kept: "moves calls_kept m \<Longrightarrow> moves (keeps tables_ok) m"
  by (auto simp: moves_def keeps_def tables_ok_def calls_kept_def)

lemma tables_same: "moves (same call_view) m \<Longrightarrow> moves (keeps tables_ok) m"
  by (rule tables_kept) (simp add: moves_def same_def call_view_def kept_same_tables)

lemma tables_own: "moves (same own_free) m \<Longrightarrow> moves (keeps tables_ok) m"
  by (rule tables_same) (auto simp: moves_def same_def call_view_def dest: own_free_fields)

lemmas call_view_services = call_contacts.same_log call_contacts.same_request_save call_queue.same_queue
  call_sfu.same_sfu

lemmas tables_rules = keeps_inv.moves_rules own_free_steps [THEN tables_own] call_view_services [THEN tables_same]
  kept_calls_service [THEN tables_kept]

lemma tables_handlers:
  "moves (keeps tables_ok) (onCallAccept G sid c ct)"
  "moves (keeps tables_ok) (onCallReject G sid c)"
  "moves (keeps tables_ok) (onCallEnd G sid c)"
  "moves (keeps tables_ok) (onOffer sid c x)"
  "moves (keeps tables_ok) (onAnswer sid c x)"
  "moves (keeps tables_ok) (onIce sid c x)"
  "moves (keeps tables_ok) (onMediaToggle G sid c mic cam)"
  "moves (keeps tables_ok) (onSwitchType G sid c ct)"
  "moves (keeps tables_ok) (onLeaveQueue R G sid)"
  "moves (keeps tables_ok) (onQueueStatusRequest R sid)"
  "moves (keeps tables_ok) (onSfuJoin M G sid r)"
  "moves (keeps tables_ok) (onCreateTransport M sid r)"
  "moves (keeps tables_ok) (onConnectTransport M r t d)"
  "moves (keeps tables_ok) (onProduce M sid r t k rtp)"
  "moves (keeps tables_ok) (onConsume M sid r p caps t)"
  "moves (keeps tables_ok) (onResumeConsumer M r c)"
  "moves (keeps tables_ok) (onRequestContactSave G sid c u)"
  "moves (keeps tables_ok) (handleConnection R G sid token fwd addr agent)"
  "moves (keeps tables_ok) (handleDisconnect R M G sid)"
  "moves (keeps tables_ok) (timer_fires G h)"
  unfolding onCallAccept_def onCallReject_def onCallEnd_def onOffer_def onAnswer_def onIce_def onMediaToggle_def
    onSwitchType_def onLeaveQueue_def onQueueStatusRequest_def onSfuJoin_def onCreateTransport_def
    onConnectTransport_def onProduce_def onConsume_def onResumeConsumer_def onRequestContactSave_def
    handleConnection_def handleDisconnect_def timer_fires_def missed_call_fires_def end_as_def Let_def
  by (auto intro!: tables_rules split: option.splits)

lemma tables_initiateCall:
  "fresh_call_ids G w \<Longrightarrow> tables_ok w \<Longrightarrow> tables_ok (snd (CallsService_initiateCall G u an ct anon ip ua w))"
  using kept_initiateCall [of G w u an ct anon ip ua] by (auto simp: tables_ok_def calls_kept_def)

lemma fresh_view: "call_view t = call_view w \<Longrightarrow> fresh_call_ids G w \<Longrightarrow> fresh_call_ids G t"
  by (simp add: call_view_def fresh_call_ids_def call_exists_def)

lemma tables_view:
  fixes t w :: "'z db_scheme"
  shows "call_view t = call_view w \<Longrightarrow> tables_ok w \<Longrightarrow> tables_ok t"
  using kept_same_tables [of t w] by (simp add: call_view_def tables_ok_def calls_kept_def)

lemma tables_initiate:
  assumes fresh: "fresh_call_ids G w" and ok: "tables_ok w"
  shows "tables_ok (snd (onCallInitiate G sid email target ct w))"
proof (cases "map_of (sockets w) sid")
  case None
  with ok show ?thesis by (simp add: onCallInitiate_def op_simps)
next
  case (Some m)
  obtain res w1 where call: "CallsService_initiateCall G (Some (caller m)) (guest_id m) ct (\<not> truthy (m_userId m))
      (m_ipAddress m) (m_userAgent m) w = (res, w1)" by fastforce
  have "tables_ok w1" using tables_initiateCall [OF fresh ok] call by (metis snd_conv)
  show ?thesis
  proof (cases "fst (call_target email target w)")
    case (Inl e)
    with ok show ?thesis by (simp add: initiate_cases [OF Some call])
  next
    case (Inr t)
    then show ?thesis
      by (cases res; intro tables_view [OF _ \<open>tables_ok w1\<close>]) (simp_all add: initiate_cases [OF Some call] call_view_def)
  qed
qed

definition pair_rest :: "TimedEntry \<Rightarrow> TimedEntry \<Rightarrow> string \<Rightarrow> ('r, 'm, 'z, unit) handler" where
  "pair_rest a b callId =
     andthen (does (Join (qe_socketId a) callId))
    (andthen (does (Join (qe_socketId b) callId))
    (andthen (update_meta (qe_socketId a) (m_callId_update (\<lambda>_. Some callId)))
    (andthen (update_meta (qe_socketId b) (m_callId_update (\<lambda>_. Some callId)))
    (let bothRegistered = truthy (qe_userId a) \<and> truthy (qe_userId b) in
     andthen (emit (ToRoom (qe_socketId a)) (EvFound callId (match_type a b) True bothRegistered (qe_userId b)))
       (emit (ToRoom (qe_socketId b)) (EvFound callId (match_type a b) False bothRegistered (qe_userId a)))))))"

lemma tryPairUsers_cases:
  "tryPairUsers R G w = (case MatchmakingService_tryMatch R G w of
     (Inl e, t) \<Rightarrow> (Inl e, t)
   | (Inr None, t) \<Rightarrow> (Inr (), t)
   | (Inr (Some (a, b)), t) \<Rightarrow> bnd (pair_call G a b) (pair_rest a b) t)"
  by (auto simp: tryPairUsers_def pair_rest_def [abs_def] bnd_apply ret_apply split: prod.splits sum.splits option.splits)

lemma tables_pair_rest: "moves (keeps tables_ok) (pair_rest a b c)"
  unfolding pair_rest_def Let_def by (intro tables_rules)

lemma tables_pair:
  assumes fresh: "fresh_call_ids G w" and ok: "tables_ok w"
  shows "tables_ok (snd (tryPairUsers R G w))"
proof -
  obtain r t where t: "MatchmakingService_tryMatch R G w = (r, t)" by fastforce
  have view: "call_view t = call_view w"
    using movesD [OF call_queue.same_queue(2), of w R G] by (simp add: same_def t)
  have "tables_ok (snd (pair_call G a b t))" for a b
    unfolding pair_call_def
    by (rule bnd_keeps) (auto intro!: tables_initiateCall fresh_view [OF view fresh] tables_view [OF view ok] tables_rules)
  then have "tables_ok (snd (bnd (pair_call G a b) (pair_rest a b) t))" for a b
    by (rule bnd_keeps) (rule tables_pair_rest)
  with tables_view [OF view ok] show ?thesis
    by (auto simp: tryPairUsers_cases t split: sum.splits option.splits)
qed

lemma tables_join:
  fixes w :: "('r, 'm, 'z) world_scheme"
  assumes fresh: "fresh_call_ids G w" and ok: "tables_ok w"
  shows "tables_ok (snd (onJoinQueue R G sid p w))"
proof (cases "map_of (sockets w) sid")
  case None
  with ok show ?thesis by (simp add: onJoinQueue_def op_simps)
next
  case (Some m)
  obtain r t where enq: "MatchmakingService_enqueue R G (entry_of sid m p) w = (r, t)" by fastforce
  have view: "call_view t = call_view w"
    using movesD [OF call_queue.same_queue(1), of w R G "entry_of sid m p"] by (simp add: same_def enq)
  have last: "tables_ok (snd (andthen (tryPairUsers R G) (andthen (broadcastQueueStatus R) (ret x)) u))"
    if "call_view u = call_view w" for x :: "nat \<times> nat" and u :: "('r, 'm, 'z) world_scheme"
    unfolding andthen_def [of "tryPairUsers R G"]
    by (rule bnd_keeps, rule tables_pair [OF fresh_view [OF that fresh] tables_view [OF that ok]], intro tables_rules)
  show ?thesis
  proof (cases r)
    case (Inl e)
    with Some enq tables_view [OF view ok] show ?thesis by (simp add: onJoinQueue_def op_simps)
  next
    case (Inr n)
    let ?u = "t\<lparr>io := io t @ [Emit (ToSocket sid) (EvQueued n (countOnlineUsers t) (llen R QUEUE_KEY (redis t)))]\<rparr>"
    have "onJoinQueue R G sid p w = andthen (tryPairUsers R G) (andthen (broadcastQueueStatus R)
        (ret (countOnlineUsers t, llen R QUEUE_KEY (redis t)))) ?u"
      using Some enq Inr
      by (simp add: onJoinQueue_def bnd_apply getMeta_apply gets_apply queueDepth_apply
          andthen_apply [where m = "emit _ _"] emit_apply)
    moreover have "call_view ?u = call_view w" using view by (simp add: call_view_def)
    ultimately show ?thesis using last by simp
  qed
qed

lemma tables_step:
  assumes "tables_ok w" "gw_guard w ev"
  shows "tables_ok (gateway_step R M ev w)"
proof -
  obtain G e where ev: "ev = (G, e)" by (cases ev)
  have reply: "moves (keeps tables_ok) (no_reply m)" if "moves (keeps tables_ok) m" for m :: "('a, 'b, 'c, 'x) handler"
    using that unfolding no_reply_def by (auto intro!: keeps_inv.moves_rules)
  have kept: "tables_ok (snd (m w))" if "moves (keeps tables_ok) m" for m :: "('a, 'b, 'c, unit) handler"
    using assms(1) movesD [OF that, of w] by (simp add: keeps_def)
  have same: "snd (no_reply m w) = snd (m w)" for m :: "('a, 'b, 'c, 'x) handler"
    by (simp add: no_reply_def op_simps split: sum.splits prod.splits)
  show ?thesis
  proof (cases e)
    case (Message sid req)
    show ?thesis
    proof (cases req)
      case (WsInitiate email target ct)
      with assms ev Message show ?thesis by (simp add: same tables_initiate)
    next
      case (WsJoinQueue p)
      with assms ev Message show ?thesis by (simp add: same tables_join)
    qed (auto simp: ev Message intro!: kept reply tables_handlers)
  qed (auto simp: ev intro!: kept tables_handlers)
qed

subsection \<open>The rooms\<close>

lemma rooms_same: "moves (same rooms) m \<Longrightarrow> moves (keeps (sfu_ok M)) m"
  by (rule keeps_same [where f = rooms]) (simp add: rooms_all_eq)

definition plain :: "string \<Rightarrow> bool" where
  "plain p \<longleftrightarrow> CHR '':'' \<notin> set p"

lemma sfu_keeps:
  fixes m :: "(('r, 'm, 'z) media_db_scheme, 'a) op"
  assumes "\<And>s. snd (m s) = sfu_step M ev s" "\<And>s :: ('r, 'm, 'z) media_db_scheme. plain_peer s ev"
  shows "moves (keeps (sfu_ok M)) m"
  using assms by (simp add: moves_def keeps_def occupied.step_rooms_all)

lemma sfu_services:
  "moves (keeps (sfu_ok M)) (SfuService_createRoom M i)"
  "plain p \<Longrightarrow> moves (keeps (sfu_ok M)) (SfuService_createWebRtcTransport M i p)"
  "moves (keeps (sfu_ok M)) (SfuService_connectTransport M i t dtls)"
  "moves (keeps (sfu_ok M)) (SfuService_produce M i t k rtp p)"
  "moves (keeps (sfu_ok M)) (SfuService_consume M i p pid caps t)"
  "moves (keeps (sfu_ok M)) (SfuService_resumeConsumer M i c)"
  "plain p \<Longrightarrow> moves (keeps (sfu_ok M)) (SfuService_removeParticipant M i p)"
        apply (rule sfu_keeps [where ev = "SfuCreate i"]; simp add: plain_def)
       apply (rule sfu_keeps [where ev = "SfuTransport i p"]; simp add: plain_def)
      apply (rule sfu_keeps [where ev = "SfuConnect i t dtls"]; simp add: plain_def)
     apply (rule sfu_keeps [where ev = "SfuProduce i t k rtp p"]; simp add: plain_def)
    apply (rule sfu_keeps [where ev = "SfuConsume i p pid caps t"]; simp add: plain_def)
   apply (rule sfu_keeps [where ev = "SfuResume i c"]; simp add: plain_def)
  apply (rule sfu_keeps [where ev = "SfuRemove i p"]; simp add: plain_def)
  done

interpretation rooms_client: gateway_client "keeps (sfu_ok M)" R M G plain for R M G
proof (unfold_locales, goal_cases)
  case (1 w' w)
  then show ?case using own_free_fields [OF 1] by (simp add: keeps_def rooms_all_eq)
qed (rule sfu_services rooms_same rooms_calls.same_calls rooms_calls.same_log rooms_contacts.same_request_save
    rooms_queue.same_queue | assumption)+

subsection \<open>What is only added to, and what is not touched\<close>

interpretation auth_client: gateway_client "same auth_view" R M G "\<lambda>_. True" for R M G
proof (unfold_locales, goal_cases)
  case (1 w' w)
  then show ?case using own_free_fields [OF 1] by (simp add: same_def auth_view_def)
qed (rule auth_calls.same_calls auth_calls.same_log auth_contacts.same_request_save auth_queue.same_queue
    auth_sfu.same_sfu)+

interpretation contacts_calls: calls_frame contacts
  by unfold_locales simp_all

interpretation contacts_contacts: contacts_frame contacts
  by unfold_locales simp_all

interpretation contacts_queue: queue_frame contacts
  by unfold_locales simp_all

interpretation contacts_sfu: sfu_frame contacts
  by unfold_locales simp_all

interpretation contacts_client: gateway_client "same contacts" R M G "\<lambda>_. True" for R M G
proof (unfold_locales, goal_cases)
  case (1 w' w)
  then show ?case using own_free_fields [OF 1] by (simp add: same_def)
qed (rule contacts_calls.same_calls contacts_calls.same_log contacts_contacts.same_request_save
    contacts_queue.same_queue contacts_sfu.same_sfu)+

lemma later_call_view: "moves (same call_view) m \<Longrightarrow> moves calls_later m"
  by (simp add: moves_def same_def call_view_def calls_later_same)

interpretation history_client: gateway_client calls_later R M G "\<lambda>_. True" for R M G
proof (unfold_locales, goal_cases)
  case (1 w' w)
  then show ?case using own_free_fields [OF 1] by (simp add: calls_later_same)
qed (rule moves_calls_service later_call_view call_view_services | fastforce)+

interpretation requests_calls: calls_frame contact_save_requests
  by unfold_locales simp_all

interpretation requests_queue: queue_frame contact_save_requests
  by unfold_locales simp_all

interpretation requests_sfu: sfu_frame contact_save_requests
  by unfold_locales simp_all

lemma later_requests: "moves (same contact_save_requests) m \<Longrightarrow> moves (later request_progress contact_save_requests) m"
  by (simp add: moves_def same_def requests.later_same)

interpretation requests_client: gateway_client "later request_progress contact_save_requests" R M G "\<lambda>_. True" for R M G
proof (unfold_locales, goal_cases)
  case (1 w' w)
  then show ?case using own_free_fields [OF 1] by (simp add: requests.later_same)
qed (rule requests_service later_requests requests_calls.same_calls requests_calls.same_log requests_queue.same_queue
    requests_sfu.same_sfu)+

lemma audit_grows_services:
  "moves audit_grows (CallsService_initiateCall E u an ct anon ip ua)"
  "moves audit_grows (CallsService_acceptCall E c v an b ct ip ua)"
  "moves audit_grows (CallsService_endCall F c i an st ip ua)"
  "moves audit_grows (CallsService_toggleCallType F c i ct ip ua)"
  "moves audit_grows (CallsService_toggleMedia F c i an mic cam)"
  "moves audit_grows (ContactsService_requestContactSave K c f t ip)"
  "moves audit_grows (MatchmakingService_enqueue R F q)"
  "moves audit_grows (MatchmakingService_tryMatch R F)"
  "moves audit_grows (MatchmakingService_dequeue R F i)"
  unfolding CallsService_initiateCall_def CallsService_acceptCall_def CallsService_endCall_def
    CallsService_toggleCallType_def CallsService_toggleMedia_def ContactsService_requestContactSave_def
    MatchmakingService_enqueue_def MatchmakingService_tryMatch_def MatchmakingService_dequeue_def Let_def
  by (auto intro!: moves_with_uuid audit_order.R_refl audit_order.moves_rules audit_grows_log
      audit_tables.same_call_repository [THEN audit_grows_same] audit_requests.same_insert_request [THEN audit_grows_same]
      audit_redis.same_command [THEN audit_grows_same] audit_redis.same_pop [THEN audit_grows_same]
      split: option.splits)

interpretation audit_client: gateway_client audit_grows R M G "\<lambda>_. True" for R M G
proof (unfold_locales, goal_cases)
  case (1 w' w)
  then show ?case using own_free_fields [OF 1] by (simp add: audit_grows_def)
qed (rule audit_grows_services audit_grows_log audit_rooms.same_sfu [THEN audit_grows_same])+

end
