(* ===== verification/GatewaySafety.thy ===== *)
theory GatewaySafety
  imports GatewaySystem CallEffects
begin

text \<open>
  Properties of every run of the gateway: its register, its timers, and the invariants and
  histories of the services it drives.
\<close>

subsection \<open>Register and timers\<close>

text \<open>The sockets that \<open>call:incoming\<close> and \<open>contact:save-request\<close> go to.\<close>

lemma ring_tabs: "set (ring w u) = {sid. (u, sid) \<in> tabs (userSockets w)}"
  by (cases "map_of (userSockets w) u") (auto simp: ring_def tabs_def)

lemma registry_ring:
  assumes "registry_ok w"
  shows "sid \<in> set (ring w u) \<longleftrightarrow> (\<exists>m. map_of (sockets w) sid = Some m \<and> m_userId m = Some u)"
proof -
  have "tabs (userSockets w) = owners (sockets w)" using assms by (simp add: registry_ok_def)
  then show ?thesis by (simp add: ring_tabs owners_def)
qed

text \<open>
  C8. The register. In every state the gateway reaches from no connections, the sockets it
  keeps for a user are, without repetition, exactly the connected sockets whose token named
  that user; a user without connected socket has no entry.
\<close>

theorem sockets_registered:
  assumes "sockets w0 = []" "userSockets w0 = []" "reaches gw_guard (gateway_step R M) w0 w"
  shows "distinct (ring w u) \<and>
    (\<forall>sid. sid \<in> set (ring w u) \<longleftrightarrow> (\<exists>m. map_of (sockets w) sid = Some m \<and> m_userId m = Some u)) \<and>
    (map_of (userSockets w) u = None \<longleftrightarrow> (\<forall>sid m. map_of (sockets w) sid = Some m \<longrightarrow> m_userId m \<noteq> Some u))"
proof -
  have "registry_ok w0" using assms(1,2) by (auto simp: registry_ok_def sets_ok_def tabs_def owners_def)
  with assms(3) have ok: "registry_ok w" by (rule registry_run.reaches_keeps)
  then have sets: "sets_ok (userSockets w)" by (simp add: registry_ok_def)
  have "distinct (ring w u)"
  proof (cases "map_of (userSockets w) u")
    case (Some s)
    with sets_ok_distinct [OF sets Some] show ?thesis by (simp add: ring_def)
  qed (simp add: ring_def)
  moreover have "map_of (userSockets w) u = None \<longleftrightarrow> ring w u = []"
  proof (cases "map_of (userSockets w) u")
    case (Some s)
    with sets have "s \<noteq> []" unfolding sets_ok_def by blast
    with Some show ?thesis by (simp add: ring_def)
  qed (simp add: ring_def)
  moreover have "ring w u = [] \<longleftrightarrow> (\<forall>sid m. map_of (sockets w) sid = Some m \<longrightarrow> m_userId m \<noteq> Some u)"
  proof -
    have "ring w u = [] \<longleftrightarrow> (\<forall>sid. sid \<notin> set (ring w u))" by (cases "ring w u") auto
    then show ?thesis by (simp add: registry_ring [OF ok])
  qed
  ultimately show ?thesis by (simp add: registry_ring [OF ok])
qed

text \<open>
  C9. The timers. In every state the gateway reaches from no timers, the timers that are
  set are exactly those \<open>missedCallTimers\<close> holds, one per call at most, each under the call it
  would end, and those calls exist: none can run out that the gateway could not have cancelled.
\<close>

theorem one_timer_per_call:
  assumes "missedCallTimers w0 = []" "timeouts w0 = []" "reaches gw_guard (gateway_step R M) w0 w"
  shows "(\<forall>c h. map_of (missedCallTimers w) c = Some h \<longleftrightarrow>
      (\<exists>mc. map_of (timeouts w) h = Some mc \<and> mc_callId mc = c)) \<and>
    (\<forall>h mc. map_of (timeouts w) h = Some mc \<longrightarrow> call_exists (mc_callId mc) w)"
proof -
  have "timers_ok w0" using assms(1,2) by (auto simp: timers_ok_def armed_def due_def)
  with assms(3) have "timers_ok w" by (rule timers_run.reaches_keeps)
  then have eq: "armed (missedCallTimers w) = due (timeouts w)" and ids: "fst ` due (timeouts w) \<subseteq> call_ids w"
    by (simp_all add: timers_ok_def)
  have "map_of (missedCallTimers w) c = Some h \<longleftrightarrow> (c, h) \<in> due (timeouts w)" for c h
    unfolding eq [symmetric] by (simp add: armed_def)
  moreover have "call_exists (mc_callId mc) w" if "map_of (timeouts w) h = Some mc" for h mc
  proof -
    have "(mc_callId mc, h) \<in> due (timeouts w)" using that by (auto simp: due_def)
    then have "mc_callId mc \<in> call_ids w" using ids by force
    then show ?thesis by (auto simp: call_ids_def call_exists_iff)
  qed
  ultimately show ?thesis by (simp add: due_def)
qed

subsection \<open>The services under the gateway\<close>

interpretation tables_run: guarded_machine gw_guard "gateway_step R M" tables_ok for R M
  by unfold_locales (rule tables_step)

lemma guard_plain: "gw_guard w (G, ev) \<Longrightarrow> ev = Message sid req \<Longrightarrow> plain sid"
  by (simp add: plain_def)

interpretation rooms_run: guarded_machine gw_guard "gateway_step R M" "sfu_ok M" for R M
proof (unfold_locales, goal_cases)
  case (1 w ev)
  obtain G e where ev: "ev = (G, e)" by (cases ev)
  have "keeps (sfu_ok M) w (gateway_step R M (G, e) w)"
    using 1(2) by (intro rooms_client.step_moves) (auto simp: ev plain_def)
  with 1(1) show ?case by (simp add: keeps_def ev)
qed

text \<open>
  C6. The system. In every state the gateway reaches from empty call tables and no rooms,
  whatever messages, timers and answers of Redis and mediasoup: the call tables satisfy
  their invariant (unique ids, references that resolve, statuses that agree with the
  times, one host per call), and every room has exactly its peers with a transport.
\<close>

theorem system_invariants:
  assumes "call_sessions w0 = []" "call_participants w0 = []" "rooms w0 = []"
    and "reaches gw_guard (gateway_step R M) w0 w"
  shows "calls_ok w \<and> hosts_ok w \<and> (\<forall>i r. map_of (rooms w) i = Some r \<longrightarrow> room_ok M r)"
proof -
  have "tables_ok w0" using assms(1,2) by (simp add: tables_ok_def calls_ok_def hosts_ok_def)
  with assms(4) have "tables_ok w" by (rule tables_run.reaches_keeps)
  moreover have "sfu_ok M w0" using assms(3) by (simp add: rooms_all_def)
  with assms(4) have "sfu_ok M w" by (rule rooms_run.reaches_keeps)
  ultimately show ?thesis by (simp add: tables_ok_def rooms_all_def)
qed

text \<open>What runs of the gateway do to the tables.\<close>

definition only_adds :: "'z db_scheme \<Rightarrow> 'z db_scheme \<Rightarrow> bool" where
  "only_adds d d' \<longleftrightarrow> auth_view d' = auth_view d \<and> contacts d' = contacts d \<and> audit_grows d d' \<and>
     calls_later d d' \<and> later request_progress contact_save_requests d d'"

interpretation adds: progress only_adds
  by unfold_locales
    (auto simp: only_adds_def audit_grows_def intro: call_hist.R_refl call_hist.R_trans requests.later_refl requests.later_trans)

lemma step_only_adds: "only_adds w (gateway_step R M ev w)"
proof -
  obtain G e where ev: "ev = (G, e)" by (cases ev)
  show ?thesis unfolding only_adds_def ev
    using auth_client.step_moves [of e w R M G] contacts_client.step_moves [of e w R M G]
      audit_client.step_moves [of e w R M G] history_client.step_moves [of e w R M G]
      requests_client.step_moves [of e w R M G]
    by (simp add: same_def)
qed

interpretation adds_run: monotone_machine only_adds "gateway_step R M" for R M
  by unfold_locales (rule step_only_adds)

text \<open>
  C7. What the gateway may write. Whatever happens, it never changes accounts, sessions,
  tokens or contacts; the audit log it leaves begins with the one it found; and calls,
  participants and contact requests stay, keep their parties, and only move on: a call
  leaves \<open>initiated\<close> at most once, a participant that left and a request that was resolved
  are never written again.
\<close>

theorem gateway_only_adds:
  assumes "reaches gw_guard (gateway_step R M) w0 w"
  shows "users w = users w0 \<and> sessions w = sessions w0 \<and> refresh_tokens w = refresh_tokens w0 \<and>
    csrf_tokens w = csrf_tokens w0 \<and> contacts w = contacts w0 \<and> (\<exists>new. audit_logs w = audit_logs w0 @ new) \<and>
    (\<forall>r \<in> set (call_sessions w0). \<exists>r' \<in> set (call_sessions w). same_call r r' \<and> (cs_status r' = Initiated \<longrightarrow> r' = r)) \<and>
    (\<forall>p \<in> set (call_participants w0). \<exists>p' \<in> set (call_participants w). same_participant p p' \<and>
       (cp_left_at p \<noteq> None \<longrightarrow> p' = p)) \<and>
    (\<forall>q \<in> set (contact_save_requests w0). \<exists>q' \<in> set (contact_save_requests w). same_request_keys q q' \<and>
       (csr_status q \<noteq> SavePending \<longrightarrow> q' = q))"
proof -
  have adds: "only_adds w0 w" using assms by (rule adds_run.reaches_moves)
  have same: "same_call r r" for r by (simp add: same_call_def)
  have calls: "\<exists>r' \<in> set (call_sessions w). call_progress r r'" if "r \<in> set (call_sessions w0)" for r
    using adds that call_rows.later_row by (auto simp: only_adds_def calls_later_def)
  have parts: "\<exists>p' \<in> set (call_participants w). participant_progress p p'" if "p \<in> set (call_participants w0)" for p
    using adds that participant_rows.later_row by (auto simp: only_adds_def calls_later_def)
  have reqs: "\<exists>q' \<in> set (contact_save_requests w). request_progress q q'" if "q \<in> set (contact_save_requests w0)" for q
    using adds that requests.later_row by (auto simp: only_adds_def)
  show ?thesis
    using adds calls parts reqs same
    unfolding only_adds_def auth_view_def audit_grows_def call_progress_def participant_progress_def request_progress_def
    by simp metis
qed

subsection \<open>Counting\<close>

text \<open>
  Two counts of users online. The number broadcast to everyone counts each user once,
  whatever the number of tabs; the number that answers \<open>match:queue-status-request\<close> counts
  sockets. The first is at most the second, and they agree exactly when nobody has two tabs.
\<close>

theorem online_counts:
  "countOnlineUsers w = card (caller ` snd ` set (sockets w)) \<and>
   (\<exists>n. fst (onQueueStatusRequest R sid w) = Inr (length (sockets w), n)) \<and>
   countOnlineUsers w \<le> length (sockets w) \<and>
   (countOnlineUsers w = length (sockets w) \<longleftrightarrow> distinct (map (caller \<circ> snd) (sockets w)))"
proof -
  let ?xs = "map (caller \<circ> snd) (sockets w)"
  have "countOnlineUsers w = card (set ?xs)"
    unfolding countOnlineUsers_def by (rule length_remdups_card_conv)
  moreover have "caller ` snd ` set (sockets w) = set ?xs" by auto
  moreover have "card (set ?xs) \<le> length ?xs" by (rule card_length)
  moreover have "card (set ?xs) = length ?xs \<longleftrightarrow> distinct ?xs" using card_distinct distinct_card by blast
  moreover have "fst (onQueueStatusRequest R sid w) = Inr (length (sockets w), llen R QUEUE_KEY (redis w))"
    by (simp add: onQueueStatusRequest_def op_simps)
  ultimately show ?thesis by (simp only: length_map) blast
qed

end
