(* ===== verification/GatewayCalls.thy ===== *)
theory GatewayCalls
  imports GatewaySafety
begin

text \<open>
  What the handlers of a call do: who is rung, who may accept and for how long, what the timer
  and a disconnection do; and what they leave behind.
\<close>

subsection \<open>Ringing\<close>

lemma initiate_apply:
  assumes m: "map_of (sockets w) sid = Some m" "m_userId m = Some u" "u \<noteq> []"
    and fresh: "fresh_call_ids G w" and user: "initiator_ref G (Some u) w = Inr (Some i)"
    and target: "fst (call_target email tid w) = Inr t"
    and c: "c = new_call_id G" and w': "w' = snd (onCallInitiate G sid email tid ct w)"
  shows "fst (onCallInitiate G sid email tid ct w) = Inr c" "pendingCallTargets w' = map_set c t (pendingCallTargets w)"
    "missedCallTimers w' = map_set c (next_timeout w) (missedCallTimers w)"
    "timeouts w' = map_set (next_timeout w) \<lparr>mc_callId = c, mc_socket = sid, mc_meta = m\<rparr> (timeouts w)"
    "call_sessions w' = call_sessions w @ [initiated G (Some i) ct False]" "cs_id (initiated G (Some i) ct False) = c"
    "sockets w' = map_set sid (m\<lparr>m_callId := Some c\<rparr>) (sockets w)"
    "io w' = io w @ Join sid c # map (\<lambda>s. Emit (ToRoom s) (EvIncoming c (Some u) ct)) (ring w t)"
proof -
  have who: "caller m = u" "guest_id m = None" "truthy (m_userId m)"
    using m by (simp_all add: caller_def guest_id_def truthy_def)
  let ?row = "initiated G (Some i) ct False"
  obtain res w1 where call: "CallsService_initiateCall G (Some (caller m)) (guest_id m) ct (\<not> truthy (m_userId m))
      (m_ipAddress m) (m_userAgent m) w = (res, w1)" by fastforce
  have eq: "(res, w1) = (Inr ?row, snd (AuditService_log G (call_audit (Some (caller m)) CALL_INITIATED
      [(''callId'', JStr (new_call_id G)), (''callType'', JType ct), (''isAnonymous'', JBool False)] (m_ipAddress m) (m_userAgent m))
      (w\<lparr>call_sessions := call_sessions w @ [?row],
         call_participants := call_participants w @ [initial_host G (Some i) (Some (caller m)) None ct False]\<rparr>)))"
    using initiateCall_succeeds [OF fresh user, of None ct False "m_ipAddress m" "m_userAgent m"] who call by simp
  have w1: "res = Inr ?row" "call_sessions w1 = call_sessions w @ [?row]"
    using eq by (simp_all add: AuditService_log_apply split: if_splits)
  have row: "cs_id ?row = c" by (simp add: initiated_def new_call_session_def c)
  note cases = initiate_cases [OF m(1) call, of email tid]
  show "fst (onCallInitiate G sid email tid ct w) = Inr c" "pendingCallTargets w' = map_set c t (pendingCallTargets w)"
    "missedCallTimers w' = map_set c (next_timeout w) (missedCallTimers w)"
    "timeouts w' = map_set (next_timeout w) \<lparr>mc_callId = c, mc_socket = sid, mc_meta = m\<rparr> (timeouts w)"
    "call_sessions w' = call_sessions w @ [?row]" "sockets w' = map_set sid (m\<lparr>m_callId := Some c\<rparr>) (sockets w)"
    "io w' = io w @ Join sid c # map (\<lambda>s. Emit (ToRoom s) (EvIncoming c (Some u) ct)) (ring w t)"
    unfolding w' cases using w1 row m(2) target by simp_all
  show "cs_id ?row = c" by (rule row)
qed

text \<open>
  C11. Ringing. A registered user's \<open>call:initiate\<close> answers with a new call, which is
  stored as \<open>initiated\<close> by that user, waits for the user called, has a timer, and is rung at
  exactly the connected sockets of the user called, who need not be there.
\<close>

theorem initiate_rings_target:
  assumes ok: "registry_ok w" and m: "map_of (sockets w) sid = Some m" "m_userId m = Some u" "u \<noteq> []"
    and fresh: "fresh_call_ids G w" and user: "initiator_ref G (Some u) w = Inr (Some i)"
    and target: "fst (call_target email tid w) = Inr t"
  defines "c \<equiv> new_call_id G"
  shows "let (r, w') = onCallInitiate G sid email tid ct w in
    r = Inr c \<and> map_of (pendingCallTargets w') c = Some t \<and>
    (\<exists>h. map_of (missedCallTimers w') c = Some h \<and>
       map_of (timeouts w') h = Some \<lparr>mc_callId = c, mc_socket = sid, mc_meta = m\<rparr>) \<and>
    (\<exists>row. call_sessions w' = call_sessions w @ [row] \<and> cs_id row = c \<and> cs_status row = Initiated \<and>
       cs_initiator_id row = Some i \<and> cs_call_type row = ct) \<and>
    (\<exists>rung. io w' = io w @ Join sid c # map (\<lambda>s. Emit (ToRoom s) (EvIncoming c (Some u) ct)) rung \<and>
       (\<forall>s. s \<in> set rung \<longleftrightarrow> (\<exists>n. map_of (sockets w) s = Some n \<and> m_userId n = Some t)))"
proof -
  let ?w' = "snd (onCallInitiate G sid email tid ct w)"
  note after = initiate_apply [OF m fresh user target c_def [THEN meta_eq_to_obj_eq] refl [of ?w']]
  have row: "cs_status (initiated G (Some i) ct False) = Initiated" "cs_initiator_id (initiated G (Some i) ct False) = Some i"
    "cs_call_type (initiated G (Some i) ct False) = ct"
    by (simp_all add: initiated_def new_call_session_def)
  have "\<exists>rung. io ?w' = io w @ Join sid c # map (\<lambda>s. Emit (ToRoom s) (EvIncoming c (Some u) ct)) rung \<and>
      (\<forall>s. s \<in> set rung \<longleftrightarrow> (\<exists>n. map_of (sockets w) s = Some n \<and> m_userId n = Some t))"
    using after(8) registry_ring [OF ok, of _ t] by blast
  with after(1-6) row show ?thesis by (simp add: case_prod_beta Let_def)
qed

text \<open>
  Guests cannot call. A guest's \<open>call:initiate\<close> names the guest's random id as the
  initiator, which is a reference to no account: it always fails with the database's
  error, and leaves nothing behind.
\<close>

theorem guests_cannot_call:
  assumes m: "map_of (sockets w) sid = Some m" "m_userId m = None"
    and id: "uuid_of G (m_anonymousId m) = Some a" "\<not> user_exists a w" and fresh: "fresh_call_ids G w"
  shows "snd (onCallInitiate G sid email tid ct w) = w \<and>
    (\<forall>t. fst (call_target email tid w) = Inr t \<longrightarrow>
       fst (onCallInitiate G sid email tid ct w) = Inl (PgError FK_VIOLATION))"
proof -
  have who: "caller m = m_anonymousId m" using m by (simp add: caller_def)
  have "initiator_ref G (Some (caller m)) w = Inl (PgError FK_VIOLATION)" using id by (simp add: who)
  then have "CallsService_initiateCall G (Some (caller m)) (guest_id m) ct (\<not> truthy (m_userId m))
      (m_ipAddress m) (m_userAgent m) w = (Inl (PgError FK_VIOLATION), w)"
    by (rule initiateCall_fails [OF fresh])
  from initiate_cases [OF m(1) this] show ?thesis by (auto split: sum.splits)
qed

subsection \<open>The timer\<close>

text \<open>
  Missed calls. When a call's timer runs out nobody is expected to accept any more.
  If nobody has answered, rejected or ended the call it becomes \<open>missed\<close>, now, and the
  caller's socket is told; otherwise neither the call tables change nor is anyone told.
\<close>

theorem missed_call_timeout:
  assumes timer: "map_of (timeouts w) h = Some mc" and ids: "uuid_of G (mc_callId mc) = Some (mc_callId mc)"
    and who: "truthy (guest_id (mc_meta mc)) \<or> uuid_of G (caller (mc_meta mc)) = Some (caller (mc_meta mc))"
    and row: "find (\<lambda>r. cs_id r = mc_callId mc) (call_sessions w) = Some r"
  shows "let w' = gateway_step R M (G, Timer h) w; c = mc_callId mc in
    map_of (timeouts w') h = None \<and> map_of (missedCallTimers w') c = None \<and> map_of (pendingCallTargets w') c = None \<and>
    (if cs_status r = Initiated
     then call_sessions w' = update_where (\<lambda>r. cs_id r = c)
            (\<lambda>r. r\<lparr>cs_status := Missed, cs_ended_at := Some (db_now G)\<rparr>) (call_sessions w) \<and>
          io w' = io w @ [Emit (ToSocket (mc_socket mc)) (EvMissed c)]
     else call_sessions w' = call_sessions w \<and> call_participants w' = call_participants w \<and> io w' = io w)"
proof -
  let ?w = "w\<lparr>timeouts := map_delete h (timeouts w), missedCallTimers := map_delete (mc_callId mc) (missedCallTimers w),
     pendingCallTargets := map_delete (mc_callId mc) (pendingCallTargets w)\<rparr>"
  have look: "CallsService_getCallById G (mc_callId mc) ?w = (Inr r, ?w)"
    using ids row by (simp add: CallsService_getCallById_def CallsRepository_findById_def op_simps)
  have fires: "timer_fires G h w = (if cs_status r = Initiated
     then andthen (end_as G (mc_meta mc) (mc_callId mc) Missed) (emit (ToSocket (mc_socket mc)) (EvMissed (mc_callId mc))) ?w
     else (Inr (), ?w))"
    using timer look
    by (simp add: timer_fires_apply missed_rest_def andthen_apply [where m = "drop_target _"] drop_target_apply
        bnd_apply catch_apply ret_apply)
  show ?thesis
    using endCall_apply [OF ids who, of Missed "m_ipAddress (mc_meta mc)" "m_userAgent (mc_meta mc)" ?w]
    by (simp add: fires end_as_def andthen_apply AuditService_log_apply emit_apply Let_def)
qed

subsection \<open>Who may accept\<close>

text \<open>The events after which a call no longer waits for its target.\<close>

fun settles :: "string \<Rightarrow> ('r, 'm, 'z) world_scheme \<Rightarrow> 'e gateway_env_scheme \<times> gw_event \<Rightarrow> bool" where
  "settles c w (G, Timer h) = (map_option mc_callId (map_of (timeouts w) h) = Some c)"
| "settles c w (G, Message sid (WsAccept c' ct)) = (c' = c)"
| "settles c w (G, Message sid (WsReject c')) = (c' = c)"
| "settles c w (G, Message sid (WsEnd c')) = (c' = c)"
| "settles c w (G, Message sid (WsInitiate email t ct)) = (new_call_id G = c \<or> \<not> fresh_call_ids G w)"
| "settles c w (G, Message sid req) = False"

definition expected :: "string \<Rightarrow> ('r, 'm, 'z) world_scheme \<Rightarrow> string option" where
  "expected c w = map_of (pendingCallTargets w) c"

lemma expected_own: "moves (same own) m \<Longrightarrow> moves (same (expected c)) m"
  by (simp add: moves_def same_def own_def expected_def)

lemma expected_steps:
  "moves (same (expected c)) (does a)" "moves (same (expected c)) (emit t ev)"
  "moves (same (expected c)) (clear_timeout h)" "moves (same (expected c)) (set_timeout mc)"
  "moves (same (expected c)) (cancel_missed_timer i)" "moves (same (expected c)) (update_meta sid f)"
  "moves (same (expected c)) (broadcastQueueStatus R)" "moves (same (expected c)) (getMeta sid)"
  "moves (same (expected c)) (MatchmakingService_queueDepth R)" "moves (same (expected c)) (add_user_socket u sid)"
  "moves (same (expected c)) (remove_user_socket u sid)"
  "moves (same (expected c)) (modify (\<lambda>w. w\<lparr>sockets := p w\<rparr>))"
  "moves (same (expected c)) (modify (\<lambda>w. w\<lparr>missedCallTimers := q w\<rparr>))"
  "i \<noteq> c \<Longrightarrow> moves (same (expected c)) (drop_target i)"
  by (simp_all add: moves_def same_def op_simps expected_def add_user_socket_def remove_user_socket_def split: option.splits)

lemmas expected_rules = same_view.moves_rules expected_steps own_services [THEN expected_own]

lemma expected_handlers:
  "i \<noteq> c \<Longrightarrow> moves (same (expected c)) (onCallAccept G sid i ct)"
  "i \<noteq> c \<Longrightarrow> moves (same (expected c)) (onCallReject G sid i)"
  "i \<noteq> c \<Longrightarrow> moves (same (expected c)) (onCallEnd G sid i)"
  "moves (same (expected c)) (onOffer sid i x)"
  "moves (same (expected c)) (onAnswer sid i x)"
  "moves (same (expected c)) (onIce sid i x)"
  "moves (same (expected c)) (onMediaToggle G sid i mic cam)"
  "moves (same (expected c)) (onSwitchType G sid i ct)"
  "moves (same (expected c)) (onJoinQueue R G sid p)"
  "moves (same (expected c)) (onLeaveQueue R G sid)"
  "moves (same (expected c)) (onQueueStatusRequest R sid)"
  "moves (same (expected c)) (onSfuJoin M G sid r)"
  "moves (same (expected c)) (onCreateTransport M sid r)"
  "moves (same (expected c)) (onConnectTransport M r t d)"
  "moves (same (expected c)) (onProduce M sid r t k rtp)"
  "moves (same (expected c)) (onConsume M sid r j caps t)"
  "moves (same (expected c)) (onResumeConsumer M r j)"
  "moves (same (expected c)) (onRequestContactSave G sid j u)"
  "moves (same (expected c)) (handleConnection R G sid token fwd addr agent)"
  "moves (same (expected c)) (handleDisconnect R M G sid)"
  unfolding onCallAccept_def onCallReject_def onCallEnd_def onOffer_def onAnswer_def onIce_def onMediaToggle_def
    onSwitchType_def onJoinQueue_def onLeaveQueue_def onQueueStatusRequest_def onSfuJoin_def onCreateTransport_def
    onConnectTransport_def onProduce_def onConsume_def onResumeConsumer_def onRequestContactSave_def
    handleConnection_def handleDisconnect_def end_as_def tryPairUsers_def pair_call_def Let_def
  by (auto intro!: expected_rules split: option.splits)

lemma expected_rest: "mc_callId mc \<noteq> c \<Longrightarrow> moves (same (expected c)) (missed_rest G mc)"
  unfolding missed_rest_def end_as_def by (auto intro!: expected_rules split: option.splits)

lemma expected_initiate:
  assumes "fresh_call_ids G w" "new_call_id G \<noteq> c"
  shows "expected c (snd (onCallInitiate G sid email t ct w)) = expected c w"
proof (cases "map_of (sockets w) sid")
  case None
  then show ?thesis by (simp add: onCallInitiate_def op_simps)
next
  case (Some m)
  obtain res w1 where call: "CallsService_initiateCall G (Some (caller m)) (guest_id m) ct (\<not> truthy (m_userId m))
      (m_ipAddress m) (m_userAgent m) w = (res, w1)" by fastforce
  show ?thesis
  proof (cases "initiator_ref G (Some (caller m)) w")
    case (Inl e)
    with call have "res = Inl e" "w1 = w" using initiateCall_fails [OF assms(1) Inl] by simp_all
    then show ?thesis by (simp add: initiate_cases [OF Some call] split: sum.splits)
  next
    case (Inr i)
    have "res = Inr (initiated G i ct (\<not> truthy (m_userId m)))"
      using initiateCall_succeeds [OF assms(1) Inr, of "guest_id m" ct "\<not> truthy (m_userId m)" "m_ipAddress m" "m_userAgent m"]
        call by simp
    then show ?thesis
      using assms(2) by (simp add: initiate_cases [OF Some call] expected_def initiated_def new_call_session_def split: sum.splits)
  qed
qed

lemma expected_step:
  assumes "\<not> settles c w ev"
  shows "expected c (gateway_step R M ev w) = expected c w"
proof -
  obtain G e where ev: "ev = (G, e)" by (cases ev)
  have reply: "moves (same (expected c)) (no_reply m)" if "moves (same (expected c)) m" for m :: "('a, 'b, 'c, 'x) handler"
    using that unfolding no_reply_def by (auto intro!: same_view.moves_rules)
  have kept: "expected c (snd (m w)) = expected c w" if "moves (same (expected c)) m" for m :: "('a, 'b, 'c, unit) handler"
    using movesD [OF that, of w] by (simp add: same_def)
  have same: "snd (no_reply m w) = snd (m w)" for m :: "('a, 'b, 'c, 'x) handler"
    by (simp add: no_reply_def op_simps split: sum.splits prod.splits)
  show ?thesis
  proof (cases e)
    case (Message sid req)
    show ?thesis
    proof (cases req)
      case (WsInitiate email target ct)
      with assms ev Message show ?thesis by (simp add: same expected_initiate)
    qed (use assms in \<open>auto simp: ev Message intro!: kept reply expected_handlers\<close>)
  next
    case (Timer h)
    show ?thesis
    proof (cases "map_of (timeouts w) h")
      case (Some mc)
      let ?w = "w\<lparr>timeouts := map_delete h (timeouts w), missedCallTimers := map_delete (mc_callId mc) (missedCallTimers w)\<rparr>"
      have "mc_callId mc \<noteq> c" using assms Some by (auto simp: ev Timer)
      from movesD [OF expected_rest [OF this], of ?w G] show ?thesis
        by (simp add: ev Timer timer_fires_apply Some same_def expected_def)
    qed (simp add: ev Timer timer_fires_apply)
  qed
qed

text \<open>
  C10. Only the user called may accept. From the moment a call waits for a user until its
  timer runs out or somebody accepts, rejects or ends it by its id, and whatever else
  happens, it waits for that user, and an attempt of any other socket to accept it is refused
  and changes nothing.
\<close>

theorem only_target_accepts:
  assumes waits: "map_of (pendingCallTargets w) c = Some t" "t \<noteq> []"
    and run: "reaches (\<lambda>w ev. \<not> settles c w ev) (gateway_step R M) w w'"
    and m: "map_of (sockets w') sid = Some m" "m_userId m \<noteq> Some t"
  shows "map_of (pendingCallTargets w') c = Some t \<and>
    (\<exists>msg. onCallAccept G sid c ct w' = (Inl (WsException msg), w'))"
proof -
  have "expected c w' = expected c w"
    using run by (induction rule: reaches.induct) (simp_all add: expected_step)
  then have t: "map_of (pendingCallTargets w') c = Some t" using waits(1) by (simp add: expected_def)
  then show ?thesis
    using m waits(2) by (auto simp: onCallAccept_def op_simps truthy_def)
qed

end
