(* ===== verification/SfuSafety.thy ===== *)
theory SfuSafety
  imports SfuRooms
begin

text \<open>The properties of the room manager, and what can go wrong in it.\<close>

subsection \<open>Rooms and their members\<close>

text \<open>
  C23. Members. In every state the room manager reaches from no rooms, the participants of a
  room are, without repetition, exactly the peers that have a transport in it, and
  \<open>getRoomInfo\<close> counts them.
\<close>

theorem room_members:
  assumes "rooms s0 = []" "reaches plain_peer (sfu_step M) s0 s" "map_of (rooms s) i = Some r"
  shows "distinct (participants r) \<and>
    (\<forall>p. p \<in> set (participants r) \<longleftrightarrow>
       CHR '':'' \<notin> set p \<and> (\<exists>t. (transport_key p (id_of (ms M) t), t) \<in> set (transports r))) \<and>
    map_option ri_participantCount (SfuService_getRoomInfo M i s) = Some (card (set (participants r)))"
proof -
  have "sfu_ok M s0" using assms(1) by (simp add: rooms_all_def)
  with assms have r: "room_ok M r" using sfu_machine.reaches_keeps by (fastforce simp: rooms_all_def)
  have "p \<in> set (participants r)"
    if p: "CHR '':'' \<notin> set p" "(transport_key p (id_of (ms M) t), t) \<in> set (transports r)" for p t
  proof -
    obtain q where q: "q \<in> set (participants r)" "transport_key p (id_of (ms M) t) = transport_key q (id_of (ms M) t)"
      using r p(2) unfolding room_ok_def by blast
    with r p(1) have "p = q" by (metis room_ok_def transport_key_peer)
    with q(1) show ?thesis by simp
  qed
  with r assms(3) show ?thesis
    by (auto simp: room_ok_def SfuService_getRoomInfo_def distinct_card)
qed

text \<open>
  Removing a peer. From a room in such a state exactly the peer's transports are closed,
  in order, and dropped; the room is closed after them, and forgotten, if and only if nobody
  else is in it. Otherwise it stays with its other members, its producers and its consumers
  as they were, those of the removed peer included. Other rooms are not touched.
\<close>

theorem remove_participant_outcome:
  assumes "rooms s0 = []" "reaches plain_peer (sfu_step M) s0 s" "map_of (rooms s) i = Some r"
    and p: "CHR '':'' \<notin> set p"
  defines "mine \<equiv> \<lambda>(k, t). k = transport_key p (id_of (ms M) t)"
  shows "let (res, s') = SfuService_removeParticipant M i p s;
      closed = fold (close_obj (ms M)) (map snd (filter mine (transports r))) (media s)
    in res = Inr () \<and> (\<forall>j. j \<noteq> i \<longrightarrow> map_of (rooms s') j = map_of (rooms s) j) \<and>
      (if set (participants r) \<subseteq> {p}
       then map_of (rooms s') i = None \<and> media s' = close_obj (ms M) (router r) closed
       else map_of (rooms s') i = Some (r\<lparr>transports := filter (\<lambda>kt. \<not> mine kt) (transports r),
              participants := filter (\<lambda>q. q \<noteq> p) (participants r)\<rparr>) \<and> media s' = closed)"
proof -
  have "sfu_ok M s0" using assms(1) by (simp add: rooms_all_def)
  with assms have r: "room_ok M r" using sfu_machine.reaches_keeps by (fastforce simp: rooms_all_def)
  have "of_peer p kt \<longleftrightarrow> mine kt" if "kt \<in> set (transports r)" for kt
  proof -
    obtain k t where kt: "kt = (k, t)" by (cases kt)
    with that r obtain q where q: "k = transport_key q (id_of (ms M) t)" "CHR '':'' \<notin> set q"
      unfolding room_ok_def by blast
    have "transport_key q (id_of (ms M) t) = transport_key p (id_of (ms M) t) \<longleftrightarrow> q = p"
      using transport_key_peer [OF p] transport_key_peer [OF q(2)] by metis
    with kt q p show ?thesis by (simp add: mine_def of_peer_key)
  qed
  then have same: "filter (of_peer p) (transports r) = filter mine (transports r)"
    "filter (\<lambda>kt. \<not> of_peer p kt) (transports r) = filter (\<lambda>kt. \<not> mine kt) (transports r)"
    by (auto intro: filter_cong)
  have closes: "fold (close_obj (ms M)) (map snd kts) m = fold (\<lambda>kt. close_obj (ms M) (snd kt)) kts m" for kts m
    by (simp add: fold_map comp_def)
  have empty: "participants (without_peer p r) = [] \<longleftrightarrow> set (participants r) \<subseteq> {p}"
    by (auto simp: without_peer_def set_delete_def filter_empty_conv)
  have kept: "without_peer p r = r\<lparr>transports := filter (\<lambda>kt. \<not> mine kt) (transports r),
      participants := filter (\<lambda>q. q \<noteq> p) (participants r)\<rparr>"
    by (simp add: without_peer_def set_delete_def same(2))
  let ?closed = "fold (\<lambda>kt. close_obj (ms M) (snd kt)) (filter mine (transports r)) (media s)"
  have "SfuService_removeParticipant M i p s = (Inr (),
      if set (participants r) \<subseteq> {p}
      then s\<lparr>media := close_obj (ms M) (router r) ?closed, rooms := map_delete i (rooms s)\<rparr>
      else s\<lparr>media := ?closed, rooms := map_set i (without_peer p r) (rooms s)\<rparr>)"
    by (simp only: SfuService_removeParticipant_def bnd_apply andthen_apply gets_apply modify_apply put_room_apply
        assms(3) prod.case sum.case option.case same(1) if_distrib [where f = "\<lambda>m. m _"] empty) simp
  then show ?thesis unfolding closes kept by (simp only: Let_def prod.case) simp
qed

lemma other_rooms:
  assumes "j \<noteq> op_room ev"
  shows "map_of (rooms (sfu_step M ev s)) j = map_of (rooms s) j"
proof (cases ev)
  case (SfuProduce i t k rtp p)
  with assms rooms_produce [of M i t k rtp p s] show ?thesis by auto
next
  case (SfuConsume i p pid caps t)
  with assms rooms_consume [of M i p pid caps t s] show ?thesis by auto
qed (use assms in \<open>auto simp: room_effects split: sum.splits option.splits\<close>)

text \<open>
  Isolation. No operation on a room, whatever mediasoup answers, changes another room.
\<close>

theorem rooms_isolated:
  "j \<noteq> op_room ev \<Longrightarrow> map_of (rooms (sfu_step M ev s)) j = map_of (rooms s) j"
  by (rule other_rooms)

subsection \<open>Transports\<close>

text \<open>mediasoup gives a new transport an id that no transport of the room has.\<close>

fun new_ids :: "'m sfu_env \<Rightarrow> ('r, 'm, 'z) media_db_scheme \<Rightarrow> sfu_op \<Rightarrow> bool" where
  "new_ids M s (SfuTransport i p) = (case map_of (rooms s) i of None \<Rightarrow> True
     | Some room \<Rightarrow> (case fst (createTransport (ms M) (router room) (transport_options M) (media s)) of
         Inl _ \<Rightarrow> True | Inr t \<Rightarrow> list_all (\<lambda>kt. id_of (ms M) (snd kt) \<noteq> id_of (ms M) t) (transports room)))"
| "new_ids M s _ = True"

definition usual :: "'m sfu_env \<Rightarrow> string \<Rightarrow> string \<Rightarrow> ('r, 'm, 'z) media_db_scheme \<Rightarrow> sfu_op \<Rightarrow> bool" where
  "usual M i p s ev \<longleftrightarrow> plain_peer s ev \<and> new_ids M s ev \<and> ev \<noteq> SfuRemove i p \<and> ev \<noteq> SfuCreate i"

definition has_transport :: "'m sfu_env \<Rightarrow> string \<Rightarrow> string \<Rightarrow> obj \<Rightarrow> ('r, 'm, 'z) media_db_scheme \<Rightarrow> bool" where
  "has_transport M i p t s \<longleftrightarrow> (\<exists>room. map_of (rooms s) i = Some room \<and> map_ok (transports room) \<and>
     p \<in> set (participants room) \<and> (transport_key p (id_of (ms M) t), t) \<in> set (transports room) \<and>
     (\<forall>kt \<in> set (transports room). id_of (ms M) (snd kt) = id_of (ms M) t \<longrightarrow> snd kt = t))"

lemma has_transport_other:
  "map_of (rooms s') i = map_of (rooms s) i \<Longrightarrow> has_transport M i p t s \<Longrightarrow> has_transport M i p t s'"
  by (simp add: has_transport_def)

lemma has_transport_put:
  assumes "map_of (rooms s) i = Some room" "map_of (rooms s') i = Some room'" "has_transport M i p t s"
    "transports room' = transports room" "participants room' = participants room"
  shows "has_transport M i p t s'"
  using assms by (simp add: has_transport_def)

lemma has_transport_added:
  assumes has: "has_transport M i p t s" and room: "map_of (rooms s) i = Some room"
    and s': "map_of (rooms s') i = Some (add_transport M q u room)"
    and new: "list_all (\<lambda>kt. id_of (ms M) (snd kt) \<noteq> id_of (ms M) u) (transports room)"
    and pq: "CHR '':'' \<notin> set p" "CHR '':'' \<notin> set q"
  shows "has_transport M i p t s'"
proof -
  have ts: "set (transports (add_transport M q u room)) =
      insert (transport_key q (id_of (ms M) u), u) {x \<in> set (transports room). fst x \<noteq> transport_key q (id_of (ms M) u)}"
    using has room by (auto simp: has_transport_def add_transport_def set_map_set)
  have t: "(transport_key p (id_of (ms M) t), t) \<in> set (transports room)"
    using has room by (auto simp: has_transport_def)
  then have "id_of (ms M) t \<noteq> id_of (ms M) u" using new by (auto simp: list_all_iff)
  moreover have "transport_key p (id_of (ms M) t) \<noteq> transport_key q (id_of (ms M) u)"
  proof
    assume eq: "transport_key p (id_of (ms M) t) = transport_key q (id_of (ms M) u)"
    then have "p = q" using pq by (metis transport_key_peer)
    with eq \<open>id_of (ms M) t \<noteq> id_of (ms M) u\<close> show False by (simp add: transport_key_def)
  qed
  ultimately show ?thesis
    using has room s' by (auto simp: has_transport_def ts) (auto simp: add_transport_def)
qed

lemma has_transport_without:
  assumes has: "has_transport M i p t s" and room: "map_of (rooms s) i = Some room"
    and s': "map_of (rooms s') i = Some (without_peer q room)"
    and pq: "CHR '':'' \<notin> set p" "CHR '':'' \<notin> set q" "p \<noteq> q"
  shows "has_transport M i p t s'"
proof -
  have "\<not> of_peer q (transport_key p (id_of (ms M) t), t)" using pq by (simp add: of_peer_key)
  moreover have "map_ok (filter P (transports room))" for P
    using has room by (auto simp: has_transport_def map_ok_def distinct_map_filter)
  ultimately show ?thesis
    using has room s' pq(3) by (auto simp: has_transport_def without_peer_def)
qed

lemma has_transport_step:
  assumes has: "has_transport M i p t s" and ok: "usual M i p s ev" and p: "CHR '':'' \<notin> set p"
  shows "has_transport M i p t (sfu_step M ev s)"
proof (cases "op_room ev = i")
  case False
  with has show ?thesis by (intro has_transport_other [OF other_rooms]) auto
next
  case True
  obtain room where room: "map_of (rooms s) i = Some room" "p \<in> set (participants room)"
    using has by (auto simp: has_transport_def)
  show ?thesis
  proof (cases ev)
    case (SfuTransport j q)
    show ?thesis
    proof (cases "fst (createTransport (ms M) (router room) (transport_options M) (media s))")
      case (Inl e)
      with SfuTransport True room show ?thesis
        by (intro has_transport_other [OF _ has]) (simp add: room_effects)
    next
      case (Inr u)
      with SfuTransport True room ok show ?thesis
        by (intro has_transport_added [OF has room(1) _ _ p, of _ q u]) (simp_all add: room_effects usual_def)
    qed
  next
    case (SfuProduce j tid k rtp q)
    with rooms_produce [of M i tid k rtp q s] True room show ?thesis
      by (auto intro: has_transport_put [OF room(1) _ has] has_transport_other [OF _ has])
  next
    case (SfuConsume j q pid caps tid)
    with rooms_consume [of M i q pid caps tid s] True room show ?thesis
      by (auto intro: has_transport_put [OF room(1) _ has] has_transport_other [OF _ has])
  next
    case (SfuRemove j q)
    with True ok have q: "p \<noteq> q" "CHR '':'' \<notin> set q" by (auto simp: usual_def)
    have "p \<in> set (participants (without_peer q room))" using room(2) q(1) by (simp add: without_peer_def)
    then have "participants (without_peer q room) \<noteq> []" by auto
    with SfuRemove True room q show ?thesis
      by (intro has_transport_without [OF has room(1) _ p, of _ q]) (simp_all add: room_effects)
  qed (use True ok has in \<open>auto simp: usual_def room_effects intro: has_transport_other [OF _ has]\<close>)
qed

lemma has_transport_found: "has_transport M i p t s \<Longrightarrow>
  \<exists>room. map_of (rooms s) i = Some room \<and> find_transport M (id_of (ms M) t) room = Some t"
proof -
  assume "has_transport M i p t s"
  then obtain room where room: "map_of (rooms s) i = Some room" "t \<in> set (map snd (transports room))"
    "\<forall>x \<in> set (map snd (transports room)). id_of (ms M) x = id_of (ms M) t \<longrightarrow> x = t"
    by (force simp: has_transport_def)
  then obtain u where u: "find_transport M (id_of (ms M) t) room = Some u"
    by (cases "find_transport M (id_of (ms M) t) room") (auto simp: find_transport_def find_None_iff)
  then have "u \<in> set (map snd (transports room))" "id_of (ms M) u = id_of (ms M) t"
    by (auto simp: find_transport_def dest: find_SomeD)
  with room u show ?thesis by auto
qed

text \<open>
  C24. A transport works until its peer leaves. When \<open>createWebRtcTransport\<close> has given a
  transport to a peer, then after any operations on any rooms other than removing that peer
  from that room and creating that room anew, as long as mediasoup gives new transports ids that are new in their room,
  connecting with the id it returned is connecting that very transport in mediasoup. Creating the room a second time,
  as two joins that overlap do, loses it (\<open>overlapping_creation_loses_room\<close> in \<open>SfuWorkers\<close>).
\<close>

theorem transport_usable_until_removed:
  assumes "sfu_ok M s" "CHR '':'' \<notin> set p" "new_ids M s (SfuTransport i p)"
    and created: "SfuService_createWebRtcTransport M i p s = (Inr (tid, params), s1)"
    and run: "reaches (usual M i p) (sfu_step M) s1 s2"
  shows "\<exists>t. id_of (ms M) t = tid \<and> transport_params (ms M) t = params \<and>
    SfuService_connectTransport M i tid dtls s2 = on_media (transport_connect (ms M) t dtls) s2"
proof -
  obtain room where room: "map_of (rooms s) i = Some room"
    using created by (cases "map_of (rooms s) i") (auto simp: SfuService_createWebRtcTransport_def op_simps)
  obtain t where t: "fst (createTransport (ms M) (router room) (transport_options M) (media s)) = Inr t"
    using created room
    by (cases "fst (createTransport (ms M) (router room) (transport_options M) (media s))")
      (auto simp: SfuService_createWebRtcTransport_def op_simps)
  have ok: "room_ok M room" using assms(1) room by (auto simp: rooms_all_def)
  have ids: "id_of (ms M) t = tid" "transport_params (ms M) t = params"
    using created room t by (auto simp: SfuService_createWebRtcTransport_def op_simps)
  have s1: "map_of (rooms s1) i = Some (add_transport M p t room)"
    using created room t by (auto simp: SfuService_createWebRtcTransport_def op_simps)
  have ts: "set (transports (add_transport M p t room)) =
      insert (transport_key p (id_of (ms M) t), t) {x \<in> set (transports room). fst x \<noteq> transport_key p (id_of (ms M) t)}"
    using ok by (simp add: add_transport_def room_ok_def set_map_set)
  have "list_all (\<lambda>kt. id_of (ms M) (snd kt) \<noteq> id_of (ms M) t) (transports room)"
    using assms(3) room t by simp
  then have "has_transport M i p t s1"
    using s1 room_ok_transport [OF ok assms(2)]
    by (auto simp: has_transport_def ts list_all_iff room_ok_def) (auto simp: add_transport_def)
  with run have "has_transport M i p t s2"
    by (induction rule: reaches.induct) (assumption, blast intro: has_transport_step [OF _ _ assms(2)])
  from has_transport_found [OF this] ids show ?thesis
    by (auto simp: SfuService_connectTransport_def op_simps fun_eq_iff)
qed

end
