(* ===== verification/GatewayEffects.thy ===== *)
theory GatewayEffects
  imports GatewayCalls SfuSafety AuthRuns
begin

text \<open>
  What a disconnection undoes and what it leaves behind, and a call that nobody waits for.
\<close>

subsection \<open>Disconnecting\<close>

text \<open>The parts of the state that a disconnection is about.\<close>

definition desk :: "('r, 'm, 'z) world_scheme \<Rightarrow> (string, SocketMeta) jsmap \<times> (string, string list) jsmap \<times>
    (string, string) jsmap \<times> (string, nat) jsmap \<times> call_session_row list \<times> call_participant_row list \<times> io_action list" where
  "desk w = (sockets w, userSockets w, pendingCallTargets w, missedCallTimers w, call_sessions w, call_participants w, io w)"

interpretation desk_queue: queue_frame desk
  by unfold_locales (simp_all add: desk_def)

interpretation desk_sfu: sfu_frame desk
  by unfold_locales (simp_all add: desk_def)

lemma dequeue_returns [simp]: "fst (MatchmakingService_dequeue R E i s) = Inr ()"
  by (simp add: MatchmakingService_dequeue_def command_def op_simps AuditService_log_apply split: option.splits)

lemma removeParticipant_returns [simp]: "fst (SfuService_removeParticipant M i p s) = Inr ()"
  by (simp add: SfuService_removeParticipant_def op_simps split: option.splits)

definition hang_up :: "'e gateway_env_scheme \<Rightarrow> SocketMeta \<Rightarrow> ('r, 'm, 'z, unit) handler" where
  "hang_up G m = (case m_callId m of
     None \<Rightarrow> ret ()
   | Some c \<Rightarrow> if c = [] then ret () else
       andthen (end_as G m c Ended) (andthen (emit (ToRoom c) (EvEnded c ''peer_disconnected'')) (cancel_missed_timer c)))"

definition leave_room :: "'m sfu_env \<Rightarrow> SocketMeta \<Rightarrow> string \<Rightarrow> ('r, 'm, 'z, unit) handler" where
  "leave_room M m sid = (case m_roomId m of
     None \<Rightarrow> ret ()
   | Some r \<Rightarrow> if r = [] then ret () else
       andthen (SfuService_removeParticipant M r sid) (emit (ToOthers r sid) (EvLeft sid)))"

lemma handleDisconnect_steps:
  assumes "map_of (sockets w) sid = Some m"
  shows "handleDisconnect R M G sid w =
    andthen (MatchmakingService_dequeue R G sid) (andthen (hang_up G m) (andthen (leave_room M m sid) (forget R m sid))) w"
  using assms by (simp add: handleDisconnect_def hang_up_def leave_room_def forget_def bnd_apply gets_apply)

text \<open>What the others in the socket's room are told.\<close>

definition farewell :: "SocketMeta \<Rightarrow> string \<Rightarrow> io_action list" where
  "farewell m sid = (case m_roomId m of
     None \<Rightarrow> [] | Some r \<Rightarrow> if r = [] then [] else [Emit (ToOthers r sid) (EvLeft sid)])"

lemma leave_room_apply:
  "fst (leave_room M m sid w) = Inr ()"
  "desk (snd (leave_room M m sid w)) = desk (w\<lparr>io := io w @ farewell m sid\<rparr>)"
proof -
  have "desk (snd (SfuService_removeParticipant M r p w)) = desk w" for r p
    using movesD [OF desk_sfu.same_sfu(7), of w M r p] by (simp add: same_def)
  then have rest: "io (snd (SfuService_removeParticipant M r p w)) = io w" and
    "desk (snd (SfuService_removeParticipant M r p w)\<lparr>io := x\<rparr>) = desk (w\<lparr>io := x\<rparr>)" for r p x
    by (simp_all add: desk_def)
  then show "desk (snd (leave_room M m sid w)) = desk (w\<lparr>io := io w @ farewell m sid\<rparr>)"
    by (auto simp: leave_room_def farewell_def andthen_ok [OF removeParticipant_returns] ret_apply emit_apply split: option.splits)
  show "fst (leave_room M m sid w) = Inr ()"
    by (simp add: leave_room_def andthen_ok [OF removeParticipant_returns] ret_apply emit_apply split: option.splits)
qed

lemma forget_apply:
  "fst (forget R m sid w) = Inr ()"
  "sockets (snd (forget R m sid w)) = map_delete sid (sockets w)"
  "pendingCallTargets (snd (forget R m sid w)) = pendingCallTargets w"
  "missedCallTimers (snd (forget R m sid w)) = missedCallTimers w"
  "call_sessions (snd (forget R m sid w)) = call_sessions w"
  "call_participants (snd (forget R m sid w)) = call_participants w"
  "io (snd (forget R m sid w)) = io w @ [Emit ToAll (EvQueueStatus (countOnlineUsers (snd (forget R m sid w)))
     (llen R QUEUE_KEY (redis (snd (forget R m sid w)))))]"
  by (simp_all add: forget_def op_simps remove_user_socket_def countOnlineUsers_def split: option.splits)

lemma hang_up_apply:
  assumes "m_callId m = Some c" "c \<noteq> []" "uuid_of G c = Some i"
    and "truthy (guest_id m) \<or> uuid_of G (caller m) = Some (caller m)"
  shows "fst (hang_up G m w) = Inr ()"
    and "desk (snd (hang_up G m w)) = desk (w\<lparr>
      call_sessions := update_where (\<lambda>r. cs_id r = i) (\<lambda>r. r\<lparr>cs_status := Ended, cs_ended_at := Some (db_now G)\<rparr>) (call_sessions w),
      call_participants := update_where (is_present i (caller m) (guest_id m)) (set_left G) (call_participants w),
      missedCallTimers := (if map_of (missedCallTimers w) c = None then missedCallTimers w else map_delete c (missedCallTimers w)),
      io := io w @ [Emit (ToRoom c) (EvEnded c ''peer_disconnected'')]\<rparr>)"
  using assms(1,2) endCall_apply [OF assms(3,4), of Ended "m_ipAddress m" "m_userAgent m" w]
  by (simp_all add: hang_up_def end_as_def andthen_apply AuditService_log_apply emit_apply cancel_missed_timer_apply
      desk_def split: option.splits)

lemma disconnect_apply:
  assumes m: "map_of (sockets w) sid = Some m" "m_callId m = Some c" "c \<noteq> []" "uuid_of G c = Some i"
    and who: "truthy (guest_id m) \<or> uuid_of G (caller m) = Some (caller m)"
    and w': "w' = snd (handleDisconnect R M G sid w)"
  shows "fst (handleDisconnect R M G sid w) = Inr ()" "sockets w' = map_delete sid (sockets w)"
    "call_sessions w' = update_where (\<lambda>r. cs_id r = i) (\<lambda>r. r\<lparr>cs_status := Ended, cs_ended_at := Some (db_now G)\<rparr>) (call_sessions w)"
    "call_participants w' = update_where (is_present i (caller m) (guest_id m)) (set_left G) (call_participants w)"
    "map_of (missedCallTimers w') c = None" "pendingCallTargets w' = pendingCallTargets w"
    "io w' = io w @ Emit (ToRoom c) (EvEnded c ''peer_disconnected'') # farewell m sid @
      [Emit ToAll (EvQueueStatus (countOnlineUsers w') (llen R QUEUE_KEY (redis w')))]"
proof -
  let ?w1 = "snd (MatchmakingService_dequeue R G sid w)"
  let ?w2 = "snd (hang_up G m ?w1)"
  let ?w3 = "snd (leave_room M m sid ?w2)"
  let ?w' = "snd (forget R m sid ?w3)"
  have w1: "desk ?w1 = desk w" using movesD [OF desk_queue.same_queue(3), of w R G sid] by (simp add: same_def)
  note w2 = hang_up_apply [OF m(2-4) who, where w = ?w1]
  note w3 = leave_room_apply [of M m sid ?w2]
  have steps: "andthen (MatchmakingService_dequeue R G sid) n1 w = n1 ?w1" "andthen (hang_up G m) n2 ?w1 = n2 ?w2"
    "andthen (leave_room M m sid) n3 ?w2 = n3 ?w3"
    for n1 n2 n3 :: "('a, 'b, 'c, unit) handler"
    by (rule andthen_ok, simp add: w2(1) w3(1))+
  have split: "handleDisconnect R M G sid w = (Inr (), ?w')"
    unfolding handleDisconnect_steps [OF m(1)] steps by (rule prod_eqI) (simp_all add: forget_apply(1))
  then have eq: "w' = ?w'" by (simp add: w')
  show "fst (handleDisconnect R M G sid w) = Inr ()" by (simp add: split)
  show "sockets w' = map_delete sid (sockets w)" "pendingCallTargets w' = pendingCallTargets w"
    "call_sessions w' = update_where (\<lambda>r. cs_id r = i) (\<lambda>r. r\<lparr>cs_status := Ended, cs_ended_at := Some (db_now G)\<rparr>) (call_sessions w)"
    "call_participants w' = update_where (is_present i (caller m) (guest_id m)) (set_left G) (call_participants w)"
    "map_of (missedCallTimers w') c = None"
    "io w' = io w @ Emit (ToRoom c) (EvEnded c ''peer_disconnected'') # farewell m sid @
      [Emit ToAll (EvQueueStatus (countOnlineUsers w') (llen R QUEUE_KEY (redis w')))]"
    unfolding eq using w1 w2(2) w3(2) by (simp_all add: forget_apply desk_def)
qed

text \<open>
  C13. Disconnecting. When a socket in a call disconnects, the call becomes \<open>ended\<close>, now,
  whatever it was; the caller's open participation ends; the call's room is told and its
  timer cancelled. The socket is in no map any more and in nobody's list of sockets; the
  others keep theirs. What stays is the entry of the user the call waits for.
\<close>

theorem disconnect_outcome:
  assumes start: "sockets w0 = []" "userSockets w0 = []" "reaches gw_guard (gateway_step R M) w0 w"
    and m: "map_of (sockets w) sid = Some m" "m_callId m = Some c" "c \<noteq> []" "uuid_of G c = Some i"
    and who: "truthy (guest_id m) \<or> uuid_of G (caller m) = Some (caller m)"
  shows "let (res, w') = handleDisconnect R M G sid w in res = Inr () \<and>
    map_of (sockets w') = (map_of (sockets w))(sid := None) \<and> (\<forall>u. set (ring w' u) = set (ring w u) - {sid}) \<and>
    call_sessions w' = update_where (\<lambda>r. cs_id r = i)
      (\<lambda>r. r\<lparr>cs_status := Ended, cs_ended_at := Some (db_now G)\<rparr>) (call_sessions w) \<and>
    call_participants w' = update_where (is_present i (caller m) (guest_id m)) (set_left G) (call_participants w) \<and>
    map_of (missedCallTimers w') c = None \<and> pendingCallTargets w' = pendingCallTargets w \<and>
    io w' = io w @ Emit (ToRoom c) (EvEnded c ''peer_disconnected'') # farewell m sid @
      [Emit ToAll (EvQueueStatus (countOnlineUsers w') (llen R QUEUE_KEY (redis w')))]"
proof -
  let ?w' = "snd (handleDisconnect R M G sid w)"
  note after = disconnect_apply [OF m who refl [of ?w']]
  have ok: "registry_ok w"
    by (rule registry_run.reaches_keeps [OF start(3)]) (use start(1,2) in \<open>auto simp: registry_ok_def sets_ok_def tabs_def owners_def\<close>)
  then have ok': "registry_ok ?w'" using registry_disconnect [of w R M G sid] by simp
  have maps: "map_of (sockets ?w') = (map_of (sockets w))(sid := None)" by (simp add: after(2) fun_eq_iff)
  have "set (ring ?w' u) = set (ring w u) - {sid}" for u
    by (auto simp: registry_ring [OF ok] registry_ring [OF ok'] maps split: if_splits)
  then show ?thesis using after maps by (simp add: case_prod_beta Let_def)
qed

subsection \<open>Rooms that are not left\<close>

text \<open>One room, as a view of the state.\<close>

definition room_at :: "string \<Rightarrow> ('r, 'm, 'z) media_db_scheme \<Rightarrow> room option" where
  "room_at r s = map_of (rooms s) r"

interpretation room_at_calls: calls_frame "room_at r" for r
  by unfold_locales (simp_all add: room_at_def)

interpretation room_at_queue: queue_frame "room_at r" for r
  by unfold_locales (simp_all add: room_at_def)

lemma room_at_own:
  fixes m :: "('r, 'm, 'z, 'a) handler"
  assumes "moves (same own_free) m"
  shows "moves (same (room_at r)) m"
proof (rule movesI)
  fix w :: "('r, 'm, 'z) world_scheme"
  have "own_free (snd (m w)) = own_free w" using movesD [OF assms, of w] by (simp add: same_def)
  from own_free_fields [OF this] show "same (room_at r) w (snd (m w))" by (simp add: same_def room_at_def)
qed

lemma room_at_remove: "r' \<noteq> r \<Longrightarrow> moves (same (room_at r)) (SfuService_removeParticipant M r' p)"
  by (rule movesI) (simp add: same_def room_at_def other_rooms [of r "SfuRemove r' p", simplified])

text \<open>
  Transports of a room not joined. \<open>sfu:create-transport\<close> does not ask whether the
  socket joined the room, and \<open>sfu:join\<close> remembers one room. When the socket disconnects,
  every room but the one it joined last stays as it is: with the socket among its participants
  and its transports open.
\<close>

theorem unjoined_room_keeps_peer:
  fixes w :: "('r, 'm, 'z) world_scheme" and G :: "'e gateway_env_scheme" and R :: "'r queue_ops"
  assumes "map_of (sockets w) sid = Some m" "m_roomId m \<noteq> Some r"
    and "map_of (rooms w) r = Some room" "createTransport (ms M) (router room) (transport_options M) (media w) = (Inr t, z)"
  defines "w1 \<equiv> snd (onCreateTransport M sid r w)"
  defines "w2 \<equiv> snd (handleDisconnect R M G sid w1)"
  shows "map_of (rooms w2) r = Some (add_transport M sid t room) \<and> sid \<in> set (participants (add_transport M sid t room))"
proof -
  have "sockets w1 = sockets w"
    unfolding w1_def onCreateTransport_def by (simp add: own_fields)
  then have m: "map_of (sockets w1) sid = Some m" using assms(1) by simp
  have "moves (same (room_at r)) (andthen (MatchmakingService_dequeue R G sid)
      (andthen (hang_up G m) (andthen (leave_room M m sid) (forget R m sid))) :: ('r, 'm, 'z, unit) handler)"
    using assms(2) unfolding hang_up_def leave_room_def forget_def end_as_def
    by (auto intro!: same_view.moves_rules own_free_steps [THEN room_at_own] room_at_calls.same_calls room_at_remove
        room_at_queue.same_queue split: option.splits)
  then have "map_of (rooms w2) r = map_of (rooms w1) r"
    unfolding w2_def handleDisconnect_steps [OF m] by (simp add: moves_def same_def room_at_def)
  moreover have "map_of (rooms w1) r = Some (add_transport M sid t room)"
    using assms(3,4) by (simp add: w1_def onCreateTransport_def room_effects)
  moreover have "sid \<in> set (participants (add_transport M sid t room))"
    by (simp add: add_transport_def set_set_add)
  ultimately show ?thesis by simp
qed

subsection \<open>Calls that wait for nobody\<close>

lemma accept_apply:
  assumes m: "map_of (sockets w) sid = Some m" "m_userId m = Some v" "v \<noteq> []"
    and expected: "truthy (map_of (pendingCallTargets w) c) \<longrightarrow> map_of (pendingCallTargets w) c = Some v"
    and none: "map_of (missedCallTimers w) c = None"
    and ids: "uuid_of G c = Some i" "uuid_of G v = Some u" "user_exists u w"
    and row: "find (\<lambda>r. cs_id r = i) (call_sessions w) = Some r"
    and new: "new_participant_id G Guest \<notin> cp_id ` set (call_participants w)"
    and w': "w' = snd (onCallAccept G sid c ct w)"
  shows "fst (onCallAccept G sid c ct w) = Inr ()"
    "call_sessions w' = update_where (\<lambda>r. cs_id r = i)
      (\<lambda>r. r\<lparr>cs_status := Active, cs_answered_at := Some (db_now G)\<rparr>) (call_sessions w)"
    "call_participants w' = call_participants w @ [new_participant G i (Some u) None Guest (ct = Video)]"
    "sockets w' = map_set sid (m\<lparr>m_callId := Some c\<rparr>) (sockets w)"
    "io w' = io w @ [Join sid c, Emit (ToRoom c) (EvAccepted c v (cs_initiator_id r))]"
proof -
  have "\<not> accept_anonymous None (Some v)" using m(3) by (simp add: accept_anonymous_def truthy_def)
  then have call: "CallsService_acceptCall G c (Some v) None None ct (m_ipAddress m) (m_userAgent m) w =
    (Inr (Some (accepted_row G r)), snd (AuditService_log G (call_audit (Some v) CALL_ACCEPTED [(''callId'', JStr c)]
        (m_ipAddress m) (m_userAgent m))
      (w\<lparr>call_sessions := update_where (\<lambda>r. cs_id r = i) (accepted_row G) (call_sessions w),
         call_participants := call_participants w @ [new_participant G i (Some u) None Guest (ct = Video)]\<rparr>)))"
    using acceptCall_apply [OF ids(1) row new, of None "Some v" "Some u" None ct "m_ipAddress m" "m_userAgent m"] ids(2,3)
    by simp
  have same: "accepted_row G = (\<lambda>r. r\<lparr>cs_status := Active, cs_answered_at := Some (db_now G)\<rparr>)"
    by (simp add: fun_eq_iff accepted_row_def)
  have free: "\<not> (truthy (map_of (pendingCallTargets w) c) \<and> map_of (pendingCallTargets w) c \<noteq> Some v)" using expected by blast
  have v: "truthy (Some v)" using m(3) by (simp add: truthy_def)
  note unfold = onCallAccept_def bnd_apply andthen_apply getMeta_apply gets_apply reject_if_apply call
        AuditService_log_apply update_meta_apply does_apply cancel_missed_timer_apply drop_target_apply emit_apply caller_def same
  show "fst (onCallAccept G sid c ct w) = Inr ()"
    "call_sessions w' = update_where (\<lambda>r. cs_id r = i)
      (\<lambda>r. r\<lparr>cs_status := Active, cs_answered_at := Some (db_now G)\<rparr>) (call_sessions w)"
    "call_participants w' = call_participants w @ [new_participant G i (Some u) None Guest (ct = Video)]"
    "sockets w' = map_set sid (m\<lparr>m_callId := Some c\<rparr>) (sockets w)"
    "io w' = io w @ [Join sid c, Emit (ToRoom c) (EvAccepted c v (cs_initiator_id r))]"
    unfolding w' using m(1,2) none free v by (simp_all add: unfold) blast+
qed

text \<open>
  Accepting a call that waits for nobody. Once a call's entry is gone (its timer ran
  out, somebody accepted, rejected or ended it) or when its id is spelled in another way that
  the database reads as the same uuid, every registered user may accept it, whatever its
  status: it becomes active, the user is a guest of it, and its room is told.
\<close>

theorem accept_without_target:
  assumes m: "map_of (sockets w) sid = Some m" "m_userId m = Some v" "v \<noteq> []"
    and none: "map_of (pendingCallTargets w) c = None" "map_of (missedCallTimers w) c = None"
    and ids: "uuid_of G c = Some i" "uuid_of G v = Some u" "user_exists u w"
    and row: "find (\<lambda>r. cs_id r = i) (call_sessions w) = Some r"
    and new: "new_participant_id G Guest \<notin> cp_id ` set (call_participants w)"
  shows "let (res, w') = onCallAccept G sid c ct w in res = Inr () \<and>
    call_sessions w' = update_where (\<lambda>r. cs_id r = i)
      (\<lambda>r. r\<lparr>cs_status := Active, cs_answered_at := Some (db_now G)\<rparr>) (call_sessions w) \<and>
    call_participants w' = call_participants w @ [new_participant G i (Some u) None Guest (ct = Video)] \<and>
    map_of (sockets w') sid = Some (m\<lparr>m_callId := Some c\<rparr>) \<and>
    io w' = io w @ [Join sid c, Emit (ToRoom c) (EvAccepted c v (cs_initiator_id r))]"
proof -
  have "truthy (map_of (pendingCallTargets w) c) \<longrightarrow> map_of (pendingCallTargets w) c = Some v" using none(1) by (simp add: truthy_def)
  note after = accept_apply [OF m this none(2) ids row new refl, of ct]
  then show ?thesis using m(1) by (simp add: case_prod_beta Let_def)
qed

subsection \<open>Who a socket is\<close>

text \<open>
  Sockets outlive sessions. After the logout of a session no HTTP request with a token of
  it is served, but the sockets of the user stay registered, and the gateway, which
  verifies the token of a new connection and not its session, registers one more for it.
\<close>

theorem logout_keeps_sockets:
  fixes w :: "('r, 'm, 'z) world_scheme" and payload :: JwtPayload
  assumes token: "truthy token" "jwt_verify G (the token) = Inr (Some s)" "trim s = u" "u \<noteq> []"
  defines "w1 \<equiv> snd (AuthService_logout (jwt_sid payload) w)"
  shows "fst (JwtAuthGuard_canActivate E \<lparr>req_isPublic = False, req_method = meth, req_csrf_header = h, req_user = None,
      req_bearer = Some payload\<rparr> w1) = Inl (UnauthorizedException Msg_AUTH_REQUIRED) \<and>
    sockets w1 = sockets w \<and> userSockets w1 = userSockets w \<and>
    (let w2 = snd (handleConnection R G sid token fwd addr agent w1) in
      set (ring w2 u) = insert sid (set (ring w u)) \<and> map_option m_userId (map_of (sockets w2) sid) = Some (Some u))"
proof -
  have "find (\<lambda>s. s_id s = i \<and> session_active E s)
      (update_where (\<lambda>s. s_id s = i) (s_is_revoked_update (\<lambda>_. True)) xs) = None" for i xs
    by (induction xs) (auto simp: session_active_def)
  then have "fst (JwtAuthGuard_canActivate E \<lparr>req_isPublic = False, req_method = meth, req_csrf_header = h, req_user = None,
      req_bearer = Some payload\<rparr> w1) = Inl (UnauthorizedException Msg_AUTH_REQUIRED)"
    by (simp add: w1_def AuthService_logout_def SessionsService_revokeSession_def SessionRepository_revoke_def JwtAuthGuard_canActivate_def
        JwtStrategy_validate_def op_simps)
  moreover have own: "sockets w1 = sockets w" "userSockets w1 = userSockets w"
    by (simp_all add: w1_def AuthService_logout_def service_defs SessionRepository_revoke_def op_simps)
  moreover have user: "token_user G token = Some u" using token by (simp add: token_user_def)
  ultimately show ?thesis
    by (simp add: connect_fields [OF refl] ring_def Let_def split: option.splits) auto
qed

end
