(* ===== verification/GatewayPairing.thy ===== *)
theory GatewayPairing
  imports GatewayCalls
begin

text \<open>
  \<open>match:join-queue\<close> from end to end, over every Redis that behaves as documented: a socket that
  joins while another one waits is put into a call with it; or both lose their place.
\<close>

subsection \<open>The call of a pair\<close>

interpretation redis_calls: calls_frame redis
  by unfold_locales simp_all

text \<open>The second user of a pair as the database refers to it.\<close>

definition acceptor_ref :: "'e env_scheme \<Rightarrow> TimedEntry \<Rightarrow> string option \<Rightarrow> 'z db_scheme \<Rightarrow> bool" where
  "acceptor_ref E b u d \<longleftrightarrow> (if truthy (qe_userId b)
     then uuid_of E (the (qe_userId b)) = u \<and> u \<noteq> None \<and> user_exists (the u) d else u = None)"

definition matched_call :: "'e gateway_env_scheme \<Rightarrow> string option \<Rightarrow> CallType \<Rightarrow> call_session_row" where
  "matched_call G ia ct = accepted_row G (initiated G ia ct True)"

definition matched_host :: "'e gateway_env_scheme \<Rightarrow> string option \<Rightarrow> TimedEntry \<Rightarrow> CallType \<Rightarrow> call_participant_row" where
  "matched_host G ia a ct = initial_host G ia (qe_userId a) (if truthy (qe_userId a) then None else Some (qe_anonymousId a)) ct True"

definition matched_guest :: "'e gateway_env_scheme \<Rightarrow> string option \<Rightarrow> TimedEntry \<Rightarrow> CallType \<Rightarrow> call_participant_row" where
  "matched_guest G ub b ct = new_participant G (new_call_id G) ub
     (if truthy (qe_userId b) then None else Some (qe_anonymousId b)) Guest (ct = Video)"

lemma update_last:
  "\<not> list_ex p xs \<Longrightarrow> p x \<Longrightarrow> update_where p f (xs @ [x]) = xs @ [f x]"
  by (induction xs) auto

lemma find_last: "\<not> list_ex p xs \<Longrightarrow> p x \<Longrightarrow> find p (xs @ [x]) = Some x"
  by (induction xs) auto

lemma pair_call_apply:
  assumes fresh: "fresh_call_ids G w" and a: "initiator_ref G (qe_userId a) w = Inr ia" and b: "acceptor_ref G b ub w"
    and ids: "new_participant_id G Guest \<noteq> new_participant_id G Host" "new_participant_id G Guest \<notin> cp_id ` set (call_participants w)"
  shows "fst (pair_call G a b w) = Inr (new_call_id G)"
    and "call_sessions (snd (pair_call G a b w)) = call_sessions w @ [matched_call G ia (match_type a b)]"
    and "call_participants (snd (pair_call G a b w)) =
      call_participants w @ [matched_host G ia a (match_type a b), matched_guest G ub b (match_type a b)]"
proof -
  let ?ct = "match_type a b" and ?c = "new_call_id G"
  let ?an = "if truthy (qe_userId a) then None else Some (qe_anonymousId a)"
  let ?row = "initiated G ia ?ct True"
  let ?v = "Some (if truthy (qe_userId b) then the (qe_userId b) else qe_anonymousId b)"
  let ?b = "Some (\<not> truthy (qe_userId b))"
  obtain w1 where w1: "CallsService_initiateCall G (qe_userId a) ?an ?ct True ''anonymous'' [] w = (Inr ?row, w1)"
    "call_sessions w1 = call_sessions w @ [?row]" "call_participants w1 = call_participants w @ [matched_host G ia a ?ct]"
    "users w1 = users w"
    using initiateCall_succeeds [OF fresh a, of ?an ?ct True "''anonymous''" "[]"]
    by (simp add: AuditService_log_apply matched_host_def)
  have id: "cs_id ?row = ?c" by (simp add: initiated_def new_call_session_def)
  have new: "\<not> list_ex (\<lambda>r. cs_id r = ?c) (call_sessions w)" using fresh by (simp add: fresh_call_ids_def call_exists_def)
  have c: "uuid_of G ?c = Some ?c" using fresh by (simp add: fresh_call_ids_def)
  have found: "find (\<lambda>r. cs_id r = ?c) (call_sessions w1) = Some ?row" using w1(2) find_last [OF new] id by simp
  have guest: "new_participant_id G Guest \<notin> cp_id ` set (call_participants w1)"
    using w1(3) ids by (simp add: matched_host_def initial_host_def new_participant_def)
  have who: "if accept_anonymous ?b ?v then ub = None else \<exists>t. ?v = Some t \<and> uuid_of G t = ub \<and> ub \<noteq> None \<and> user_exists (the ub) w1"
    using b w1(4) by (auto simp: accept_anonymous_def acceptor_ref_def user_exists_def split: if_splits)
  note accept = acceptCall_apply [OF c found guest who, of "if truthy (qe_userId b) then None else Some (qe_anonymousId b)"
      ?ct "''anonymous''" "[]"]
  have sessions: "update_where (\<lambda>r. cs_id r = ?c) (accepted_row G) (call_sessions w1) =
      call_sessions w @ [matched_call G ia ?ct]"
    using w1(2) update_last [OF new] id by (simp add: matched_call_def)
  have eq: "pair_call G a b w = (Inr ?c, snd (CallsService_acceptCall G ?c ?v
      (if truthy (qe_userId b) then None else Some (qe_anonymousId b)) ?b ?ct ''anonymous'' [] w1))"
    using accept by (simp add: pair_call_def bnd_apply andthen_apply ret_apply w1(1) id)
  show "fst (pair_call G a b w) = Inr ?c" by (simp add: eq)
  show "call_sessions (snd (pair_call G a b w)) = call_sessions w @ [matched_call G ia ?ct]"
    "call_participants (snd (pair_call G a b w)) = call_participants w @ [matched_host G ia a ?ct, matched_guest G ub b ?ct]"
    by (simp_all add: eq accept AuditService_log_apply sessions w1(3) matched_guest_def accept_anonymous_def or_else_def
        split: option.splits)
qed

subsection \<open>Joining while one waits\<close>

lemma is_fresh_now: "is_fresh G (timed G e)"
  by (simp add: is_fresh_def timed_def QueueEntry.defs TimedEntry.defs QUEUE_TTL_def)

context match_queue
begin

lemma join_meets_waiting:
  fixes w :: "('r, 'm, 'z) world_scheme" and G :: "'e gateway_env_scheme"
  assumes m: "map_of (sockets w) sid = Some m" and waits: "elems (redis w) QUEUE_KEY = [a]" "is_fresh G a"
  shows "\<exists>t. own t = own (w\<lparr>io := io w @ [Emit (ToSocket sid) (EvQueued 2 (countOnlineUsers w) 2)]\<rparr>) \<and>
    call_view t = call_view w \<and> elems (redis t) QUEUE_KEY = [] \<and>
    onJoinQueue R G sid p w = (case bnd (pair_call G a (timed G (entry_of sid m p))) (pair_rest a (timed G (entry_of sid m p))) t of
      (Inl e, t') \<Rightarrow> (Inl e, t')
    | (Inr _, t') \<Rightarrow> (Inr (countOnlineUsers w, 2), snd (broadcastQueueStatus R t')))"
proof -
  let ?e = "entry_of sid m p" and ?b = "timed G (entry_of sid m p)"
  obtain w1 where w1: "MatchmakingService_enqueue R G ?e w = (Inr 2, w1)"
    "waiting_of elems fields_of w1 = enqueue_spec ?b (waiting_of elems fields_of w)"
    using enqueue_refines [of G ?e w] waits(1)
    by (cases "MatchmakingService_enqueue R G ?e w") (simp add: waiting_of_def numeral_2_eq_2)
  have own1: "own w1 = own w" and view1: "call_view w1 = call_view w"
    using movesD [OF own_queue.same_queue(1), of w R G ?e] movesD [OF call_queue.same_queue(1), of w R G ?e] w1(1)
    by (simp_all add: same_def)
  have two: "elems (redis w1) QUEUE_KEY = [a, ?b]" using w1(2) waits(1) by (simp add: waiting_of_def enqueue_spec_def)
  have online: "countOnlineUsers w1 = countOnlineUsers w" using own1 by (simp add: own_def countOnlineUsers_def)
  let ?w2 = "w1\<lparr>io := io w1 @ [Emit (ToSocket sid) (EvQueued 2 (countOnlineUsers w) 2)]\<rparr>"
  obtain t where t: "MatchmakingService_tryMatch R G ?w2 = (Inr (Some (a, ?b)), t)"
    "elems (redis t) QUEUE_KEY = []"
    using match_refines [of G ?w2] two waits(2)
    by (cases "MatchmakingService_tryMatch R G ?w2") (simp add: waiting_of_def match_spec_def is_fresh_now)
  have t_same: "own t = own ?w2" "call_view t = call_view ?w2"
    using movesD [OF own_queue.same_queue(2), of ?w2 R G] movesD [OF call_queue.same_queue(2), of ?w2 R G] t(1)
    by (simp_all add: same_def)
  have "onJoinQueue R G sid p w = (case bnd (pair_call G a ?b) (pair_rest a ?b) t of
      (Inl e, t') \<Rightarrow> (Inl e, t') | (Inr _, t') \<Rightarrow> (Inr (countOnlineUsers w, 2), snd (broadcastQueueStatus R t')))"
  proof -
    have "onJoinQueue R G sid p w = andthen (tryPairUsers R G) (andthen (broadcastQueueStatus R)
        (ret (countOnlineUsers w, 2))) ?w2"
      using m two
      by (simp add: onJoinQueue_def bnd_apply getMeta_apply gets_apply w1(1) online depth_refines waiting_of_def
          andthen_apply [where m = "emit _ _"] emit_apply numeral_2_eq_2)
    moreover have "tryPairUsers R G ?w2 = bnd (pair_call G a ?b) (pair_rest a ?b) t"
      by (simp add: tryPairUsers_cases t(1))
    ultimately show ?thesis
      by (simp only: andthen_apply [of "tryPairUsers R G"]) (auto simp: andthen_apply broadcast_apply ret_apply split: prod.splits sum.splits)
  qed
  with own1 view1 t(2) t_same show ?thesis by (auto simp: own_def call_view_def)
qed

end

text \<open>
  C12. Pairing. When exactly one fresh entry waits and another socket joins, then (if both users
  are ones the database knows) the queue is empty again; the call between them is active, with the
  one who waited as its host and the one who came as its guest; and both sockets
  are in its room and are told the same call id, the one who waited as initiator.
\<close>

theorem join_pairs_waiting:
  fixes w :: "('r, 'm, 'z) world_scheme" and R :: "'r queue_ops" and G :: "'e gateway_env_scheme" and p :: "CallType option"
  assumes redis: "redis_store R elems fields_of"
    and m: "map_of (sockets w) sid = Some m" "map_of (sockets w) (qe_socketId a) = Some ma" "qe_socketId a \<noteq> sid"
    and waits: "elems (redis w) QUEUE_KEY = [a]" "is_fresh G a"
  defines "b \<equiv> timed G (entry_of sid m p)"
  defines "ct \<equiv> match_type a b" and "c \<equiv> new_call_id G" and "both \<equiv> truthy (qe_userId a) \<and> truthy (m_userId m)"
  assumes fresh: "fresh_call_ids G w" and users: "initiator_ref G (qe_userId a) w = Inr ia" "acceptor_ref G b ub w"
    and ids: "new_participant_id G Guest \<noteq> new_participant_id G Host" "new_participant_id G Guest \<notin> cp_id ` set (call_participants w)"
  shows "let (res, w') = onJoinQueue R G sid p w in
    res = Inr (countOnlineUsers w, 2) \<and> elems (redis w') QUEUE_KEY = [] \<and>
    call_sessions w' = call_sessions w @ [matched_call G ia ct] \<and> cs_status (matched_call G ia ct) = Active \<and>
    call_participants w' = call_participants w @ [matched_host G ia a ct, matched_guest G ub b ct] \<and>
    map_of (sockets w') = (map_of (sockets w))(qe_socketId a \<mapsto> ma\<lparr>m_callId := Some c\<rparr>, sid \<mapsto> m\<lparr>m_callId := Some c\<rparr>) \<and>
    io w' = io w @ [Emit (ToSocket sid) (EvQueued 2 (countOnlineUsers w) 2), Join (qe_socketId a) c, Join sid c,
      Emit (ToRoom (qe_socketId a)) (EvFound c ct True both (m_userId m)),
      Emit (ToRoom sid) (EvFound c ct False both (qe_userId a)),
      Emit ToAll (EvQueueStatus (countOnlineUsers w') 0)]"
proof -
  have q: "match_queue R elems fields_of" by (simp add: match_queue_def redis)
  obtain t where t: "own t = own (w\<lparr>io := io w @ [Emit (ToSocket sid) (EvQueued 2 (countOnlineUsers w) 2)]\<rparr>)"
    "call_view t = call_view w" "elems (redis t) QUEUE_KEY = []"
    "onJoinQueue R G sid p w = (case bnd (pair_call G a b) (pair_rest a b) t of
      (Inl e, t') \<Rightarrow> (Inl e, t') | (Inr _, t') \<Rightarrow> (Inr (countOnlineUsers w, 2), snd (broadcastQueueStatus R t')))"
    using match_queue.join_meets_waiting [OF q m(1) waits, of p] unfolding b_def by blast
  have view: "users t = users w" "call_sessions t = call_sessions w" "call_participants t = call_participants w"
    using t(2) by (simp_all add: call_view_def)
  have a': "initiator_ref G (qe_userId a) t = Inr ia"
    using users(1) view by (cases "qe_userId a") (simp_all add: user_exists_def cong: option.case_cong)
  have b': "acceptor_ref G b ub t" using users(2) view by (auto simp: acceptor_ref_def user_exists_def split: if_splits)
  have new: "new_participant_id G Guest \<notin> cp_id ` set (call_participants t)" using ids(2) view by simp
  note pair = pair_call_apply [OF fresh_view [OF t(2) fresh] a' b' ids(1) new]
  obtain t' where t': "pair_call G a b t = (Inr c, t')" using pair(1) by (cases "pair_call G a b t") (simp add: c_def)
  have "moves (same own) (pair_call G a b)" "moves (same redis) (pair_call G a b)"
    unfolding pair_call_def
    by (auto intro!: same_view.moves_rules own_calls.same_calls redis_calls.same_calls)
  from this [THEN movesD, of t] t' have same: "own t' = own t" "redis t' = redis t" by (simp_all add: same_def)
  have b: "qe_socketId b = sid" "qe_userId b = m_userId m"
    by (simp_all add: b_def entry_of_def timed_def QueueEntry.defs)
  have fields: "sockets t' = sockets w" "io t' = io w @ [Emit (ToSocket sid) (EvQueued 2 (countOnlineUsers w) 2)]"
    using same(1) t(1) by (simp_all add: own_def)
  have len: "llen R QUEUE_KEY (redis t') = 0" using redis t(3) same(2) by (simp add: redis_store.llen_elems)
  show ?thesis
    unfolding t(4) bnd_apply t' prod.case sum.case
    using pair(2,3) t' m fields same(2) t(3) len b
    by (simp add: pair_rest_def Let_def andthen_apply does_apply update_meta_apply emit_apply broadcast_apply view
        matched_call_def accepted_row_def both_def ct_def countOnlineUsers_def fun_eq_iff)
qed

text \<open>
  A failed pairing costs both their places. When the waiting user cannot start a call (its
  token names an account the database does not know), the join fails with the
  database's error after both entries left the queue; nobody is told.
\<close>

theorem failed_pairing_drops_both:
  fixes w :: "('r, 'm, 'z) world_scheme" and R :: "'r queue_ops" and G :: "'e gateway_env_scheme"
  assumes redis: "redis_store R elems fields_of"
    and m: "map_of (sockets w) sid = Some m" and waits: "elems (redis w) QUEUE_KEY = [a]" "is_fresh G a"
    and fresh: "fresh_call_ids G w" and user: "initiator_ref G (qe_userId a) w = Inl e"
  shows "let (res, w') = onJoinQueue R G sid p w in
    res = Inl e \<and> elems (redis w') QUEUE_KEY = [] \<and> call_sessions w' = call_sessions w \<and> sockets w' = sockets w \<and>
    io w' = io w @ [Emit (ToSocket sid) (EvQueued 2 (countOnlineUsers w) 2)]"
proof -
  have q: "match_queue R elems fields_of" by (simp add: match_queue_def redis)
  let ?b = "timed G (entry_of sid m p)"
  obtain t where t: "own t = own (w\<lparr>io := io w @ [Emit (ToSocket sid) (EvQueued 2 (countOnlineUsers w) 2)]\<rparr>)"
    "call_view t = call_view w" "elems (redis t) QUEUE_KEY = []"
    "onJoinQueue R G sid p w = (case bnd (pair_call G a ?b) (pair_rest a ?b) t of
      (Inl e, t') \<Rightarrow> (Inl e, t') | (Inr _, t') \<Rightarrow> (Inr (countOnlineUsers w, 2), snd (broadcastQueueStatus R t')))"
    using match_queue.join_meets_waiting [OF q m waits, of p] by blast
  have "initiator_ref G (qe_userId a) t = Inl e"
    using user t(2) by (cases "qe_userId a") (simp_all add: user_exists_def call_view_def cong: option.case_cong)
  from initiateCall_fails [OF fresh_view [OF t(2) fresh] this] have "pair_call G a ?b t = (Inl e, t)"
    by (simp add: pair_call_def bnd_apply)
  then show ?thesis using t(1,2,3) unfolding t(4) bnd_apply by (simp add: own_def call_view_def)
qed

end
