(* ===== verification/SfuWorkers.thy ===== *)
theory SfuWorkers
  imports SfuSafety
begin

text \<open>Starting and replacing the mediasoup workers, and two rooms created at once.\<close>

subsection \<open>Start-up\<close>

lemma spawn_loop_outcome:
  fixes s :: "('r, 'm, 'z) media_db_scheme"
  shows "\<exists>new. workers (snd (spawn_loop M n s)) = workers s @ new \<and> watched (snd (spawn_loop M n s)) = watched s @ new \<and>
     length new \<le> n \<and> (fst (spawn_loop M n s) = Inr () \<longleftrightarrow> length new = n) \<and>
     mediasoup_loaded (snd (spawn_loop M n s)) = mediasoup_loaded s \<and> rooms (snd (spawn_loop M n s)) = rooms s \<and>
     (new = [] \<longleftrightarrow> n = 0 \<or> (\<exists>e. fst (createWorker (ms M) (worker_settings M) (media s)) = Inl e))"
proof (induction n arbitrary: s)
  case (Suc n)
  obtain r m where create: "createWorker (ms M) (worker_settings M) (media s) = (r, m)" by fastforce
  show ?case
  proof (cases r)
    case (Inr w)
    let ?s = "s\<lparr>media := m, watched := watched s @ [w], workers := workers s @ [w]\<rparr>"
    have step: "spawn_loop M (Suc n) s = spawn_loop M n ?s"
      using create Inr by (simp add: op_simps)
    obtain new where "workers (snd (spawn_loop M n ?s)) = workers ?s @ new" "watched (snd (spawn_loop M n ?s)) = watched ?s @ new"
      "length new \<le> n" "fst (spawn_loop M n ?s) = Inr () \<longleftrightarrow> length new = n"
      "mediasoup_loaded (snd (spawn_loop M n ?s)) = mediasoup_loaded ?s" "rooms (snd (spawn_loop M n ?s)) = rooms ?s"
      using Suc.IH [of ?s] by blast
    then show ?thesis unfolding step using create Inr by (intro exI [of _ "w # new"]) simp
  next
    case (Inl e)
    with create show ?thesis by (simp add: op_simps)
  qed
qed (simp add: op_simps)

text \<open>
  Start-up. \<open>onModuleInit\<close> never fails the server. Afterwards there are at most four
  workers, each with a listener for its death, no room, and group calls are available if and
  only if mediasoup could be loaded and its first worker be started; when every worker starts
  there are as many as processors, but at least one and at most four.
\<close>

theorem init_outcome:
  assumes "workers s = []" "watched s = []" "\<not> mediasoup_loaded s" "rooms s = []"
  shows "let (res, s') = SfuService_onModuleInit M s in
    res = Inr () \<and> length (workers s') \<le> 4 \<and> watched s' = workers s' \<and> rooms s' = [] \<and>
    (SfuService_isAvailable s' \<longleftrightarrow>
       installed M \<and> (\<exists>w. fst (createWorker (ms M) (worker_settings M) (media s)) = Inr w)) \<and>
    (installed M \<and> (\<forall>m. \<exists>w. fst (createWorker (ms M) (worker_settings M) m) = Inr w) \<longrightarrow>
       int (length (workers s')) = max 1 (min (int (cpus M)) 4))"
proof (cases "installed M")
  case True
  let ?s = "s\<lparr>mediasoup_loaded := True\<rparr>"
  let ?t = "snd (spawn_loop M (numWorkers M) ?s)"
  have init: "SfuService_onModuleInit M s = (Inr (), ?t)"
    using True by (simp add: SfuService_onModuleInit_def SfuService_spawnWorkers_def op_simps split: sum.splits prod.splits)
  obtain new where new: "workers ?t = workers s @ new" "watched ?t = watched s @ new" "length new \<le> numWorkers M"
    "fst (spawn_loop M (numWorkers M) ?s) = Inr () \<longleftrightarrow> length new = numWorkers M"
    "mediasoup_loaded ?t" "rooms ?t = rooms s"
    "new = [] \<longleftrightarrow> numWorkers M = 0 \<or> (\<exists>e. fst (createWorker (ms M) (worker_settings M) (media s)) = Inl e)"
    using spawn_loop_outcome [of M "numWorkers M" ?s] by fastforce
  have all: "fst (spawn_loop M n u) = Inr ()"
    if "\<forall>m. \<exists>w. fst (createWorker (ms M) (worker_settings M) m) = Inr w" for n and u :: "('a, 'b, 'c) media_db_scheme"
  proof (induction n arbitrary: u)
    case (Suc n)
    from that obtain w where "fst (createWorker (ms M) (worker_settings M) (media u)) = Inr w" by blast
    with Suc show ?case by (simp add: op_simps)
  qed (simp add: op_simps)
  have n: "numWorkers M \<noteq> 0" "numWorkers M \<le> 4" "int (numWorkers M) = max 1 (min (int (cpus M)) 4)"
    by (simp_all add: numWorkers_def)
  have ok: "(\<nexists>e. r = Inl e) \<longleftrightarrow> (\<exists>x. r = Inr x)" for r :: "exn + obj" by (cases r) auto
  have avail: "SfuService_isAvailable ?t \<longleftrightarrow> (\<exists>w. fst (createWorker (ms M) (worker_settings M) (media s)) = Inr w)"
    using new(1,5,7) n(1) assms(1) ok by (simp add: SfuService_isAvailable_def)
  have full: "length new = numWorkers M" if "\<forall>m. \<exists>w. fst (createWorker (ms M) (worker_settings M) m) = Inr w"
    using new(4) all [OF that] by blast
  have "length new \<le> 4" using new(3) n(2) by linarith
  with init avail full new(1,2,6) n(3) assms True show ?thesis by (auto simp: Let_def)
next
  case False
  then have "SfuService_onModuleInit M s = (Inr (), s)"
    by (simp add: SfuService_onModuleInit_def op_simps)
  with False assms show ?thesis by (simp add: SfuService_isAvailable_def)
qed

subsection \<open>Load\<close>

text \<open>The values of \<open>n\<close> calls in a row.\<close>

fun in_a_row :: "nat \<Rightarrow> ('s, 'a) op \<Rightarrow> 's \<Rightarrow> 'a list" where
  "in_a_row 0 m s = []"
| "in_a_row (Suc n) m s = (case m s of (Inl _, _) \<Rightarrow> [] | (Inr x, s') \<Rightarrow> x # in_a_row n m s')"

lemma nextWorker_row:
  "workers s \<noteq> [] \<Longrightarrow> in_a_row n SfuService_nextWorker s =
     map (\<lambda>k. Some (workers s ! ((workerIndex s + k) mod length (workers s)))) [0..<n]"
proof (induction n arbitrary: s)
  case (Suc n)
  let ?s = "s\<lparr>workerIndex := workerIndex s + 1\<rparr>"
  have cons: "map f [0..<Suc n] = f 0 # map (\<lambda>k. f (Suc k)) [0..<n]" for f :: "nat \<Rightarrow> obj option"
    by (simp add: upt_conv_Cons map_Suc_upt [symmetric] comp_def del: upt_Suc)
  have "SfuService_nextWorker s = (Inr (Some (workers s ! (workerIndex s mod length (workers s)))), ?s)"
    using Suc.prems by (simp add: SfuService_nextWorker_def)
  with Suc.IH [of ?s] Suc.prems show ?case unfolding cons by simp
qed simp

text \<open>
  Round robin. Whatever the state, as many rooms in a row as there are workers are
  given to each worker once, in the order of the workers, starting where the last one stopped.
\<close>

theorem workers_round_robin:
  "in_a_row (length (workers s)) SfuService_nextWorker s = map Some (rotate (workerIndex s) (workers s))"
proof (cases "workers s = []")
  case False
  then show ?thesis by (intro nth_equalityI) (simp_all add: nextWorker_row nth_rotate)
qed simp

text \<open>
  A worker is replaced once. When a worker that the service started dies and a
  substitute can be started, the substitute takes its place and rooms are as before; but it has
  no listener, so when it dies nothing happens: it stays in the pool, and every round of
  rooms in a row includes it.
\<close>

lemma indexOf_nth: "indexOf x xs = Some i \<Longrightarrow> i < length xs \<and> xs ! i = x"
  by (induction xs arbitrary: i) (auto split: if_splits)

lemma indexOf_None: "indexOf x xs = None \<longleftrightarrow> x \<notin> set xs"
  by (induction xs) auto

theorem replacement_not_replaced:
  assumes "w \<in> set (watched s)" "w \<in> set (workers s)" "mediasoup_loaded s"
    and "fst (createWorker (ms M) (worker_settings M) (media s)) = Inr w'" "w' \<notin> set (watched s)"
  shows "let (res, s') = worker_died M w s in
    res = Inr () \<and> length (workers s') = length (workers s) \<and> rooms s' = rooms s \<and> w' \<in> set (workers s') \<and>
    worker_died M w' s' = (Inr (), s') \<and>
    Some w' \<in> set (in_a_row (length (workers s')) SfuService_nextWorker s')"
proof -
  obtain i where i: "indexOf w (workers s) = Some i" using assms(2) by (cases "indexOf w (workers s)") (auto simp: indexOf_None)
  then have "i < length (workers s)" by (simp add: indexOf_nth)
  then have here: "w' \<in> set ((workers s)[i := w'])" by (simp add: set_update_memI)
  let ?s = "s\<lparr>media := snd (createWorker (ms M) (worker_settings M) (media s)), workers := (workers s)[i := w']\<rparr>"
  have died: "worker_died M w s = (Inr (), ?s)"
    using assms i by (simp add: worker_died_def SfuService_replaceWorker_def op_simps)
  have "worker_died M w' ?s = (Inr (), ?s)" using assms(5) by (simp add: worker_died_def op_simps)
  moreover have "in_a_row (length (workers ?s)) SfuService_nextWorker ?s = map Some (rotate (workerIndex ?s) (workers ?s))"
    by (cases "workers ?s = []") (auto intro: nth_equalityI simp: nextWorker_row nth_rotate)
  ultimately show ?thesis using died here by simp
qed

subsection \<open>Two rooms of one name\<close>

text \<open>
  A room created twice. Creation waits for mediasoup between looking at the workers and
  storing the room. When two creations of one room overlap, and a peer gets a transport in
  the first room before the second is stored, the second replaces the room: nobody is in it,
  and the peer's transport cannot be connected any more.
\<close>

theorem overlapping_creation_loses_room:
  assumes "createRoom_router M s = (Inr r1, s1)" "createRoom_router M s1 = (Inr r2, s2)"
    and "SfuService_createWebRtcTransport M i p (snd (createRoom_store M i r1 s2)) = (Inr (tid, params), s3)"
  shows "let s4 = snd (createRoom_store M i r2 s3) in
    map_option ri_participantCount (SfuService_getRoomInfo M i s3) = Some 1 \<and>
    map_option ri_participantCount (SfuService_getRoomInfo M i s4) = Some 0 \<and>
    SfuService_connectTransport M i tid dtls s4 = (Inl (js_error (''Transport '' @ tid @ '' not found'')), s4)"
proof -
  have "map_of (rooms (snd (createRoom_store M i r s))) i = Some (new_room r)" for r and s :: "('a, 'b, 'c) media_db_scheme"
    by (simp add: createRoom_store_def op_simps)
  moreover from this [of r1 s2] obtain t where "map_of (rooms s3) i = Some (add_transport M p t (new_room r1))"
    using assms(3)
    by (cases "fst (createTransport (ms M) r1 (transport_options M) (media (snd (createRoom_store M i r1 s2))))")
      (auto simp: SfuService_createWebRtcTransport_def op_simps new_room_def)
  ultimately show ?thesis
    by (simp add: SfuService_getRoomInfo_def SfuService_connectTransport_def op_simps find_transport_def Let_def
        add_transport_def new_room_def set_add_def)
qed

end
