(* ===== verification/MatchSafety.thy ===== *)
theory MatchSafety
  imports MatchQueue
begin

text \<open>
  When every socket joins the queue only while it is not in it, the socket index and the
  queue agree, so leaving really leaves; and what happens when a socket joins twice.
\<close>

subsection \<open>The index agrees with the queue\<close>

definition index_ok :: "waiting \<Rightarrow> bool" where
  "index_ok w \<longleftrightarrow> distinct (map qe_socketId (fst w)) \<and>
     (\<forall>sid e. snd w sid = Some e \<longleftrightarrow> e \<in> set (fst w) \<and> qe_socketId e = sid)"

lemma index_ok_enqueue:
  "index_ok w \<Longrightarrow> qe_socketId e \<notin> qe_socketId ` set (fst w) \<Longrightarrow> index_ok (enqueue_spec e w)"
  by (auto simp: index_ok_def enqueue_spec_def) (metis image_eqI)

text \<open>Dropping a set of sockets from both.\<close>

lemma index_ok_drop:
  assumes ok: "index_ok (q, m)" and q': "set q' = {e \<in> set q. qe_socketId e \<notin> S}" "distinct (map qe_socketId q')"
  shows "index_ok (q', m |` (- S))"
  using ok q' by (auto simp: index_ok_def restrict_map_def)

lemma index_ok_match:
  assumes "index_ok w"
  shows "index_ok (snd (match_spec fresh w))"
proof (cases w)
  case (Pair q m)
  show ?thesis
  proof (cases "\<exists>a b rest. q = a # b # rest")
    case True
    then obtain a b rest where q: "q = a # b # rest" by blast
    have d: "distinct (map qe_socketId (a # b # rest))" using assms Pair q by (simp add: index_ok_def)
    have ne: "qe_socketId a \<noteq> qe_socketId b" "\<forall>x \<in> set rest. qe_socketId x \<noteq> qe_socketId a \<and> qe_socketId x \<noteq> qe_socketId b"
      using d by (auto simp: image_iff)
    have ok: "index_ok (a # b # rest, m)" using assms by (simp add: Pair q)
    have "index_ok (rest, m |` (- {qe_socketId a, qe_socketId b}))"
      "index_ok (b # rest, m |` (- {qe_socketId a}))" "index_ok (a # rest, m |` (- {qe_socketId b}))"
      using d ne by (auto intro!: index_ok_drop [OF ok])
    then show ?thesis by (simp add: Pair q match_spec_def)
  next
    case False
    then have "snd (match_spec fresh w) = w"
      by (auto simp: Pair match_spec_def split: list.splits)
    with assms show ?thesis by simp
  qed
qed

lemma set_remove1_socket:
  assumes "distinct (map qe_socketId q)" "e \<in> set q"
  shows "set (remove1 e q) = {x \<in> set q. qe_socketId x \<noteq> qe_socketId e}"
proof -
  have "distinct q" using assms(1) by (simp add: distinct_map)
  then have "set (remove1 e q) = set q - {e}" by simp
  moreover have "x = e" if "x \<in> set q" "qe_socketId x = qe_socketId e" for x
    using assms that by (metis distinct_map inj_onD)
  ultimately show ?thesis by auto
qed

lemma index_ok_dequeue:
  assumes "index_ok w"
  shows "index_ok (dequeue_spec sid w)" "\<forall>e \<in> set (fst (dequeue_spec sid w)). qe_socketId e \<noteq> sid"
proof -
  have "index_ok (dequeue_spec sid w) \<and> (\<forall>e \<in> set (fst (dequeue_spec sid w)). qe_socketId e \<noteq> sid)"
  proof (cases "snd w sid")
    case None
    with assms have "qe_socketId e \<noteq> sid" if "e \<in> set (fst w)" for e
      using that by (metis index_ok_def option.distinct(1))
    with assms None show ?thesis by (simp add: dequeue_spec_def)
  next
    case (Some e)
    then have e: "e \<in> set (fst w)" "qe_socketId e = sid" and d: "distinct (map qe_socketId (fst w))"
      using assms by (auto simp: index_ok_def)
    have "index_ok (remove1 e (fst w), snd w |` (- {sid}))"
      using assms set_remove1_socket [OF d e(1)] e(2) d
      by (intro index_ok_drop [where q = "fst w"]) (auto simp: distinct_map inj_on_def)
    then show ?thesis using Some set_remove1_socket [OF d e(1)] e(2) by (simp add: dequeue_spec_def)
  qed
  then show "index_ok (dequeue_spec sid w)" "\<forall>e \<in> set (fst (dequeue_spec sid w)). qe_socketId e \<noteq> sid" by simp_all
qed

lemma subseq_set_sub: "subseq xs ys \<Longrightarrow> set xs \<subseteq> set ys"
  by (induction rule: list_emb.induct) auto

subsection \<open>Runs in which a socket joins only while it is out\<close>

definition queue_sockets :: "('r \<Rightarrow> string \<Rightarrow> TimedEntry list) \<Rightarrow> ('r, 'z) redis_db_scheme \<Rightarrow> string set" where
  "queue_sockets elems s = qe_socketId ` set (elems (redis s) QUEUE_KEY)"

fun joins_once ::
    "('r \<Rightarrow> string \<Rightarrow> TimedEntry list) \<Rightarrow> ('r, 'z) redis_db_scheme \<Rightarrow> 'e env_scheme \<times> match_op \<Rightarrow> bool" where
  "joins_once elems s (E, MEnqueue e) = (qe_socketId e \<notin> queue_sockets elems s)"
| "joins_once elems s (E, _) = True"

context match_queue
begin

lemma step_index_ok:
  assumes "index_ok (waiting_of elems fields_of s)" "joins_once elems s ev"
  shows "index_ok (waiting_of elems fields_of (snd (match_step R ev s)))"
proof -
  obtain E op where ev: "ev = (E, op)" by (cases ev)
  show ?thesis
  proof (cases op)
    case (MEnqueue e)
    with assms ev show ?thesis
      by (simp add: enqueue_refines index_ok_enqueue queue_sockets_def waiting_of_def [of _ _ s])
  next
    case MTryMatch
    have "snd (match_step R (E, MTryMatch) s) = snd (MatchmakingService_tryMatch R E s)"
      by (auto split: prod.splits sum.splits option.splits)
    with assms(1) ev MTryMatch show ?thesis by (simp only: match_refines index_ok_match)
  next
    case (MDequeue sid)
    with assms ev show ?thesis by (simp add: dequeue_refines index_ok_dequeue)
  qed
qed

end

text \<open>
  Leaving the queue, when every call of the service runs to its end before the next. As long as sockets
  join only while they are not waiting, after a socket has left (it disconnected or cancelled) no entry of it waits,
  and in no run in which it does not join again is it ever matched. Calls that interleave are in \<open>MatchAwaits\<close>.
\<close>

theorem left_socket_never_matched:
  fixes R :: "('r, TimedEntry) redis_ops" and s0 :: "('r, 'z) redis_db_scheme"
  assumes redis: "redis_store R elems fields_of"
    and start: "elems (redis s0) QUEUE_KEY = []" "fields_of (redis s0) SOCKETS_KEY = Map.empty"
    and run: "reaches (joins_once elems) (\<lambda>ev s. snd (match_step R ev s)) s0 s"
    and out: "\<forall>(E, op) \<in> set evs. \<forall>e. op = MEnqueue e \<longrightarrow> qe_socketId e \<noteq> sid"
  shows "let s' = snd (MatchmakingService_dequeue R E sid s); (matched, s'') = match_run R evs s' in
    sid \<notin> queue_sockets elems s' \<and> (\<forall>e \<in> set matched. qe_socketId e \<noteq> sid) \<and> sid \<notin> queue_sockets elems s''"
proof -
  have q: "match_queue R elems fields_of" by (simp add: match_queue_def redis)
  have "index_ok (waiting_of elems fields_of s0)" using start by (simp add: index_ok_def waiting_of_def)
  with run have ok: "index_ok (waiting_of elems fields_of s)"
    by (induction rule: reaches.induct) (auto intro: match_queue.step_index_ok [OF q])
  let ?s = "snd (MatchmakingService_dequeue R E sid s)"
  have "elems (redis ?s) QUEUE_KEY = fst (dequeue_spec sid (waiting_of elems fields_of s))"
    by (metis fst_conv match_queue.dequeue_refines(1) [OF q] waiting_of_def)
  then have gone: "sid \<notin> queue_sockets elems ?s"
    using index_ok_dequeue(2) [OF ok, of sid] by (auto simp: queue_sockets_def)
  have new: "\<forall>e \<in> set (enqueued evs). qe_socketId e \<noteq> sid"
    using out by (induction evs rule: enqueued.induct) auto
  have "set (fst (match_run R evs ?s) @ elems (redis (snd (match_run R evs ?s))) QUEUE_KEY) \<subseteq>
      set (elems (redis ?s) QUEUE_KEY @ enqueued evs)"
    using match_queue.run_subseq [OF q, of evs ?s] by (intro subseq_set_sub) (simp add: waiting_of_def)
  with gone new show ?thesis
    by (auto simp: queue_sockets_def case_prod_beta Let_def)
qed

text \<open>
  Joining twice. Nothing stops a socket from joining while it waits: two joins on an
  empty queue within five minutes are matched with each other, so the socket is its own
  partner; and when it leaves instead, one of its entries stays behind.
\<close>

theorem double_join_matches_itself:
  fixes R :: "('r, TimedEntry) redis_ops" and s :: "('r, 'z) redis_db_scheme"
  assumes redis: "redis_store R elems fields_of"
    and empty: "elems (redis s) QUEUE_KEY = []"
    and recent: "js_now E3 - js_now E1 < 300000" "js_now E3 - js_now E2 < 300000"
  shows "fst (match_run R [(E1, MEnqueue e), (E2, MEnqueue e), (E3, MTryMatch)] s) = [timed E1 e, timed E2 e] \<and>
    qe_socketId (timed E1 e) = qe_socketId (timed E2 e) \<and>
    queue_sockets elems (snd (match_run R [(E1, MEnqueue e), (E2, MEnqueue e), (E3, MDequeue (qe_socketId e))] s)) =
      {qe_socketId e}"
proof -
  have q: "match_queue R elems fields_of" by (simp add: match_queue_def redis)
  obtain m where w0: "waiting_of elems fields_of s = ([], m)" using empty by (simp add: waiting_of_def)
  define s1 where "s1 = snd (MatchmakingService_enqueue R E1 e s)"
  define s2 where "s2 = snd (MatchmakingService_enqueue R E2 e s1)"
  have w1: "waiting_of elems fields_of s1 = ([timed E1 e], m(qe_socketId e \<mapsto> timed E1 e))"
    using match_queue.enqueue_refines(1) [OF q, of E1 e s] by (simp add: s1_def w0 enqueue_spec_def)
  have w2: "waiting_of elems fields_of s2 = ([timed E1 e, timed E2 e], m(qe_socketId e \<mapsto> timed E2 e))"
    using match_queue.enqueue_refines(1) [OF q, of E2 e s1] by (simp add: s2_def w1 enqueue_spec_def)
  have time: "qe_enqueuedAt (timed E e) = js_now E" for E :: "'a env_scheme"
    by (simp add: timed_def QueueEntry.defs TimedEntry.defs)
  have "is_fresh E3 (timed E1 e)" "is_fresh E3 (timed E2 e)"
    using recent by (simp_all add: is_fresh_def QUEUE_TTL_def time)
  then have "fst (MatchmakingService_tryMatch R E3 s2) = Inr (Some (timed E1 e, timed E2 e))"
    using match_queue.match_refines(1) [OF q, of E3 s2] by (simp add: w2 match_spec_def)
  then have "fst (match_run R [(E1, MEnqueue e), (E2, MEnqueue e), (E3, MTryMatch)] s) = [timed E1 e, timed E2 e]"
    by (cases "MatchmakingService_tryMatch R E3 s2") (simp add: s1_def s2_def)
  moreover have "elems (redis (snd (MatchmakingService_dequeue R E3 (qe_socketId e) s2))) QUEUE_KEY =
      remove1 (timed E2 e) [timed E1 e, timed E2 e]"
    using match_queue.dequeue_refines(1) [OF q, of E3 "qe_socketId e" s2, unfolded w2]
    by (simp add: dequeue_spec_def waiting_of_def)
  ultimately show ?thesis
    by (auto simp: queue_sockets_def s1_def s2_def Let_def)
qed

end
