(* ===== verification/MatchAwaits.thy ===== *)
theory MatchAwaits
  imports MatchSafety "HOL-Library.Multiset"
begin

text \<open>
  The calls of \<open>src/matchmaking/matchmaking.service.ts\<close> in the parts they have between their
  \<open>await\<close>s. Every part sends one command, and others may run before the next: the commands of the
  one connection reach Redis in the order in which they are sent. No entry is lost or doubled,
  however the parts of the calls interleave; but a socket can leave too late.
\<close>

subsection \<open>The parts of a call\<close>

text \<open>Where a call waits: after \<open>rpush\<close>, \<open>hset\<close>, the audit line; after the script, \<open>lpush\<close>, \<open>hdel\<close>; after \<open>hget\<close>, \<open>lrem\<close>, \<open>hdel\<close>.\<close>

datatype match_task =
    Pushed TimedEntry
  | Indexed TimedEntry
  | Logged
  | Popped TimedEntry TimedEntry
  | PutBack string
  | Found TimedEntry TimedEntry
  | Looked string TimedEntry
  | Unlisted string TimedEntry
  | Unindexed string TimedEntry

datatype match_result = Position nat | Matched "(TimedEntry \<times> TimedEntry) option" | Left

datatype part = Awaits match_task | Returns match_result

definition enqueue_begins :: "'r queue_ops \<Rightarrow> 'e env_scheme \<Rightarrow> QueueEntry \<Rightarrow> (('r, 'z) redis_db_scheme, part) op" where
  "enqueue_begins R E entry =
     andthen (command (rpush R QUEUE_KEY (timed E entry))) (ret (Awaits (Pushed (timed E entry))))"

definition tryMatch_begins :: "'r queue_ops \<Rightarrow> (('r, 'z) redis_db_scheme, part) op" where
  "tryMatch_begins R = bnd (eval_pop_two R) (\<lambda>popped. case popped of
       None \<Rightarrow> ret (Returns (Matched None))
     | Some (e1, e2) \<Rightarrow> ret (Awaits (Popped e1 e2)))"

definition dequeue_begins :: "'r queue_ops \<Rightarrow> string \<Rightarrow> (('r, 'z) redis_db_scheme, part) op" where
  "dequeue_begins R socketId = bnd (gets (\<lambda>s. hget R SOCKETS_KEY socketId (redis s))) (\<lambda>raw. case raw of
       None \<Rightarrow> ret (Returns Left)
     | Some entry \<Rightarrow> ret (Awaits (Looked socketId entry)))"

fun begin_call :: "'r queue_ops \<Rightarrow> 'e env_scheme \<Rightarrow> match_op \<Rightarrow> (('r, 'z) redis_db_scheme, part) op" where
  "begin_call R E (MEnqueue entry) = enqueue_begins R E entry"
| "begin_call R E MTryMatch = tryMatch_begins R"
| "begin_call R E (MDequeue socketId) = dequeue_begins R socketId"

lemmas begins = enqueue_begins_def tryMatch_begins_def dequeue_begins_def

text \<open>After the script: who of the two is stale at that time.\<close>

definition tryMatch_popped ::
    "'r queue_ops \<Rightarrow> 'e env_scheme \<Rightarrow> TimedEntry \<Rightarrow> TimedEntry \<Rightarrow> (('r, 'z) redis_db_scheme, part) op" where
  "tryMatch_popped R E e1 e2 =
     (if \<not> is_fresh E e1 \<and> \<not> is_fresh E e2
      then andthen (command (hdel R SOCKETS_KEY [qe_socketId e1, qe_socketId e2])) (ret (Returns (Matched None)))
      else if \<not> is_fresh E e1
      then andthen (command (lpush R QUEUE_KEY e2)) (ret (Awaits (PutBack (qe_socketId e1))))
      else if \<not> is_fresh E e2
      then andthen (command (lpush R QUEUE_KEY e1)) (ret (Awaits (PutBack (qe_socketId e2))))
      else andthen (command (hdel R SOCKETS_KEY [qe_socketId e1, qe_socketId e2])) (ret (Awaits (Found e1 e2))))"

fun resume_call ::
    "'r queue_ops \<Rightarrow> 'e env_scheme \<Rightarrow> match_task \<Rightarrow> (('r, 'z) redis_db_scheme, part) op" where
  "resume_call R E (Pushed e) =
     andthen (command (hset R SOCKETS_KEY (qe_socketId e) e)) (ret (Awaits (Indexed e)))"
| "resume_call R E (Indexed e) =
     andthen (AuditService_log E (match_audit (qe_userId e) (Some (qe_anonymousId e)) MATCH_QUEUED
        [(''socketId'', JStr (qe_socketId e)), (''preferredType'', JType (qe_preferredType e))]))
       (ret (Awaits Logged))"
| "resume_call R E Logged = gets (\<lambda>s. Returns (Position (llen R QUEUE_KEY (redis s))))"
| "resume_call R E (Popped e1 e2) = tryMatch_popped R E e1 e2"
| "resume_call R E (PutBack stale) =
     andthen (command (hdel R SOCKETS_KEY [stale])) (ret (Returns (Matched None)))"
| "resume_call R E (Found e1 e2) =
     andthen (AuditService_log E (match_audit None None MATCH_FOUND
        [(''user1'', JStr (user_or_anon e1)), (''user2'', JStr (user_or_anon e2))]))
       (ret (Returns (Matched (Some (e1, e2)))))"
| "resume_call R E (Looked socketId e) =
     andthen (command (lrem R QUEUE_KEY 1 e)) (ret (Awaits (Unlisted socketId e)))"
| "resume_call R E (Unlisted socketId e) =
     andthen (command (hdel R SOCKETS_KEY [socketId])) (ret (Awaits (Unindexed socketId e)))"
| "resume_call R E (Unindexed socketId e) =
     andthen (AuditService_log E (match_audit (qe_userId e) (Some (qe_anonymousId e)) MATCH_CANCELLED
        [(''socketId'', JStr socketId)]))
       (ret (Returns Left))"

subsection \<open>A call on its own\<close>

text \<open>The rest of a call that no other runs between; a call has at most four parts after its first.\<close>

fun finish_call :: "nat \<Rightarrow> 'r queue_ops \<Rightarrow> 'e env_scheme \<Rightarrow> part \<Rightarrow> (('r, 'z) redis_db_scheme, match_result option) op" where
  "finish_call n R E (Returns r) = ret (Some r)"
| "finish_call 0 R E (Awaits t) = ret None"
| "finish_call (Suc n) R E (Awaits t) = bnd (resume_call R E t) (finish_call n R E)"

definition whole_call :: "'r queue_ops \<Rightarrow> 'e env_scheme \<Rightarrow> match_op \<Rightarrow> (('r, 'z) redis_db_scheme, match_result option) op" where
  "whole_call R E op = bnd (begin_call R E op) (finish_call 4 R E)"

text \<open>Alone, a call is the operation of \<open>Matchmaking\<close>: the same result and the same state.\<close>

lemma four: "(4 :: nat) = Suc (Suc (Suc (Suc 0)))"
  by simp

lemma whole_enqueue:
  "whole_call R E (MEnqueue e) s =
     (case MatchmakingService_enqueue R E e s of (Inl x, s') \<Rightarrow> (Inl x, s') | (Inr n, s') \<Rightarrow> (Inr (Some (Position n)), s'))"
  by (simp add: whole_call_def begins tryMatch_popped_def four MatchmakingService_enqueue_def command_def op_simps AuditService_log_apply
      timed_def QueueEntry.defs)

lemma whole_tryMatch:
  "whole_call R E MTryMatch s =
     (case MatchmakingService_tryMatch R E s of (Inl x, s') \<Rightarrow> (Inl x, s') | (Inr m, s') \<Rightarrow> (Inr (Some (Matched m)), s'))"
  by (auto simp: whole_call_def begins tryMatch_popped_def four MatchmakingService_tryMatch_def command_def eval_pop_two_def op_simps
      AuditService_log_apply split: option.splits prod.splits)

lemma whole_dequeue:
  "whole_call R E (MDequeue sid) s =
     (case MatchmakingService_dequeue R E sid s of (Inl x, s') \<Rightarrow> (Inl x, s') | (Inr _, s') \<Rightarrow> (Inr (Some Left), s'))"
  by (auto simp: whole_call_def begins tryMatch_popped_def four MatchmakingService_dequeue_def command_def op_simps
      AuditService_log_apply split: option.splits)

subsection \<open>Calls interleaved\<close>

text \<open>
  The state of the service with the calls that wait, in the order in which they began; and, for the
  statement only, the entries returned as matched, removed by a leave and dropped as stale so far.
\<close>

record 's match_system =
  service :: 's
  waiting_calls :: "match_task list"
  matched :: "TimedEntry list"
  removed :: "TimedEntry list"
  expired :: "TimedEntry list"

definition system_of :: "'s \<Rightarrow> 's match_system" where
  "system_of s = \<lparr>service = s, waiting_calls = [], matched = [], removed = [], expired = []\<rparr>"

datatype match_event = Call match_op | Resume nat

definition result_pair :: "part \<Rightarrow> TimedEntry list" where
  "result_pair p = (case p of Returns (Matched (Some (a, b))) \<Rightarrow> [a, b] | _ \<Rightarrow> [])"

definition waits_on :: "part \<Rightarrow> match_task list" where
  "waits_on p = (case p of Awaits t \<Rightarrow> [t] | Returns _ \<Rightarrow> [])"

text \<open>\<open>LREM\<close> took an element away when the list is shorter.\<close>

definition taken_away :: "'r queue_ops \<Rightarrow> match_task \<Rightarrow> 'r \<Rightarrow> 'r \<Rightarrow> TimedEntry list" where
  "taken_away R t r r' = (case t of
     Looked _ e \<Rightarrow> if llen R QUEUE_KEY r' < llen R QUEUE_KEY r then [e] else [] | _ \<Rightarrow> [])"

definition stale_of :: "'e env_scheme \<Rightarrow> match_task \<Rightarrow> TimedEntry list" where
  "stale_of E t = (case t of Popped a b \<Rightarrow> filter (\<lambda>e. \<not> is_fresh E e) [a, b] | _ \<Rightarrow> [])"

fun system_step ::
    "'r queue_ops \<Rightarrow> 'e env_scheme \<times> match_event \<Rightarrow> ('r, 'z) redis_db_scheme match_system \<Rightarrow> ('r, 'z) redis_db_scheme match_system" where
  "system_step R (E, Call op) sys = (case begin_call R E op (service sys) of
     (Inl _, s') \<Rightarrow> sys\<lparr>service := s'\<rparr>
   | (Inr p, s') \<Rightarrow> sys\<lparr>service := s', waiting_calls := waiting_calls sys @ waits_on p, matched := matched sys @ result_pair p\<rparr>)"
| "system_step R (E, Resume i) sys =
     (if i < length (waiting_calls sys)
      then let t = waiting_calls sys ! i; before = take i (waiting_calls sys); others = drop (Suc i) (waiting_calls sys) in
        (case resume_call R E t (service sys) of
           (Inl _, s') \<Rightarrow> sys\<lparr>service := s', waiting_calls := before @ others\<rparr>
         | (Inr p, s') \<Rightarrow> sys\<lparr>service := s', waiting_calls := before @ waits_on p @ others, matched := matched sys @ result_pair p,
             removed := removed sys @ taken_away R t (redis (service sys)) (redis s'),
             expired := expired sys @ stale_of E t\<rparr>)
      else sys)"

text \<open>What the events put into the queue.\<close>

fun joins :: "('e env_scheme \<times> match_event) list \<Rightarrow> TimedEntry list" where
  "joins [] = []"
| "joins ((E, Call (MEnqueue e)) # evs) = timed E e # joins evs"
| "joins (ev # evs) = joins evs"

subsection \<open>Where an entry is\<close>

fun held :: "match_task \<Rightarrow> TimedEntry multiset" where
  "held (Popped a b) = {#a, b#}"
| "held (Found a b) = {#a, b#}"
| "held _ = {#}"

definition entries_of ::
    "('r \<Rightarrow> string \<Rightarrow> TimedEntry list) \<Rightarrow> ('r, 'z) redis_db_scheme match_system \<Rightarrow> TimedEntry multiset" where
  "entries_of elems sys = mset (elems (redis (service sys)) QUEUE_KEY) + (\<Sum>t\<leftarrow>waiting_calls sys. held t) +
     mset (matched sys) + mset (removed sys) + mset (expired sys)"

lemma filter_mset_none: "filter_mset P M = {#} \<longleftrightarrow> (\<forall>x \<in># M. \<not> P x)"
  by (induction M) auto

lemma remove1_shorter: "length (remove1 x xs) < length xs \<longleftrightarrow> x \<in> set xs"
  by (cases "x \<in> set xs") (auto simp: length_remove1 dest: length_pos_if_in_set)

lemma mset_remove1_add: "(if x \<in> set xs then add_mset x (mset (remove1 x xs)) else mset (remove1 x xs)) = mset xs"
  by (simp add: remove1_idem)

context match_queue
begin

lemma begin_accounts:
  "begin_call R E op s = (Inr p, s') \<Longrightarrow>
     mset (elems (redis s') QUEUE_KEY) + (\<Sum>t\<leftarrow>waits_on p. held t) + mset (result_pair p) =
     mset (elems (redis s) QUEUE_KEY) + mset (joins [(E, Call op)])"
proof (cases op)
  case MTryMatch
  assume step: "begin_call R E op s = (Inr p, s')"
  consider (short) "length (elems (redis s) QUEUE_KEY) < 2"
    | (pair) a b rest where "elems (redis s) QUEUE_KEY = a # b # rest"
    by (metis One_nat_def Suc_1 length_Cons lessI less_Suc_eq list.exhaust list.size(3) zero_less_Suc)
  then show ?thesis
  proof cases
    case short
    with step MTryMatch show ?thesis
      by (auto simp: begins tryMatch_popped_def eval_pop_two_def bnd_apply pop_two_short ret_apply waits_on_def result_pair_def)
  next
    case pair
    obtain r where "pop_two R (redis s) = (Some (a, b), r)" "elems r = (elems (redis s))(QUEUE_KEY := rest)"
      using pop_two_pair [OF pair] by (metis prod.collapse)
    with step MTryMatch pair show ?thesis
      by (auto simp: begins tryMatch_popped_def eval_pop_two_def bnd_apply ret_apply waits_on_def result_pair_def)
  qed
qed (auto simp: begins tryMatch_popped_def command_def op_simps waits_on_def result_pair_def redis_laws split: option.splits)

lemma resume_accounts:
  "resume_call R E t s = (Inr p, s') \<Longrightarrow>
     mset (elems (redis s') QUEUE_KEY) + (\<Sum>t\<leftarrow>waits_on p. held t) + mset (result_pair p) +
       mset (taken_away R t (redis s) (redis s')) + mset (stale_of E t) =
     mset (elems (redis s) QUEUE_KEY) + held t"
proof (cases t)
  case (Looked sid e)
  assume "resume_call R E t s = (Inr p, s')"
  then show ?thesis using Looked mset_remove1_add [of e "elems (redis s) QUEUE_KEY"]
    by (auto simp: command_def op_simps waits_on_def result_pair_def taken_away_def stale_of_def redis_laws
        redis_laws [unfolded One_nat_def] remove1_shorter simp del: mset_remove1 split: if_splits)
qed (auto simp: tryMatch_popped_def command_def op_simps waits_on_def result_pair_def taken_away_def stale_of_def AuditService_log_apply redis_laws
    split: if_splits)

lemma call_returns: "\<exists>p. fst (begin_call R E op s) = Inr p" "\<exists>p. fst (resume_call R E t s) = Inr p"
proof -
  show "\<exists>p. fst (begin_call R E op s) = Inr p"
    by (cases op) (auto simp: begins command_def eval_pop_two_def op_simps split: option.splits prod.splits)
  show "\<exists>p. fst (resume_call R E t s) = Inr p"
    by (cases t) (auto simp: tryMatch_popped_def command_def op_simps AuditService_log_apply)
qed

lemma step_accounts: "entries_of elems (system_step R ev sys) = entries_of elems sys + mset (joins [ev])"
proof -
  obtain E act where ev: "ev = (E, act)" by (cases ev)
  show ?thesis
  proof (cases act)
    case (Call op)
    obtain p s' where p: "begin_call R E op (service sys) = (Inr p, s')"
      using call_returns(1) [of E op "service sys"] by (metis prod.collapse)
    show ?thesis using begin_accounts [OF p] by (simp add: ev Call p entries_of_def ac_simps)
  next
    case (Resume i)
    show ?thesis
    proof (cases "i < length (waiting_calls sys)")
      case True
      define t where "t = waiting_calls sys ! i"
      obtain p s' where p: "resume_call R E t (service sys) = (Inr p, s')"
        using call_returns(2) [of E t "service sys"] by (metis prod.collapse)
      let ?before = "take i (waiting_calls sys)" and ?others = "drop (Suc i) (waiting_calls sys)"
      let ?rest = "(\<Sum>t\<leftarrow>?before. held t) + (\<Sum>t\<leftarrow>?others. held t) + mset (matched sys) + mset (removed sys) + mset (expired sys)"
      have split: "waiting_calls sys = ?before @ t # ?others" unfolding t_def by (rule id_take_nth_drop [OF True])
      have "entries_of elems sys = mset (elems (redis (service sys)) QUEUE_KEY) + held t + ?rest"
        unfolding entries_of_def by (subst split) (simp add: ac_simps)
      moreover have "entries_of elems (system_step R ev sys) = mset (elems (redis s') QUEUE_KEY) + (\<Sum>t\<leftarrow>waits_on p. held t) +
          mset (result_pair p) + mset (taken_away R t (redis (service sys)) (redis s')) + mset (stale_of E t) + ?rest"
        using True p by (simp add: ev Resume t_def [symmetric] entries_of_def Let_def ac_simps)
      ultimately show ?thesis unfolding resume_accounts [OF p] by (simp add: ev Resume)
    qed (simp add: ev Resume)
  qed
qed

end

text \<open>
  C21. Every entry is in one place. However the parts of enqueuing, matching and leaving interleave,
  starting from an empty queue: every entry that was put into the queue is, exactly once, in the queue, held
  by a call of \<open>tryMatch\<close> that has not returned, returned as matched, removed by a leave, or dropped as stale.
  So nobody is matched twice, and a socket that joined once and whose leave found its entry in
  the list is not matched, at any time, and waits no more.
\<close>

theorem every_entry_in_one_place:
  fixes R :: "('r, TimedEntry) redis_ops" and s0 :: "('r, 'z) redis_db_scheme" and evs :: "('e env_scheme \<times> match_event) list"
  assumes redis: "redis_store R elems fields_of"
    and empty: "elems (redis s0) QUEUE_KEY = []"
    and run: "sys = run (system_step R) evs (system_of s0)"
  shows "mset (elems (redis (service sys)) QUEUE_KEY) + (\<Sum>t\<leftarrow>waiting_calls sys. held t) + mset (matched sys) +
      mset (removed sys) + mset (expired sys) = mset (joins evs) \<and>
    (length (filter (\<lambda>e. qe_socketId e = sid) (joins evs)) = 1 \<and> sid \<in> qe_socketId ` set (removed sys) \<longrightarrow>
      sid \<notin> qe_socketId ` set (matched sys) \<and> sid \<notin> queue_sockets elems (service sys) \<and>
      (\<forall>t \<in> set (waiting_calls sys). \<forall>e \<in># held t. qe_socketId e \<noteq> sid))"
proof -
  have q: "match_queue R elems fields_of" by (simp add: match_queue_def redis)
  have more: "joins (ev # evs) = joins [ev] @ joins evs" for ev :: "'e env_scheme \<times> match_event" and evs
    by (cases ev rule: joins.cases [of "[_]", simplified]; simp)
  have "entries_of elems (run (system_step R) evs sys) = entries_of elems sys + mset (joins evs)" for evs :: "('e env_scheme \<times> match_event) list" and sys :: "('r, 'z) redis_db_scheme match_system"
  proof (induction evs arbitrary: sys)
    case (Cons ev evs)
    then show ?case unfolding more [of ev evs] by (simp add: match_queue.step_accounts [OF q] ac_simps)
  qed simp
  moreover have "entries_of elems (system_of s0) = {#}" by (simp add: entries_of_def system_of_def empty)
  ultimately have all: "entries_of elems sys = mset (joins evs)" by (simp add: run)
  have "sid \<notin> qe_socketId ` set (matched sys) \<and> sid \<notin> queue_sockets elems (service sys) \<and>
      (\<forall>t \<in> set (waiting_calls sys). \<forall>e \<in># held t. qe_socketId e \<noteq> sid)"
    if once: "length (filter (\<lambda>e. qe_socketId e = sid) (joins evs)) = 1" and gone: "sid \<in> qe_socketId ` set (removed sys)"
  proof -
    let ?of = "\<lambda>M. filter_mset (\<lambda>e. qe_socketId e = sid) M"
    have "size (?of (entries_of elems sys)) = 1" unfolding all using once by (metis mset_filter size_mset)
    moreover have "0 < size (?of (mset (removed sys)))" using gone by (auto simp: filter_mset_eq_conv nonempty_has_size [symmetric])
    ultimately have "size (?of (mset (elems (redis (service sys)) QUEUE_KEY))) = 0 \<and>
        size (?of (\<Sum>t\<leftarrow>waiting_calls sys. held t)) = 0 \<and> size (?of (mset (matched sys))) = 0"
      unfolding entries_of_def filter_union_mset size_union by linarith
    then have none: "?of (mset (elems (redis (service sys)) QUEUE_KEY)) = {#}" "?of (\<Sum>t\<leftarrow>waiting_calls sys. held t) = {#}"
      "?of (mset (matched sys)) = {#}" by (simp_all only: size_eq_0_iff_empty)
    have "\<forall>e \<in># held t. qe_socketId e \<noteq> sid" if "t \<in> set (waiting_calls sys)" for t
      using none(2) split_list [OF that] by (auto simp: filter_mset_none)
    with none(1,3) show ?thesis by (auto simp: queue_sockets_def filter_mset_none)
  qed
  with all show ?thesis unfolding entries_of_def by blast
qed

end
