(* ===== verification/MatchExamples.thy ===== *)
theory MatchExamples
  imports MatchAwaits
begin

text \<open>Three sockets in a Redis in memory: the hypotheses of the queue's properties hold.\<close>

definition match_env :: "time \<Rightarrow> env" where
  "match_env t = \<lparr>js_now = t, db_now = t, inet_ok = (\<lambda>_. True), uuid_of = Some\<rparr>"

type_synonym mem_db = "TimedEntry mem redis_db"

definition idle :: mem_db where
  "idle = db.extend empty_db (redis_db.fields mem_empty)"

definition seeker :: "string \<Rightarrow> QueueEntry" where
  "seeker i = \<lparr>qe_anonymousId = CHR ''a'' # i, qe_userId = None, qe_socketId = CHR ''s'' # i,
     qe_preferredType = Video, qe_isAnonymous = True\<rparr>"

definition two_seek :: "(env \<times> match_op) list" where
  "two_seek = [(match_env 1000, MEnqueue (seeker ''1'')), (match_env 2000, MEnqueue (seeker ''2''))]"

definition seeking :: mem_db where
  "seeking = snd (match_run mem_redis two_seek idle)"

lemma mem_ok: "redis_store mem_redis mem_lists mem_hashes"
  by (rule mem.redis_store_axioms)

lemma idle_empty: "mem_lists (redis idle) QUEUE_KEY = []" "mem_hashes (redis idle) SOCKETS_KEY = Map.empty"
  by (simp_all add: idle_def mem_empty_def db.defs redis_db.defs)

theorem matchmaking_refines_queue_witness:
  "fst (MatchmakingService_tryMatch mem_redis (match_env 3000) seeking) =
     Inr (Some (timed (match_env 1000) (seeker ''1''), timed (match_env 2000) (seeker ''2''))) \<and>
   fst (MatchmakingService_tryMatch mem_redis (match_env 301500) seeking) = Inr None \<and>
   mem_lists (redis (snd (MatchmakingService_tryMatch mem_redis (match_env 301500) seeking))) QUEUE_KEY =
     [timed (match_env 2000) (seeker ''2'')]"
proof -
  have spec: "fst (match_spec (is_fresh (match_env 3000)) (waiting_of mem_lists mem_hashes seeking)) =
      Some (timed (match_env 1000) (seeker ''1''), timed (match_env 2000) (seeker ''2''))"
    "fst (match_spec (is_fresh (match_env 301500)) (waiting_of mem_lists mem_hashes seeking)) = None"
    "fst (snd (match_spec (is_fresh (match_env 301500)) (waiting_of mem_lists mem_hashes seeking))) =
      [timed (match_env 2000) (seeker ''2'')]"
    by code_simp+
  have queue: "mem_lists (redis s) QUEUE_KEY = fst (waiting_of mem_lists mem_hashes s)" for s :: mem_db
    by (simp add: waiting_of_def)
  show ?thesis
    using spec matchmaking_refines_queue [OF mem_ok, of "match_env 3000" "seeker ''3''" seeking]
      matchmaking_refines_queue [OF mem_ok, of "match_env 301500" "seeker ''3''" seeking]
    by (simp add: case_prod_beta Let_def queue)
qed

definition three_seek :: "(env \<times> match_op) list" where
  "three_seek = two_seek @ [(match_env 2500, MEnqueue (seeker ''3'')), (match_env 3000, MTryMatch)]"

theorem matches_in_order_witness:
  "map qe_socketId (fst (match_run mem_redis three_seek idle)) = [''s1'', ''s2''] \<and>
   subseq (fst (match_run mem_redis three_seek idle) @ mem_lists (redis (snd (match_run mem_redis three_seek idle))) QUEUE_KEY)
     (map (\<lambda>(t, i). timed (match_env t) (seeker i)) [(1000, ''1''), (2000, ''2''), (2500, ''3'')])"
proof -
  have "map qe_socketId (fst (match_run mem_redis three_seek idle)) = [''s1'', ''s2'']" by code_simp
  moreover have "enqueued three_seek =
      map (\<lambda>(t, i). timed (match_env t) (seeker i)) [(1000, ''1''), (2000, ''2''), (2500, ''3'')]"
    by (simp add: three_seek_def two_seek_def)
  ultimately show ?thesis
    using matches_in_order [OF mem_ok, of three_seek idle] by (simp add: case_prod_beta Let_def idle_empty)
qed

abbreviation match_state_step :: "env \<times> match_op \<Rightarrow> mem_db \<Rightarrow> mem_db" where
  "match_state_step ev s \<equiv> snd (match_step mem_redis ev s)"

theorem left_socket_never_matched_witness:
  "''s1'' \<in> queue_sockets mem_lists seeking \<and>
   ''s1'' \<notin> queue_sockets mem_lists (snd (MatchmakingService_dequeue mem_redis (match_env 2500) ''s1'' seeking))"
proof -
  have "run_guarded (joins_once mem_lists) match_state_step two_seek idle" by code_simp
  from run_reaches [OF this] have "reaches (joins_once mem_lists) match_state_step idle (run match_state_step two_seek idle)" .
  moreover have "run match_state_step two_seek idle = seeking"
    by (simp add: seeking_def two_seek_def)
  ultimately have "reaches (joins_once mem_lists) match_state_step idle seeking" by simp
  from left_socket_never_matched [OF mem_ok idle_empty this, of "[]" "''s1''" "match_env 2500"]
  have "''s1'' \<notin> queue_sockets mem_lists (snd (MatchmakingService_dequeue mem_redis (match_env 2500) ''s1'' seeking))"
    by simp
  moreover have "''s1'' \<in> queue_sockets mem_lists seeking" by code_simp
  ultimately show ?thesis by blast
qed

subsection \<open>Calls that interleave\<close>

text \<open>A call of which all parts run in a row while no other waits.\<close>

definition in_one_go :: "time \<Rightarrow> match_op \<Rightarrow> (env \<times> match_event) list" where
  "in_one_go t op = (match_env t, Call op) # replicate 3 (match_env t, Resume 0)"

definition both_join :: "time \<Rightarrow> (env \<times> match_event) list" where
  "both_join t = in_one_go 1000 (MEnqueue (seeker ''1'')) @ in_one_go t (MEnqueue (seeker ''2''))"

definition system_after :: "(env \<times> match_event) list \<Rightarrow> mem_db match_system" where
  "system_after evs = run (system_step mem_redis) evs (system_of idle)"

text \<open>The leave of the first removes its entry while \<open>tryMatch\<close> is called.\<close>

definition leaving_in_time :: "(env \<times> match_event) list" where
  "leaving_in_time = both_join 2000 @ [(match_env 2500, Call (MDequeue ''s1'')), (match_env 2500, Resume 0),
     (match_env 2600, Call MTryMatch), (match_env 2600, Resume 0)]"

theorem every_entry_in_one_place_witness:
  "map qe_socketId (removed (system_after leaving_in_time)) = [''s1''] \<and>
   ''s1'' \<notin> qe_socketId ` set (matched (system_after leaving_in_time))"
proof -
  have gone: "map qe_socketId (removed (system_after leaving_in_time)) = [''s1'']" by code_simp
  then have "''s1'' \<in> qe_socketId ` set (removed (system_after leaving_in_time))" by (metis list.set_intros(1) list.set_map)
  moreover have "length (filter (\<lambda>e. qe_socketId e = ''s1'') (joins leaving_in_time)) = 1" by code_simp
  ultimately show ?thesis
    using every_entry_in_one_place [OF mem_ok idle_empty(1) system_after_def, of leaving_in_time "''s1''"] gone by blast
qed

text \<open>
  A leave that is too late. It runs from its beginning to its end between the script of \<open>tryMatch\<close>
  and what follows: it finds nothing to remove, and the socket that has left is matched.
\<close>

definition leaving_late :: "time \<Rightarrow> time \<Rightarrow> string \<Rightarrow> (env \<times> match_event) list" where
  "leaving_late t t' i = both_join t @ [(match_env t', Call MTryMatch), (match_env t', Call (MDequeue i)), (match_env t', Resume 1),
     (match_env t', Resume 1), (match_env t', Resume 1), (match_env t', Resume 0), (match_env t', Resume 0)]"

theorem left_and_matched:
  "map qe_socketId (matched (system_after (leaving_late 2000 2500 ''s1''))) = [''s1'', ''s2''] \<and>
   removed (system_after (leaving_late 2000 2500 ''s1'')) = [] \<and> waiting_calls (system_after (leaving_late 2000 2500 ''s1'')) = []"
  by (intro conjI; code_simp)

text \<open>
  When the other entry is stale, the entry of the socket that has left is put back in front without
  one in the index, so it stays there, and leaving again finds nothing.
\<close>

theorem left_and_put_back:
  "map qe_socketId (mem_lists (redis (service (system_after (leaving_late 200000 301500 ''s2'')))) QUEUE_KEY) = [''s2''] \<and>
   fst (begin_call mem_redis E (MDequeue ''s2'') (service (system_after (leaving_late 200000 301500 ''s2'')))) = Inr (Returns Left)"
proof -
  have "mem_hashes (redis (service (system_after (leaving_late 200000 301500 ''s2'')))) SOCKETS_KEY ''s2'' = None" by code_simp
  then have "fst (begin_call mem_redis E (MDequeue ''s2'') (service (system_after (leaving_late 200000 301500 ''s2'')))) = Inr (Returns Left)"
    by (simp add: begins op_simps mem.hget_fields)
  moreover have "map qe_socketId (mem_lists (redis (service (system_after (leaving_late 200000 301500 ''s2'')))) QUEUE_KEY) = [''s2'']"
    by code_simp
  ultimately show ?thesis by blast
qed

theorem double_join_matches_itself_witness:
  "map qe_socketId (fst (match_run mem_redis
     [(match_env 1000, MEnqueue (seeker ''1'')), (match_env 2000, MEnqueue (seeker ''1'')), (match_env 2000, MTryMatch)] idle)) =
   [''s1'', ''s1'']"
  using double_join_matches_itself [OF mem_ok idle_empty(1), of "match_env 2000" "match_env 1000" "match_env 2000" "seeker ''1''"]
  by (simp add: match_env_def seeker_def)

end
