(* ===== verification/SfuExamples.thy ===== *)
theory SfuExamples
  imports SfuWorkers MatchExamples
begin

text \<open>
  A media server that numbers its objects and remembers which were closed, and rooms on it:
  the hypotheses of the room properties hold.
\<close>

type_synonym toy_media = "nat \<times> nat list"

definition toy_new :: "toy_media \<Rightarrow> (exn + obj) \<times> toy_media" where
  "toy_new m = (Inr (fst m), (Suc (fst m), snd m))"

definition toy :: "toy_media mediasoup" where
  "toy = \<lparr>createWorker = (\<lambda>_. toy_new), createRouter = (\<lambda>_ _. toy_new), rtpCapabilities = (\<lambda>_. ''caps''),
     createTransport = (\<lambda>_ _. toy_new), transport_params = (\<lambda>_. (''ice'', ''cand'', ''dtls'')),
     transport_connect = (\<lambda>_ _ m. (Inr (), m)), transport_produce = (\<lambda>_ _ _. toy_new),
     transport_consume = (\<lambda>_ _ _ _. toy_new), canConsume = (\<lambda>_ _ _ _. True),
     consumer_info = (\<lambda>_. (AudioKind, ''rtp'')), consumer_resume = (\<lambda>_ m. (Inr (), m)),
     close_obj = (\<lambda>x m. (fst m, snd m @ [x])), id_of = (\<lambda>x. CHR ''i'' # replicate x CHR ''x'')\<rparr>"

definition toy_env :: "toy_media sfu_env" where
  "toy_env = \<lparr>ms = toy, installed = True, config = (\<lambda>_. None), cpus = 2\<rparr>"

type_synonym toy_db = "(TimedEntry mem, toy_media) media_db"

definition no_media :: toy_db where
  "no_media = redis_db.extend idle (media_db.fields (0, []) False [] 0 [] [])"

definition started :: toy_db where
  "started = snd (SfuService_onModuleInit toy_env no_media)"

definition meeting :: "sfu_op list" where
  "meeting = [SfuCreate ''r'', SfuTransport ''r'' ''p'', SfuTransport ''r'' ''p'', SfuTransport ''r'' ''q'',
     SfuProduce ''r'' ''ixxx'' VideoKind ''rtp'' ''p'']"

abbreviation toy_step :: "sfu_op \<Rightarrow> toy_db \<Rightarrow> toy_db" where
  "toy_step \<equiv> sfu_step toy_env"

definition met :: toy_db where
  "met = run toy_step meeting started"

definition met_room :: room where
  "met_room = \<lparr>router = 2, transports = [(''p:ixxx'', 3), (''p:ixxxx'', 4), (''q:ixxxxx'', 5)],
     producers = [(''ixxxxxx'', 6)], consumers = [], participants = [''p'', ''q'']\<rparr>"

lemma started_rooms: "rooms started = []"
  by code_simp

lemma met_reached: "reaches plain_peer toy_step started met"
proof -
  have "run_guarded plain_peer toy_step meeting started" by code_simp
  from run_reaches [OF this] show ?thesis by (simp add: met_def)
qed

lemma met_has_room: "map_of (rooms met) ''r'' = Some met_room" "media met = (7, [])"
  by code_simp+

theorem room_members_witness:
  "set (participants met_room) = {''p'', ''q''} \<and> map_option ri_participantCount (SfuService_getRoomInfo toy_env ''r'' met) = Some 2"
  using room_members [OF started_rooms met_reached met_has_room(1)] by (simp add: met_room_def numeral_2_eq_2)

theorem remove_participant_outcome_witness:
  "media (snd (SfuService_removeParticipant toy_env ''r'' ''p'' met)) = (7, [3, 4]) \<and>
   map_of (rooms (snd (SfuService_removeParticipant toy_env ''r'' ''p'' met))) ''r'' =
     Some (met_room\<lparr>transports := [(''q:ixxxxx'', 5)], participants := [''q'']\<rparr>)"
proof -
  have "CHR '':'' \<notin> set ''p''" by simp
  from remove_participant_outcome [OF started_rooms met_reached met_has_room(1) this]
  show ?thesis
    by (simp add: case_prod_beta Let_def met_room_def met_has_room transport_key_def toy_env_def toy_def numeral_eq_Suc)
qed

theorem rooms_isolated_witness:
  "map_of (rooms (toy_step (SfuRemove ''s'' ''p'') met)) ''r'' = Some met_room"
  using rooms_isolated [of "''r''" "SfuRemove ''s'' ''p''" toy_env met] by (simp add: met_has_room)

definition one_in :: toy_db where
  "one_in = run toy_step [SfuCreate ''r''] started"

definition two_in :: toy_db where
  "two_in = snd (SfuService_createWebRtcTransport toy_env ''r'' ''p'' one_in)"

definition three_in :: toy_db where
  "three_in = run toy_step [SfuTransport ''r'' ''q'', SfuRemove ''r'' ''q''] two_in"

theorem transport_usable_until_removed_witness:
  "\<exists>t. id_of toy t = ''ixxx'' \<and>
    SfuService_connectTransport toy_env ''r'' ''ixxx'' ''d'' three_in = on_media (transport_connect toy t ''d'') three_in"
proof -
  have ok: "sfu_ok toy_env one_in"
  proof -
    have "run_guarded plain_peer toy_step [SfuCreate ''r''] started" by code_simp
    from sfu_machine.run_keeps [OF this] show ?thesis by (simp add: one_in_def rooms_all_def started_rooms)
  qed
  have made: "SfuService_createWebRtcTransport toy_env ''r'' ''p'' one_in = (Inr (''ixxx'', ''ice'', ''cand'', ''dtls''), two_in)"
  proof -
    have "fst (SfuService_createWebRtcTransport toy_env ''r'' ''p'' one_in) = Inr (''ixxx'', ''ice'', ''cand'', ''dtls'')"
      by code_simp
    then show ?thesis by (simp add: two_in_def prod_eq_iff)
  qed
  have "run_guarded (usual toy_env ''r'' ''p'') toy_step [SfuTransport ''r'' ''q'', SfuRemove ''r'' ''q''] two_in"
    by code_simp
  from run_reaches [OF this] have later: "reaches (usual toy_env ''r'' ''p'') toy_step two_in three_in"
    by (simp add: three_in_def)
  have new: "new_ids toy_env one_in (SfuTransport ''r'' ''p'')" by code_simp
  have "ms toy_env = toy" by (simp add: toy_env_def)
  with transport_usable_until_removed [OF ok _ new made later] show ?thesis by auto
qed

theorem init_outcome_witness:
  "length (workers started) = 2 \<and> SfuService_isAvailable started"
proof -
  have quiet: "workers no_media = []" "watched no_media = []" "\<not> mediasoup_loaded no_media" "rooms no_media = []"
    by (simp_all add: no_media_def media_db.defs redis_db.defs)
  have "\<exists>w. fst (createWorker (ms toy_env) (worker_settings toy_env) m) = Inr w" for m
    by (simp add: toy_env_def toy_def toy_new_def)
  moreover have "installed toy_env" "cpus toy_env = 2" by (simp_all add: toy_env_def)
  ultimately show ?thesis
    using init_outcome [OF quiet, of toy_env] by (simp add: started_def case_prod_beta Let_def)
qed

theorem replacement_not_replaced_witness:
  "2 \<in> set (workers (snd (worker_died toy_env 0 started))) \<and>
   worker_died toy_env 2 (snd (worker_died toy_env 0 started)) = (Inr (), snd (worker_died toy_env 0 started))"
proof -
  have "0 \<in> set (watched started)" "0 \<in> set (workers started)" "mediasoup_loaded started"
    "fst (createWorker (ms toy_env) (worker_settings toy_env) (media started)) = Inr 2" "2 \<notin> set (watched started)"
    by code_simp+
  from replacement_not_replaced [OF this] show ?thesis by (simp add: case_prod_beta Let_def)
qed

theorem overlapping_creation_loses_room_witness:
  "\<exists>s4 :: toy_db. SfuService_connectTransport toy_env ''r'' ''ixxxx'' ''d'' s4 =
     (Inl (js_error ''Transport ixxxx not found''), s4)"
proof -
  define s1 where "s1 = snd (createRoom_router toy_env started)"
  define s2 where "s2 = snd (createRoom_router toy_env s1)"
  define s3 where "s3 = snd (SfuService_createWebRtcTransport toy_env ''r'' ''p'' (snd (createRoom_store toy_env ''r'' 2 s2)))"
  have "fst (createRoom_router toy_env started) = Inr 2"
    "fst (createRoom_router toy_env (snd (createRoom_router toy_env started))) = Inr 3"
    "fst (SfuService_createWebRtcTransport toy_env ''r'' ''p''
       (snd (createRoom_store toy_env ''r'' 2 (snd (createRoom_router toy_env (snd (createRoom_router toy_env started))))))) =
     Inr (''ixxxx'', ''ice'', ''cand'', ''dtls'')"
    by code_simp+
  then have "createRoom_router toy_env started = (Inr 2, s1)" "createRoom_router toy_env s1 = (Inr 3, s2)"
    "SfuService_createWebRtcTransport toy_env ''r'' ''p'' (snd (createRoom_store toy_env ''r'' 2 s2)) =
       (Inr (''ixxxx'', ''ice'', ''cand'', ''dtls''), s3)"
    by (simp_all add: s1_def s2_def s3_def prod_eq_iff)
  from overlapping_creation_loses_room [OF this] show ?thesis by (auto simp: Let_def)
qed

end
