(* ===== verification/GatewayExamples.thy ===== *)
theory GatewayExamples
  imports GatewayEffects GatewayPairing CallExamples SfuExamples
begin

text \<open>
  A small system: two registered users and a guest on a Redis in memory and a media server that
  numbers its objects. Tokens are user ids. The hypotheses of the gateway's properties hold in it.
\<close>

subsection \<open>The system\<close>

definition gw_at :: "time \<Rightarrow> string \<Rightarrow> gateway_env" where
  "gw_at t k = comms_env.extend (comms_at t k) (gateway_env.fields (CHR ''q'' # k) (CHR ''x'' # k) (\<lambda>token. Inr (Some token)))"

type_synonym toy_world = "(TimedEntry mem, toy_media) world"

definition quiet :: toy_world where
  "quiet = media_db.extend (started\<lparr>users := users two_users\<rparr>) (world.fields [] [] [] [] [] 0 [])"

abbreviation gw_step :: "gateway_env \<times> gw_event \<Rightarrow> toy_world \<Rightarrow> toy_world" where
  "gw_step \<equiv> gateway_step mem_redis toy_env"

text \<open>Ann, Bob and a guest connect; Ann calls Bob.\<close>

definition connect :: "time \<Rightarrow> string \<Rightarrow> string option \<Rightarrow> gateway_env \<times> gw_event" where
  "connect t sid token = (gw_at t sid, Message sid (WsConnect token None (Some ''1.2.3.4'') None))"

definition arrive :: "(gateway_env \<times> gw_event) list" where
  "arrive = [connect 0 ''s1'' (Some ''ann''), connect 10 ''s2'' (Some ''bob''), connect 20 ''s3'' None]"

definition online :: toy_world where
  "online = run gw_step arrive quiet"

definition dial :: "gateway_env \<times> gw_event" where
  "dial = (gw_at 1000 ''1'', Message ''s1'' (WsInitiate None (Some ''bob'') Video))"

definition ringing :: toy_world where
  "ringing = gw_step dial online"

definition meta :: "string option \<Rightarrow> string \<Rightarrow> string option \<Rightarrow> SocketMeta" where
  "meta u x c = \<lparr>m_userId = u, m_anonymousId = x, m_callId = c, m_roomId = None, m_ipAddress = ''1.2.3.4'', m_userAgent = []\<rparr>"

lemma quiet_empty: "sockets quiet = []" "userSockets quiet = []" "missedCallTimers quiet = []" "timeouts quiet = []"
  "call_sessions quiet = []" "call_participants quiet = []" "rooms quiet = []"
  by code_simp+

lemma online_reached: "reaches gw_guard gw_step quiet online"
proof -
  have "run_guarded gw_guard gw_step arrive quiet" by code_simp
  from run_reaches [OF this] show ?thesis by (simp add: online_def)
qed

lemma ringing_reached: "reaches gw_guard gw_step quiet ringing"
proof -
  have "run_guarded gw_guard gw_step [dial] online" by code_simp
  from run_reaches [OF this] have "reaches gw_guard gw_step online ringing" by (simp add: ringing_def)
  with online_reached show ?thesis by (blast intro: reaches_trans)
qed

lemma online_state: "sockets online = [(''s1'', meta (Some ''ann'') ''xs1'' None), (''s2'', meta (Some ''bob'') ''xs2'' None),
    (''s3'', meta None ''xs3'' None)]" "userSockets online = [(''ann'', [''s1'']), (''bob'', [''s2''])]"
  by code_simp+

lemma ringing_state: "sockets ringing = [(''s1'', meta (Some ''ann'') ''xs1'' (Some ''c1'')), (''s2'', meta (Some ''bob'') ''xs2'' None),
    (''s3'', meta None ''xs3'' None)]" "pendingCallTargets ringing = [(''c1'', ''bob'')]" "missedCallTimers ringing = [(''c1'', 0)]"
  "timeouts ringing = [(0, \<lparr>mc_callId = ''c1'', mc_socket = ''s1'', mc_meta = meta (Some ''ann'') ''xs1'' None\<rparr>)]"
  by code_simp+

subsection \<open>Runs\<close>

theorem sockets_registered_witness: "set (ring ringing ''bob'') = {''s2''} \<and> map_of (userSockets ringing) ''eve'' = None"
proof -
  note reg = sockets_registered [OF quiet_empty(1,2) ringing_reached]
  have "set (ring ringing ''bob'') = {sid. \<exists>m. map_of (sockets ringing) sid = Some m \<and> m_userId m = Some ''bob''}"
    using reg [of "''bob''"] by blast
  also have "\<dots> = {''s2''}" by (auto simp: ringing_state meta_def)
  finally have bob: "set (ring ringing ''bob'') = {''s2''}" .
  have "\<forall>sid m. map_of (sockets ringing) sid = Some m \<longrightarrow> m_userId m \<noteq> Some ''eve''"
    by (auto simp: ringing_state meta_def split: if_splits)
  with reg [of "''eve''"] bob show ?thesis by blast
qed

theorem one_timer_per_call_witness: "call_exists ''c1'' ringing"
proof -
  have "map_of (timeouts ringing) 0 = Some \<lparr>mc_callId = ''c1'', mc_socket = ''s1'', mc_meta = meta (Some ''ann'') ''xs1'' None\<rparr>"
    by (simp add: ringing_state)
  with one_timer_per_call [OF quiet_empty(3,4) ringing_reached] show ?thesis by fastforce
qed

theorem system_invariants_witness:
  "calls_ok ringing \<and> hosts_ok ringing \<and> length (call_sessions ringing) = 1"
proof -
  have "length (call_sessions ringing) = 1" by code_simp
  with system_invariants [OF quiet_empty(5-7) ringing_reached] show ?thesis by simp
qed

theorem gateway_only_adds_witness:
  "users ringing = users quiet \<and> (\<exists>new. audit_logs ringing = audit_logs quiet @ new)"
  using gateway_only_adds [OF ringing_reached] by simp

subsection \<open>Calls\<close>

lemma online_ok: "registry_ok online"
proof -
  have "registry_ok quiet" by (simp add: registry_ok_def sets_ok_def tabs_def owners_def quiet_empty)
  with online_reached show ?thesis by (rule registry_run.reaches_keeps)
qed

lemma gw_at_simps [simp]: "new_call_id (gw_at t k) = CHR ''c'' # k" "uuid_of (gw_at t k) = Some" "db_now (gw_at t k) = t"
  "new_participant_id (gw_at t k) role = (if role = Host then CHR ''h'' else CHR ''g'') # k"
  "jwt_verify (gw_at t k) token = Inr (Some token)" "js_now (gw_at t k) = t"
  by (simp_all add: gw_at_def comms_at_def comms_env.defs gateway_env.defs)

theorem initiate_rings_target_witness:
  "fst (onCallInitiate (gw_at 1000 ''1'') ''s1'' None (Some ''bob'') Video online) = Inr ''c1'' \<and>
   Emit (ToRoom ''s2'') (EvIncoming ''c1'' (Some ''ann'') Video) \<in>
     set (io (snd (onCallInitiate (gw_at 1000 ''1'') ''s1'' None (Some ''bob'') Video online)))"
proof -
  have m: "map_of (sockets online) ''s1'' = Some (meta (Some ''ann'') ''xs1'' None)"
    "m_userId (meta (Some ''ann'') ''xs1'' None) = Some ''ann''" by (simp_all add: online_state meta_def)
  have "fresh_call_ids (gw_at 1000 ''1'') online" "initiator_ref (gw_at 1000 ''1'') (Some ''ann'') online = Inr (Some ''ann'')"
    "fst (call_target None (Some ''bob'') online) = Inr ''bob''"
    by code_simp+
  from initiate_rings_target [OF online_ok m _ this, of Video]
  obtain rung where rung: "fst (onCallInitiate (gw_at 1000 ''1'') ''s1'' None (Some ''bob'') Video online) = Inr ''c1''"
    "io (snd (onCallInitiate (gw_at 1000 ''1'') ''s1'' None (Some ''bob'') Video online)) = io online @ Join ''s1'' ''c1'' #
       map (\<lambda>s. Emit (ToRoom s) (EvIncoming ''c1'' (Some ''ann'') Video)) rung"
    "\<forall>s. s \<in> set rung \<longleftrightarrow> (\<exists>n. map_of (sockets online) s = Some n \<and> m_userId n = Some ''bob'')"
    by (auto simp: case_prod_beta Let_def)
  have "''s2'' \<in> set rung" using rung(3) by (simp add: online_state meta_def)
  with rung(1,2) show ?thesis by simp
qed

theorem guests_cannot_call_witness:
  "fst (onCallInitiate (gw_at 1000 ''1'') ''s3'' None (Some ''bob'') Video online) = Inl (PgError FK_VIOLATION)"
proof -
  have m: "map_of (sockets online) ''s3'' = Some (meta None ''xs3'' None)" "m_userId (meta None ''xs3'' None) = None"
    by (simp_all add: online_state meta_def)
  have id: "uuid_of (gw_at 1000 ''1'') (m_anonymousId (meta None ''xs3'' None)) = Some ''xs3''" by (simp add: meta_def)
  have "\<not> user_exists ''xs3'' online" "fresh_call_ids (gw_at 1000 ''1'') online"
    "fst (call_target None (Some ''bob'') online) = Inr ''bob''"
    by code_simp+
  with guests_cannot_call [OF m id, of None "Some ''bob''" Video] show ?thesis by simp
qed

definition unanswered :: toy_world where
  "unanswered = gw_step (gw_at 31000 ''m'', Timer 0) ringing"

theorem missed_call_timeout_witness:
  "map cs_status (call_sessions unanswered) = [Missed] \<and>
   io unanswered = io ringing @ [Emit (ToSocket ''s1'') (EvMissed ''c1'')]"
proof -
  let ?mc = "\<lparr>mc_callId = ''c1'', mc_socket = ''s1'', mc_meta = meta (Some ''ann'') ''xs1'' None\<rparr>"
  have timer: "map_of (timeouts ringing) 0 = Some ?mc" by (simp add: ringing_state)
  have ids: "uuid_of (gw_at 31000 ''m'') (mc_callId ?mc) = Some (mc_callId ?mc)"
    "truthy (guest_id (mc_meta ?mc)) \<or> uuid_of (gw_at 31000 ''m'') (caller (mc_meta ?mc)) = Some (caller (mc_meta ?mc))"
    by simp_all
  have row: "call_sessions ringing = [initiated (gw_at 1000 ''1'') (Some ''ann'') Video False]" by code_simp
  then have found: "find (\<lambda>r. cs_id r = mc_callId ?mc) (call_sessions ringing) = Some (initiated (gw_at 1000 ''1'') (Some ''ann'') Video False)"
    by (simp add: initiated_def new_call_session_def)
  show ?thesis
    using missed_call_timeout [OF timer ids found, of mem_redis toy_env] row
    by (simp add: unanswered_def Let_def initiated_def new_call_session_def)
qed

definition asked :: toy_world where
  "asked = run gw_step [(gw_at 2000 ''2'', Message ''s3'' WsQueueStatus)] ringing"

theorem only_target_accepts_witness:
  "map_of (pendingCallTargets asked) ''c1'' = Some ''bob'' \<and>
   (\<exists>msg. onCallAccept (gw_at 3000 ''3'') ''s1'' ''c1'' Video asked = (Inl (WsException msg), asked))"
proof -
  have waits: "map_of (pendingCallTargets ringing) ''c1'' = Some ''bob''" by (simp add: ringing_state)
  have "run_guarded (\<lambda>w ev. \<not> settles ''c1'' w ev) gw_step [(gw_at 2000 ''2'', Message ''s3'' WsQueueStatus)] ringing"
    by code_simp
  from run_reaches [OF this] have run: "reaches (\<lambda>w ev. \<not> settles ''c1'' w ev) gw_step ringing asked"
    by (simp add: asked_def)
  have "sockets asked = sockets ringing" by code_simp
  then have m: "map_of (sockets asked) ''s1'' = Some (meta (Some ''ann'') ''xs1'' (Some ''c1''))"
    by (simp add: ringing_state)
  have other: "m_userId (meta (Some ''ann'') ''xs1'' (Some ''c1'')) \<noteq> Some ''bob''" by (simp add: meta_def)
  show ?thesis by (rule only_target_accepts [OF waits _ run m other]) simp
qed

theorem disconnect_outcome_witness:
  "map fst (sockets (gw_step (gw_at 5000 ''5'', Message ''s1'' WsDisconnect) ringing)) = [''s2'', ''s3''] \<and>
   map cs_status (call_sessions (gw_step (gw_at 5000 ''5'', Message ''s1'' WsDisconnect) ringing)) = [Ended] \<and>
   pendingCallTargets (gw_step (gw_at 5000 ''5'', Message ''s1'' WsDisconnect) ringing) = [(''c1'', ''bob'')]"
proof -
  let ?m = "meta (Some ''ann'') ''xs1'' (Some ''c1'')"
  have m: "map_of (sockets ringing) ''s1'' = Some ?m" "m_callId ?m = Some ''c1''" by (simp_all add: ringing_state meta_def)
  have who: "uuid_of (gw_at 5000 ''5'') ''c1'' = Some ''c1''"
    "truthy (guest_id ?m) \<or> uuid_of (gw_at 5000 ''5'') (caller ?m) = Some (caller ?m)" by simp_all
  have row: "call_sessions ringing = [initiated (gw_at 1000 ''1'') (Some ''ann'') Video False]" by code_simp
  have "map fst (sockets (gw_step (gw_at 5000 ''5'', Message ''s1'' WsDisconnect) ringing)) = [''s2'', ''s3'']" by code_simp
  with disconnect_outcome [OF quiet_empty(1,2) ringing_reached m _ who] row show ?thesis
    by (simp add: case_prod_beta Let_def ringing_state initiated_def new_call_session_def)
qed

theorem accept_without_target_witness:
  "map cs_status (call_sessions unanswered) = [Missed] \<and>
   map cs_status (call_sessions (snd (onCallAccept (gw_at 40000 ''4'') ''s1'' ''c1'' Video unanswered))) = [Active] \<and>
   last (io (snd (onCallAccept (gw_at 40000 ''4'') ''s1'' ''c1'' Video unanswered))) =
     Emit (ToRoom ''c1'') (EvAccepted ''c1'' ''ann'' (Some ''ann''))"
proof -
  let ?m = "meta (Some ''ann'') ''xs1'' (Some ''c1'')"
  let ?r = "(initiated (gw_at 1000 ''1'') (Some ''ann'') Video False)\<lparr>cs_status := Missed, cs_ended_at := Some 31000\<rparr>"
  have "sockets unanswered = sockets ringing" "map_of (pendingCallTargets unanswered) ''c1'' = None"
    "map_of (missedCallTimers unanswered) ''c1'' = None" by code_simp+
  then have m: "map_of (sockets unanswered) ''s1'' = Some ?m" "m_userId ?m = Some ''ann''"
    and none: "map_of (pendingCallTargets unanswered) ''c1'' = None" "map_of (missedCallTimers unanswered) ''c1'' = None"
    by (simp_all add: ringing_state meta_def)
  have ids: "uuid_of (gw_at 40000 ''4'') ''c1'' = Some ''c1''" "uuid_of (gw_at 40000 ''4'') ''ann'' = Some ''ann''" by simp_all
  have facts: "user_exists ''ann'' unanswered" "call_sessions unanswered = [?r]"
    "new_participant_id (gw_at 40000 ''4'') Guest \<notin> cp_id ` set (call_participants unanswered)"
    by code_simp+
  have row: "find (\<lambda>r. cs_id r = ''c1'') (call_sessions unanswered) = Some ?r"
    by (simp add: facts(2) initiated_def new_call_session_def)
  show ?thesis
    using accept_without_target [OF m _ none ids facts(1) row facts(3), of Video]
    by (simp add: case_prod_beta Let_def facts(2) initiated_def new_call_session_def)
qed

subsection \<open>Rooms, sessions and pairs\<close>

definition hosted :: toy_world where
  "hosted = run gw_step [(gw_at 100 ''6'', Message ''s2'' (WsSfuJoin ''r''))] online"

theorem unjoined_room_keeps_peer_witness:
  "map_option participants (map_of (rooms (snd (handleDisconnect mem_redis toy_env (gw_at 200 ''7'') ''s1''
     (snd (onCreateTransport toy_env ''s1'' ''r'' hosted))))) ''r'') = Some [''s1'']"
proof -
  let ?m = "meta (Some ''ann'') ''xs1'' None" and ?room = "new_room 2"
  have sock: "map_of (sockets hosted) ''s1'' = Some ?m" by code_simp
  have out: "m_roomId ?m \<noteq> Some ''r''" by (simp add: meta_def)
  have room: "map_of (rooms hosted) ''r'' = Some ?room" by code_simp
  have made: "createTransport (ms toy_env) (router ?room) (transport_options toy_env) (media hosted) = (Inr 3, (4, []))"
    by code_simp
  from unjoined_room_keeps_peer [OF sock out room made, of mem_redis "gw_at 200 ''7''"]
  show ?thesis by (simp add: add_transport_def new_room_def set_add_def)
qed

theorem logout_keeps_sockets_witness:
  "fst (JwtAuthGuard_canActivate (gw_at 300 ''8'') \<lparr>req_isPublic = False, req_method = ''GET'', req_csrf_header = None,
      req_user = None, req_bearer = Some \<lparr>jwt_sub = ''ann'', jwt_sid = ''z''\<rparr>\<rparr> (snd (AuthService_logout ''z'' online))) =
     Inl (UnauthorizedException Msg_AUTH_REQUIRED) \<and>
   set (ring (gw_step (connect 300 ''s9'' (Some ''ann'')) (snd (AuthService_logout ''z'' online))) ''ann'') = {''s9'', ''s1''}"
proof -
  have t: "truthy (Some ''ann'')" "jwt_verify (gw_at 300 ''s9'') (the (Some ''ann'')) = Inr (Some ''ann'')"
    "trim ''ann'' = ''ann''" by code_simp+
  have "ring online ''ann'' = [''s1'']" by (simp add: ring_def online_state)
  with logout_keeps_sockets [OF t, of "gw_at 300 ''8''" "''GET''" None "\<lparr>jwt_sub = ''ann'', jwt_sid = ''z''\<rparr>" online
      mem_redis "''s9''" None "Some ''1.2.3.4''" None]
  show ?thesis by (simp add: connect_def Let_def)
qed

definition ann_waits :: toy_world where
  "ann_waits = run gw_step [(gw_at 1000 ''a'', Message ''s1'' (WsJoinQueue None))] online"

definition ann_entry :: TimedEntry where
  "ann_entry = timed (gw_at 1000 ''a'') (entry_of ''s1'' (meta (Some ''ann'') ''xs1'' None) None)"

theorem join_pairs_waiting_witness:
  "map_option m_callId (map_of (sockets (snd (onJoinQueue mem_redis (gw_at 2000 ''b'') ''s3'' None ann_waits))) ''s1'') = Some (Some ''cb'') \<and>
   map_option m_callId (map_of (sockets (snd (onJoinQueue mem_redis (gw_at 2000 ''b'') ''s3'' None ann_waits))) ''s3'') = Some (Some ''cb'')"
proof -
  let ?m = "meta None ''xs3'' None" and ?ma = "meta (Some ''ann'') ''xs1'' None" and ?G = "gw_at 2000 ''b''"
  have "sockets ann_waits = sockets online" by code_simp
  then have m: "map_of (sockets ann_waits) ''s3'' = Some ?m" "map_of (sockets ann_waits) (qe_socketId ann_entry) = Some ?ma"
    "qe_socketId ann_entry \<noteq> ''s3''"
    by (simp_all add: online_state ann_entry_def entry_of_def)
  have waits: "mem_lists (redis ann_waits) QUEUE_KEY = [ann_entry]" "is_fresh ?G ann_entry" by code_simp+
  have users: "fresh_call_ids ?G ann_waits" "initiator_ref ?G (qe_userId ann_entry) ann_waits = Inr (Some ''ann'')"
    "acceptor_ref ?G (timed ?G (entry_of ''s3'' ?m None)) None ann_waits"
    by code_simp+
  have ids: "new_participant_id ?G Guest \<noteq> new_participant_id ?G Host"
    "new_participant_id ?G Guest \<notin> cp_id ` set (call_participants ann_waits)" by code_simp+
  have "qe_socketId ann_entry = ''s1''" by (simp add: ann_entry_def entry_of_def)
  with join_pairs_waiting [OF mem_ok m waits users ids] show ?thesis by (simp add: case_prod_beta Let_def)
qed

text \<open>A token of an account that does not exist waits first.\<close>

definition eve_waits :: toy_world where
  "eve_waits = run gw_step [connect 900 ''s4'' (Some ''eve''), (gw_at 1000 ''a'', Message ''s4'' (WsJoinQueue None))] online"

theorem failed_pairing_drops_both_witness:
  "fst (onJoinQueue mem_redis (gw_at 2000 ''b'') ''s2'' None eve_waits) = Inl (PgError FK_VIOLATION) \<and>
   mem_lists (redis (snd (onJoinQueue mem_redis (gw_at 2000 ''b'') ''s2'' None eve_waits))) QUEUE_KEY = []"
proof -
  let ?eve = "timed (gw_at 1000 ''a'') (entry_of ''s4'' (meta (Some ''eve'') ''xs4'' None) None)"
  have m: "map_of (sockets eve_waits) ''s2'' = Some (meta (Some ''bob'') ''xs2'' None)" by code_simp
  have waits: "mem_lists (redis eve_waits) QUEUE_KEY = [?eve]" "is_fresh (gw_at 2000 ''b'') ?eve" by code_simp+
  have "fresh_call_ids (gw_at 2000 ''b'') eve_waits"
    "initiator_ref (gw_at 2000 ''b'') (qe_userId ?eve) eve_waits = Inl (PgError FK_VIOLATION)" by code_simp+
  from failed_pairing_drops_both [OF mem_ok m waits this, of None] show ?thesis by (simp add: case_prod_beta Let_def)
qed

end
