(* ===== verification/Http.thy ===== *)
theory Http
  imports Auth
begin

text \<open>
  The HTTP layer of the server: JavaScript values as JSON carries them, the exception filter
  (\<open>src/common/filters\<close>), the response envelope (\<open>src/common/interceptors\<close>), the redaction of the
  logger (\<open>src/common/logger\<close>), the endpoints of \<open>src/auth/auth.controller.ts\<close> with their
  cookies, and the order in which \<open>main.ts\<close> puts them around a handler.
\<close>

subsection \<open>Values\<close>

datatype jval =
    VUndefined
  | VNull
  | VBool bool
  | VNum int
  | VStr string
  | VArr "jval list"
  | VObj "(string \<times> jval) list"

text \<open>\<open>v.k\<close> of a value that is an object; reading a property of \<open>undefined\<close> or \<open>null\<close> throws.\<close>

fun field :: "string \<Rightarrow> jval \<Rightarrow> exn + jval" where
  "field k VUndefined = Inl (JsError ''TypeError'' None)"
| "field k VNull = Inl (JsError ''TypeError'' None)"
| "field k (VObj fs) = Inr (case map_of fs k of None \<Rightarrow> VUndefined | Some v \<Rightarrow> v)"
| "field k _ = Inr VUndefined"

text \<open>\<open>String(v)\<close>; the elements of an array are joined with commas.\<close>

fun js_String :: "jval \<Rightarrow> string" where
  "js_String VUndefined = ''undefined''"
| "js_String VNull = ''null''"
| "js_String (VBool b) = (if b then ''true'' else ''false'')"
| "js_String (VNum n) = (if n < 0 then CHR ''-'' # decimal (nat (- n)) else decimal (nat n))"
| "js_String (VStr s) = s"
| "js_String (VArr vs) = join_with CHR '','' (map js_String vs)"
| "js_String (VObj fs) = ''[object Object]''"

subsection \<open>The exception filter\<close>

text \<open>
  What the filter is given: an \<open>HttpException\<close> with its status, response and message, or
  anything else, as it was thrown. NestJS makes the response of an exception that is given a string an
  object with that message.
\<close>

datatype thrown = HttpException nat jval string | OtherError exn

definition nest_exception :: "nat \<Rightarrow> string \<Rightarrow> string \<Rightarrow> thrown" where
  "nest_exception status name msg =
     HttpException status (VObj [(''message'', VStr msg), (''error'', VStr name), (''statusCode'', VNum (int status))]) msg"

fun thrown_of :: "exn \<Rightarrow> thrown" where
  "thrown_of (BadRequestException m) = nest_exception 400 ''Bad Request'' m"
| "thrown_of (UnauthorizedException m) = nest_exception 401 ''Unauthorized'' m"
| "thrown_of (ForbiddenException m) = nest_exception 403 ''Forbidden'' m"
| "thrown_of (NotFoundException m) = nest_exception 404 ''Not Found'' m"
| "thrown_of (ConflictException m) = nest_exception 409 ''Conflict'' m"
| "thrown_of e = OtherError e"

text \<open>\<open>msg[0]\<close> of an empty array is \<open>undefined\<close>.\<close>

fun extractMessage :: "thrown \<Rightarrow> jval" where
  "extractMessage (OtherError _) = VStr Msg_UNEXPECTED_ERROR"
| "extractMessage (HttpException st res m) = (case res of
     VStr s \<Rightarrow> VStr s
   | VObj fs \<Rightarrow> (case map_of fs ''message'' of
       None \<Rightarrow> VStr m
     | Some msg \<Rightarrow> (case msg of
         VArr ms \<Rightarrow> (case ms of [] \<Rightarrow> VUndefined | x # _ \<Rightarrow> x)
       | _ \<Rightarrow> VStr (js_String msg)))
   | _ \<Rightarrow> VStr m)"

datatype cookie_action =
    SetCookie string string bool bool nat "string option"
  | ClearCookie string "string option"

record response =
  rs_status :: nat
  rs_body :: jval
  rs_cookies :: "cookie_action list"

text \<open>\<open>exception instanceof HttpException ? exception.getStatus() : 500\<close>\<close>

fun status_of :: "thrown \<Rightarrow> nat" where
  "status_of (HttpException status _ _) = status"
| "status_of (OtherError _) = 500"

definition GlobalExceptionFilter_catch :: "string \<Rightarrow> string \<Rightarrow> thrown \<Rightarrow> response" where
  "GlobalExceptionFilter_catch timestamp url e =
     (let status = status_of e;
          isServerError = status \<ge> 500;
          clientMessage = (if isServerError then VStr Msg_UNEXPECTED_ERROR else extractMessage e) in
      \<lparr>rs_status = status,
       rs_body = VObj [(''statusCode'', VNum (int status)), (''message'', clientMessage),
         (''timestamp'', VStr timestamp), (''path'', VStr url)],
       rs_cookies = []\<rparr>)"

subsection \<open>The envelope\<close>

definition ResponseInterceptor_intercept :: "jval \<Rightarrow> jval" where
  "ResponseInterceptor_intercept data =
     (if data = VUndefined \<or> data = VNull then VNull else VObj [(''success'', VBool True), (''data'', data)])"

subsection \<open>The logger\<close>

text \<open>
  \<open>AppLogger.build\<close> up to \<open>JSON.stringify\<close>: the spread of \<open>meta\<close> comes last, so its keys win;
  in production an e-mail keeps its domain only. The cast of \<open>email\<close> to a string is unchecked.
\<close>

definition spread :: "(string \<times> jval) list \<Rightarrow> (string \<times> jval) list \<Rightarrow> (string \<times> jval) list" where
  "spread meta obj = fold (\<lambda>(k, v). map_set k v) meta obj"

fun js_truthy :: "jval \<Rightarrow> bool" where
  "js_truthy VUndefined = False"
| "js_truthy VNull = False"
| "js_truthy (VBool b) = b"
| "js_truthy (VNum n) = (n \<noteq> 0)"
| "js_truthy (VStr s) = (s \<noteq> [])"
| "js_truthy _ = True"

definition redact_email :: "string \<Rightarrow> string" where
  "redact_email email =
     (let parts = split_on CHR ''@'' email in
      if length parts = 2 then ''***@'' @ parts ! 1 else ''***'')"

definition AppLogger_build ::
    "bool \<Rightarrow> string \<Rightarrow> string \<Rightarrow> string \<Rightarrow> string \<Rightarrow> (string \<times> jval) list \<Rightarrow> exn + (string \<times> jval) list" where
  "AppLogger_build production timestamp ctx level event meta =
     (let payload = spread meta [(''level'', VStr level), (''event'', VStr event),
            (''timestamp'', VStr timestamp), (''context'', VStr ctx)] in
      case map_of payload ''email'' of
        None \<Rightarrow> Inr payload
      | Some email \<Rightarrow>
          if js_truthy email \<and> production
          then (case email of
              VStr s \<Rightarrow> Inr (map_set ''email'' (VStr (redact_email s)) payload)
            | _ \<Rightarrow> Inl (JsError ''TypeError'' None))
          else Inr payload)"

subsection \<open>The endpoints of the authentication controller\<close>

text \<open>A request: the headers the server reads, the cookies, and the parsed body.\<close>

record http_request =
  hr_method :: string
  hr_path :: string
  hr_authorization :: "string option"
  hr_forwarded :: "string option"
  hr_agent :: "string option"
  hr_address :: "string option"
  hr_cookies :: "(string \<times> string) list"
  hr_body :: jval

definition REFRESH_PATH :: string where
  "REFRESH_PATH = ''/api/v1/auth/refresh''"

definition SEVEN_DAYS_MS :: nat where
  "SEVEN_DAYS_MS = 7 * 24 * 60 * 60 * 1000"

definition ONE_DAY_MS :: nat where
  "ONE_DAY_MS = 24 * 60 * 60 * 1000"

definition attachCookies :: "bool \<Rightarrow> AuthTokens \<Rightarrow> cookie_action list" where
  "attachCookies isProd tokens =
     [SetCookie ''refresh_token'' (refreshToken tokens) True isProd SEVEN_DAYS_MS (Some REFRESH_PATH),
      SetCookie ''XSRF-TOKEN'' (csrfToken tokens) False isProd ONE_DAY_MS None]"

definition clearCookies :: "cookie_action list" where
  "clearCookies = [ClearCookie ''refresh_token'' (Some REFRESH_PATH), ClearCookie ''XSRF-TOKEN'' None]"

definition token_body :: "AuthTokens \<Rightarrow> jval" where
  "token_body tokens = VObj [(''accessToken'', VStr (accessToken tokens)),
     (''refreshToken'', VStr (refreshToken tokens)), (''expiresIn'', VNum (int (expiresIn tokens)))]"

text \<open>
  What an endpoint gives: status, value and cookies. The bodies of \<open>register\<close> and \<open>login\<close> come
  as DTOs, from the global validation pipe.
\<close>

type_synonym reply = "nat \<times> jval \<times> cookie_action list"

definition AuthController_register :: "'e auth_env_scheme \<Rightarrow> LoginDto \<Rightarrow> ('z db_scheme, reply) op" where
  "AuthController_register E dto =
     bnd (AuthService_register E dto) (\<lambda>message. ret (200, VObj [(''message'', VStr message)], []))"

definition AuthController_login ::
    "'e auth_env_scheme \<Rightarrow> bool \<Rightarrow> LoginDto \<Rightarrow> http_request \<Rightarrow> ('z db_scheme, reply) op" where
  "AuthController_login E isProd dto req =
     bnd (AuthService_login E dto (resolveClientIp (hr_forwarded req) (hr_address req))
            (case hr_agent req of Some a \<Rightarrow> a | None \<Rightarrow> ''unknown'')) (\<lambda>tokens.
     ret (200, token_body tokens, attachCookies isProd tokens))"

text \<open>
  \<open>req.body.refreshToken\<close>; the body parser leaves an object where there is no body. The type is
  not checked: \<open>createHash\<close> throws on a value that is neither false nor a string.
\<close>

definition body_token :: "jval \<Rightarrow> exn + string option" where
  "body_token body = (case field ''refreshToken'' body of
     Inl e \<Rightarrow> Inl e
   | Inr (VStr t) \<Rightarrow> Inr (Some t)
   | Inr v \<Rightarrow> if js_truthy v then Inl (JsError ''TypeError'' None) else Inr None)"

definition piped :: "exn + 'a \<Rightarrow> ('a \<Rightarrow> ('s, 'b) op) \<Rightarrow> ('s, 'b) op" where
  "piped dto h = (case dto of Inl e \<Rightarrow> raise e | Inr x \<Rightarrow> h x)"

definition AuthController_refresh_reply ::
    "'e auth_env_scheme \<Rightarrow> bool \<Rightarrow> http_request \<Rightarrow> ('z db_scheme, reply) op" where
  "AuthController_refresh_reply E isProd req =
     (let cookie = map_of (hr_cookies req) ''refresh_token'' in
      piped (if cookie = None then body_token (hr_body req) else Inr None) (\<lambda>body.
      bnd (AuthController_refresh E cookie body) (\<lambda>tokens.
      ret (200, token_body tokens, attachCookies isProd tokens))))"

definition AuthController_logout :: "JwtPayload \<Rightarrow> ('z db_scheme, reply) op" where
  "AuthController_logout user =
     andthen (AuthService_logout (jwt_sid user)) (ret (204, VUndefined, clearCookies))"

definition AuthController_logoutAll :: "JwtPayload \<Rightarrow> ('z db_scheme, reply) op" where
  "AuthController_logoutAll user =
     andthen (AuthService_logoutAll (jwt_sub user)) (ret (204, VUndefined, clearCookies))"

subsection \<open>Around a handler\<close>

text \<open>
  The rest of the server as the endpoints see it: the validation pipe on the two DTOs, what
  passport makes of an \<open>Authorization\<close> header (the payload of a valid bearer token), and the
  clock of the filter.
\<close>

record http_env = auth_env +
  login_pipe :: "jval \<Rightarrow> exn + LoginDto"
  register_pipe :: "jval \<Rightarrow> exn + LoginDto"
  verify_bearer :: "string \<Rightarrow> JwtPayload option"
  is_production :: bool
  timestamp :: string

definition guarded :: "'e http_env_scheme \<Rightarrow> http_request \<Rightarrow> (JwtPayload \<Rightarrow> ('z db_scheme, reply) op) \<Rightarrow> ('z db_scheme, reply) op" where
  "guarded E req h =
     bnd (JwtAuthGuard_canActivate E \<lparr>req_isPublic = False, req_method = hr_method req, req_csrf_header = None,
            req_user = None, req_bearer = Option.bind (hr_authorization req) (verify_bearer E)\<rparr>) (\<lambda>user.
     h (the user))"

text \<open>
  The segments of the path of a URL, without its query string. The router of Express ignores
  one slash at the end, and the case of what is not a parameter.
\<close>

definition segments :: "string \<Rightarrow> string list" where
  "segments url = (let ss = split_on CHR ''/'' (takeWhile (\<lambda>c. c \<noteq> CHR ''?'') url) in
     if length ss > 1 \<and> last ss = [] then butlast ss else ss)"

datatype segment = Lit string | Param

text \<open>The parameters of a path that has the given form.\<close>

fun match_path :: "segment list \<Rightarrow> string list \<Rightarrow> string list option" where
  "match_path [] [] = Some []"
| "match_path (Lit l # ps) (s # ss) = (if toLowerCase s = l then match_path ps ss else None)"
| "match_path (Param # ps) (s # ss) = (if s = [] then None else map_option ((#) s) (match_path ps ss))"
| "match_path _ _ = None"

definition at :: "http_request \<Rightarrow> string \<Rightarrow> string list \<Rightarrow> bool" where
  "at req meth path \<longleftrightarrow> hr_method req = meth \<and>
     match_path (map Lit ([] # ''api'' # ''v1'' # path)) (segments (hr_path req)) = Some []"

definition checkHealth :: "string \<Rightarrow> jval" where
  "checkHealth now = VObj [(''status'', VStr ''ok''), (''timestamp'', VStr now), (''service'', VStr ''nexus-backend'')]"

text \<open>
  The routes of the authentication controller and of \<open>AppController\<close>; those of the other
  controllers, which are all behind the guard, are a parameter. What no controller has is
  answered by the framework with 404, with no look at the caller.
\<close>

type_synonym 'z controllers = "http_request \<Rightarrow> (JwtPayload \<Rightarrow> ('z db_scheme, reply) op) option"

definition not_routed :: "http_request \<Rightarrow> exn" where
  "not_routed req = NotFoundException (''Cannot '' @ hr_method req @ '' '' @ hr_path req)"

definition route ::
    "'e http_env_scheme \<Rightarrow> 'z controllers \<Rightarrow> http_request \<Rightarrow> ('z db_scheme, reply) op" where
  "route E others req =
     (if at req ''POST'' [''auth'', ''register'']
      then piped (register_pipe E (hr_body req)) (AuthController_register E)
      else if at req ''POST'' [''auth'', ''login'']
      then piped (login_pipe E (hr_body req)) (\<lambda>dto. AuthController_login E (is_production E) dto req)
      else if at req ''POST'' [''auth'', ''refresh'']
      then AuthController_refresh_reply E (is_production E) req
      else if at req ''GET'' [''health'']
      then ret (200, checkHealth (timestamp E), [])
      else if at req ''POST'' [''auth'', ''logout'']
      then guarded E req AuthController_logout
      else if at req ''DELETE'' [''auth'', ''sessions'']
      then guarded E req AuthController_logoutAll
      else case others req of None \<Rightarrow> raise (not_routed req) | Some h \<Rightarrow> guarded E req h)"

definition serve ::
    "'e http_env_scheme \<Rightarrow> 'z controllers \<Rightarrow> http_request \<Rightarrow> 'z db_scheme \<Rightarrow> response \<times> 'z db_scheme" where
  "serve E others req d = (case route E others req d of
     (Inl e, d') \<Rightarrow> (GlobalExceptionFilter_catch (timestamp E) (hr_path req) (thrown_of e), d')
   | (Inr (status, v, cookies), d') \<Rightarrow>
       (\<lparr>rs_status = status, rs_body = ResponseInterceptor_intercept v, rs_cookies = cookies\<rparr>, d'))"

end
