(* ===== verification/ApiClient.thy ===== *)
theory ApiClient
  imports Http
begin

text \<open>
  The client's side of HTTP: \<open>frontend/src/lib/api.ts\<close> (tokens in a module variable and in
  \<open>localStorage\<close>, the silent refresh, \<open>apiFetch\<close> with its one retry) and the actions of
  \<open>frontend/src/hooks/useAuth.tsx\<close>. The network is a parameter: what \<open>fetch\<close> answers, and what
  it does to the rest of the world.
\<close>

subsection \<open>The browser\<close>

text \<open>A request as it is given to \<open>fetch\<close>; header names are in lower case, as \<open>Headers\<close> compares them.\<close>

record fetch_request =
  rq_path :: string
  rq_method :: string
  rq_headers :: "(string, string) jsmap"
  rq_body :: "jval option"
  rq_credentials :: bool

text \<open>\<open>fetch\<close> rejects only when there is no answer; \<open>document.cookie\<close> is what scripts may read.\<close>

record 'w browser_api =
  fetch :: "fetch_request \<Rightarrow> 'w \<Rightarrow> (exn + response) \<times> 'w"
  document_cookie :: "'w \<Rightarrow> string"

text \<open>
  A tab: the world behind the network, the module variable, \<open>localStorage\<close>, the state of
  \<open>AuthProvider\<close>, and the paths the router was sent to, in order.
\<close>

record 'w tab =
  net :: 'w
  accessTokenVar :: "string option"
  localStorage :: "(string, string) jsmap"
  isAuthenticated :: bool
  isLoading :: bool
  userEmail :: "string option"
  pushed :: "string list"

text \<open>A page adds fields of its own to its tab.\<close>

type_synonym ('w, 'z, 'a) client = "(('w, 'z) tab_scheme, 'a) op"

definition ask :: "'w browser_api \<Rightarrow> fetch_request \<Rightarrow> ('w, 'z, response) client" where
  "ask B req t = (case fetch B req (net t) of (r, w) \<Rightarrow> (r, t\<lparr>net := w\<rparr>))"

definition response_ok :: "response \<Rightarrow> bool" where
  "response_ok r \<longleftrightarrow> 200 \<le> rs_status r \<and> rs_status r \<le> 299"

subsection \<open>\<open>lib/api.ts\<close>\<close>

text \<open>What the server may send as a token is a string, or is not there.\<close>

fun token_value :: "jval \<Rightarrow> string option" where
  "token_value (VStr s) = Some s"
| "token_value _ = None"

definition store_item :: "string \<Rightarrow> string option \<Rightarrow> ('w, 'z, unit) client" where
  "store_item k token = modify (\<lambda>t. t\<lparr>localStorage :=
     (if truthy token then map_set k (the token) (localStorage t) else map_delete k (localStorage t))\<rparr>)"

definition setAccessToken :: "string option \<Rightarrow> ('w, 'z, unit) client" where
  "setAccessToken token =
     andthen (modify (\<lambda>t. t\<lparr>accessTokenVar := token\<rparr>)) (store_item ''accessToken'' token)"

definition getAccessToken :: "('w, 'z) tab_scheme \<Rightarrow> string option" where
  "getAccessToken t = (if truthy (accessTokenVar t) then accessTokenVar t else map_of (localStorage t) ''accessToken'')"

definition setRefreshToken :: "string option \<Rightarrow> ('w, 'z, unit) client" where
  "setRefreshToken token = store_item ''refreshToken'' token"

definition getRefreshToken :: "('w, 'z) tab_scheme \<Rightarrow> string option" where
  "getRefreshToken t = map_of (localStorage t) ''refreshToken''"

text \<open>The regular expression \<open>(^| )XSRF-TOKEN=([^;]+)\<close>: its leftmost match.\<close>

definition csrf_here :: "string \<Rightarrow> string option" where
  "csrf_here s = (let v = takeWhile (\<lambda>c. c \<noteq> CHR '';'') (drop 11 s) in
     if startsWith s ''XSRF-TOKEN='' \<and> v \<noteq> [] then Some v else None)"

fun csrf_after_space :: "string \<Rightarrow> string option" where
  "csrf_after_space [] = None"
| "csrf_after_space (c # cs) = (if c = CHR '' '' \<and> csrf_here cs \<noteq> None then csrf_here cs else csrf_after_space cs)"

definition getCsrfToken :: "string \<Rightarrow> string option" where
  "getCsrfToken cookie = (case csrf_here cookie of Some v \<Rightarrow> Some v | None \<Rightarrow> csrf_after_space cookie)"

definition refresh_request :: "string \<Rightarrow> fetch_request" where
  "refresh_request raw = \<lparr>rq_path = ''/auth/refresh'', rq_method = ''POST'',
     rq_headers = [(''content-type'', ''application/json''), (''ngrok-skip-browser-warning'', ''true'')],
     rq_body = Some (VObj [(''refreshToken'', VStr raw)]), rq_credentials = False\<rparr>"

definition drop_tokens :: "('w, 'z, unit) client" where
  "drop_tokens = andthen (setAccessToken None) (setRefreshToken None)"

definition refreshAuthToken :: "'w browser_api \<Rightarrow> ('w, 'z, bool) client" where
  "refreshAuthToken B =
     catch (bnd (gets getRefreshToken) (\<lambda>token.
       if \<not> truthy token then ret False
       else bnd (ask B (refresh_request (the token))) (\<lambda>res.
         if \<not> response_ok res then andthen drop_tokens (ret False)
         else bnd (piped (field ''accessToken'' (rs_body res)) ret) (\<lambda>a.
           andthen (setAccessToken (token_value a))
          (bnd (piped (field ''refreshToken'' (rs_body res)) ret) (\<lambda>r.
           andthen (setRefreshToken (token_value r)) (ret True)))))))
       (\<lambda>_. andthen drop_tokens (ret False))"

text \<open>The options of a call of \<open>apiFetch\<close>; a body is always JSON text here.\<close>

record fetch_options =
  fo_method :: "string option"
  fo_headers :: "(string, string) jsmap"
  fo_body :: "jval option"

text \<open>The event \<open>auth:unauthorized\<close>, and what \<open>AuthProvider\<close> does on it.\<close>

definition handleUnauthorized :: "('w, 'z, unit) client" where
  "handleUnauthorized = modify (\<lambda>t. t\<lparr>isAuthenticated := False, pushed := pushed t @ [''/login'']\<rparr>)"

definition api_request :: "'w browser_api \<Rightarrow> string \<Rightarrow> fetch_options \<Rightarrow> ('w, 'z) tab_scheme \<Rightarrow> fetch_request" where
  "api_request B endpoint opts t =
     (let h1 = map_set ''ngrok-skip-browser-warning'' ''true'' (fo_headers opts);
          token = getAccessToken t;
          h2 = (if truthy token then map_set ''authorization'' (''Bearer '' @ the token) h1 else h1);
          csrf = getCsrfToken (document_cookie B (net t));
          meth = (case fo_method opts of None \<Rightarrow> ''GET'' | Some m \<Rightarrow> if m = [] then ''GET'' else toUpperCase m);
          h3 = (if truthy csrf \<and> meth \<in> {''POST'', ''PUT'', ''DELETE'', ''PATCH''}
                then map_set ''x-csrf-token'' (the csrf) h2 else h2);
          h4 = (if fo_body opts \<noteq> None \<and> map_of h3 ''content-type'' = None
                then map_set ''content-type'' ''application/json'' h3 else h3) in
      \<lparr>rq_path = endpoint, rq_method = (case fo_method opts of None \<Rightarrow> ''GET'' | Some m \<Rightarrow> m), rq_headers = h4,
       rq_body = fo_body opts, rq_credentials = True\<rparr>)"

text \<open>\<open>`Bearer ${getAccessToken()}`\<close>\<close>

definition bearer :: "string option \<Rightarrow> string" where
  "bearer token = ''Bearer '' @ (case token of None \<Rightarrow> ''null'' | Some t \<Rightarrow> t)"

definition apiFetch :: "'w browser_api \<Rightarrow> string \<Rightarrow> fetch_options \<Rightarrow> ('w, 'z, response) client" where
  "apiFetch B endpoint opts =
     bnd (gets (api_request B endpoint opts)) (\<lambda>req.
     bnd (ask B req) (\<lambda>response.
     if rs_status response = 401 \<and> endpoint \<noteq> ''/auth/refresh'' \<and> endpoint \<noteq> ''/auth/login''
     then bnd (refreshAuthToken B) (\<lambda>refreshed.
       if refreshed
       then bnd (gets getAccessToken) (\<lambda>token.
         ask B (req\<lparr>rq_headers := map_set ''authorization'' (bearer token) (rq_headers req)\<rparr>))
       else andthen handleUnauthorized (ret response))
     else ret response))"

subsection \<open>\<open>AuthProvider\<close>\<close>

text \<open>The silent refresh when the page loads; \<open>mounted\<close> is whether the page is still there.\<close>

definition initAuth :: "'w browser_api \<Rightarrow> bool \<Rightarrow> ('w, 'z, unit) client" where
  "initAuth B mounted =
     bnd (refreshAuthToken B) (\<lambda>refreshed.
     modify (\<lambda>t. if \<not> mounted then t
       else if refreshed then t\<lparr>isAuthenticated := True, userEmail := map_of (localStorage t) ''userEmail'', isLoading := False\<rparr>
       else t\<lparr>isAuthenticated := False, isLoading := False\<rparr>))"

definition setLoading :: "bool \<Rightarrow> ('w, 'z, unit) client" where
  "setLoading b = modify (\<lambda>t. t\<lparr>isLoading := b\<rparr>)"

text \<open>\<open>try { m } finally { f }\<close>\<close>

definition finally_do :: "('s, 'a) op \<Rightarrow> ('s, unit) op \<Rightarrow> ('s, 'a) op" where
  "finally_do m f s = (case m s of (r, s') \<Rightarrow> (case f s' of (Inl e, s'') \<Rightarrow> (Inl e, s'') | (Inr _, s'') \<Rightarrow> (r, s'')))"

definition json_post :: "jval \<Rightarrow> fetch_options" where
  "json_post body = \<lparr>fo_method = Some ''POST'', fo_headers = [(''content-type'', ''application/json'')], fo_body = Some body\<rparr>"

definition credentials_body :: "string \<Rightarrow> string \<Rightarrow> jval" where
  "credentials_body email password = VObj [(''email'', VStr email), (''password'', VStr password)]"

text \<open>\<open>throw new Error(data.message || fallback)\<close>\<close>

definition throw_message :: "jval \<Rightarrow> string \<Rightarrow> ('s, 'a) op" where
  "throw_message body fallback =
     piped (field ''message'' body) (\<lambda>m. raise (JsError (if js_truthy m then js_String m else fallback) None))"

definition useAuth_login :: "'w browser_api \<Rightarrow> string \<Rightarrow> string \<Rightarrow> ('w, 'z, unit) client" where
  "useAuth_login B email password =
     andthen (setLoading True) (finally_do
       (bnd (apiFetch B ''/auth/login'' (json_post (credentials_body email password))) (\<lambda>res.
        if \<not> response_ok res then throw_message (rs_body res) ''Login failed''
        else bnd (piped (field ''data'' (rs_body res)) ret) (\<lambda>d.
          bnd (piped (field ''accessToken'' d) ret) (\<lambda>a.
          andthen (setAccessToken (token_value a))
         (bnd (piped (field ''refreshToken'' d) ret) (\<lambda>r.
          andthen (setRefreshToken (token_value r))
         (modify (\<lambda>t. t\<lparr>isAuthenticated := True, userEmail := Some email,
            localStorage := map_set ''userEmail'' email (localStorage t), pushed := pushed t @ [''/dashboard'']\<rparr>))))))))
       (setLoading False))"

definition useAuth_register :: "'w browser_api \<Rightarrow> string \<Rightarrow> string \<Rightarrow> ('w, 'z, unit) client" where
  "useAuth_register B email password =
     andthen (setLoading True) (finally_do
       (bnd (apiFetch B ''/auth/register'' (json_post (credentials_body email password))) (\<lambda>res.
        if \<not> response_ok res then throw_message (rs_body res) ''Registration failed''
        else useAuth_login B email password))
       (setLoading False))"

definition useAuth_logout :: "'w browser_api \<Rightarrow> ('w, 'z, unit) client" where
  "useAuth_logout B =
     andthen (setLoading True) (finally_do
       (catch (bnd (apiFetch B ''/auth/logout'' \<lparr>fo_method = Some ''POST'', fo_headers = [], fo_body = None\<rparr>) (\<lambda>_. ret ()))
         (\<lambda>_. ret ()))
       (andthen (setAccessToken None)
       (andthen (setRefreshToken None)
       (modify (\<lambda>t. t\<lparr>isAuthenticated := False, userEmail := None,
          localStorage := map_delete ''userEmail'' (localStorage t), isLoading := False,
          pushed := pushed t @ [''/login'']\<rparr>)))))"

end
