(* ===== verification/HttpSafety.thy ===== *)
theory HttpSafety
  imports Http AuthRuns
begin

text \<open>What every answer of the server has in common: errors, the envelope, the guard, the log.\<close>

subsection \<open>Answers\<close>

text \<open>The status and message of an error, as the client is to see it.\<close>

fun answer_of :: "exn \<Rightarrow> nat \<times> string" where
  "answer_of (BadRequestException m) = (400, m)"
| "answer_of (UnauthorizedException m) = (401, m)"
| "answer_of (ForbiddenException m) = (403, m)"
| "answer_of (NotFoundException m) = (404, m)"
| "answer_of (ConflictException m) = (409, m)"
| "answer_of _ = (500, Msg_UNEXPECTED_ERROR)"

definition error_body :: "nat \<Rightarrow> string \<Rightarrow> string \<Rightarrow> string \<Rightarrow> jval" where
  "error_body status message time url = VObj [(''statusCode'', VNum (int status)), (''message'', VStr message),
     (''timestamp'', VStr time), (''path'', VStr url)]"

lemma filter_answer: "GlobalExceptionFilter_catch time url (thrown_of e) =
   \<lparr>rs_status = fst (answer_of e), rs_body = error_body (fst (answer_of e)) (snd (answer_of e)) time url, rs_cookies = []\<rparr>"
  by (cases e) (simp_all add: GlobalExceptionFilter_catch_def nest_exception_def error_body_def)

lemma serve_cases:
  "serve E others req d = (case route E others req d of
     (Inl e, d') \<Rightarrow> (\<lparr>rs_status = fst (answer_of e), rs_body = error_body (fst (answer_of e)) (snd (answer_of e)) (timestamp E) (hr_path req),
        rs_cookies = []\<rparr>, d')
   | (Inr (status, v, cookies), d') \<Rightarrow>
       (\<lparr>rs_status = status, rs_body = ResponseInterceptor_intercept v, rs_cookies = cookies\<rparr>, d'))"
  by (auto simp: serve_def filter_answer split: sum.splits prod.splits)

text \<open>
  C25. Errors. The filter answers every exception with the status it has, and with its message if
  that status is below 500. Two exceptions with one status of 500 or more are answered alike, whatever
  response, message or error of the database or of the runtime they carry: the body holds that status, one fixed message,
  the time and the path. So is every request that a handler fails with what is not an HTTP exception.
\<close>

theorem errors_hide_internals:
  "(500 \<le> status_of x \<and> status_of y = status_of x \<longrightarrow>
      GlobalExceptionFilter_catch time url x = GlobalExceptionFilter_catch time url y \<and>
      rs_body (GlobalExceptionFilter_catch time url x) = error_body (status_of x) Msg_UNEXPECTED_ERROR time url) \<and>
   (route E others req d = (Inl e, d1) \<and> (\<nexists>st body m. thrown_of e = HttpException st body m) \<longrightarrow>
      fst (serve E others req d) = \<lparr>rs_status = 500,
        rs_body = error_body 500 Msg_UNEXPECTED_ERROR (timestamp E) (hr_path req), rs_cookies = []\<rparr>) \<and>
   (status < 500 \<longrightarrow>
      rs_body (GlobalExceptionFilter_catch time url (nest_exception status name m)) = error_body status m time url)"
proof -
  have "answer_of e = (500, Msg_UNEXPECTED_ERROR)" if "\<nexists>st body m. thrown_of e = HttpException st body m"
    using that by (cases e) (simp_all add: nest_exception_def)
  then show ?thesis by (auto simp: serve_cases GlobalExceptionFilter_catch_def error_body_def nest_exception_def Let_def)
qed

subsection \<open>The guard\<close>

definition public_route :: "http_request \<Rightarrow> bool" where
  "public_route req \<longleftrightarrow> at req ''POST'' [''auth'', ''register''] \<or> at req ''POST'' [''auth'', ''login''] \<or>
     at req ''POST'' [''auth'', ''refresh''] \<or> at req ''GET'' [''health'']"

text \<open>The routes behind the guard.\<close>

definition protected_route :: "'z controllers \<Rightarrow> http_request \<Rightarrow> bool" where
  "protected_route others req \<longleftrightarrow> \<not> public_route req \<and>
     (at req ''POST'' [''auth'', ''logout''] \<or> at req ''DELETE'' [''auth'', ''sessions''] \<or> others req \<noteq> None)"

definition caller_of :: "'e http_env_scheme \<Rightarrow> http_request \<Rightarrow> 'z db_scheme \<Rightarrow> JwtPayload option" where
  "caller_of E req d = (case Option.bind (hr_authorization req) (verify_bearer E) of
     None \<Rightarrow> None
   | Some p \<Rightarrow> if list_ex (\<lambda>s. s_id s = jwt_sid p \<and> session_active E s) (sessions d) then Some p else None)"

lemma find_None_list_ex: "find P xs = None \<longleftrightarrow> \<not> list_ex P xs"
  by (induction xs) auto

lemma guarded_apply:
  "guarded E req h d = (case caller_of E req d of
     Some p \<Rightarrow> h p d
   | None \<Rightarrow> (Inl (UnauthorizedException Msg_AUTH_REQUIRED),
       if Option.bind (hr_authorization req) (verify_bearer E) = None then d
       else d\<lparr>log_lines := log_lines d @ [(WARN, SESSION_INVALID), (WARN, SESSION_INVALID)]\<rparr>))"
  by (auto simp: guarded_def caller_of_def JwtAuthGuard_canActivate_def JwtStrategy_validate_def op_simps
      find_None_list_ex split: option.splits)

lemma route_protected:
  "protected_route others req \<Longrightarrow> \<exists>h. route E others req = guarded E req h"
  by (auto simp: route_def protected_route_def public_route_def Let_def)

lemma route_unknown:
  "\<not> public_route req \<Longrightarrow> \<not> protected_route others req \<Longrightarrow> route E others req = raise (not_routed req)"
  by (auto simp: route_def protected_route_def public_route_def Let_def split: option.splits)

lemma protected_no_session:
  assumes "protected_route others req" "caller_of E req d = None"
  shows "rs_status (fst (serve E others req d)) = 401 \<and>
    (\<exists>lines. snd (serve E others req d) = d\<lparr>log_lines := log_lines d @ lines\<rparr>)"
proof -
  obtain h where "route E others req = guarded E req h" using route_protected [OF assms(1)] by blast
  then have route: "\<exists>lines. route E others req d = (Inl (UnauthorizedException Msg_AUTH_REQUIRED), d\<lparr>log_lines := log_lines d @ lines\<rparr>)"
    using assms(2) by (auto simp: guarded_apply intro: exI [of _ "[]"])
  then show ?thesis by (auto simp: serve_cases)
qed

text \<open>
  C26. Sessions. A request that is not for a public route is served only to the bearer of a
  token of a session that is active; otherwise nothing but the log changes, and the answer is
  401, or 404 where there is no such route.
\<close>

theorem protected_routes_need_session:
  assumes "\<not> public_route req" "caller_of E req d = None"
  shows "rs_status (fst (serve E others req d)) = (if protected_route others req then 401 else 404) \<and>
    (\<exists>lines. snd (serve E others req d) = d\<lparr>log_lines := log_lines d @ lines\<rparr>)"
proof (cases "protected_route others req")
  case True
  with protected_no_session [OF True assms(2)] show ?thesis by simp
next
  case False
  then show ?thesis
    by (auto simp: serve_cases route_unknown [OF assms(1) False] raise_apply not_routed_def intro: exI [of _ "[]"])
qed

subsection \<open>The envelope\<close>

definition enveloped :: "jval \<Rightarrow> bool" where
  "enveloped v \<longleftrightarrow> v = VNull \<or> (\<exists>x. v = VObj [(''success'', VBool True), (''data'', x)])"

lemma intercept_enveloped [simp]: "enveloped (ResponseInterceptor_intercept v)"
  by (simp add: ResponseInterceptor_intercept_def enveloped_def)

lemma answer_status: "400 \<le> fst (answer_of e)"
  by (cases e) simp_all

lemma serve_enveloped: "rs_status (fst (serve E others req d)) < 400 \<Longrightarrow> enveloped (rs_body (fst (serve E others req d)))"
  using answer_status by (auto simp: serve_cases not_less [symmetric] split: prod.splits sum.splits)

subsection \<open>The log\<close>

lemma split_two: "split_on c s = [p, q] \<Longrightarrow> s = p @ c # q"
proof (induction s arbitrary: p)
  case (Cons x s)
  show ?case
  proof (cases "x = c")
    case True
    then have "p = []" "split_on c s = [q]" using Cons.prems by simp_all
    moreover from this(2) have "s = q"
    proof (induction s arbitrary: q)
      case (Cons y s)
      then show ?case by (cases "y = c"; cases "split_on c s") auto
    qed simp
    ultimately show ?thesis using True by simp
  next
    case False
    with Cons.prems obtain p' where "split_on c s = [p', q]" "p = x # p'" by (cases "split_on c s") auto
    with Cons.IH show ?thesis by simp
  qed
qed simp

text \<open>
  Redaction. In production the logger writes of an e-mail address its domain at most:
  an entry has no \<open>email\<close>, an empty one, three stars, or three stars in the place of everything
  before the only \<open>@\<close>.
\<close>

theorem log_keeps_domain_only:
  assumes "AppLogger_build True time ctx level event meta = Inr payload"
  shows "map_of payload ''email'' = None \<or> (\<exists>v. map_of payload ''email'' = Some v \<and> \<not> js_truthy v) \<or>
    map_of payload ''email'' = Some (VStr ''***'') \<or>
    (\<exists>local domain. map_of payload ''email'' = Some (VStr (''***@'' @ domain)) \<and> CHR ''@'' \<notin> set local \<and>
      map_of (spread meta [(''level'', VStr level), (''event'', VStr event), (''timestamp'', VStr time), (''context'', VStr ctx)])
        ''email'' = Some (VStr (local @ ''@'' @ domain)))"
proof -
  let ?p = "spread meta [(''level'', VStr level), (''event'', VStr event), (''timestamp'', VStr time), (''context'', VStr ctx)]"
  show ?thesis
  proof (cases "map_of ?p ''email''")
    case (Some v)
    show ?thesis
    proof (cases "js_truthy v")
      case True
      with assms Some obtain s where s: "v = VStr s" "payload = map_set ''email'' (VStr (redact_email s)) ?p"
        by (cases v) (auto simp: AppLogger_build_def Let_def)
      show ?thesis
      proof (cases "length (split_on CHR ''@'' s) = 2")
        case two: True
        then obtain p q where pq: "split_on CHR ''@'' s = [p, q]" by (auto simp: length_Suc_conv numeral_2_eq_2)
        have "s = p @ CHR ''@'' # q" by (rule split_two [OF pq])
        moreover have "CHR ''@'' \<notin> set p" using split_on_parts [of p "CHR ''@''" s] pq by simp
        ultimately show ?thesis using Some s pq by (simp add: redact_email_def)
      qed (simp add: s redact_email_def)
    qed (use assms Some in \<open>simp add: AppLogger_build_def Let_def\<close>)
  qed (use assms in \<open>simp add: AppLogger_build_def Let_def\<close>)
qed

end
