(* ===== verification/ClientSafety.thy ===== *)
theory ClientSafety
  imports ApiClient HttpSafety AuthLogin
begin

text \<open>
  The client against the server: what \<open>apiFetch\<close> may do at all, what the silent refresh does to a
  tab over every server with the envelope of \<open>ResponseInterceptor\<close>, and the two ends together.
\<close>

subsection \<open>The tab\<close>

lemma setAccessToken_apply [op_simps]:
  "setAccessToken a t = (Inr (), t\<lparr>accessTokenVar := a, localStorage :=
     (if truthy a then map_set ''accessToken'' (the a) (localStorage t) else map_delete ''accessToken'' (localStorage t))\<rparr>)"
  by (simp add: setAccessToken_def store_item_def op_simps)

lemma setRefreshToken_apply [op_simps]:
  "setRefreshToken r t = (Inr (), t\<lparr>localStorage :=
     (if truthy r then map_set ''refreshToken'' (the r) (localStorage t) else map_delete ''refreshToken'' (localStorage t))\<rparr>)"
  by (simp add: setRefreshToken_def store_item_def op_simps)

lemma truthy_simps [simp]: "\<not> truthy None" "truthy (Some s) \<longleftrightarrow> s \<noteq> []"
  by (simp_all add: truthy_def)

definition without_tokens :: "('w, 'z) tab_scheme \<Rightarrow> ('w, 'z) tab_scheme" where
  "without_tokens t = t\<lparr>accessTokenVar := None,
     localStorage := map_delete ''refreshToken'' (map_delete ''accessToken'' (localStorage t))\<rparr>"

lemma drop_tokens_apply [op_simps]: "drop_tokens t = (Inr (), without_tokens t)"
  by (simp add: drop_tokens_def op_simps without_tokens_def)

lemma without_tokens_simps [simp]:
  "getAccessToken (without_tokens t) = None" "getRefreshToken (without_tokens t) = None"
  "net (without_tokens t) = net t" "isAuthenticated (without_tokens t) = isAuthenticated t"
  "pushed (without_tokens t) = pushed t" "isLoading (without_tokens t) = isLoading t"
  by (simp_all add: without_tokens_def getAccessToken_def getRefreshToken_def)

lemma piped_apply [op_simps]: "piped r h s = (case r of Inl e \<Rightarrow> (Inl e, s) | Inr x \<Rightarrow> h x s)"
  by (simp add: piped_def op_simps split: sum.splits)

lemma finally_apply [op_simps]: "finally_do m f s = (case m s of (r, s') \<Rightarrow> (case f s' of (Inl e, s'') \<Rightarrow> (Inl e, s'') | (Inr _, s'') \<Rightarrow> (r, s'')))"
  by (simp add: finally_do_def)

subsection \<open>How often a call asks\<close>

text \<open>The same network, counting.\<close>

definition counting :: "'w browser_api \<Rightarrow> ('w \<times> nat) browser_api" where
  "counting B = \<lparr>fetch = (\<lambda>req (w, n). case fetch B req w of (r, w') \<Rightarrow> (r, (w', Suc n))),
     document_cookie = (\<lambda>(w, n). document_cookie B w)\<rparr>"

abbreviation made :: "('w \<times> nat, 'z) tab_scheme \<Rightarrow> nat" where
  "made t \<equiv> snd (net t)"

lemma asks_once: "ask (counting B) req t = (r, t') \<Longrightarrow> made t' = Suc (made t)"
  by (cases "net t") (auto simp: ask_def counting_def split: prod.splits)

lemma refresh_asks: "refreshAuthToken (counting B) t = (r, t') \<Longrightarrow> made t' \<le> Suc (made t)"
  by (auto simp: refreshAuthToken_def op_simps split: prod.splits sum.splits if_splits dest: asks_once)

text \<open>
  One retry. Whatever the server answers, a call of \<open>apiFetch\<close> makes at most three requests
  (the call, one refresh, one retry), and a call of the login or refresh endpoint exactly one.
\<close>

theorem apiFetch_asks_at_most_thrice:
  "made (snd (apiFetch (counting B) endpoint opts t)) \<le> made t + 3 \<and>
   (endpoint = ''/auth/login'' \<or> endpoint = ''/auth/refresh'' \<longrightarrow>
     made (snd (apiFetch (counting B) endpoint opts t)) = made t + 1)"
proof -
  obtain r1 t1 where 1: "ask (counting B) (api_request (counting B) endpoint opts t) t = (r1, t1)" by fastforce
  obtain r2 t2 where 2: "refreshAuthToken (counting B) t1 = (r2, t2)" by fastforce
  have "made (snd (ask (counting B) req t2)) = Suc (made t2)" for req
    using asks_once by (metis prod.collapse)
  then show ?thesis
    using asks_once [OF 1] refresh_asks [OF 2]
    by (auto simp: apiFetch_def op_simps 1 2 handleUnauthorized_def split: sum.splits)
qed

subsection \<open>The silent refresh\<close>

locale enveloped_api =
  fixes B :: "'w browser_api"
  assumes envelope: "fetch B req w = (Inr r, w') \<Longrightarrow> response_ok r \<Longrightarrow> enveloped (rs_body r)"
begin

lemma refresh_without_token: "\<not> truthy (getRefreshToken t) \<Longrightarrow> refreshAuthToken B t = (Inr False, t)"
  by (simp add: refreshAuthToken_def op_simps)

text \<open>
  The answer is \<open>{success, data}\<close>; the client reads \<open>accessToken\<close> beside \<open>data\<close>, finds nothing
  and stores it.
\<close>

lemma refresh_drops_tokens:
  assumes "getRefreshToken t = Some raw" "raw \<noteq> []" and "fetch B (refresh_request raw) (net t) = (res, w)"
  shows "refreshAuthToken B t = (Inr (case res of Inl _ \<Rightarrow> False | Inr r \<Rightarrow> response_ok r \<and> rs_body r \<noteq> VNull),
    without_tokens (t\<lparr>net := w\<rparr>))"
proof (cases res)
  case (Inl e)
  with assms show ?thesis by (simp add: refreshAuthToken_def ask_def op_simps)
next
  case (Inr r)
  show ?thesis
  proof (cases "response_ok r")
    case True
    with envelope assms(3) Inr have "enveloped (rs_body r)" by blast
    with assms Inr True show ?thesis
      by (auto simp: enveloped_def refreshAuthToken_def ask_def op_simps without_tokens_def)
  qed (use assms Inr in \<open>simp add: refreshAuthToken_def ask_def op_simps\<close>)
qed

end

subsection \<open>The server as the network\<close>

text \<open>
  A request of the tab as it arrives: under the prefix of \<open>main.ts\<close>, with the headers the network
  adds (\<open>base\<close>) and, where the tab sends credentials, its cookies.
\<close>

definition received :: "http_request \<Rightarrow> fetch_request \<Rightarrow> http_request" where
  "received base req = base\<lparr>hr_method := rq_method req, hr_path := ''/api/v1'' @ rq_path req,
     hr_authorization := map_of (rq_headers req) ''authorization'',
     hr_cookies := (if rq_credentials req then hr_cookies base else []),
     hr_body := (case rq_body req of None \<Rightarrow> VObj [] | Some b \<Rightarrow> b)\<rparr>"

definition api_of ::
    "'e http_env_scheme \<Rightarrow> 'z controllers \<Rightarrow> http_request \<Rightarrow>
     ('z db_scheme \<Rightarrow> string) \<Rightarrow> 'z db_scheme browser_api" where
  "api_of E others base cookies = \<lparr>fetch = (\<lambda>req d. case serve E others (received base req) d of (r, d') \<Rightarrow> (Inr r, d')),
     document_cookie = cookies\<rparr>"

lemma fetch_api: "fetch (api_of E others base cookies) req d =
    (Inr (fst (serve E others (received base req) d)), snd (serve E others (received base req) d))"
  by (simp add: api_of_def split: prod.splits)

interpretation server: enveloped_api "api_of E others base cookies" for E others base cookies
proof (unfold_locales, goal_cases)
  case (1 req w r w')
  then have r: "r = fst (serve E others (received base req) w)" by (simp add: fetch_api)
  with 1(2) have "rs_status (fst (serve E others (received base req) w)) < 400" by (simp add: response_ok_def)
  then show ?case unfolding r by (rule serve_enveloped)
qed

lemma api_segments:
  "segments (''/api/v1'' @ ''/auth/login'') = [[], ''api'', ''v1'', ''auth'', ''login'']"
  "segments (''/api/v1'' @ ''/auth/refresh'') = [[], ''api'', ''v1'', ''auth'', ''refresh'']"
  "segments (''/api/v1'' @ ''/auth/logout'') = [[], ''api'', ''v1'', ''auth'', ''logout'']"
  by code_simp+

lemma lower_segments [simp]:
  "toLowerCase [] = []" "toLowerCase ''api'' = ''api''" "toLowerCase ''v1'' = ''v1''" "toLowerCase ''auth'' = ''auth''"
  "toLowerCase ''login'' = ''login''" "toLowerCase ''refresh'' = ''refresh''" "toLowerCase ''logout'' = ''logout''"
  by code_simp+

lemmas at_paths = at_def api_segments [simplified]

lemma refresh_route: "route E others (received base (refresh_request raw)) =
    AuthController_refresh_reply E (is_production E) (received base (refresh_request raw))"
  by (simp add: route_def received_def refresh_request_def at_paths)

lemma refresh_served:
  assumes "AuthService_refresh E raw d = (Inr tokens, d')" "raw \<noteq> []"
  shows "serve E others (received base (refresh_request raw)) d =
    (\<lparr>rs_status = 200, rs_body = ResponseInterceptor_intercept (token_body tokens),
       rs_cookies = attachCookies (is_production E) tokens\<rparr>, d')"
proof -
  have "AuthController_refresh_reply E (is_production E) (received base (refresh_request raw)) d =
      (Inr (200, token_body tokens, attachCookies (is_production E) tokens), d')"
    using assms by (simp add: AuthController_refresh_reply_def AuthController_refresh_def body_token_def received_def
        refresh_request_def op_simps)
  then show ?thesis unfolding serve_def refresh_route by simp
qed

text \<open>A refresh the server grants: the tab believes it, and has no token any more.\<close>

lemma granted_refresh:
  assumes "getRefreshToken t = Some raw" "raw \<noteq> []" and "AuthService_refresh E raw (net t) = (Inr tokens, d')"
  shows "refreshAuthToken (api_of E others base cookies) t = (Inr True, without_tokens (t\<lparr>net := d'\<rparr>))"
proof -
  have "fetch (api_of E others base cookies) (refresh_request raw) (net t) = (Inr \<lparr>rs_status = 200,
      rs_body = ResponseInterceptor_intercept (token_body tokens), rs_cookies = attachCookies (is_production E) tokens\<rparr>, d')"
    by (simp add: fetch_api refresh_served [OF assms(3,2)])
  from server.refresh_drops_tokens [OF assms(1,2) this] show ?thesis
    by (simp add: response_ok_def ResponseInterceptor_intercept_def token_body_def)
qed

lemma anonymous_request:
  assumes "getAccessToken t = None" "map_of (fo_headers opts) ''authorization'' = None"
  shows "hr_authorization (received base (api_request B endpoint opts t)) = None"
    and "hr_method (received base (api_request B endpoint opts t)) = (case fo_method opts of None \<Rightarrow> ''GET'' | Some m \<Rightarrow> m)"
    and "hr_path (received base (api_request B endpoint opts t)) = ''/api/v1'' @ endpoint"
  using assms by (simp_all add: received_def api_request_def Let_def)

text \<open>An endpoint the server keeps behind its guard.\<close>

definition guarded_endpoint :: "'z controllers \<Rightarrow> string option \<Rightarrow> string \<Rightarrow> bool" where
  "guarded_endpoint others method endpoint \<longleftrightarrow>
     (\<forall>req. hr_method req = (case method of None \<Rightarrow> ''GET'' | Some m \<Rightarrow> m) \<longrightarrow> hr_path req = ''/api/v1'' @ endpoint \<longrightarrow>
        protected_route others req)"

text \<open>
  C27. Reloading ends a login. When the page is loaded with a refresh token that the server
  grants, the tab is authenticated, but holds neither token: the server's answer has them under
  \<open>data\<close>, and the client looks beside it. The granted token is spent. So the next request of any
  endpoint that needs a session is answered with 401, and the user is sent to the login page.
\<close>

theorem reload_ends_login:
  fixes t :: "'z db_scheme tab"
  assumes raw: "getRefreshToken t = Some raw" "raw \<noteq> []" and granted: "AuthService_refresh E raw (net t) = (Inr tokens, d')"
    and endpoint: "guarded_endpoint others (fo_method opts) endpoint" "endpoint \<notin> {''/auth/login'', ''/auth/refresh''}"
      "map_of (fo_headers opts) ''authorization'' = None"
  shows "let (r, t1) = initAuth (api_of E others base cookies) True t;
      (r', t2) = apiFetch (api_of E' others base cookies) endpoint opts t1
    in r = Inr () \<and> isAuthenticated t1 \<and> getAccessToken t1 = None \<and> getRefreshToken t1 = None \<and> net t1 = d' \<and>
      (\<exists>res. r' = Inr res \<and> rs_status res = 401) \<and> \<not> isAuthenticated t2 \<and> pushed t2 = pushed t @ [''/login'']"
proof -
  let ?B = "api_of E' others base cookies"
  let ?t1 = "(without_tokens (t\<lparr>net := d'\<rparr>))\<lparr>isAuthenticated := True,
    userEmail := map_of (localStorage (without_tokens (t\<lparr>net := d'\<rparr>))) ''userEmail'', isLoading := False\<rparr>"
  have 1: "initAuth (api_of E others base cookies) True t = (Inr (), ?t1)"
    by (simp add: initAuth_def bnd_apply modify_apply granted_refresh [OF raw granted])
  have none: "getAccessToken ?t1 = None" "getRefreshToken ?t1 = None" "net ?t1 = d'"
    by (simp_all add: getAccessToken_def getRefreshToken_def without_tokens_def)
  let ?req = "received base (api_request ?B endpoint opts ?t1)"
  note req = anonymous_request [OF none(1) endpoint(3), of base ?B endpoint]
  have "caller_of E' ?req d' = None" using req(1) by (simp add: caller_of_def)
  have "protected_route others ?req" using endpoint(1) req(2,3) by (simp add: guarded_endpoint_def)
  from protected_no_session [OF this \<open>caller_of E' ?req d' = None\<close>]
  obtain r lines where served: "serve E' others ?req d' = (r, d'\<lparr>log_lines := log_lines d' @ lines\<rparr>)" "rs_status r = 401"
    by (metis prod.collapse)
  have asked: "ask ?B (api_request ?B endpoint opts ?t1) ?t1 = (Inr r, ?t1\<lparr>net := d'\<lparr>log_lines := log_lines d' @ lines\<rparr>\<rparr>)"
    using served(1) by (simp add: ask_def fetch_api)
  have "\<not> truthy (getRefreshToken (?t1\<lparr>net := d'\<lparr>log_lines := log_lines d' @ lines\<rparr>\<rparr>))"
    by (simp add: getRefreshToken_def without_tokens_def)
  from server.refresh_without_token [OF this, of E' others base cookies]
  have "apiFetch ?B endpoint opts ?t1 = (Inr r, ?t1\<lparr>net := d'\<lparr>log_lines := log_lines d' @ lines\<rparr>,
      isAuthenticated := False, pushed := pushed t @ [''/login'']\<rparr>)"
    using endpoint(2) served(2) asked
    by (simp add: apiFetch_def bnd_apply gets_apply handleUnauthorized_def andthen_apply modify_apply ret_apply without_tokens_def)
  then show ?thesis unfolding 1 Let_def prod.case using none served(2) by (simp add: without_tokens_def)
qed

subsection \<open>Logging in\<close>

text \<open>
  C28. A login is good for the next request. When the server grants the login, the tab keeps the
  tokens it was issued, goes to the dashboard, and its next request of any endpoint carries the
  access token: the server takes it as coming from the user and session the token names,
  as long as that session is active.
\<close>

theorem login_then_request:
  fixes t :: "'z db_scheme tab"
  assumes "login_pipe E (credentials_body email password) = Inr dto"
    and "AuthService_login E dto (resolveClientIp (hr_forwarded base) (hr_address base))
      (case hr_agent base of Some a \<Rightarrow> a | None \<Rightarrow> ''unknown'') (net t) = (Inr tokens, d')"
    and "accessToken tokens \<noteq> []" "refreshToken tokens \<noteq> []"
    and later: "verify_bearer E' (''Bearer '' @ accessToken tokens) = Some p"
      "list_ex (\<lambda>s. s_id s = jwt_sid p \<and> session_active E' s) (sessions d')"
  shows "let (r, t1) = useAuth_login (api_of E others base cookies) email password t
    in r = Inr () \<and> isAuthenticated t1 \<and> \<not> isLoading t1 \<and> net t1 = d' \<and> pushed t1 = pushed t @ [''/dashboard''] \<and>
      getAccessToken t1 = Some (accessToken tokens) \<and> getRefreshToken t1 = Some (refreshToken tokens) \<and>
      caller_of E' (received base (api_request (api_of E' others base cookies) endpoint opts t1)) (net t1) = Some p"
proof -
  let ?B = "api_of E others base cookies" and ?opts = "json_post (credentials_body email password)"
  let ?t0 = "t\<lparr>isLoading := True\<rparr>"
  let ?req = "received base (api_request ?B ''/auth/login'' ?opts ?t0)"
  have "route E others ?req = piped (login_pipe E (hr_body ?req)) (\<lambda>dto. AuthController_login E (is_production E) dto ?req)"
    by (simp add: route_def received_def api_request_def json_post_def at_paths Let_def)
  then have route: "route E others ?req d = piped (login_pipe E (hr_body ?req)) (\<lambda>dto. AuthController_login E (is_production E) dto ?req) d" for d
    by simp
  have body: "hr_body ?req = credentials_body email password" "hr_forwarded ?req = hr_forwarded base"
    "hr_address ?req = hr_address base" "hr_agent ?req = hr_agent base"
    by (simp_all add: received_def api_request_def json_post_def Let_def)
  have "serve E others ?req (net t) = (\<lparr>rs_status = 200, rs_body = ResponseInterceptor_intercept (token_body tokens),
      rs_cookies = attachCookies (is_production E) tokens\<rparr>, d')"
    unfolding serve_def route piped_apply body
    using assms(1,2) by (simp add: AuthController_login_def body bnd_apply ret_apply)
  then have asked: "ask ?B (api_request ?B ''/auth/login'' ?opts ?t0) ?t0 = (Inr \<lparr>rs_status = 200,
      rs_body = ResponseInterceptor_intercept (token_body tokens), rs_cookies = attachCookies (is_production E) tokens\<rparr>,
      ?t0\<lparr>net := d'\<rparr>)"
    by (simp add: ask_def fetch_api)
  define t1 where "t1 = t\<lparr>net := d', accessTokenVar := Some (accessToken tokens), localStorage := map_set ''userEmail'' email
      (map_set ''refreshToken'' (refreshToken tokens) (map_set ''accessToken'' (accessToken tokens) (localStorage t))),
    isAuthenticated := True, isLoading := False, userEmail := Some email, pushed := pushed t @ [''/dashboard'']\<rparr>"
  have fetched: "apiFetch ?B ''/auth/login'' ?opts ?t0 = (Inr \<lparr>rs_status = 200,
      rs_body = ResponseInterceptor_intercept (token_body tokens), rs_cookies = attachCookies (is_production E) tokens\<rparr>,
      ?t0\<lparr>net := d'\<rparr>)"
    by (simp add: apiFetch_def bnd_apply gets_apply asked ret_apply)
  have login: "useAuth_login ?B email password t = (Inr (), t1)"
    using assms(3,4)
    by (simp add: useAuth_login_def setLoading_def andthen_apply modify_apply finally_apply bnd_apply fetched response_ok_def
        ResponseInterceptor_intercept_def token_body_def piped_apply ret_apply op_simps t1_def)
  have token: "getAccessToken t1 = Some (accessToken tokens)" "getRefreshToken t1 = Some (refreshToken tokens)"
    using assms(3) by (simp_all add: t1_def getAccessToken_def getRefreshToken_def)
  have "hr_authorization (received base (api_request (api_of E' others base cookies) endpoint opts t1)) =
      Some (''Bearer '' @ accessToken tokens)"
    using token(1) assms(3) by (simp add: received_def api_request_def Let_def)
  then have "caller_of E' (received base (api_request (api_of E' others base cookies) endpoint opts t1)) d' = Some p"
    using later by (simp add: caller_of_def)
  with login token show ?thesis by (simp add: t1_def)
qed

subsection \<open>Logging out\<close>

lemma refresh_keeps_sessions:
  assumes "AuthService_refresh E raw d = (Inr tokens, d')"
  shows "sessions d' = sessions d"
proof -
  have "fst (AuthService_refresh E raw d) = Inr tokens" by (simp add: assms)
  then obtain x t where rot: "RefreshTokenRepository_rotate E raw d = (Inr x, t)" by (rule refresh_success)
  then have same: "sessions t = sessions d" by (cases rule: rotate_cases [of E raw d]) auto
  obtain r u where upsert: "CsrfTokenRepository_upsert E (snd x) t = (r, u)" by fastforce
  have "sessions (snd (CsrfTokenRepository_upsert E (snd x) t)) = sessions t"
    by (simp add: CsrfTokenRepository_upsert_def op_simps Let_def)
  then have "sessions u = sessions t" by (simp add: upsert)
  moreover have "after_rotation E x t = (Inr tokens, d')" using assms refresh_rotate_returns [OF rot] by simp
  ultimately show ?thesis
    using upsert same
    by (cases x; cases r) (auto simp: after_rotation_def op_simps split: option.splits)
qed

text \<open>
  Logging out too late. When the access token has expired but the refresh token is still
  good, \<open>logout\<close> refreshes, loses both tokens, and repeats the request with the bearer
  \<open>null\<close>: the tab is logged out, and the session it wanted to end is still in the table as it was.
\<close>

theorem expired_logout_keeps_session:
  fixes t :: "'z db_scheme tab"
  assumes expired: "getAccessToken t = Some a" "a \<noteq> []" "verify_bearer E (''Bearer '' @ a) = None"
    and bad: "verify_bearer E ''Bearer null'' = None"
    and raw: "getRefreshToken t = Some raw" "raw \<noteq> []" and granted: "AuthService_refresh E raw (net t) = (Inr tokens, d')"
  shows "let (r, t') = useAuth_logout (api_of E others base cookies) t
    in r = Inr () \<and> \<not> isAuthenticated t' \<and> getAccessToken t' = None \<and> getRefreshToken t' = None \<and>
      pushed t' = pushed t @ [''/login''] \<and> sessions (net t') = sessions (net t)"
proof -
  let ?B = "api_of E others base cookies" and ?opts = "\<lparr>fo_method = Some ''POST'', fo_headers = [], fo_body = None\<rparr>"
  let ?t0 = "t\<lparr>isLoading := True\<rparr>" and ?t2 = "without_tokens (t\<lparr>isLoading := True, net := d'\<rparr>)"
  let ?req = "api_request ?B ''/auth/logout'' ?opts ?t0"
  have served: "serve E others (received base q) d = (\<lparr>rs_status = 401, rs_body = error_body 401 Msg_AUTH_REQUIRED (timestamp E) ''/api/v1/auth/logout'',
      rs_cookies = []\<rparr>, d)"
    if "rq_path q = ''/auth/logout''" "rq_method q = ''POST''" "Option.bind (map_of (rq_headers q) ''authorization'') (verify_bearer E) = None" for q d
  proof -
    let ?r = "received base q"
    have path: "hr_path ?r = ''/api/v1'' @ ''/auth/logout''" and post: "hr_method ?r = ''POST''" and none: "Option.bind (hr_authorization ?r) (verify_bearer E) = None"
      using that by (simp_all add: received_def)
    have "protected_route others ?r"
      using path post by (simp add: protected_route_def public_route_def at_paths)
    then obtain h where "route E others ?r = guarded E ?r h" using route_protected by blast
    then have "route E others ?r d = (Inl (UnauthorizedException Msg_AUTH_REQUIRED), d)"
      using none by (simp add: guarded_apply caller_of_def)
    then show ?thesis using path by (simp add: serve_cases)
  qed
  have here: "getAccessToken ?t0 = Some a" using expired(1) by (simp add: getAccessToken_def split: if_splits)
  have req: "rq_path ?req = ''/auth/logout''" "rq_method ?req = ''POST''" "map_of (rq_headers ?req) ''authorization'' = Some (''Bearer '' @ a)"
    using here expired(2) by (simp_all add: api_request_def Let_def)
  have first: "ask ?B ?req ?t0 = (Inr \<lparr>rs_status = 401, rs_body = error_body 401 Msg_AUTH_REQUIRED (timestamp E) ''/api/v1/auth/logout'',
      rs_cookies = []\<rparr>, ?t0)"
    using served [OF req(1,2)] req(3) expired(3) by (simp add: ask_def fetch_api)
  have refresh: "refreshAuthToken ?B ?t0 = (Inr True, ?t2)"
    using granted_refresh [of ?t0 raw E tokens d' others base cookies] raw granted by (simp add: getRefreshToken_def)
  have none: "getAccessToken ?t2 = None" by simp
  have retry: "ask ?B (?req\<lparr>rq_headers := map_set ''authorization'' (bearer None) (rq_headers ?req)\<rparr>) ?t2 =
      (Inr \<lparr>rs_status = 401, rs_body = error_body 401 Msg_AUTH_REQUIRED (timestamp E) ''/api/v1/auth/logout'', rs_cookies = []\<rparr>, ?t2)"
    using served [of "?req\<lparr>rq_headers := map_set ''authorization'' (bearer None) (rq_headers ?req)\<rparr>"] req(1,2) bad
    by (simp add: ask_def fetch_api bearer_def)
  have fetched: "apiFetch ?B ''/auth/logout'' ?opts ?t0 = (Inr \<lparr>rs_status = 401,
      rs_body = error_body 401 Msg_AUTH_REQUIRED (timestamp E) ''/api/v1/auth/logout'', rs_cookies = []\<rparr>, ?t2)"
    by (simp add: apiFetch_def bnd_apply gets_apply first refresh none retry)
  show ?thesis
    by (simp add: useAuth_logout_def setLoading_def andthen_apply modify_apply finally_apply catch_apply bnd_apply fetched
        ret_apply setAccessToken_apply setRefreshToken_apply getAccessToken_def getRefreshToken_def
        refresh_keeps_sessions [OF granted])
qed

end
