(* ===== verification/Rest.thy ===== *)
theory Rest
  imports Http Calls Contacts
begin

text \<open>
  The REST controllers of calls and contacts (\<open>src/calls/calls.controller.ts\<close>,
  \<open>src/contacts/contacts.controller.ts\<close>): their routes, what each reads of the request, and
  the JSON of the rows they answer with.
\<close>

subsection \<open>Rows as JSON\<close>

text \<open>A \<open>Date\<close> is written by its \<open>toISOString\<close>, a parameter.\<close>

fun or_null :: "('a \<Rightarrow> jval) \<Rightarrow> 'a option \<Rightarrow> jval" where
  "or_null f None = VNull"
| "or_null f (Some x) = f x"

fun call_type_name :: "CallType \<Rightarrow> string" where
  "call_type_name Voice = ''voice''"
| "call_type_name Video = ''video''"
| "call_type_name Group = ''group''"

fun call_status_name :: "CallStatus \<Rightarrow> string" where
  "call_status_name Initiated = ''initiated''"
| "call_status_name Active = ''active''"
| "call_status_name Ended = ''ended''"
| "call_status_name Missed = ''missed''"
| "call_status_name Rejected = ''rejected''"

fun role_name :: "ParticipantRole \<Rightarrow> string" where
  "role_name Host = ''host''"
| "role_name Guest = ''guest''"

definition call_json :: "(time \<Rightarrow> string) \<Rightarrow> call_session_row \<Rightarrow> jval" where
  "call_json date r = VObj [(''id'', VStr (cs_id r)), (''initiatorId'', or_null VStr (cs_initiator_id r)),
     (''callType'', VStr (call_type_name (cs_call_type r))), (''status'', VStr (call_status_name (cs_status r))),
     (''isAnonymous'', VBool (cs_is_anonymous r)), (''roomId'', or_null VStr (cs_room_id r)),
     (''startedAt'', VStr (date (cs_started_at r))), (''answeredAt'', or_null (VStr \<circ> date) (cs_answered_at r)),
     (''endedAt'', or_null (VStr \<circ> date) (cs_ended_at r)), (''durationSeconds'', or_null VNum (durationSeconds r))]"

definition participant_json :: "(time \<Rightarrow> string) \<Rightarrow> call_participant_row \<Rightarrow> jval" where
  "participant_json date r = VObj [(''id'', VStr (cp_id r)), (''callSessionId'', VStr (cp_call_session_id r)),
     (''userId'', or_null VStr (cp_user_id r)), (''anonymousId'', or_null VStr (cp_anonymous_id r)),
     (''role'', VStr (role_name (cp_role r))), (''joinedAt'', VStr (date (cp_joined_at r))),
     (''leftAt'', or_null (VStr \<circ> date) (cp_left_at r)), (''micEnabled'', VBool (cp_mic_enabled r)),
     (''cameraEnabled'', VBool (cp_camera_enabled r))]"

definition contact_json :: "(time \<Rightarrow> string) \<Rightarrow> contact_row \<times> string \<Rightarrow> jval" where
  "contact_json date = (\<lambda>(c, email). VObj [(''id'', VStr (c_id c)), (''ownerId'', VStr (c_owner_id c)),
     (''contactUserId'', VStr (c_contact_user_id c)), (''nickname'', or_null VStr (c_nickname c)),
     (''savedAt'', VStr (date (c_saved_at c))), (''contactEmail'', VStr email)])"

subsection \<open>What the framework gives a controller\<close>

text \<open>
  The query of a URL (\<open>req.query\<close>) and \<open>req.ip\<close> as Express reads them, the decoding of a path
  parameter, \<open>ParseIntPipe\<close>, and the validation pipe on the two DTOs of the contacts, which
  give their only field. The ids of two new contacts come from the database.
\<close>

record rest_env = http_env +
  query_param :: "http_request \<Rightarrow> string \<Rightarrow> string option"
  client_ip :: "http_request \<Rightarrow> string option"
  decode_param :: "string \<Rightarrow> exn + string"
  parse_int :: "string \<Rightarrow> exn + int"
  accept_pipe :: "jval \<Rightarrow> exn + string"
  nickname_pipe :: "jval \<Rightarrow> exn + string"
  iso_date :: "time \<Rightarrow> string"
  contact_ids :: "string \<times> string"

definition rest_contacts :: "'e rest_env_scheme \<Rightarrow> contact_env" where
  "rest_contacts E = \<lparr>js_now = js_now E, db_now = db_now E, inet_ok = inet_ok E, uuid_of = uuid_of E,
     new_request_id = [], new_contact_ids = contact_ids E\<rparr>"

text \<open>\<open>@Query(k, new DefaultValuePipe(n), ParseIntPipe)\<close>\<close>

definition int_query :: "'e rest_env_scheme \<Rightarrow> http_request \<Rightarrow> string \<Rightarrow> int \<Rightarrow> exn + int" where
  "int_query E req k n = (case query_param E req k of None \<Rightarrow> Inr n | Some v \<Rightarrow> parse_int E v)"

type_synonym 'z endpoint = "JwtPayload \<Rightarrow> ('z db_scheme, reply) op"

definition json_reply :: "nat \<Rightarrow> ('a \<Rightarrow> jval) \<Rightarrow> ('z db_scheme, 'a) op \<Rightarrow> ('z db_scheme, reply) op" where
  "json_reply status f m = bnd m (\<lambda>x. ret (status, f x, []))"

subsection \<open>\<open>CallsController\<close>\<close>

definition CallsController_getHistory :: "'e rest_env_scheme \<Rightarrow> http_request \<Rightarrow> 'z endpoint" where
  "CallsController_getHistory E req user =
     piped (int_query E req ''limit'' 20) (\<lambda>limit.
     piped (int_query E req ''offset'' 0) (\<lambda>offset.
     json_reply 200 (\<lambda>rows. VArr (map (call_json (iso_date E)) rows)) (CallsService_getCallHistory E (jwt_sub user) limit offset)))"

definition CallsController_getCall :: "'e rest_env_scheme \<Rightarrow> string \<Rightarrow> 'z endpoint" where
  "CallsController_getCall E callId user = json_reply 200 (call_json (iso_date E)) (CallsService_getCallById E callId)"

definition CallsController_getParticipants :: "'e rest_env_scheme \<Rightarrow> string \<Rightarrow> 'z endpoint" where
  "CallsController_getParticipants E callId user =
     json_reply 200 (\<lambda>rows. VArr (map (participant_json (iso_date E)) rows)) (CallsService_getParticipants E callId)"

subsection \<open>\<open>ContactsController\<close>\<close>

definition ContactsController_list :: "'e rest_env_scheme \<Rightarrow> 'z endpoint" where
  "ContactsController_list E user =
     json_reply 200 (\<lambda>rows. VArr (map (contact_json (iso_date E)) rows)) (ContactsService_listContacts E (jwt_sub user))"

definition ContactsController_accept :: "'e rest_env_scheme \<Rightarrow> http_request \<Rightarrow> 'z endpoint" where
  "ContactsController_accept E req user =
     piped (accept_pipe E (hr_body req)) (\<lambda>requestId.
     json_reply 201 (\<lambda>saved. VObj [(''saved'', VBool saved)])
       (ContactsService_acceptContactSave (rest_contacts E) requestId (jwt_sub user) (client_ip E req)))"

definition ContactsController_reject :: "'e rest_env_scheme \<Rightarrow> string \<Rightarrow> 'z endpoint" where
  "ContactsController_reject E requestId user =
     json_reply 201 (\<lambda>_. VUndefined) (ContactsService_rejectContactSave E requestId (jwt_sub user))"

definition ContactsController_updateNickname :: "'e rest_env_scheme \<Rightarrow> http_request \<Rightarrow> string \<Rightarrow> 'z endpoint" where
  "ContactsController_updateNickname E req contactId user =
     piped (nickname_pipe E (hr_body req)) (\<lambda>nickname.
     json_reply 200 (\<lambda>_. VUndefined) (ContactsService_updateNickname E (jwt_sub user) contactId nickname))"

definition ContactsController_remove :: "'e rest_env_scheme \<Rightarrow> string \<Rightarrow> 'z endpoint" where
  "ContactsController_remove E contactId user =
     json_reply 200 (\<lambda>_. VUndefined) (ContactsService_removeContact E (jwt_sub user) contactId)"

subsection \<open>The routes\<close>

definition params :: "http_request \<Rightarrow> string \<Rightarrow> segment list \<Rightarrow> string list option" where
  "params req meth form = (if hr_method req = meth
     then match_path (map Lit [[], ''api'', ''v1''] @ form) (segments (hr_path req)) else None)"

definition with_param :: "'e rest_env_scheme \<Rightarrow> string list option \<Rightarrow> (string \<Rightarrow> 'z endpoint) \<Rightarrow> 'z endpoint option" where
  "with_param E ps h = (case ps of Some [p] \<Rightarrow> Some (\<lambda>user. piped (decode_param E p) (\<lambda>x. h x user)) | _ \<Rightarrow> None)"

text \<open>\<open>history\<close> is declared before \<open>:callId\<close>, so it is not taken for the id of a call.\<close>

definition rest_routes :: "'e rest_env_scheme \<Rightarrow> 'z controllers" where
  "rest_routes E req =
     (if params req ''GET'' [Lit ''calls'', Lit ''history''] = Some [] then Some (CallsController_getHistory E req)
      else or_else (with_param E (params req ''GET'' [Lit ''calls'', Param]) (CallsController_getCall E))
     (or_else (with_param E (params req ''GET'' [Lit ''calls'', Param, Lit ''participants'']) (CallsController_getParticipants E))
     (if params req ''GET'' [Lit ''contacts''] = Some [] then Some (ContactsController_list E)
      else if params req ''POST'' [Lit ''contacts'', Lit ''accept''] = Some [] then Some (ContactsController_accept E req)
      else or_else (with_param E (params req ''POST'' [Lit ''contacts'', Lit ''reject'', Param]) (ContactsController_reject E))
     (or_else (with_param E (params req ''PATCH'' [Lit ''contacts'', Param, Lit ''nickname'']) (ContactsController_updateNickname E req))
     (with_param E (params req ''DELETE'' [Lit ''contacts'', Param]) (ContactsController_remove E))))))"

text \<open>The whole server.\<close>

definition backend :: "'e rest_env_scheme \<Rightarrow> http_request \<Rightarrow> 'z db_scheme \<Rightarrow> response \<times> 'z db_scheme" where
  "backend E = serve E (rest_routes E)"

end
