(* ===== verification/ContactsClient.thy ===== *)
theory ContactsClient
  imports ClientSafety Rest ContactRuns
begin

text \<open>
  \<open>frontend/src/hooks/useContacts.ts\<close>: the contact list of a page and the requests that change
  it. The list is whatever value the server sent.
\<close>

subsection \<open>The hook\<close>

record 'w contacts_tab = "'w tab" +
  contactList :: jval
  contactsLoading :: bool

type_synonym ('w, 'z, 'a) contacts_client = "(('w, 'z) contacts_tab_scheme, 'a) op"

definition send :: "string \<Rightarrow> jval option \<Rightarrow> fetch_options" where
  "send meth body = \<lparr>fo_method = Some meth, fo_headers = [], fo_body = body\<rparr>"

definition no_options :: fetch_options where
  "no_options = \<lparr>fo_method = None, fo_headers = [], fo_body = None\<rparr>"

definition fetchContacts :: "'w browser_api \<Rightarrow> ('w, 'z, unit) contacts_client" where
  "fetchContacts B = finally_do
     (catch (andthen (modify (\<lambda>t. t\<lparr>contactsLoading := True\<rparr>))
        (bnd (apiFetch B ''/contacts'' no_options) (\<lambda>res.
          if response_ok res
          then bnd (piped (field ''data'' (rs_body res)) ret) (\<lambda>d. modify (\<lambda>t. t\<lparr>contactList := d\<rparr>))
          else ret ())))
       (\<lambda>_. ret ()))
     (modify (\<lambda>t. t\<lparr>contactsLoading := False\<rparr>))"

definition useContacts_acceptRequest :: "'w browser_api \<Rightarrow> string \<Rightarrow> ('w, 'z, unit) contacts_client" where
  "useContacts_acceptRequest B requestId =
     bnd (apiFetch B ''/contacts/accept'' (send ''POST'' (Some (VObj [(''requestId'', VStr requestId)])))) (\<lambda>_. fetchContacts B)"

definition useContacts_rejectRequest :: "'w browser_api \<Rightarrow> string \<Rightarrow> ('w, 'z, unit) contacts_client" where
  "useContacts_rejectRequest B requestId =
     bnd (apiFetch B (''/contacts/reject/'' @ requestId) (send ''POST'' None)) (\<lambda>_. ret ())"

definition useContacts_updateNickname :: "'w browser_api \<Rightarrow> string \<Rightarrow> string \<Rightarrow> ('w, 'z, unit) contacts_client" where
  "useContacts_updateNickname B contactId nickname =
     bnd (apiFetch B (''/contacts/'' @ contactId @ ''/nickname'')
            (send ''PATCH'' (Some (VObj [(''nickname'', VStr nickname)])))) (\<lambda>_. fetchContacts B)"

text \<open>\<open>prev.filter((c) => c.id !== contactId)\<close>; what is not an array has no \<open>filter\<close>.\<close>

definition without_contact :: "string \<Rightarrow> jval \<Rightarrow> exn + jval" where
  "without_contact contactId v = (case v of
     VArr vs \<Rightarrow> if list_ex (\<lambda>c. c = VUndefined \<or> c = VNull) vs then Inl (JsError ''TypeError'' None)
       else Inr (VArr (filter (\<lambda>c. field ''id'' c \<noteq> Inr (VStr contactId)) vs))
   | _ \<Rightarrow> Inl (JsError ''TypeError'' None))"

definition useContacts_deleteContact :: "'w browser_api \<Rightarrow> string \<Rightarrow> ('w, 'z, unit) contacts_client" where
  "useContacts_deleteContact B contactId =
     bnd (apiFetch B (''/contacts/'' @ contactId) (send ''DELETE'' None)) (\<lambda>_.
     bnd (gets contactList) (\<lambda>prev.
     piped (without_contact contactId prev) (\<lambda>rest. modify (\<lambda>t. t\<lparr>contactList := rest\<rparr>))))"

subsection \<open>A request of a user who is logged in\<close>

text \<open>The tab's token is one the server accepts, for a session that is active.\<close>

definition signed_in :: "'e http_env_scheme \<Rightarrow> JwtPayload \<Rightarrow> ('z db_scheme, 'x) tab_scheme \<Rightarrow> bool" where
  "signed_in E p t \<longleftrightarrow> (\<exists>a. getAccessToken t = Some a \<and> a \<noteq> [] \<and> verify_bearer E (''Bearer '' @ a) = Some p) \<and>
     list_ex (\<lambda>s. s_id s = jwt_sid p \<and> session_active E s) (sessions (net t))"

lemma signed_in_call:
  assumes "signed_in E p t" and "map_of (fo_headers opts) ''authorization'' = None"
    and "rq = received base (api_request B endpoint opts t)"
    and "\<not> public_route rq" "\<not> at rq ''POST'' [''auth'', ''logout'']" "\<not> at rq ''DELETE'' [''auth'', ''sessions'']"
    and "others rq = Some h"
  shows "route E others rq (net t) = h p (net t)"
proof -
  from assms(1) obtain a where a: "getAccessToken t = Some a" "a \<noteq> []" "verify_bearer E (''Bearer '' @ a) = Some p"
    by (auto simp: signed_in_def)
  have "hr_authorization rq = Some (''Bearer '' @ a)"
    using a(1,2) assms(3) by (simp add: received_def api_request_def Let_def)
  then have "caller_of E rq (net t) = Some p"
    using a(3) assms(1) by (simp add: caller_of_def signed_in_def)
  moreover have "route E others rq = guarded E rq h"
    using assms(4-7) by (simp add: route_def public_route_def)
  ultimately show ?thesis by (simp add: guarded_apply)
qed

text \<open>The answer to a call the server grants, and to one that ends with an error other than 401.\<close>

lemma apiFetch_answers:
  assumes "ask B (api_request B endpoint opts t) t = (Inr r, t')" "rs_status r \<noteq> 401"
  shows "apiFetch B endpoint opts t = (Inr r, t')"
  using assms by (simp add: apiFetch_def op_simps)

lemma apiFetch_granted:
  fixes t :: "('z db_scheme, 'x) tab_scheme"
  assumes "B = api_of E others base cookies"
    and "route E others (received base (api_request B endpoint opts t)) (net t) = (Inr (status, v, acts), d')" "status \<noteq> 401"
  shows "apiFetch B endpoint opts t = (Inr \<lparr>rs_status = status, rs_body = ResponseInterceptor_intercept v, rs_cookies = acts\<rparr>,
    t\<lparr>net := d'\<rparr>)"
  by (rule apiFetch_answers) (use assms in \<open>simp_all add: ask_def fetch_api serve_def\<close>)

lemma apiFetch_failed:
  fixes t :: "('z db_scheme, 'x) tab_scheme"
  assumes "B = api_of E others base cookies"
    and "route E others (received base (api_request B endpoint opts t)) (net t) = (Inl e, d')" "fst (answer_of e) \<noteq> 401"
  shows "\<exists>r. apiFetch B endpoint opts t = (Inr r, t\<lparr>net := d'\<rparr>) \<and> rs_status r = fst (answer_of e)"
proof -
  let ?q = "received base (api_request B endpoint opts t)"
  have "ask B (api_request B endpoint opts t) t = (Inr \<lparr>rs_status = fst (answer_of e),
      rs_body = error_body (fst (answer_of e)) (snd (answer_of e)) (timestamp E) (hr_path ?q), rs_cookies = []\<rparr>, t\<lparr>net := d'\<rparr>)"
    using assms(1,2) by (simp add: ask_def fetch_api serve_cases)
  from apiFetch_answers [OF this] assms(3) show ?thesis by simp
qed

subsection \<open>The list\<close>

lemma contact_segments:
  "segments ''/api/v1/contacts'' = [[], ''api'', ''v1'', ''contacts'']"
  "segments ''/api/v1/contacts/accept'' = [[], ''api'', ''v1'', ''contacts'', ''accept'']"
  by code_simp+

lemma segments_id:
  assumes "CHR ''/'' \<notin> set i" "CHR ''?'' \<notin> set i" "i \<noteq> []"
  shows "segments (''/api/v1/contacts/'' @ i) = [[], ''api'', ''v1'', ''contacts'', i]"
proof -
  have whole: "takeWhile (\<lambda>c. c \<noteq> CHR ''?'') (''/api/v1/contacts/'' @ i) = ''/api/v1/contacts/'' @ i"
    by (rule takeWhile_eq_all_conv [THEN iffD2]) (use assms(2) in auto)
  have "split_on CHR ''/'' (''/api/v1/contacts/'' @ i) = [[], ''api'', ''v1'', ''contacts'', i]"
    using assms(1) by (simp add: split_on_no_sep)
  then show ?thesis using assms(3) unfolding segments_def whole by simp
qed

lemma lower_contacts [simp]: "toLowerCase ''contacts'' = ''contacts''" "toLowerCase ''accept'' = ''accept''"
  by code_simp+

abbreviation backend_api ::
    "'e rest_env_scheme \<Rightarrow> http_request \<Rightarrow> ('z db_scheme \<Rightarrow> string) \<Rightarrow> 'z db_scheme browser_api" where
  "backend_api E base cookies \<equiv> api_of E (rest_routes E) base cookies"

text \<open>The rows of a user's list, latest first, and what the page shows of them.\<close>

definition contact_rows :: "string \<Rightarrow> 'z db_scheme \<Rightarrow> (contact_row \<times> string) list" where
  "contact_rows u d = order_by_desc (\<lambda>(c, _). c_saved_at c)
     (concat (map (\<lambda>c. map (\<lambda>x. (c, u_email x)) (filter (\<lambda>x. u_id x = c_contact_user_id c) (users d)))
        (filter (\<lambda>c. c_owner_id c = u) (contacts d))))"

definition list_of :: "'e rest_env_scheme \<Rightarrow> string \<Rightarrow> 'z db_scheme \<Rightarrow> jval" where
  "list_of E u d = VArr (map (contact_json (iso_date E)) (contact_rows u d))"

lemma list_route:
  fixes t :: "('z db_scheme, 'x) tab_scheme"
  assumes "signed_in E p t" "uuid_of E (jwt_sub p) = Some u"
  shows "route E (rest_routes E) (received base (api_request B ''/contacts'' no_options t)) (net t) =
    (Inr (200, list_of E u (net t), []), net t)"
proof -
  let ?q = "received base (api_request B ''/contacts'' no_options t)"
  have q: "hr_method ?q = ''GET''" "segments (hr_path ?q) = [[], ''api'', ''v1'', ''contacts'']"
    by (simp_all add: received_def api_request_def no_options_def Let_def contact_segments)
  have "route E (rest_routes E) ?q (net t) = ContactsController_list E p (net t)"
    by (rule signed_in_call [OF assms(1) _ refl]) (simp_all add: no_options_def [symmetric] q public_route_def at_def rest_routes_def
        params_def with_param_def or_else_def, simp_all add: no_options_def)
  then show ?thesis
    using assms(2) by (simp add: ContactsController_list_def json_reply_def ContactsService_listContacts_def op_simps
        list_of_def contact_rows_def)
qed

lemma fetch_lists:
  fixes t :: "('z db_scheme, 'x) contacts_tab_scheme"
  assumes "signed_in E p t" "uuid_of E (jwt_sub p) = Some u"
  shows "fetchContacts (backend_api E base cookies) t =
    (Inr (), t\<lparr>contactList := list_of E u (net t), contactsLoading := False\<rparr>)"
proof -
  let ?t = "t\<lparr>contactsLoading := True\<rparr>"
  have "getAccessToken ?t = getAccessToken t" by (simp add: getAccessToken_def)
  then have "signed_in E p ?t" using assms(1) by (simp add: signed_in_def)
  from apiFetch_granted [OF refl list_route [OF this assms(2)]]
  have "apiFetch (backend_api E base cookies) ''/contacts'' no_options ?t =
    (Inr \<lparr>rs_status = 200, rs_body = ResponseInterceptor_intercept (list_of E u (net t)), rs_cookies = []\<rparr>, ?t)"
    by simp
  then show ?thesis
    by (simp add: fetchContacts_def op_simps response_ok_def ResponseInterceptor_intercept_def list_of_def)
qed


subsection \<open>Deleting a contact\<close>

lemma filter_order_by_desc: "filter P (order_by_desc key rows) = order_by_desc key (filter P rows)"
  by (simp add: order_by_desc_def filter_sort)

lemma rows_without:
  assumes "contacts d' = filter (\<lambda>r. \<not> (c_id r = i \<and> c_owner_id r = u)) (contacts d)" "users d' = users d"
  shows "contact_rows u d' = filter (\<lambda>(c, _). c_id c \<noteq> i) (contact_rows u d)"
proof -
  have "filter (\<lambda>(c, _). c_id c \<noteq> i) (concat (map (\<lambda>c. map (\<lambda>x. (c, u_email x)) (f c)) cs)) =
      concat (map (\<lambda>c. map (\<lambda>x. (c, u_email x)) (f c)) (filter (\<lambda>c. c_id c \<noteq> i) cs))"
    for f :: "contact_row \<Rightarrow> user_row list" and cs
    by (induction cs) (auto simp: filter_map comp_def)
  moreover have "filter (\<lambda>c. c_owner_id c = u) (contacts d') = filter (\<lambda>c. c_id c \<noteq> i) (filter (\<lambda>c. c_owner_id c = u) (contacts d))"
    unfolding assms(1) filter_filter by (rule filter_cong) auto
  ultimately show ?thesis by (simp add: contact_rows_def filter_order_by_desc assms(2) del: filter_filter)
qed

lemma list_without: "without_contact i (VArr (map (contact_json date) rows)) =
    Inr (VArr (map (contact_json date) (filter (\<lambda>(c, _). c_id c \<noteq> i) rows)))"
proof -
  have "contact_json date x \<noteq> VUndefined" "contact_json date x \<noteq> VNull"
    "field ''id'' (contact_json date x) = Inr (VStr (c_id (fst x)))" for x
    by (simp_all add: contact_json_def split: prod.splits)
  then show ?thesis
    by (simp add: without_contact_def list_ex_iff filter_map comp_def case_prod_beta')
qed

text \<open>The id of a contact, as a segment of a path.\<close>

definition plain_segment :: "'e rest_env_scheme \<Rightarrow> string \<Rightarrow> bool" where
  "plain_segment E i \<longleftrightarrow> i \<noteq> [] \<and> CHR ''/'' \<notin> set i \<and> CHR ''?'' \<notin> set i \<and> decode_param E i = Inr i"

lemma delete_route:
  fixes t :: "('z db_scheme, 'x) tab_scheme"
  assumes "signed_in E p t" "plain_segment E i"
    and rq: "rq = received base (api_request B (''/contacts/'' @ i) (send ''DELETE'' None) t)"
  shows "route E (rest_routes E) rq (net t) = ContactsController_remove E i p (net t)"
proof -
  have i: "i \<noteq> []" "CHR ''/'' \<notin> set i" "CHR ''?'' \<notin> set i" "decode_param E i = Inr i"
    using assms(2) by (simp_all add: plain_segment_def)
  have q: "hr_method rq = ''DELETE''" "segments (hr_path rq) = [[], ''api'', ''v1'', ''contacts'', i]"
    using segments_id [OF i(2,3,1)] by (simp_all add: rq received_def api_request_def send_def Let_def)
  have "rest_routes E rq = Some (\<lambda>user. piped (decode_param E i) (\<lambda>x. ContactsController_remove E x user))"
    using i(1) by (simp add: rest_routes_def params_def with_param_def or_else_def q)
  then have "route E (rest_routes E) rq (net t) = (\<lambda>user. piped (decode_param E i) (\<lambda>x. ContactsController_remove E x user)) p (net t)"
    by (intro signed_in_call [where others = "rest_routes E", OF assms(1) _ rq])
      (simp_all add: public_route_def at_def q send_def)
  then show ?thesis using i by (simp add: piped_def)
qed

text \<open>
  C29. Deleting. When the page shows the user's contacts and one of them is deleted, the server
  deletes that row and no other, and the list the page makes by itself is the one it would
  get by asking the server again.
\<close>

theorem delete_equals_refetch:
  fixes t :: "'z db_scheme contacts_tab"
  assumes user: "signed_in E p t" "uuid_of E (jwt_sub p) = Some u"
    and contact: "plain_segment E i" "uuid_of E i = Some i"
    and shown: "contactList t = list_of E u (net t)"
  shows "let (r, t1) = useContacts_deleteContact (backend_api E base cookies) i t
    in r = Inr () \<and> net t1 = (net t)\<lparr>contacts := filter (\<lambda>c. \<not> (c_id c = i \<and> c_owner_id c = u)) (contacts (net t))\<rparr> \<and>
      contactList t1 = VArr (map (contact_json (iso_date E)) (filter (\<lambda>(c, _). c_id c \<noteq> i) (contact_rows u (net t)))) \<and>
      fetchContacts (backend_api E base cookies) t1 = (Inr (), t1\<lparr>contactsLoading := False\<rparr>)"
proof -
  let ?B = "backend_api E base cookies"
  let ?d = "(net t)\<lparr>contacts := filter (\<lambda>c. \<not> (c_id c = i \<and> c_owner_id c = u)) (contacts (net t))\<rparr>"
  let ?rows = "filter (\<lambda>(c, _). c_id c \<noteq> i) (contact_rows u (net t))"
  let ?t1 = "t\<lparr>net := ?d, contactList := VArr (map (contact_json (iso_date E)) ?rows)\<rparr>"
  have "ContactsController_remove E i p (net t) = (Inr (200, VUndefined, []), ?d)"
    using user(2) contact(2) by (simp add: ContactsController_remove_def json_reply_def ContactsService_removeContact_def op_simps)
  then have "route E (rest_routes E) (received base (api_request ?B (''/contacts/'' @ i) (send ''DELETE'' None) t)) (net t) =
      (Inr (200, VUndefined, []), ?d)"
    using delete_route [OF user(1) contact(1) refl] by metis
  from apiFetch_granted [OF refl this]
  have deleted: "useContacts_deleteContact ?B i t = (Inr (), ?t1)"
    unfolding useContacts_deleteContact_def
    by (simp add: op_simps shown list_of_def list_without)
  have "getAccessToken ?t1 = getAccessToken t" by (simp add: getAccessToken_def)
  then have "signed_in E p ?t1" using user(1) by (simp add: signed_in_def)
  from fetch_lists [OF this user(2), of base cookies]
  have "fetchContacts ?B ?t1 = (Inr (), ?t1\<lparr>contactList := list_of E u ?d, contactsLoading := False\<rparr>)" by simp
  moreover have "list_of E u ?d = VArr (map (contact_json (iso_date E)) ?rows)"
    using rows_without [of ?d i u "net t"] by (simp add: list_of_def)
  ultimately show ?thesis unfolding deleted by simp
qed


subsection \<open>Accepting a request\<close>

text \<open>A view of the database that the contact tables and the audit log are no part of.\<close>

lemma accept_keeps:
  assumes f: "\<And>d x. f (d\<lparr>contact_save_requests := x\<rparr>) = f d" "\<And>d x. f (d\<lparr>contacts := x\<rparr>) = f d" "\<And>d x. f (d\<lparr>audit_logs := x\<rparr>) = f d"
  shows "moves (same f) (ContactsService_acceptContactSave E i u ip)"
proof -
  have "moves (same f) (insert_contact E k a b)" for k a b
    by (simp add: moves_def same_def insert_contact_def f)
  then have "moves (same f) (insert_both E a b)" for a b
    unfolding insert_both_def by (intro same_view.moves_rules)
  moreover have "moves (same f) (resolve_request E j v st)" for j v st
    by (simp add: moves_def same_def resolve_request_def f)
  moreover have "moves (same f) (AuditService_log E e)" for e by (rule same_AuditService_log) (rule f)
  ultimately show ?thesis
    unfolding ContactsService_acceptContactSave_def
    by (auto intro!: moves_with_uuid same_view.moves_rules simp: same_def split: list.splits)
qed

lemma accept_pending:
  assumes ids: "uuid_of E i = Some j" "uuid_of E u = Some v"
    and keys: "fst (new_contact_ids E) \<noteq> snd (new_contact_ids E)"
      "{fst (new_contact_ids E), snd (new_contact_ids E)} \<inter> c_id ` set (contacts d) = {}"
    and refs: "\<forall>r \<in> set (contact_save_requests d). user_exists (csr_from_user_id r) d \<and> user_exists (csr_to_user_id r) d"
    and r: "r \<in> set (contact_save_requests d)" "is_pending_for j v r"
    and unique: "\<forall>r' \<in> set (contact_save_requests d). csr_id r' = csr_id r \<longrightarrow> r' = r"
  obtains d' where "ContactsService_acceptContactSave E i u ip d = (Inr True, d')" "users d' = users d" "sessions d' = sessions d"
    "has_contact (csr_from_user_id r) v d'" "has_contact v (csr_from_user_id r) d'"
proof -
  obtain res d' where run: "ContactsService_acceptContactSave E i u ip d = (res, d')" by fastforce
  have pending: "(\<exists>r \<in> set (contact_save_requests d). csr_id r = j \<and> csr_to_user_id r = v \<and> csr_status r = SavePending)"
    using r by (auto simp: is_pending_for_def)
  note outcome = accept_contact_outcome [OF ids keys refs, of ip, unfolded run Let_def prod.case]
  have res: "res = Inr True" and "\<exists>r' \<in> set (contact_save_requests d). csr_id r' = j \<and>
      has_contact (csr_from_user_id r') v d' \<and> has_contact v (csr_from_user_id r') d'"
    using outcome pending by auto
  then have "has_contact (csr_from_user_id r) v d'" "has_contact v (csr_from_user_id r) d'"
    using unique r(2) by (auto simp: is_pending_for_def)
  moreover have "users d' = users d" "sessions d' = sessions d"
    using movesD [OF accept_keeps [of users E i u ip], of d] movesD [OF accept_keeps [of sessions E i u ip], of d]
    by (simp_all add: run same_def)
  ultimately show ?thesis using that run res by blast
qed

lemma accept_route:
  fixes t :: "('z db_scheme, 'x) tab_scheme"
  assumes "signed_in E p t"
    and rq: "rq = received base (api_request B ''/contacts/accept'' (send ''POST'' (Some body)) t)"
    and "accept_pipe E body = Inr i"
  shows "route E (rest_routes E) rq (net t) = json_reply 201 (\<lambda>saved. VObj [(''saved'', VBool saved)])
    (ContactsService_acceptContactSave (rest_contacts E) i (jwt_sub p) (client_ip E rq)) (net t)"
proof -
  have q: "hr_method rq = ''POST''" "segments (hr_path rq) = [[], ''api'', ''v1'', ''contacts'', ''accept'']" "hr_body rq = body"
    by (simp_all add: rq received_def api_request_def send_def Let_def contact_segments)
  have "rest_routes E rq = Some (ContactsController_accept E rq)"
    by (simp add: rest_routes_def params_def with_param_def or_else_def q)
  then have "route E (rest_routes E) rq (net t) = ContactsController_accept E rq p (net t)"
    by (intro signed_in_call [where others = "rest_routes E", OF assms(1) _ rq]) (simp_all add: public_route_def at_def q send_def)
  then show ?thesis by (simp add: ContactsController_accept_def q piped_def assms(3))
qed

lemma listed_contact:
  assumes "has_contact u other d" "x \<in> set (users d)" "u_id x = other"
  obtains c where "(c, u_email x) \<in> set (contact_rows u d)" "c_contact_user_id c = other"
proof -
  obtain c where "c \<in> set (contacts d)" "c_owner_id c = u" "c_contact_user_id c = other"
    using assms(1) by (auto simp: has_contact_def list_ex_iff)
  then show ?thesis using that [of c] assms(2,3) by (auto simp: contact_rows_def)
qed

text \<open>
  Accepting, from end to end. When the user called upon accepts a pending request from the
  page, the sender and the user become each other's contacts, and the page's list, fetched
  anew, has the sender with the address of the sender's account.
\<close>

theorem accepted_contact_shown:
  fixes t :: "'z db_scheme contacts_tab"
  assumes user: "signed_in E p t" "uuid_of E (jwt_sub p) = Some u"
    and i: "accept_pipe E (VObj [(''requestId'', VStr i)]) = Inr i" "uuid_of E i = Some j"
    and keys: "fst (contact_ids E) \<noteq> snd (contact_ids E)"
      "{fst (contact_ids E), snd (contact_ids E)} \<inter> c_id ` set (contacts (net t)) = {}"
    and refs: "\<forall>r \<in> set (contact_save_requests (net t)). user_exists (csr_from_user_id r) (net t) \<and> user_exists (csr_to_user_id r) (net t)"
    and r: "r \<in> set (contact_save_requests (net t))" "is_pending_for j u r"
    and unique: "\<forall>r' \<in> set (contact_save_requests (net t)). csr_id r' = csr_id r \<longrightarrow> r' = r"
    and sender: "x \<in> set (users (net t))" "u_id x = csr_from_user_id r"
  shows "let (res, t1) = useContacts_acceptRequest (backend_api E base cookies) i t
    in res = Inr () \<and> has_contact (csr_from_user_id r) u (net t1) \<and> has_contact u (csr_from_user_id r) (net t1) \<and>
      (\<exists>c. c_contact_user_id c = csr_from_user_id r \<and>
         (\<exists>rows. contactList t1 = VArr rows \<and> contact_json (iso_date E) (c, u_email x) \<in> set rows))"
proof -
  let ?B = "backend_api E base cookies" and ?body = "VObj [(''requestId'', VStr i)]"
  let ?rq = "received base (api_request ?B ''/contacts/accept'' (send ''POST'' (Some ?body)) t)"
  have env: "uuid_of (rest_contacts E) i = Some j" "uuid_of (rest_contacts E) (jwt_sub p) = Some u"
    "fst (new_contact_ids (rest_contacts E)) \<noteq> snd (new_contact_ids (rest_contacts E))"
    "{fst (new_contact_ids (rest_contacts E)), snd (new_contact_ids (rest_contacts E))} \<inter> c_id ` set (contacts (net t)) = {}"
    using user(2) i(2) keys by (simp_all add: rest_contacts_def)
  obtain d' where d': "ContactsService_acceptContactSave (rest_contacts E) i (jwt_sub p) (client_ip E ?rq) (net t) = (Inr True, d')"
    "users d' = users (net t)" "sessions d' = sessions (net t)"
    "has_contact (csr_from_user_id r) u d'" "has_contact u (csr_from_user_id r) d'"
    by (rule accept_pending [OF env refs r unique])
  have "route E (rest_routes E) ?rq (net t) = (Inr (201, VObj [(''saved'', VBool True)], []), d')"
    using accept_route [OF user(1) refl i(1)] d'(1) by (simp add: json_reply_def op_simps)
  from apiFetch_granted [OF refl this]
  have accepted: "useContacts_acceptRequest ?B i t = fetchContacts ?B (t\<lparr>net := d'\<rparr>)"
    unfolding useContacts_acceptRequest_def by (simp add: bnd_apply)
  have "getAccessToken (t\<lparr>net := d'\<rparr>) = getAccessToken t" by (simp add: getAccessToken_def)
  then have "signed_in E p (t\<lparr>net := d'\<rparr>)" using user(1) d'(3) by (simp add: signed_in_def)
  from fetch_lists [OF this user(2), of base cookies]
  have listed: "useContacts_acceptRequest ?B i t = (Inr (), t\<lparr>net := d', contactList := list_of E u d', contactsLoading := False\<rparr>)"
    unfolding accepted by simp
  obtain c where "(c, u_email x) \<in> set (contact_rows u d')" "c_contact_user_id c = csr_from_user_id r"
    using listed_contact [OF d'(5), of x] sender d'(2) by auto
  then show ?thesis unfolding listed using d'(4,5) by (auto simp: list_of_def)
qed

end
