(* ===== verification/RestSafety.thy ===== *)
theory RestSafety
  imports Rest HttpSafety
begin

text \<open>What the REST controllers answer, and to whom.\<close>

lemma match_Nil [simp]: "match_path [] ss = Some xs \<longleftrightarrow> ss = [] \<and> xs = []"
  by (cases ss) auto

lemma match_Lit [simp]: "match_path (Lit l # ps) ss = Some xs \<longleftrightarrow> (\<exists>s ss'. ss = s # ss' \<and> toLowerCase s = l \<and> match_path ps ss' = Some xs)"
  by (cases ss) auto

lemma match_Param [simp]:
  "match_path (Param # ps) ss = Some xs \<longleftrightarrow> (\<exists>s ss' ys. ss = s # ss' \<and> s \<noteq> [] \<and> xs = s # ys \<and> match_path ps ss' = Some ys)"
  by (cases ss) auto

lemma match_None: "match_path ps ss = None \<longleftrightarrow> (\<nexists>xs. match_path ps ss = Some xs)"
  by simp

lemma list_ex_find: "list_ex P xs = (find P xs \<noteq> None)"
  by (simp add: find_None_list_ex)

text \<open>Every controller behind the guard gets the caller, and no route of it is public.\<close>

lemma rest_served:
  assumes "caller_of E req d = Some p" "rest_routes E req = Some h"
    "\<not> public_route req" "\<not> at req ''POST'' [''auth'', ''logout'']" "\<not> at req ''DELETE'' [''auth'', ''sessions'']"
  shows "route E (rest_routes E) req d = h p d"
  using assms by (simp add: route_def public_route_def guarded_apply)

lemma not_auth:
  assumes "match_path (map Lit [[], ''api'', ''v1''] @ Lit s # rest) (segments (hr_path req)) = Some xs" "s \<noteq> ''auth''" "s \<noteq> ''health''"
  shows "\<not> public_route req" "\<not> at req m [''auth'', x]"
  using assms by (auto simp: public_route_def at_def)

text \<open>
  Details of a call. Whoever has a session may read any call and its participants: the
  answer does not depend on the caller. An unknown call is 404, but its participants are an
  empty list.
\<close>

theorem call_details_for_anyone:
  assumes caller: "caller_of E req d = Some p" and i: "decode_param E x = Inr i" "uuid_of E i = Some j"
    and x: "toLowerCase x \<noteq> ''history''"
  shows "(params req ''GET'' [Lit ''calls'', Param] = Some [x] \<longrightarrow>
      rs_status (fst (backend E req d)) = (if list_ex (\<lambda>r. cs_id r = j) (call_sessions d) then 200 else 404) \<and>
      snd (backend E req d) = d) \<and>
    (params req ''GET'' [Lit ''calls'', Param, Lit ''participants''] = Some [x] \<longrightarrow>
      backend E req d = (\<lparr>rs_status = 200, rs_body = ResponseInterceptor_intercept (VArr (map (participant_json (iso_date E))
        (filter (\<lambda>r. cp_call_session_id r = j) (call_participants d)))), rs_cookies = []\<rparr>, d))"
proof (intro conjI impI; (elim conjE)?)
  assume form: "params req ''GET'' [Lit ''calls'', Param] = Some [x]"
  then have get: "hr_method req = ''GET''" "match_path (map Lit [[], ''api'', ''v1''] @ Lit ''calls'' # [Param]) (segments (hr_path req)) = Some [x]"
    by (auto simp: params_def split: if_splits)
  have "rest_routes E req = Some (\<lambda>user. piped (decode_param E x) (\<lambda>i. CallsController_getCall E i user))"
    using get x by (auto simp: rest_routes_def params_def with_param_def or_else_def)
  from rest_served [OF caller this] not_auth [OF get(2)]
  have "route E (rest_routes E) req d = CallsController_getCall E i p d" by (simp add: piped_def i)
  then show "rs_status (fst (backend E req d)) = (if list_ex (\<lambda>r. cs_id r = j) (call_sessions d) then 200 else 404)"
    "snd (backend E req d) = d"
    by (auto simp: backend_def serve_cases CallsController_getCall_def json_reply_def CallsService_getCallById_def
        CallsRepository_findById_def op_simps i list_ex_find split: option.splits)
next
  assume form: "params req ''GET'' [Lit ''calls'', Param, Lit ''participants''] = Some [x]"
  then have get: "hr_method req = ''GET''"
    "match_path (map Lit [[], ''api'', ''v1''] @ Lit ''calls'' # [Param, Lit ''participants'']) (segments (hr_path req)) = Some [x]"
    by (auto simp: params_def split: if_splits)
  have "rest_routes E req = Some (\<lambda>user. piped (decode_param E x) (\<lambda>i. CallsController_getParticipants E i user))"
    using get x by (auto simp: rest_routes_def params_def with_param_def or_else_def)
  from rest_served [OF caller this] not_auth [OF get(2)]
  have "route E (rest_routes E) req d = CallsController_getParticipants E i p d" by (simp add: piped_def i)
  then show "backend E req d = (\<lparr>rs_status = 200, rs_body = ResponseInterceptor_intercept (VArr (map (participant_json (iso_date E))
        (filter (\<lambda>r. cp_call_session_id r = j) (call_participants d)))), rs_cookies = []\<rparr>, d)"
    by (simp add: backend_def serve_cases CallsController_getParticipants_def json_reply_def CallsService_getParticipants_def
        CallsRepository_getParticipants_def op_simps i)
qed

end
