(* ===== verification/ClientExamples.thy ===== *)
theory ClientExamples
  imports ClientSafety AuthExamples
begin

text \<open>
  A browser tab against the server: the concrete outside world of \<open>AuthExamples\<close> with tokens
  that are good for fifteen minutes. The hypotheses of the properties of both ends hold.
\<close>

definition toy_verify :: "time \<Rightarrow> string \<Rightarrow> JwtPayload option" where
  "toy_verify t h = (if startsWith h ''Bearer '' \<and> CHR ''.'' \<in> set h \<and> t < 900000
     then Some \<lparr>jwt_sub = takeWhile (\<lambda>c. c \<noteq> CHR ''.'') (drop 7 h), jwt_sid = tl (dropWhile (\<lambda>c. c \<noteq> CHR ''.'') (drop 7 h))\<rparr>
     else None)"

definition web_env :: "time \<Rightarrow> string \<Rightarrow> http_env" where
  "web_env t k = auth_env.extend (example_env t k)
     (http_env.fields (\<lambda>_. Inr example_dto) (\<lambda>_. Inr example_dto) (toy_verify t) False ''now'')"

definition some_request :: http_request where
  "some_request = \<lparr>hr_method = ''GET'', hr_path = ''/api/v1/contacts'', hr_authorization = None, hr_forwarded = None,
     hr_agent = None, hr_address = Some ''1.2.3.4'', hr_cookies = [], hr_body = VObj []\<rparr>"

text \<open>Other controllers that fail in the database or by a bug.\<close>

definition failing :: "unit controllers" where
  "failing req = Some (\<lambda>p. raise (if hr_method req = ''GET'' then PgError FK_VIOLATION else JsError ''boom'' None))"

text \<open>A handler that fails in the database, one that fails by a bug, and a service that says too much.\<close>

definition talkative :: "string \<Rightarrow> thrown" where
  "talkative secret = HttpException 503 (VObj [(''message'', VStr secret)]) secret"

theorem errors_hide_internals_witness:
  "fst (serve (web_env 2000 ''2'') failing (some_request\<lparr>hr_authorization := Some ''Bearer u0.s1''\<rparr>) example_logged_in) =
     \<lparr>rs_status = 500, rs_body = error_body 500 Msg_UNEXPECTED_ERROR ''now'' ''/api/v1/contacts'', rs_cookies = []\<rparr> \<and>
   GlobalExceptionFilter_catch ''now'' ''/'' (talkative ''10.0.0.7 is down'') = GlobalExceptionFilter_catch ''now'' ''/'' (talkative ''disk full'') \<and>
   rs_body (GlobalExceptionFilter_catch ''now'' ''/'' (thrown_of (ForbiddenException ''CSRF''))) = error_body 403 ''CSRF'' ''now'' ''/''"
proof -
  let ?E = "web_env 2000 ''2''" and ?get = "some_request\<lparr>hr_authorization := Some ''Bearer u0.s1''\<rparr>"
  note hidden = errors_hide_internals [of "talkative ''10.0.0.7 is down''" "talkative ''disk full''" "''now''" "''/''" ?E failing ?get
      example_logged_in "PgError FK_VIOLATION" "snd (route ?E failing ?get example_logged_in)" 403 "''Forbidden''" "''CSRF''"]
  have "fst (route ?E failing ?get example_logged_in) = Inl (PgError FK_VIOLATION)" by code_simp
  then have "route ?E failing ?get example_logged_in = (Inl (PgError FK_VIOLATION), snd (route ?E failing ?get example_logged_in))"
    by (metis prod.collapse)
  moreover have "timestamp ?E = ''now''" "hr_path ?get = ''/api/v1/contacts''" by code_simp+
  ultimately show ?thesis using hidden by (auto simp: talkative_def)
qed

theorem protected_routes_need_session_witness:
  "rs_status (fst (serve (web_env 2000 ''2'') failing some_request example_logged_in)) = 401"
proof -
  have "\<not> public_route some_request" "caller_of (web_env 2000 ''2'') some_request example_logged_in = None"
    by code_simp+
  moreover have "protected_route failing some_request" unfolding protected_route_def using calculation(1) by (simp add: failing_def)
  ultimately show ?thesis using protected_routes_need_session [of some_request "web_env 2000 ''2''" example_logged_in failing] by simp
qed

theorem log_keeps_domain_only_witness:
  "\<exists>payload. AppLogger_build True ''now'' ''Auth'' ''INFO'' ''AUTH_LOGIN_ATTEMPT'' [(''email'', VStr ''ann@example.org'')] = Inr payload \<and>
     map_of payload ''email'' = Some (VStr ''***@example.org'')"
proof -
  let ?p = "[(''level'', VStr ''INFO''), (''event'', VStr ''AUTH_LOGIN_ATTEMPT''), (''timestamp'', VStr ''now''),
    (''context'', VStr ''Auth''), (''email'', VStr ''***@example.org'')]"
  have built: "AppLogger_build True ''now'' ''Auth'' ''INFO'' ''AUTH_LOGIN_ATTEMPT'' [(''email'', VStr ''ann@example.org'')] = Inr ?p"
    by code_simp
  from log_keeps_domain_only [OF this] built show ?thesis by simp
qed

text \<open>A tab with the tokens of the login of \<open>AuthExamples\<close>.\<close>

definition blank_tab :: "db \<Rightarrow> db tab" where
  "blank_tab d = \<lparr>net = d, accessTokenVar = None, localStorage = [], isAuthenticated = False, isLoading = True,
     userEmail = None, pushed = []\<rparr>"

definition reloaded :: "db tab" where
  "reloaded = (blank_tab example_logged_in)\<lparr>localStorage := [(''accessToken'', ''u0.s1''), (''refreshToken'', ''r1'')]\<rparr>"

definition toy_api :: "time \<Rightarrow> string \<Rightarrow> db browser_api" where
  "toy_api t k = api_of (web_env t k) failing some_request (\<lambda>_. [])"

definition plain_get :: fetch_options where
  "plain_get = \<lparr>fo_method = None, fo_headers = [], fo_body = None\<rparr>"

lemma refresh_granted:
  "AuthService_refresh (web_env 2000000 ''2'') ''r1'' (net reloaded) =
     (Inr \<lparr>accessToken = ''u0.s1'', refreshToken = ''r2'', csrfToken = ''c2'', expiresIn = 900\<rparr>,
      snd (AuthService_refresh (web_env 2000000 ''2'') ''r1'' (net reloaded)))"
proof -
  have "fst (AuthService_refresh (web_env 2000000 ''2'') ''r1'' (net reloaded)) =
    Inr \<lparr>accessToken = ''u0.s1'', refreshToken = ''r2'', csrfToken = ''c2'', expiresIn = 900\<rparr>" by code_simp
  then show ?thesis by (metis prod.collapse)
qed

theorem reload_ends_login_witness:
  "isAuthenticated (snd (initAuth (toy_api 2000000 ''2'') True reloaded)) \<and>
   getRefreshToken (snd (initAuth (toy_api 2000000 ''2'') True reloaded)) = None \<and>
   pushed (snd (apiFetch (toy_api 2000100 ''3'') ''/contacts'' plain_get (snd (initAuth (toy_api 2000000 ''2'') True reloaded)))) = [''/login'']"
proof -
  have raw: "getRefreshToken reloaded = Some ''r1''" "''r1'' \<noteq> []" by code_simp+
  have "segments ''/api/v1/contacts'' = [[], ''api'', ''v1'', ''contacts'']" "toLowerCase ''contacts'' = ''contacts''" by code_simp+
  then have "guarded_endpoint failing (fo_method plain_get) ''/contacts''"
    by (simp add: guarded_endpoint_def protected_route_def public_route_def at_def failing_def plain_get_def)
  moreover have "''/contacts'' \<notin> {''/auth/login'', ''/auth/refresh''}" "map_of (fo_headers plain_get) ''authorization'' = None"
    by code_simp+
  ultimately have path: "guarded_endpoint failing (fo_method plain_get) ''/contacts''"
    "''/contacts'' \<notin> {''/auth/login'', ''/auth/refresh''}" "map_of (fo_headers plain_get) ''authorization'' = None" by blast+
  from reload_ends_login [OF raw refresh_granted path, of some_request "\<lambda>_. []" "web_env 2000100 ''3''"]
  show ?thesis by (simp add: case_prod_beta Let_def toy_api_def) (simp add: reloaded_def blank_tab_def)
qed

theorem apiFetch_asks_at_most_thrice_witness:
  "made (snd (apiFetch (counting (toy_api 2000 ''2'')) ''/auth/login'' plain_get
     \<lparr>net = (example_logged_in, 0), accessTokenVar = None, localStorage = [], isAuthenticated = False, isLoading = True,
      userEmail = None, pushed = []\<rparr>)) = 1"
  using apiFetch_asks_at_most_thrice [of "toy_api 2000 ''2''" "''/auth/login''" plain_get
    "\<lparr>net = (example_logged_in, 0), accessTokenVar = None, localStorage = [], isAuthenticated = False, isLoading = True,
      userEmail = None, pushed = []\<rparr>"] by simp

theorem login_then_request_witness:
  "isAuthenticated (snd (useAuth_login (toy_api 1000 ''1'') ''a@b'' ''0123456789'' (blank_tab example_registered))) \<and>
   getAccessToken (snd (useAuth_login (toy_api 1000 ''1'') ''a@b'' ''0123456789'' (blank_tab example_registered))) = Some ''u0.s1''"
proof -
  let ?E = "web_env 1000 ''1''" and ?p = "\<lparr>jwt_sub = ''u0'', jwt_sid = ''s1''\<rparr>"
  let ?r = "AuthService_login ?E example_dto (resolveClientIp (hr_forwarded some_request) (hr_address some_request))
      (case hr_agent some_request of Some a \<Rightarrow> a | None \<Rightarrow> ''unknown'') (net (blank_tab example_registered))"
  let ?t = "\<lparr>accessToken = ''u0.s1'', refreshToken = ''r1'', csrfToken = ''c1'', expiresIn = 900\<rparr>"
  have pipe: "login_pipe ?E (credentials_body ''a@b'' ''0123456789'') = Inr example_dto" by code_simp
  have "fst ?r = Inr ?t" by code_simp
  then have granted: "?r = (Inr ?t, snd ?r)" by (metis prod.collapse)
  have nonempty: "accessToken ?t \<noteq> []" "refreshToken ?t \<noteq> []" by simp_all
  have later: "verify_bearer (web_env 5000 ''5'') (''Bearer '' @ accessToken ?t) = Some ?p"
    "list_ex (\<lambda>s. s_id s = jwt_sid ?p \<and> session_active (web_env 5000 ''5'') s) (sessions (snd ?r))"
    by code_simp+
  from login_then_request [OF pipe granted nonempty later, of failing "\<lambda>_. []"] show ?thesis
    by (simp add: case_prod_beta Let_def toy_api_def)
qed

theorem expired_logout_keeps_session_witness:
  "\<not> isAuthenticated (snd (useAuth_logout (toy_api 2000000 ''2'') reloaded)) \<and>
   map s_is_revoked (sessions (net (snd (useAuth_logout (toy_api 2000000 ''2'') reloaded)))) = [False]"
proof -
  have expired: "getAccessToken reloaded = Some ''u0.s1''" "''u0.s1'' \<noteq> []"
    "verify_bearer (web_env 2000000 ''2'') (''Bearer '' @ ''u0.s1'') = None" "verify_bearer (web_env 2000000 ''2'') ''Bearer null'' = None"
    by code_simp+
  have raw: "getRefreshToken reloaded = Some ''r1''" "''r1'' \<noteq> []" by code_simp+
  have "map s_is_revoked (sessions (net reloaded)) = [False]" by code_simp
  with expired_logout_keeps_session [OF expired raw refresh_granted, of failing some_request "\<lambda>_. []"]
  show ?thesis by (simp add: case_prod_beta Let_def toy_api_def)
qed

end
