(* ===== verification/RestExamples.thy ===== *)
theory RestExamples
  imports ContactsClient RestSafety ClientExamples ContactExamples
begin

text \<open>Bob's page, with the request of \<open>ContactExamples\<close> still open: the hypotheses of the properties hold.\<close>

definition rest_at :: "time \<Rightarrow> string \<Rightarrow> rest_env" where
  "rest_at t k = http_env.extend (web_env t k) (rest_env.fields (\<lambda>_ _. None) hr_address Inr (\<lambda>_. Inr 5)
     (\<lambda>b. case field ''requestId'' b of Inr (VStr i) \<Rightarrow> Inr i | _ \<Rightarrow> Inl (BadRequestException ''requestId must be a string''))
     (\<lambda>_. Inr ''nick'') (\<lambda>_. ''date'') (CHR ''x'' # k, CHR ''y'' # k))"

definition with_session :: "db \<Rightarrow> db" where
  "with_session d = d\<lparr>sessions := sessions example_logged_in\<rparr>"

definition page_on :: "db \<Rightarrow> jval \<Rightarrow> db contacts_tab" where
  "page_on d list = \<lparr>net = with_session d, accessTokenVar = Some ''bob.s1'', localStorage = [], isAuthenticated = True, isLoading = False,
     userEmail = None, pushed = [], contactList = list, contactsLoading = False\<rparr>"

definition as_bob :: JwtPayload where
  "as_bob = \<lparr>jwt_sub = ''bob'', jwt_sid = ''s1''\<rparr>"

lemma bob_signed_in: "signed_in (rest_at 80000 ''9'') as_bob (page_on asked l)" "signed_in (rest_at 80000 ''9'') as_bob (page_on befriended l)"
proof -
  have "verify_bearer (rest_at 80000 ''9'') (''Bearer '' @ ''bob.s1'') = Some as_bob"
    "list_ex (\<lambda>s. s_id s = jwt_sid as_bob \<and> session_active (rest_at 80000 ''9'') s) (sessions (with_session asked))"
    "list_ex (\<lambda>s. s_id s = jwt_sid as_bob \<and> session_active (rest_at 80000 ''9'') s) (sessions (with_session befriended))"
    by code_simp+
  then show "signed_in (rest_at 80000 ''9'') as_bob (page_on asked l)" "signed_in (rest_at 80000 ''9'') as_bob (page_on befriended l)"
    by (simp_all add: signed_in_def page_on_def getAccessToken_def)
qed

theorem delete_equals_refetch_witness:
  "contactList (snd (useContacts_deleteContact (backend_api (rest_at 80000 ''9'') some_request (\<lambda>_. [])) ''y2''
      (page_on befriended (list_of (rest_at 80000 ''9'') ''bob'' befriended)))) = VArr [] \<and>
   map c_id (contacts befriended) = [''x2'', ''y2'']"
proof -
  let ?E = "rest_at 80000 ''9''"
  let ?t = "page_on befriended (list_of ?E ''bob'' befriended)"
  have facts: "uuid_of ?E (jwt_sub as_bob) = Some ''bob''" "plain_segment ?E ''y2''" "uuid_of ?E ''y2'' = Some ''y2''"
    "map c_id (contacts befriended) = [''x2'', ''y2'']" "filter (\<lambda>(c, _). c_id c \<noteq> ''y2'') (contact_rows ''bob'' (with_session befriended)) = []"
    by code_simp+
  have shown: "contactList ?t = list_of ?E ''bob'' (net ?t)"
    by (simp add: page_on_def list_of_def contact_rows_def with_session_def)
  from delete_equals_refetch [OF bob_signed_in(2) facts(1-3) shown, of some_request "\<lambda>_. []"] facts(4,5)
  show ?thesis by (simp add: case_prod_beta Let_def page_on_def)
qed

theorem accepted_contact_shown_witness:
  "has_contact ''ann'' ''bob'' (net (snd (useContacts_acceptRequest (backend_api (rest_at 80000 ''9'') some_request (\<lambda>_. [])) ''r1'' (page_on asked (VArr [])))))"
proof -
  let ?E = "rest_at 80000 ''9''" and ?r = "hd (contact_save_requests asked)" and ?x = "hd (users asked)"
  let ?t = "page_on asked (VArr [])"
  have env: "uuid_of ?E (jwt_sub as_bob) = Some ''bob''" "accept_pipe ?E (VObj [(''requestId'', VStr ''r1'')]) = Inr ''r1''"
    "uuid_of ?E ''r1'' = Some ''r1''" "fst (contact_ids ?E) \<noteq> snd (contact_ids ?E)"
    "{fst (contact_ids ?E), snd (contact_ids ?E)} \<inter> c_id ` set (contacts (net ?t)) = {}"
    by code_simp+
  have db: "\<forall>r \<in> set (contact_save_requests (net ?t)). user_exists (csr_from_user_id r) (net ?t) \<and> user_exists (csr_to_user_id r) (net ?t)"
    "?r \<in> set (contact_save_requests (net ?t))" "is_pending_for ''r1'' ''bob'' ?r"
    "\<forall>r' \<in> set (contact_save_requests (net ?t)). csr_id r' = csr_id ?r \<longrightarrow> r' = ?r"
    "?x \<in> set (users (net ?t))" "u_id ?x = csr_from_user_id ?r" "csr_from_user_id ?r = ''ann''"
    by code_simp+
  from accepted_contact_shown [OF bob_signed_in(1) env db(1-6), of some_request "\<lambda>_. []"] db(7)
  show ?thesis by (simp add: case_prod_beta Let_def)
qed

theorem call_details_for_anyone_witness:
  "rs_status (fst (backend (rest_at 80000 ''9'') (some_request\<lparr>hr_path := ''/api/v1/calls/c1'', hr_authorization := Some ''Bearer eve.s1''\<rparr>)
     (with_session talked))) = 200"
proof -
  let ?E = "rest_at 80000 ''9''"
  let ?q = "some_request\<lparr>hr_path := ''/api/v1/calls/c1'', hr_authorization := Some ''Bearer eve.s1''\<rparr>"
  have "caller_of ?E ?q (with_session talked) = Some \<lparr>jwt_sub = ''eve'', jwt_sid = ''s1''\<rparr>"
    "decode_param ?E ''c1'' = Inr ''c1''" "uuid_of ?E ''c1'' = Some ''c1''" "toLowerCase ''c1'' \<noteq> ''history''"
    by code_simp+
  moreover have "params ?q ''GET'' [Lit ''calls'', Param] = Some [''c1'']" "list_ex (\<lambda>r. cs_id r = ''c1'') (call_sessions (with_session talked))"
    by code_simp+
  ultimately show ?thesis using call_details_for_anyone by fastforce
qed

end
