(* ===== verification/RtcHook.thy ===== *)
theory RtcHook
  imports Gateway
begin

text \<open>
  \<open>frontend/src/hooks/useWebRTC.ts\<close>: the peer connection of a call page. The browser's
  \<open>RTCPeerConnection\<close> is a parameter. The state keeps the refs and states of the hook, the
  dependencies of its effects at the last commit, the closure its socket listeners run with,
  and what it has emitted, in order. A handler is one step to its end; the promise that an
  effect starts (the offer) completes in a step of its own.
\<close>

subsection \<open>The browser\<close>

text \<open>
  Session descriptions and candidates are passed on unread; an operation of the connection
  that is rejected raises an exception.
\<close>

record 'pc rtc =
  rtc_new :: 'pc
  rtc_state :: "'pc \<Rightarrow> string"
  rtc_senders :: "'pc \<Rightarrow> string list"
  rtc_add_track :: "string \<Rightarrow> 'pc \<Rightarrow> 'pc"
  rtc_createOffer :: "('pc, string) op"
  rtc_createAnswer :: "('pc, string) op"
  rtc_setLocal :: "string \<Rightarrow> ('pc, unit) op"
  rtc_setRemote :: "string \<Rightarrow> ('pc, unit) op"
  rtc_local :: "'pc \<Rightarrow> string"
  rtc_addIce :: "string \<Rightarrow> ('pc, unit) op"

subsection \<open>State\<close>

text \<open>The connection of \<open>pcRef\<close>, by number, with what its callbacks closed over when it was made.\<close>

record 'pc peer =
  pc_id :: nat
  pc :: 'pc
  at_callId :: string
  at_isInitiator :: bool
  at_partnerJoined :: bool

text \<open>What the page passes in; a stream is the list of its tracks' ids.\<close>

record hook_props =
  p_callId :: string
  p_isInitiator :: bool
  p_localStream :: "string list option"
  p_connected :: bool

text \<open>An offer that was begun: by the effect for a call, or by \<open>onnegotiationneeded\<close>.\<close>

datatype offer_task = EffectOffer nat string | NegotiationOffer nat string

record 'pc hook =
  pcRef :: "'pc peer option"
  next_pc :: nat
  offerSentRef :: bool
  partnerJoined :: bool
  remoteStream :: "string option"
  committed :: "(hook_props \<times> bool) option"
  listening :: "hook_props option"
  begun :: "offer_task list"
  outbox :: "ws_request list"

type_synonym ('pc, 'z, 'a) hook_op = "(('pc, 'z) hook_scheme, 'a) op"

text \<open>\<open>useState(!isInitiator)\<close>: read once, when the page is mounted.\<close>

definition hook_init :: "bool \<Rightarrow> 'pc hook" where
  "hook_init isInitiator = \<lparr>pcRef = None, next_pc = 0, offerSentRef = False, partnerJoined = (\<not> isInitiator),
     remoteStream = None, committed = None, listening = None, begun = [], outbox = []\<rparr>"

definition send_ws :: "ws_request \<Rightarrow> ('pc, 'z, unit) hook_op" where
  "send_ws msg = modify (\<lambda>h. h\<lparr>outbox := outbox h @ [msg]\<rparr>)"

text \<open>An operation on the connection of \<open>pcRef\<close>, if there is one.\<close>

definition on_pc :: "('pc, 'a) op \<Rightarrow> ('pc, 'z, 'a) hook_op" where
  "on_pc m h = (case pcRef h of
     None \<Rightarrow> (Inl (JsError ''InvalidStateError'' None), h)
   | Some p \<Rightarrow> (case m (pc p) of (r, x) \<Rightarrow> (r, h\<lparr>pcRef := Some (p\<lparr>pc := x\<rparr>)\<rparr>)))"

subsection \<open>Making and closing a connection\<close>

definition cleanupPeerConnection :: "('pc, 'z, unit) hook_op" where
  "cleanupPeerConnection = modify (\<lambda>h. h\<lparr>pcRef := None, offerSentRef := False, remoteStream := None\<rparr>)"

definition endCall :: "string \<Rightarrow> ('pc, 'z, unit) hook_op" where
  "endCall callId = andthen cleanupPeerConnection (send_ws (WsEnd callId))"

text \<open>The tracks that have no sender yet; which those are is read once, before the loop.\<close>

definition attach_tracks :: "'pc rtc \<Rightarrow> string list option \<Rightarrow> 'pc \<Rightarrow> 'pc" where
  "attach_tracks R stream x = (case stream of
     None \<Rightarrow> x
   | Some tracks \<Rightarrow> fold (rtc_add_track R) (filter (\<lambda>t. t \<notin> set (rtc_senders R x)) tracks) x)"

definition initPeerConnection :: "'pc rtc \<Rightarrow> hook_props \<Rightarrow> ('pc, 'z, unit) hook_op" where
  "initPeerConnection R props = modify (\<lambda>h. case pcRef h of
     Some _ \<Rightarrow> h
   | None \<Rightarrow> h\<lparr>pcRef := Some \<lparr>pc_id = next_pc h, pc = attach_tracks R (p_localStream props) (rtc_new R),
         at_callId = p_callId props, at_isInitiator = p_isInitiator props, at_partnerJoined = partnerJoined h\<rparr>,
       next_pc := next_pc h + 1\<rparr>)"

subsection \<open>The effects\<close>

definition tracks_effect :: "'pc rtc \<Rightarrow> hook_props \<Rightarrow> ('pc, 'z, unit) hook_op" where
  "tracks_effect R props = modify (\<lambda>h. case pcRef h of
     None \<Rightarrow> h
   | Some p \<Rightarrow> h\<lparr>pcRef := Some (p\<lparr>pc := attach_tracks R (p_localStream props) (pc p)\<rparr>)\<rparr>)"

definition live :: "hook_props \<Rightarrow> bool" where
  "live props \<longleftrightarrow> p_connected props \<and> p_callId props \<noteq> []"

definition init_effect :: "'pc rtc \<Rightarrow> hook_props \<Rightarrow> ('pc, 'z, unit) hook_op" where
  "init_effect R props = (if \<not> live props then ret () else initPeerConnection R props)"

definition offer_effect :: "'pc rtc \<Rightarrow> hook_props \<Rightarrow> ('pc, 'z, unit) hook_op" where
  "offer_effect R props = modify (\<lambda>h.
     if \<not> live props \<or> \<not> p_isInitiator props \<or> \<not> partnerJoined h then h
     else case pcRef h of
       None \<Rightarrow> h
     | Some p \<Rightarrow> if rtc_state R (pc p) \<noteq> ''stable'' \<or> offerSentRef h then h
         else h\<lparr>begun := begun h @ [EffectOffer (pc_id p) (p_callId props)]\<rparr>)"

definition listen_effect :: "'pc rtc \<Rightarrow> hook_props \<Rightarrow> ('pc, 'z, unit) hook_op" where
  "listen_effect R props =
     (if \<not> live props then modify (\<lambda>h. h\<lparr>listening := None\<rparr>)
      else andthen (initPeerConnection R props) (modify (\<lambda>h. h\<lparr>listening := Some props\<rparr>)))"

text \<open>
  After a render: each effect runs whose dependencies are not those of the last commit. The
  last one runs every time, because \<open>onCallEnded\<close> is a new function in every render.
\<close>

definition differs :: "('d \<Rightarrow> 'v) \<Rightarrow> 'd option \<Rightarrow> 'd \<Rightarrow> bool" where
  "differs f old new \<longleftrightarrow> (case old of None \<Rightarrow> True | Some d \<Rightarrow> f d \<noteq> f new)"

definition stream_dep :: "hook_props \<times> bool \<Rightarrow> string list option" where
  "stream_dep = (\<lambda>(q, _). p_localStream q)"

definition offer_deps :: "hook_props \<times> bool \<Rightarrow> bool \<times> string \<times> bool \<times> bool" where
  "offer_deps = (\<lambda>(q, j). (p_connected q, p_callId q, p_isInitiator q, j))"

definition commit :: "'pc rtc \<Rightarrow> hook_props \<Rightarrow> ('pc, 'z, unit) hook_op" where
  "commit R props h =
     (let old = committed h; new = (props, partnerJoined h) in
      andthen (if differs stream_dep old new then tracks_effect R props else ret ())
     (andthen (if differs stream_dep old new \<or> differs offer_deps old new then init_effect R props else ret ())
     (andthen (if differs offer_deps old new then offer_effect R props else ret ())
     (andthen (listen_effect R props)
     (modify (\<lambda>h. h\<lparr>committed := Some new\<rparr>))))) h)"

subsection \<open>Completing an offer\<close>

text \<open>
  \<open>createOffer\<close>, \<open>setLocalDescription\<close>, \<open>emit\<close>, on the connection it was begun on; if that was
  closed meanwhile the browser rejects, and the rejection is logged.
\<close>

definition make_offer :: "'pc rtc \<Rightarrow> string \<Rightarrow> ('pc, 'z, unit) hook_op" where
  "make_offer R callId =
     bnd (on_pc (rtc_createOffer R)) (\<lambda>offer.
     andthen (on_pc (rtc_setLocal R offer))
    (bnd (gets (\<lambda>h. rtc_local R (pc (the (pcRef h))))) (\<lambda>sdp.
     send_ws (WsOffer callId sdp))))"

definition is_current :: "nat \<Rightarrow> ('pc, 'z) hook_scheme \<Rightarrow> bool" where
  "is_current n h \<longleftrightarrow> (case pcRef h of None \<Rightarrow> False | Some p \<Rightarrow> pc_id p = n)"

fun complete :: "'pc rtc \<Rightarrow> offer_task \<Rightarrow> ('pc, 'z, unit) hook_op" where
  "complete R (EffectOffer n callId) h =
     (if is_current n h
      then catch (andthen (make_offer R callId) (modify (\<lambda>h. h\<lparr>offerSentRef := True\<rparr>))) (\<lambda>_. ret ()) h
      else (Inr (), h))"
| "complete R (NegotiationOffer n callId) h =
     (if is_current n h then catch (make_offer R callId) (\<lambda>_. ret ()) h else (Inr (), h))"

definition offer_ready :: "'pc rtc \<Rightarrow> ('pc, 'z, unit) hook_op" where
  "offer_ready R h = (case begun h of [] \<Rightarrow> (Inr (), h) | t # ts \<Rightarrow> complete R t (h\<lparr>begun := ts\<rparr>))"

subsection \<open>Callbacks of the connection\<close>

definition onnegotiationneeded :: "('pc, 'z, unit) hook_op" where
  "onnegotiationneeded = modify (\<lambda>h. case pcRef h of
     None \<Rightarrow> h
   | Some p \<Rightarrow> if at_isInitiator p \<and> at_partnerJoined p
       then h\<lparr>offerSentRef := True, begun := begun h @ [NegotiationOffer (pc_id p) (at_callId p)]\<rparr> else h)"

definition onicecandidate :: "string option \<Rightarrow> ('pc, 'z, unit) hook_op" where
  "onicecandidate cand = bnd (gets pcRef) (\<lambda>p. case (p, cand) of
     (Some p, Some c) \<Rightarrow> send_ws (WsIce (at_callId p) c) | _ \<Rightarrow> ret ())"

definition oniceconnectionstatechange :: "string \<Rightarrow> ('pc, 'z, unit) hook_op" where
  "oniceconnectionstatechange st = bnd (gets pcRef) (\<lambda>p. case p of
     None \<Rightarrow> ret ()
   | Some p \<Rightarrow> if st \<in> {''disconnected'', ''failed''} then endCall (at_callId p) else ret ())"

definition ontrack :: "string \<Rightarrow> ('pc, 'z, unit) hook_op" where
  "ontrack stream = modify (\<lambda>h. if pcRef h = None then h else h\<lparr>remoteStream := Some stream\<rparr>)"

subsection \<open>Messages of the server\<close>

definition handleAccepted :: "('pc, 'z, unit) hook_op" where
  "handleAccepted = modify (\<lambda>h. h\<lparr>partnerJoined := True\<rparr>)"

definition signaling_state :: "'pc rtc \<Rightarrow> ('pc, 'z) hook_scheme \<Rightarrow> string option" where
  "signaling_state R h = map_option (\<lambda>p. rtc_state R (pc p)) (pcRef h)"

definition handleOffer :: "'pc rtc \<Rightarrow> hook_props \<Rightarrow> string \<Rightarrow> ('pc, 'z, unit) hook_op" where
  "handleOffer R props sdp = bnd (gets (signaling_state R)) (\<lambda>st.
     if st = None \<or> p_isInitiator props \<or> st \<noteq> Some ''stable'' then ret ()
     else andthen (on_pc (rtc_setRemote R sdp))
         (bnd (on_pc (rtc_createAnswer R)) (\<lambda>answer.
          andthen (on_pc (rtc_setLocal R answer))
         (send_ws (WsAnswer (p_callId props) answer)))))"

definition handleAnswer :: "'pc rtc \<Rightarrow> hook_props \<Rightarrow> string \<Rightarrow> ('pc, 'z, unit) hook_op" where
  "handleAnswer R props sdp = bnd (gets (signaling_state R)) (\<lambda>st.
     if st = None \<or> \<not> p_isInitiator props \<or> st \<noteq> Some ''have-local-offer'' then ret ()
     else on_pc (rtc_setRemote R sdp))"

definition handleIce :: "'pc rtc \<Rightarrow> string \<Rightarrow> ('pc, 'z, unit) hook_op" where
  "handleIce R cand = bnd (gets pcRef) (\<lambda>p.
     if p = None then ret () else catch (on_pc (rtc_addIce R cand)) (\<lambda>_. ret ()))"

definition handleCallEnded :: "('pc, 'z, unit) hook_op \<Rightarrow> ('pc, 'z, unit) hook_op" where
  "handleCallEnded onCallEnded = andthen cleanupPeerConnection onCallEnded"

text \<open>What the hook listens to. None of its listeners looks at the call a message is about.\<close>

fun receive :: "'pc rtc \<Rightarrow> ('pc, 'z, unit) hook_op \<Rightarrow> hook_props \<Rightarrow> ws_event \<Rightarrow> ('pc, 'z, unit) hook_op" where
  "receive R onCallEnded props (EvAccepted _ _ _) = handleAccepted"
| "receive R onCallEnded props (EvOffer _ sdp) = handleOffer R props sdp"
| "receive R onCallEnded props (EvAnswer _ sdp) = handleAnswer R props sdp"
| "receive R onCallEnded props (EvIce _ cand) = handleIce R cand"
| "receive R onCallEnded props (EvEnded _ _) = handleCallEnded onCallEnded"
| "receive R onCallEnded props _ = ret ()"

definition hook_receives :: "'pc rtc \<Rightarrow> ('pc, 'z, unit) hook_op \<Rightarrow> ws_event \<Rightarrow> ('pc, 'z, unit) hook_op" where
  "hook_receives R onCallEnded ev = bnd (gets listening) (\<lambda>l. case l of
     None \<Rightarrow> ret () | Some props \<Rightarrow> receive R onCallEnded props ev)"

subsection \<open>Callbacks as events\<close>

datatype rtc_event =
    OfferReady
  | NegotiationNeeded
  | IceCandidate "string option"
  | IceConnectionState string
  | RemoteTrack string

fun hook_event :: "'pc rtc \<Rightarrow> rtc_event \<Rightarrow> ('pc, 'z, unit) hook_op" where
  "hook_event R OfferReady = offer_ready R"
| "hook_event R NegotiationNeeded = onnegotiationneeded"
| "hook_event R (IceCandidate c) = onicecandidate c"
| "hook_event R (IceConnectionState st) = oniceconnectionstatechange st"
| "hook_event R (RemoteTrack s) = ontrack s"

end
