(* ===== verification/MediaDevices.thy ===== *)
theory MediaDevices
  imports Sfu
begin

text \<open>
  \<open>frontend/src/hooks/useMediaDevices.ts\<close>: the camera and the microphone of a page. Tracks are
  objects of the browser, shared by reference, so they live in a store of their own; a call of
  \<open>getUserMedia\<close> is in flight until the browser grants or refuses it.
\<close>

record track =
  tk_id :: string
  tk_kind :: MediaKind
  tk_enabled :: bool
  tk_live :: bool

record media =
  tracks :: "track list"
  stream :: "string list option"
  streamRef :: "string list option"
  micEnabled :: bool
  cameraEnabled :: bool
  mediaError :: "string option"
  asked_media :: "(bool \<times> bool) list"

type_synonym 'a media_op = "(media, 'a) op"

definition media_init :: media where
  "media_init = \<lparr>tracks = [], stream = None, streamRef = None, micEnabled = True, cameraEnabled = True,
     mediaError = None, asked_media = []\<rparr>"

definition tracks_of :: "string list \<Rightarrow> MediaKind \<Rightarrow> media \<Rightarrow> track list" where
  "tracks_of s k m = filter (\<lambda>t. tk_id t \<in> set s \<and> tk_kind t = k) (tracks m)"

text \<open>\<open>getTracks().forEach((track) => track.stop())\<close>\<close>

definition stop_tracks :: "string list \<Rightarrow> media \<Rightarrow> media" where
  "stop_tracks s m = m\<lparr>tracks := update_where (\<lambda>t. tk_id t \<in> set s) (\<lambda>t. t\<lparr>tk_live := False\<rparr>) (tracks m)\<rparr>"

definition startMedia :: "bool \<Rightarrow> bool \<Rightarrow> unit media_op" where
  "startMedia video audio = modify (\<lambda>m.
     (case streamRef m of None \<Rightarrow> m | Some s \<Rightarrow> stop_tracks s m)\<lparr>asked_media := asked_media m @ [(video, audio)]\<rparr>)"

definition without_nth :: "nat \<Rightarrow> 'a list \<Rightarrow> 'a list" where
  "without_nth i xs = take i xs @ drop (Suc i) xs"

text \<open>
  The browser answers the \<open>i\<close>-th request: with a new stream (the ids of its tracks, one of each
  kind that was asked for), or with an error.
\<close>

definition new_tracks :: "bool \<Rightarrow> bool \<Rightarrow> string \<Rightarrow> string \<Rightarrow> track list" where
  "new_tracks video audio a v =
     (if audio then [\<lparr>tk_id = a, tk_kind = AudioKind, tk_enabled = True, tk_live = True\<rparr>] else []) @
     (if video then [\<lparr>tk_id = v, tk_kind = VideoKind, tk_enabled = True, tk_live = True\<rparr>] else [])"

definition media_granted :: "nat \<Rightarrow> string \<Rightarrow> string \<Rightarrow> unit media_op" where
  "media_granted i a v = modify (\<lambda>m. if i \<ge> length (asked_media m) then m else
     (let (video, audio) = asked_media m ! i;
          new = new_tracks video audio a v;
          m1 = m\<lparr>tracks := tracks m @ new, asked_media := without_nth i (asked_media m)\<rparr>;
          s = map tk_id new in
      m1\<lparr>streamRef := Some s, stream := Some s,
         cameraEnabled := (video \<and> list_ex tk_enabled (tracks_of s VideoKind m1)),
         micEnabled := (audio \<and> list_ex tk_enabled (tracks_of s AudioKind m1)),
         mediaError := None\<rparr>))"

definition media_refused :: "nat \<Rightarrow> string \<Rightarrow> unit media_op" where
  "media_refused i msg = modify (\<lambda>m. if i \<ge> length (asked_media m) then m else
     m\<lparr>asked_media := without_nth i (asked_media m),
       mediaError := Some (if msg = [] then ''Failed to access media devices'' else msg)\<rparr>)"

definition stopMedia :: "unit media_op" where
  "stopMedia = modify (\<lambda>m. case streamRef m of
     None \<Rightarrow> m
   | Some s \<Rightarrow> (stop_tracks s m)\<lparr>streamRef := None, stream := None, cameraEnabled := False, micEnabled := False\<rparr>)"

text \<open>Flipping the first track of a kind, and the flag the page shows.\<close>

definition toggle_first :: "MediaKind \<Rightarrow> (bool \<Rightarrow> media \<Rightarrow> media) \<Rightarrow> unit media_op" where
  "toggle_first k show_flag = modify (\<lambda>m. case streamRef m of
     None \<Rightarrow> m
   | Some s \<Rightarrow> (case tracks_of s k m of
       [] \<Rightarrow> show_flag False m
     | t # _ \<Rightarrow> show_flag (\<not> tk_enabled t)
         (m\<lparr>tracks := update_where (\<lambda>x. tk_id x = tk_id t) (\<lambda>x. x\<lparr>tk_enabled := \<not> tk_enabled t\<rparr>) (tracks m)\<rparr>)))"

definition toggleMic :: "unit media_op" where
  "toggleMic = toggle_first AudioKind (\<lambda>b m. m\<lparr>micEnabled := b\<rparr>)"

definition toggleCamera :: "unit media_op" where
  "toggleCamera = toggle_first VideoKind (\<lambda>b m. m\<lparr>cameraEnabled := b\<rparr>)"

subsection \<open>Steps\<close>

datatype media_event =
    StartMedia bool bool
  | MediaGranted nat string string
  | MediaRefused nat string
  | StopMedia
  | ToggleMic
  | ToggleCamera

fun media_do :: "media_event \<Rightarrow> unit media_op" where
  "media_do (StartMedia v a) = startMedia v a"
| "media_do (MediaGranted i a v) = media_granted i a v"
| "media_do (MediaRefused i msg) = media_refused i msg"
| "media_do StopMedia = stopMedia"
| "media_do ToggleMic = toggleMic"
| "media_do ToggleCamera = toggleCamera"

definition media_step :: "media_event \<Rightarrow> media \<Rightarrow> media" where
  "media_step e m = snd (media_do e m)"

end
