(* ===== verification/AnonymousPage.thy ===== *)
theory AnonymousPage
  imports RtcHook MediaDevices ApiClient
begin

text \<open>
  \<open>frontend/src/app/anonymous/page.tsx\<close>: the page of random matches, over the hooks
  \<open>useWebRTC\<close> and \<open>useMediaDevices\<close> and the socket of \<open>useSignaling\<close>. After every event that
  changes what the page renders from, the effects are committed. Rendering itself is not
  modelled.
\<close>

subsection \<open>State\<close>

datatype match_state = Idle | InQueue | Matched

text \<open>What the page keeps of \<open>match:found\<close>: the partner and whether both are registered.\<close>

record 'pc anon_page = "'pc hook" +
  matchState :: match_state
  matchCallId :: "string option"
  isInitiator :: bool
  showContactSave :: bool
  incomingRequestId :: "string option"
  contactRequestSent :: bool
  partnerInfo :: "(string option \<times> bool) option"
  onlineUsers :: nat
  searchingUsers :: nat
  queuedRef :: bool
  isConnected :: bool
  page_media :: media
  page_deps :: "(bool \<times> match_state \<times> bool) option"
  page_calls :: "(string \<times> fetch_options) list"
  page_pushed :: "string list"

type_synonym ('pc, 'a) anon_op = "('pc anon_page, 'a) op"

definition anon_init :: "'pc anon_page" where
  "anon_init = hook.extend (hook_init False) (anon_page.fields InQueue None False False None False None 0 0 False False
     media_init None [] [])"

text \<open>What is passed to \<open>useWebRTC\<close>: \<open>callId || ""\<close>, the role, the stream.\<close>

definition anon_props :: "'pc anon_page \<Rightarrow> hook_props" where
  "anon_props s = \<lparr>p_callId = (case matchCallId s of None \<Rightarrow> [] | Some c \<Rightarrow> c), p_isInitiator = isInitiator s,
     p_localStream = stream (page_media s), p_connected = isConnected s\<rparr>"

subsection \<open>The end of a call\<close>

definition join_queue :: "('pc, unit) anon_op" where
  "join_queue = andthen (modify (\<lambda>s. s\<lparr>queuedRef := True\<rparr>)) (send_ws (WsJoinQueue (Some Video)))"

definition onCallEnded :: "('pc, unit) anon_op" where
  "onCallEnded = andthen (modify (\<lambda>s. s\<lparr>showContactSave := False, matchCallId := None, partnerInfo := None,
       isInitiator := False, contactRequestSent := False, matchState := InQueue\<rparr>)) join_queue"

subsection \<open>The page's effects\<close>

definition queue_effect :: "('pc, unit) anon_op" where
  "queue_effect s = (if isConnected s
     then andthen (send_ws WsQueueStatus)
       (if matchState s = InQueue \<and> \<not> showContactSave s \<and> \<not> queuedRef s then join_queue else ret ()) s
     else (Inr (), s))"

definition anon_commit :: "'pc rtc \<Rightarrow> ('pc, unit) anon_op" where
  "anon_commit R s =
     (let deps = (isConnected s, matchState s, showContactSave s) in
      andthen (commit R (anon_props s))
     (andthen (if page_deps s \<noteq> Some deps then queue_effect else ret ())
     (modify (\<lambda>s. s\<lparr>page_deps := Some deps\<rparr>))) s)"

text \<open>Mounting: the first commit, and the camera is asked for.\<close>

definition on_media :: "media_event \<Rightarrow> ('pc, unit) anon_op" where
  "on_media e = modify (\<lambda>s. s\<lparr>page_media := media_step e (page_media s)\<rparr>)"

definition anon_mount :: "'pc rtc \<Rightarrow> ('pc, unit) anon_op" where
  "anon_mount R = andthen (on_media (StartMedia True True)) (anon_commit R)"

subsection \<open>Messages of the server\<close>

text \<open>The page's own listeners; the hook has others, for other messages.\<close>

fun page_receives :: "ws_event \<Rightarrow> ('pc, unit) anon_op" where
  "page_receives (EvQueued _ online searching) = modify (\<lambda>s. s\<lparr>onlineUsers := online, searchingUsers := searching\<rparr>)"
| "page_receives (EvQueueStatus online searching) = modify (\<lambda>s. s\<lparr>onlineUsers := online, searchingUsers := searching\<rparr>)"
| "page_receives (EvFound callId _ initiator both partner) = modify (\<lambda>s. s\<lparr>matchCallId := Some callId, isInitiator := initiator,
     partnerInfo := Some (partner, both), matchState := Matched, showContactSave := False, contactRequestSent := False\<rparr>)"
| "page_receives (EvSaveRequest requestId _ _) = modify (\<lambda>s. s\<lparr>incomingRequestId := Some requestId, showContactSave := True\<rparr>)"
| "page_receives _ = ret ()"

definition anon_receives :: "'pc rtc \<Rightarrow> ws_event \<Rightarrow> ('pc, unit) anon_op" where
  "anon_receives R ev = andthen (page_receives ev) (hook_receives R onCallEnded ev)"

subsection \<open>The user\<close>

text \<open>\<open>endCall\<close> of the last render: with its \<open>callId\<close>, or the empty string.\<close>

definition page_endCall :: "('pc, unit) anon_op" where
  "page_endCall s = endCall (p_callId (anon_props s)) s"

definition handleLeave :: "('pc, unit) anon_op" where
  "handleLeave s =
     andthen (if truthy (matchCallId s) then page_endCall else ret ())
       (modify (\<lambda>s. s\<lparr>queuedRef := False, matchCallId := None, partnerInfo := None, showContactSave := False,
          contactRequestSent := False, matchState := Idle, page_pushed := page_pushed s @ [''/'']\<rparr>)) s"

text \<open>The arrow of the header: a link to the first page whose click ends the call, if any.\<close>

definition clickBack :: "('pc, unit) anon_op" where
  "clickBack = andthen page_endCall (modify (\<lambda>s. s\<lparr>page_pushed := page_pushed s @ [''/'']\<rparr>))"

definition handleContactResponse :: "bool \<Rightarrow> ('pc, unit) anon_op" where
  "handleContactResponse accept = modify (\<lambda>s. s\<lparr>showContactSave := False,
     page_calls := page_calls s @ (case incomingRequestId s of
        Some i \<Rightarrow> if i = [] then []
          else if accept then [(''/contacts/accept'', json_post (VObj [(''requestId'', VStr i)]))]
          else [(''/contacts/reject/'' @ i, \<lparr>fo_method = Some ''POST'', fo_headers = [], fo_body = None\<rparr>)]
      | None \<Rightarrow> []),
     incomingRequestId := None\<rparr>)"

definition handleSaveContact :: "('pc, unit) anon_op" where
  "handleSaveContact s = (case (partnerInfo s, matchCallId s) of
     (Some (Some u, _), Some c) \<Rightarrow>
       if u = [] \<or> c = [] then (Inr (), s)
       else andthen (send_ws (WsSaveContact c u)) (modify (\<lambda>s. s\<lparr>contactRequestSent := True\<rparr>)) s
   | _ \<Rightarrow> (Inr (), s))"

subsection \<open>Events\<close>

datatype anon_event =
    SocketConnected
  | SocketLost
  | FromServer ws_event
  | FromRtc rtc_event
  | FromMedia media_event
  | ClickLeave
  | ClickBack
  | ClickContact bool
  | ClickSave

fun anon_handle :: "'pc rtc \<Rightarrow> anon_event \<Rightarrow> ('pc, unit) anon_op" where
  "anon_handle R SocketConnected = modify (\<lambda>s. s\<lparr>isConnected := True\<rparr>)"
| "anon_handle R SocketLost = modify (\<lambda>s. s\<lparr>isConnected := False\<rparr>)"
| "anon_handle R (FromServer ev) = anon_receives R ev"
| "anon_handle R (FromRtc e) = hook_event R e"
| "anon_handle R (FromMedia e) = on_media e"
| "anon_handle R ClickLeave = handleLeave"
| "anon_handle R ClickBack = clickBack"
| "anon_handle R (ClickContact b) = handleContactResponse b"
| "anon_handle R ClickSave = handleSaveContact"

text \<open>What the page renders from; React commits again only when some of it has changed.\<close>

definition rendered_from where
  "rendered_from s = (anon_props s, partnerJoined s, remoteStream s, matchState s, showContactSave s, incomingRequestId s,
     contactRequestSent s, partnerInfo s, onlineUsers s, searchingUsers s, micEnabled (page_media s), cameraEnabled (page_media s),
     mediaError (page_media s))"

definition anon_step :: "'pc rtc \<Rightarrow> anon_event \<Rightarrow> 'pc anon_page \<Rightarrow> 'pc anon_page" where
  "anon_step R e s = (let s' = snd (anon_handle R e s) in
     if rendered_from s' = rendered_from s then s' else snd (anon_commit R s'))"

text \<open>
  Unmounting: the cleanups. The hook's listeners go, the camera is stopped, the socket is
  closed. The page means to end its call too, but its cleanup is the one of the first render,
  which has no call; the connection of the hook has no cleanup.
\<close>

definition anon_unmount :: "('pc, unit) anon_op" where
  "anon_unmount = andthen (on_media StopMedia) (modify (\<lambda>s. s\<lparr>listening := None, isConnected := False\<rparr>))"

end
