(* ===== verification/RtcHookFrames.thy ===== *)
theory RtcHookFrames
  imports RtcHook Machines
begin

text \<open>
  What the operations of \<open>useWebRTC\<close> leave alone, what they may send, and which calls they
  may send it for; stated once, for every page that uses the hook.
\<close>

subsection \<open>Invariants of the hook\<close>

lemma on_pc_apply: "on_pc m h = (case pcRef h of
     None \<Rightarrow> (Inl (JsError ''InvalidStateError'' None), h)
   | Some p \<Rightarrow> (fst (m (pc p)), h\<lparr>pcRef := Some (p\<lparr>pc := snd (m (pc p))\<rparr>)\<rparr>))"
  by (simp add: on_pc_def split: option.splits prod.splits)

fun task_call :: "offer_task \<Rightarrow> string" where
  "task_call (EffectOffer n c) = c"
| "task_call (NegotiationOffer n c) = c"

text \<open>\<open>T c i\<close>: the page was told to be in call \<open>c\<close>, as its initiator or not.\<close>

fun message_told :: "(string \<Rightarrow> bool \<Rightarrow> bool) \<Rightarrow> ws_request \<Rightarrow> bool" where
  "message_told T (WsOffer c _) = T c True"
| "message_told T (WsAnswer c _) = T c False"
| "message_told T (WsIce c _) = (T c True \<or> T c False)"
| "message_told T _ = True"

definition props_told :: "(string \<Rightarrow> bool \<Rightarrow> bool) \<Rightarrow> hook_props \<Rightarrow> bool" where
  "props_told T q \<longleftrightarrow> T (p_callId q) (p_isInitiator q)"

definition hook_told :: "(string \<Rightarrow> bool \<Rightarrow> bool) \<Rightarrow> ('pc, 'z) hook_scheme \<Rightarrow> bool" where
  "hook_told T h \<longleftrightarrow> (\<forall>p. pcRef h = Some p \<longrightarrow> T (at_callId p) (at_isInitiator p)) \<and>
     (\<forall>q. listening h = Some q \<longrightarrow> props_told T q) \<and> (\<forall>t \<in> set (begun h). T (task_call t) True) \<and>
     (\<forall>m \<in> set (outbox h). message_told T m)"

lemma told_modify:
  "(\<And>h. hook_told T h \<Longrightarrow> hook_told T (g h)) \<Longrightarrow> moves (keeps (hook_told T)) (modify g)"
  by (rule keeps_modify)

lemma told_send [op_moves]: "message_told T m \<Longrightarrow> moves (keeps (hook_told T)) (send_ws m)"
  unfolding send_ws_def by (rule keeps_modify) (auto simp: hook_told_def)

lemma told_on_pc [op_moves]: "moves (keeps (hook_told T)) (on_pc m)"
  by (auto simp: moves_def keeps_def on_pc_apply hook_told_def split: option.splits)

lemma told_cleanup [op_moves]: "moves (keeps (hook_told T)) cleanupPeerConnection"
  unfolding cleanupPeerConnection_def by (rule keeps_modify) (auto simp: hook_told_def)

lemma told_endCall [op_moves]: "moves (keeps (hook_told T)) (endCall c)"
  unfolding endCall_def by (intro keeps_inv.moves_rules op_moves) simp

lemma told_init [op_moves]: "props_told T q \<Longrightarrow> moves (keeps (hook_told T)) (initPeerConnection R q)"
  unfolding initPeerConnection_def by (rule keeps_modify) (auto simp: hook_told_def props_told_def split: option.splits)

lemma told_effects [op_moves]:
  assumes "live q \<Longrightarrow> props_told T q"
  shows "moves (keeps (hook_told T)) (tracks_effect R q)" "moves (keeps (hook_told T)) (init_effect R q)"
    "moves (keeps (hook_told T)) (offer_effect R q)" "moves (keeps (hook_told T)) (listen_effect R q)"
proof -
  show "moves (keeps (hook_told T)) (tracks_effect R q)"
    unfolding tracks_effect_def by (rule keeps_modify) (auto simp: hook_told_def split: option.splits)
  show "moves (keeps (hook_told T)) (init_effect R q)"
    unfolding init_effect_def using assms by (auto intro!: keeps_inv.moves_rules op_moves)
  show "moves (keeps (hook_told T)) (offer_effect R q)"
    unfolding offer_effect_def
    by (rule keeps_modify) (use assms in \<open>auto simp: hook_told_def props_told_def split: option.splits\<close>)
  have "moves (keeps (hook_told T)) (modify (\<lambda>h. h\<lparr>listening := None\<rparr>))"
    by (rule keeps_modify) (auto simp: hook_told_def)
  moreover have "moves (keeps (hook_told T)) (modify (\<lambda>h. h\<lparr>listening := Some q\<rparr>))" if "live q"
    by (rule keeps_modify) (use assms that in \<open>auto simp: hook_told_def\<close>)
  ultimately show "moves (keeps (hook_told T)) (listen_effect R q)"
    unfolding listen_effect_def using assms by (auto intro!: keeps_inv.moves_rules op_moves)
qed

lemma told_commit [op_moves]: "(live q \<Longrightarrow> props_told T q) \<Longrightarrow> moves (keeps (hook_told T)) (commit R q)"
proof -
  assume q: "live q \<Longrightarrow> props_told T q"
  have "moves (keeps (hook_told T)) (modify (\<lambda>h. h\<lparr>committed := x\<rparr>))" for x
    by (rule keeps_modify) (auto simp: hook_told_def)
  with told_effects [OF q] have "moves (keeps (hook_told T)) (andthen (if a then tracks_effect R q else ret ())
     (andthen (if b then init_effect R q else ret ())
     (andthen (if c then offer_effect R q else ret ())
     (andthen (listen_effect R q)
     (modify (\<lambda>h. h\<lparr>committed := x\<rparr>))))))" for a b c x
    by (intro keeps_inv.moves_rules) auto
  then show ?thesis unfolding moves_def commit_def Let_def by blast
qed

lemma told_make_offer [op_moves]: "T c True \<Longrightarrow> moves (keeps (hook_told T)) (make_offer R c)"
  unfolding make_offer_def by (intro keeps_inv.moves_rules op_moves) simp

lemma told_complete:
  fixes R :: "'pc rtc"
  assumes "T (task_call t) True"
  shows "moves (keeps (hook_told T :: ('pc, 'z) hook_scheme \<Rightarrow> bool)) (complete R t)"
proof (cases t)
  case (EffectOffer n c)
  have "moves (keeps (hook_told T :: ('pc, 'z) hook_scheme \<Rightarrow> bool)) (modify (\<lambda>h. h\<lparr>offerSentRef := True\<rparr>))"
    by (rule keeps_modify) (auto simp: hook_told_def)
  then have "moves (keeps (hook_told T :: ('pc, 'z) hook_scheme \<Rightarrow> bool))
      (catch (andthen (make_offer R c) (modify (\<lambda>h. h\<lparr>offerSentRef := True\<rparr>))) (\<lambda>_. ret ()))"
    using assms EffectOffer by (intro keeps_inv.moves_rules op_moves) simp_all
  with EffectOffer show ?thesis by (simp add: moves_def keeps_def)
next
  case (NegotiationOffer n c)
  then have "moves (keeps (hook_told T :: ('pc, 'z) hook_scheme \<Rightarrow> bool)) (catch (make_offer R c) (\<lambda>_. ret ()))"
    using assms by (intro keeps_inv.moves_rules op_moves) simp
  with NegotiationOffer show ?thesis by (simp add: moves_def keeps_def)
qed

lemma told_offer_ready [op_moves]: "moves (keeps (hook_told T)) (offer_ready R)"
proof (rule movesI, unfold keeps_def, rule impI)
  fix h :: "('a, 'b) hook_scheme"
  assume ok: "hook_told T h"
  show "hook_told T (snd (offer_ready R h))"
  proof (cases "begun h")
    case (Cons t ts)
    then have "T (task_call t) True" "hook_told T (h\<lparr>begun := ts\<rparr>)" using ok by (auto simp: hook_told_def)
    with movesD [OF told_complete [of T t R], of "h\<lparr>begun := ts\<rparr>"] show ?thesis
      by (simp add: offer_ready_def Cons keeps_def)
  qed (use ok in \<open>simp add: offer_ready_def\<close>)
qed

lemma told_callbacks [op_moves]:
  "moves (keeps (hook_told T)) onnegotiationneeded" "moves (keeps (hook_told T)) (ontrack st)"
  "moves (keeps (hook_told T)) handleAccepted"
  unfolding onnegotiationneeded_def ontrack_def handleAccepted_def
  by (rule keeps_modify; auto simp: hook_told_def split: option.splits)+

lemma told_onicecandidate [op_moves]: "moves (keeps (hook_told T)) (onicecandidate c)"
proof (rule movesI, unfold keeps_def, rule impI)
  fix h :: "('a, 'b) hook_scheme"
  assume "hook_told T h"
  then show "hook_told T (snd (onicecandidate c h))"
    by (auto simp: onicecandidate_def op_simps send_ws_def hook_told_def split: option.splits) (metis (full_types))+
qed

lemma told_icestate [op_moves]: "moves (keeps (hook_told T)) (oniceconnectionstatechange st)"
  unfolding oniceconnectionstatechange_def by (intro keeps_inv.moves_rules op_moves)

lemma told_event [op_moves]: "moves (keeps (hook_told T)) (hook_event R e)"
  by (cases e) (auto intro!: op_moves)

lemma told_handlers:
  assumes "props_told T q"
  shows "moves (keeps (hook_told T)) (handleOffer R q sdp)" "moves (keeps (hook_told T)) (handleAnswer R q sdp)"
    "moves (keeps (hook_told T)) (handleIce R sdp)"
  unfolding handleOffer_def handleAnswer_def handleIce_def
  using assms by (auto intro!: keeps_inv.moves_rules op_moves simp: props_told_def)

lemma told_receive:
  assumes "props_told T q" "moves (keeps (hook_told T)) ended"
  shows "moves (keeps (hook_told T)) (receive R ended q ev)"
  using assms told_handlers [OF assms(1)]
  by (cases "(R, ended, q, ev)" rule: receive.cases) (auto simp: handleCallEnded_def intro!: keeps_inv.moves_rules op_moves)

lemma told_hook_receives:
  assumes "moves (keeps (hook_told T)) ended"
  shows "moves (keeps (hook_told T)) (hook_receives R ended ev)"
proof (rule movesI, unfold keeps_def, rule impI)
  fix h :: "('a, 'b) hook_scheme"
  assume ok: "hook_told T h"
  show "hook_told T (snd (hook_receives R ended ev h))"
  proof (cases "listening h")
    case (Some q)
    then have "props_told T q" using ok by (simp add: hook_told_def)
    from movesD [OF told_receive [OF this assms, of R ev], of h] ok Some show ?thesis
      by (simp add: hook_receives_def op_simps keeps_def)
  qed (use ok in \<open>simp add: hook_receives_def op_simps\<close>)
qed

subsection \<open>What an event of the hook leaves alone\<close>

text \<open>
  A view of a page that what the hook writes outside a commit is no part of; and one that the
  hook never writes.
\<close>

locale event_view =
  fixes f :: "('pc, 'z) hook_scheme \<Rightarrow> 'v"
  assumes apart: "f (h\<lparr>pcRef := p\<rparr>) = f h" "f (h\<lparr>next_pc := n\<rparr>) = f h" "f (h\<lparr>offerSentRef := b\<rparr>) = f h"
    "f (h\<lparr>partnerJoined := b\<rparr>) = f h" "f (h\<lparr>remoteStream := st\<rparr>) = f h" "f (h\<lparr>begun := tasks\<rparr>) = f h"
    "f (h\<lparr>outbox := msgs\<rparr>) = f h"
begin

lemma view_steps:
  "moves (same f) (send_ws m)" "moves (same f) (on_pc x)" "moves (same f) cleanupPeerConnection"
  "moves (same f) (initPeerConnection R q)" "moves (same f) (tracks_effect R q)"
  "moves (same f) (offer_effect R q)" "moves (same f) onnegotiationneeded"
  "moves (same f) (ontrack s)" "moves (same f) handleAccepted" "moves (same f) (modify (\<lambda>h. h\<lparr>offerSentRef := b\<rparr>))"
  unfolding send_ws_def cleanupPeerConnection_def initPeerConnection_def tracks_effect_def offer_effect_def
    onnegotiationneeded_def ontrack_def handleAccepted_def
  by (auto simp: moves_def same_def modify_def on_pc_apply apart split: option.splits)

lemma view_ops:
  "moves (same f) (endCall c)" "moves (same f) (init_effect R q)"
  "moves (same f) (make_offer R c)" "moves (same f) (onicecandidate i)"
  "moves (same f) (oniceconnectionstatechange st)" "moves (same f) (handleOffer R q sdp)"
  "moves (same f) (handleAnswer R q sdp)" "moves (same f) (handleIce R sdp)"
  unfolding endCall_def init_effect_def make_offer_def onicecandidate_def oniceconnectionstatechange_def
    handleOffer_def handleAnswer_def handleIce_def
  by (auto intro!: same_view.moves_rules view_steps split: option.splits)

lemma view_offer_ready: "moves (same f) (offer_ready R)"
proof (rule movesI)
  fix h :: "('pc, 'z) hook_scheme"
  have "moves (same f) (catch (andthen (make_offer R c) (modify (\<lambda>h. h\<lparr>offerSentRef := True\<rparr>))) (\<lambda>_. ret ()))"
    "moves (same f) (catch (make_offer R c) (\<lambda>_. ret ()))" for c
    by (intro same_view.moves_rules view_steps view_ops)+
  then have "f (snd (complete R t h)) = f h" for t h
    by (cases t) (simp_all add: moves_def same_def)
  then show "same f h (snd (offer_ready R h))" by (simp add: same_def offer_ready_def apart split: list.splits)
qed

lemma view_event: "moves (same f) (hook_event R e)"
  by (cases e) (simp_all add: view_steps view_ops view_offer_ready)

lemma view_receives:
  assumes "moves (same f) ended"
  shows "moves (same f) (hook_receives R ended ev)"
proof -
  have "moves (same f) (receive R ended q ev)" for q
    by (cases "(R, ended, q, ev)" rule: receive.cases)
      (auto simp: handleCallEnded_def intro!: same_view.moves_rules view_steps view_ops assms)
  then show ?thesis unfolding hook_receives_def by (intro same_view.moves_rules)
qed

end

locale page_view = event_view f for f :: "('pc, 'z) hook_scheme \<Rightarrow> 'v" +
  assumes apart_commit: "f (h\<lparr>committed := d\<rparr>) = f h" "f (h\<lparr>listening := l\<rparr>) = f h"
begin

lemma view_commit: "moves (same f) (commit R q)"
proof -
  have set: "moves (same f) (modify (\<lambda>h. h\<lparr>listening := l\<rparr>))" "moves (same f) (modify (\<lambda>h. h\<lparr>committed := d\<rparr>))" for l d
    by (simp_all add: same_modify apart_commit)
  have "moves (same f) (listen_effect R q)" unfolding listen_effect_def by (intro same_view.moves_rules view_steps set)
  then have "moves (same f) (andthen (if a then tracks_effect R q else ret ())
     (andthen (if b then init_effect R q else ret ())
     (andthen (if c then offer_effect R q else ret ())
     (andthen (listen_effect R q)
     (modify (\<lambda>h. h\<lparr>committed := x\<rparr>))))))" for a b c x
    by (intro same_view.moves_rules view_steps view_ops set)
  then show ?thesis unfolding moves_def commit_def Let_def by blast
qed

end

interpretation commit_deps: event_view "\<lambda>h. (committed h, listening h)"
  by unfold_locales simp_all

text \<open>A commit does not change whether the partner has joined, and leaves the closures current.\<close>

lemma commit_current:
  "committed (snd (commit R q h)) = Some (q, partnerJoined h)"
  "listening (snd (commit R q h)) = (if live q then Some q else None)"
  "partnerJoined (snd (commit R q h)) = partnerJoined h" "remoteStream (snd (commit R q h)) = remoteStream h"
  by (auto simp: commit_def Let_def op_simps listen_effect_def initPeerConnection_def tracks_effect_def init_effect_def
      offer_effect_def split: option.splits)

lemma commit_pc:
  "pcRef (snd (commit R q h)) \<noteq> None \<longleftrightarrow> pcRef h \<noteq> None \<or> live q" "offerSentRef (snd (commit R q h)) = offerSentRef h"
  by (auto simp: commit_def Let_def op_simps listen_effect_def initPeerConnection_def tracks_effect_def init_effect_def
      offer_effect_def split: option.splits)

lemma commit_apply: "andthen (commit R q) n h = n (snd (commit R q h))"
  by (auto simp: commit_def Let_def op_simps listen_effect_def initPeerConnection_def tracks_effect_def init_effect_def
      offer_effect_def split: option.splits)

subsection \<open>What the hook sends\<close>

fun is_signal :: "ws_request \<Rightarrow> bool" where
  "is_signal (WsOffer _ _) = True"
| "is_signal (WsAnswer _ _) = True"
| "is_signal (WsIce _ _) = True"
| "is_signal (WsEnd _) = True"
| "is_signal _ = False"

definition signals_only :: "('pc, 'z) hook_scheme \<Rightarrow> ('pc, 'z) hook_scheme \<Rightarrow> bool" where
  "signals_only h h' \<longleftrightarrow> (\<exists>new. outbox h' = outbox h @ new \<and> list_all is_signal new)"

interpretation signals: progress signals_only
proof unfold_locales
  fix h h' h'' :: "('a, 'b) hook_scheme"
  show "signals_only h h" by (simp add: signals_only_def)
  assume "signals_only h h'" "signals_only h' h''"
  then show "signals_only h h''" by (force simp: signals_only_def)
qed

lemma signals_quiet: "moves (same outbox) m \<Longrightarrow> moves signals_only m"
  by (simp add: moves_def same_def signals_only_def)

lemma signals_send: "is_signal m \<Longrightarrow> moves signals_only (send_ws m)"
  by (simp add: moves_def signals_only_def send_ws_def op_simps)

lemma quiet_steps:
  "moves (same outbox) (on_pc x)" "moves (same outbox) cleanupPeerConnection" "moves (same outbox) (initPeerConnection R q)"
  "moves (same outbox) (tracks_effect R q)" "moves (same outbox) (offer_effect R q)" "moves (same outbox) onnegotiationneeded"
  "moves (same outbox) (ontrack s)" "moves (same outbox) handleAccepted" "moves (same outbox) (modify (\<lambda>h. h\<lparr>offerSentRef := b\<rparr>))"
  unfolding cleanupPeerConnection_def initPeerConnection_def tracks_effect_def offer_effect_def
    onnegotiationneeded_def ontrack_def handleAccepted_def
  by (auto simp: moves_def same_def modify_def on_pc_apply split: option.splits)

text \<open>A commit only begins an offer: nothing is sent before it completes.\<close>

lemma quiet_commit: "outbox (snd (commit R q h)) = outbox h"
  by (auto simp: commit_def Let_def op_simps listen_effect_def initPeerConnection_def tracks_effect_def init_effect_def
      offer_effect_def split: option.splits)

lemmas signal_steps = quiet_steps [THEN signals_quiet] signals_send

lemma signal_ops:
  "moves signals_only (endCall c)" "moves signals_only (make_offer R c)" "moves signals_only (onicecandidate i)"
  "moves signals_only (oniceconnectionstatechange st)" "moves signals_only (handleOffer R q sdp)"
  "moves signals_only (handleAnswer R q sdp)" "moves signals_only (handleIce R sdp)"
  unfolding endCall_def make_offer_def onicecandidate_def oniceconnectionstatechange_def
    handleOffer_def handleAnswer_def handleIce_def
  by (auto intro!: signals.moves_rules signal_steps split: option.splits)

lemma signal_offer_ready: "moves signals_only (offer_ready R)"
proof (rule movesI)
  fix h :: "('a, 'b) hook_scheme"
  have "moves signals_only (catch (andthen (make_offer R c) (modify (\<lambda>h. h\<lparr>offerSentRef := True\<rparr>))) (\<lambda>_. ret ()) :: ('a, 'b, unit) hook_op)"
    "moves signals_only (catch (make_offer R c) (\<lambda>_. ret ()) :: ('a, 'b, unit) hook_op)" for c
    by (intro signals.moves_rules signal_steps signal_ops)+
  then have "signals_only h (snd (complete R t h))" for t and h :: "('a, 'b) hook_scheme"
    by (cases t) (simp_all add: moves_def signals.R_refl)
  then have "begun h = t # ts \<Longrightarrow> signals_only (h\<lparr>begun := ts\<rparr>) (snd (complete R t (h\<lparr>begun := ts\<rparr>)))" for t ts by blast
  then show "signals_only h (snd (offer_ready R h))"
    by (auto simp: offer_ready_def signals.R_refl split: list.splits) (simp add: signals_only_def)
qed

lemma signal_event: "moves signals_only (hook_event R e)"
  by (cases e) (simp_all add: signal_steps signal_ops signal_offer_ready)

end
