(* ===== verification/AnonymousSafety.thy ===== *)
theory AnonymousSafety
  imports AnonymousPage RtcHookFrames
begin

text \<open>What a page of random matches sends, whatever the server, the browser and the user do.\<close>

subsection \<open>The page\<close>

definition anon_told :: "(string \<Rightarrow> bool \<Rightarrow> bool) \<Rightarrow> 'pc anon_page \<Rightarrow> bool" where
  "anon_told T s \<longleftrightarrow> hook_told T s \<and> (\<forall>c. matchCallId s = Some c \<longrightarrow> T c (isInitiator s))"

definition page_part :: "'pc anon_page \<Rightarrow> string option \<times> bool \<times> match_state \<times> bool \<times> bool \<times> (string option \<times> bool) option" where
  "page_part s = (matchCallId s, isInitiator s, matchState s, showContactSave s, queuedRef s, partnerInfo s)"

interpretation anon_view: page_view page_part
  by unfold_locales (simp_all add: page_part_def)

lemma anon_told_hook: "moves (same page_part) m \<Longrightarrow> moves (keeps (hook_told T)) m \<Longrightarrow> moves (keeps (anon_told T)) m"
  by (simp add: moves_def keeps_def same_def anon_told_def page_part_def)

lemmas anon_views = anon_view.view_steps anon_view.view_ops anon_view.view_commit anon_view.view_event

lemma anon_told_props: "anon_told T s \<Longrightarrow> live (anon_props s) \<Longrightarrow> props_told T (anon_props s)"
  by (auto simp: anon_told_def live_def props_told_def anon_props_def split: option.splits)

lemma anon_told_modify:
  "(\<And>s. pcRef (g s) = pcRef s \<and> listening (g s) = listening s \<and> begun (g s) = begun s \<and> outbox (g s) = outbox s) \<Longrightarrow>
   (\<And>s c. anon_told T s \<Longrightarrow> matchCallId (g s) = Some c \<Longrightarrow> T c (isInitiator (g s))) \<Longrightarrow> moves (keeps (anon_told T)) (modify g)"
  by (rule keeps_modify) (simp add: anon_told_def hook_told_def)

lemma told_join [op_moves]: "moves (keeps (anon_told T)) join_queue"
  unfolding join_queue_def
  by (intro keeps_inv.moves_rules anon_told_hook anon_told_modify op_moves anon_views) (auto simp: anon_told_def)

lemma told_ended [op_moves]: "moves (keeps (anon_told T)) onCallEnded"
  unfolding onCallEnded_def
  by (intro keeps_inv.moves_rules anon_told_modify op_moves) auto

lemma told_queue_effect: "moves (keeps (anon_told T)) queue_effect"
proof (rule movesI)
  fix s :: "'a anon_page"
  have "moves (keeps (anon_told T)) (andthen (send_ws WsQueueStatus) (if b then join_queue else ret ()) :: ('a, unit) anon_op)" for b
    by (intro keeps_inv.moves_rules anon_told_hook op_moves anon_views) simp
  from movesD [OF this [of "matchState s = InQueue \<and> \<not> showContactSave s \<and> \<not> queuedRef s"], of s]
  show "keeps (anon_told T) s (snd (queue_effect s))"
    by (cases "isConnected s") (simp_all only: queue_effect_def if_True if_False keeps_def snd_conv simp_thms)
qed

lemma told_anon_commit: "moves (keeps (anon_told T)) (anon_commit R)"
proof (rule movesI, unfold keeps_def, rule impI)
  fix s :: "'a anon_page"
  assume ok: "anon_told T s"
  have "moves (keeps (anon_told T)) (commit R (anon_props s))"
    by (intro anon_told_hook op_moves anon_views) (rule anon_told_props [OF ok])
  then have "moves (keeps (anon_told T)) (andthen (commit R (anon_props s))
     (andthen (if b then queue_effect else ret ()) (modify (\<lambda>s. s\<lparr>page_deps := d\<rparr>))))" for b d
    by (intro keeps_inv.moves_rules told_queue_effect anon_told_modify) (auto simp: anon_told_def)
  from movesD [OF this, of s] ok show "anon_told T (snd (anon_commit R s))" by (simp add: anon_commit_def keeps_def Let_def)
qed


lemmas anon_hook_steps =
  anon_told_hook [OF anon_view.view_steps(3) told_cleanup] anon_told_hook [OF anon_view.view_steps(9) told_callbacks(3)]
  anon_told_hook [OF anon_view.view_event told_event]

lemma told_page_receives:
  assumes "\<And>c ct i both u. ev = EvFound c ct i both u \<Longrightarrow> T c i"
  shows "moves (keeps (anon_told T)) (page_receives ev)"
  by (cases ev) (use assms in \<open>auto intro!: anon_told_modify keeps_inv.moves_rules simp: anon_told_def\<close>)

lemma told_receives_hook: "moves (keeps (anon_told T)) (hook_receives R onCallEnded ev)"
proof (rule movesI, unfold keeps_def, rule impI)
  fix s :: "'a anon_page"
  assume ok: "anon_told T s"
  show "anon_told T (snd (hook_receives R onCallEnded ev s))"
  proof (cases "listening s")
    case (Some q)
    then have q: "props_told T q" using ok by (simp add: anon_told_def hook_told_def)
    note handlers = told_handlers [OF q, THEN anon_told_hook [rotated]]
    have "moves (keeps (anon_told T)) (receive R onCallEnded q ev)"
      by (cases ev) (auto simp: handleCallEnded_def
          intro!: keeps_inv.moves_rules told_ended anon_hook_steps handlers anon_view.view_ops)
    from movesD [OF this, of s] ok Some show ?thesis by (simp add: hook_receives_def op_simps keeps_def)
  qed (use ok in \<open>simp add: hook_receives_def op_simps\<close>)
qed

lemma told_handle:
  assumes "\<And>c ct i both u. e = FromServer (EvFound c ct i both u) \<Longrightarrow> T c i"
  shows "moves (keeps (anon_told T)) (anon_handle R e)"
proof -
  have "moves (keeps (anon_told T)) (page_endCall :: ('a, unit) anon_op)"
    by (rule movesI) (use movesD [OF anon_told_hook [OF anon_view.view_ops(1) told_endCall]] in \<open>simp add: page_endCall_def\<close>)
  then have "moves (keeps (anon_told T)) (andthen (if b then page_endCall else ret ())
       (modify (\<lambda>s. s\<lparr>queuedRef := False, matchCallId := None, partnerInfo := None, showContactSave := False,
          contactRequestSent := False, matchState := Idle, page_pushed := page_pushed s @ [''/'']\<rparr>)) :: ('a, unit) anon_op)"
      "moves (keeps (anon_told T)) (clickBack :: ('a, unit) anon_op)" for b
    unfolding clickBack_def by (intro keeps_inv.moves_rules anon_told_modify; auto simp: anon_told_def)+
  then have leave: "moves (keeps (anon_told T)) (handleLeave :: ('a, unit) anon_op)" "moves (keeps (anon_told T)) (clickBack :: ('a, unit) anon_op)"
    unfolding moves_def handleLeave_def by blast+
  have save: "moves (keeps (anon_told T)) (handleSaveContact :: ('a, unit) anon_op)"
  proof (rule movesI)
    fix s :: "'a anon_page"
    have "moves (keeps (anon_told T)) (andthen (send_ws (WsSaveContact c u)) (modify (\<lambda>s. s\<lparr>contactRequestSent := True\<rparr>)) :: ('a, unit) anon_op)" for c u
      by (intro keeps_inv.moves_rules anon_told_hook anon_told_modify op_moves anon_views) (auto simp: anon_told_def)
    then show "keeps (anon_told T) s (snd (handleSaveContact s))"
      by (simp add: handleSaveContact_def moves_def keeps_def split: option.splits)
  qed
  show ?thesis
    by (cases e) (use assms leave save in \<open>auto simp: anon_receives_def on_media_def handleContactResponse_def
      intro!: keeps_inv.moves_rules anon_told_modify told_page_receives told_receives_hook anon_hook_steps
      simp: anon_told_def\<close>)
qed

definition told_event_ok :: "(string \<Rightarrow> bool \<Rightarrow> bool) \<Rightarrow> anon_event \<Rightarrow> bool" where
  "told_event_ok T e \<longleftrightarrow> (\<forall>c ct i both u. e = FromServer (EvFound c ct i both u) \<longrightarrow> T c i)"

interpretation told_page: guarded_machine "\<lambda>_. told_event_ok T" "anon_step R" "anon_told T" for T and R :: "'pc rtc"
proof unfold_locales
  fix s :: "'pc anon_page" and e
  assume ok: "anon_told T s" "told_event_ok T e"
  have "anon_told T (snd (anon_handle R e s))"
    using movesD [OF told_handle [of e T R], of s] ok by (auto simp: keeps_def told_event_ok_def)
  with movesD [OF told_anon_commit [of T R], of "snd (anon_handle R e s)"] show "anon_told T (anon_step R e s)"
    by (simp add: anon_step_def keeps_def Let_def)
qed

lemma anon_told_mounted: "anon_told T (snd (anon_mount R anon_init))"
proof -
  have start: "anon_told T (anon_init :: 'a anon_page)"
    by (simp add: anon_told_def hook_told_def anon_init_def hook_init_def hook.extend_def anon_page.fields_def)
  have "moves (keeps (anon_told T)) (anon_mount R)"
    unfolding anon_mount_def on_media_def
    by (intro keeps_inv.moves_rules told_anon_commit anon_told_modify) (auto simp: anon_told_def)
  from movesD [OF this, of anon_init] start show ?thesis by (simp add: keeps_def)
qed

text \<open>\<open>match:found\<close> told the page, among the events \<open>es\<close>, that it is in the call, in this role.\<close>

definition was_told :: "anon_event list \<Rightarrow> string \<Rightarrow> bool \<Rightarrow> bool" where
  "was_told es c i \<longleftrightarrow> (\<exists>ct both u. FromServer (EvFound c ct i both u) \<in> set es)"

text \<open>
  C31. Roles. Whatever happens to the page, it has sent an offer for a call only if it was told to be
  that call's initiator, an answer only if it was told not to be, and candidates only for a call it was told of.
\<close>

theorem signals_as_told:
  assumes "s = run (anon_step R) es (snd (anon_mount R anon_init))" "m \<in> set (outbox s)"
  shows "case m of WsOffer c _ \<Rightarrow> was_told es c True | WsAnswer c _ \<Rightarrow> was_told es c False
    | WsIce c _ \<Rightarrow> was_told es c True \<or> was_told es c False | _ \<Rightarrow> True"
proof -
  have guard: "run_guarded (\<lambda>_. told_event_ok (was_told es)) (anon_step R) es' t" if "set es' \<subseteq> set es" for es' and t :: "'a anon_page"
    using that by (induction es' arbitrary: t) (auto simp: told_event_ok_def was_told_def)
  then have "anon_told (was_told es) s"
    unfolding assms(1) by (intro told_page.run_keeps guard anon_told_mounted subset_refl)
  then have "message_told (was_told es) m" using assms(2) by (auto simp: anon_told_def hook_told_def)
  then show ?thesis by (cases m) auto
qed

subsection \<open>How often the page joins the queue\<close>

definition joins :: "('pc, 'z) hook_scheme \<Rightarrow> nat" where
  "joins s = length (filter (\<lambda>m. \<exists>p. m = WsJoinQueue p) (outbox s))"

text \<open>What the page has joined, and the one join it is entitled to while it has not.\<close>

definition due :: "'pc anon_page \<Rightarrow> nat" where
  "due s = joins s + (if queuedRef s then 0 else 1)"

lemma signals_no_join: "signals_only s t \<Longrightarrow> joins t = joins s"
proof -
  assume "signals_only s t"
  then obtain new where new: "outbox t = outbox s @ new" "\<forall>m \<in> set new. is_signal m" by (auto simp: signals_only_def list_all_iff)
  then have "WsJoinQueue p \<notin> set new" for p by (metis is_signal.simps)
  then have "filter (\<lambda>m. \<exists>p. m = WsJoinQueue p) new = []" by (auto simp: filter_empty_conv)
  with new(1) show ?thesis by (simp add: joins_def)
qed

definition no_more_due :: "'pc anon_page \<Rightarrow> 'pc anon_page \<Rightarrow> bool" where
  "no_more_due s t \<longleftrightarrow> due t \<le> due s"

interpretation due_progress: progress no_more_due
  by unfold_locales (simp_all add: no_more_due_def)

lemma due_hook: "moves (same page_part) m \<Longrightarrow> moves signals_only m \<Longrightarrow> moves no_more_due m"
proof (rule movesI)
  fix s
  assume m: "moves (same page_part) m" "moves signals_only m"
  have "queuedRef (snd (m s)) = queuedRef s" using movesD [OF m(1), of s] by (simp add: same_def page_part_def)
  moreover have "joins (snd (m s)) = joins s" by (rule signals_no_join [OF movesD [OF m(2)]])
  ultimately show "no_more_due s (snd (m s))" by (simp add: no_more_due_def due_def)
qed

lemma due_modify: "(\<And>s. outbox (g s) = outbox s \<and> (queuedRef s \<longrightarrow> queuedRef (g s))) \<Longrightarrow> moves no_more_due (modify g)"
  by (auto simp: moves_def modify_def no_more_due_def due_def joins_def)

lemma due_send: "\<nexists>p. m = WsJoinQueue p \<Longrightarrow> moves no_more_due (send_ws m)"
  by (simp add: moves_def send_ws_def op_simps no_more_due_def due_def joins_def)

lemma due_commit: "moves no_more_due (anon_commit R)"
proof (rule movesI)
  fix s :: "'a anon_page"
  have "moves no_more_due (commit R q :: ('a, unit) anon_op)" for q
    by (rule due_hook [OF anon_view.view_commit signals_quiet]) (simp add: moves_def same_def quiet_commit)
  moreover have "moves no_more_due (queue_effect :: ('a, unit) anon_op)"
    by (auto simp: moves_def queue_effect_def join_queue_def send_ws_def op_simps no_more_due_def due_def joins_def)
  ultimately have "moves no_more_due (andthen (commit R (anon_props s))
     (andthen (if b then queue_effect else ret ()) (modify (\<lambda>s. s\<lparr>page_deps := d\<rparr>))))" for b d
    by (intro due_progress.moves_rules due_modify) simp_all
  from movesD [OF this, of s] show "no_more_due s (snd (anon_commit R s))" by (simp add: anon_commit_def Let_def)
qed

lemma due_receives:
  assumes "\<nexists>c r. ev = EvEnded c r"
  shows "moves no_more_due (anon_receives R ev)"
proof -
  have "moves no_more_due (page_receives ev :: ('a, unit) anon_op)"
    by (cases ev) (auto intro!: due_modify due_progress.moves_rules)
  moreover have "moves no_more_due (receive R onCallEnded q ev)" for q
    by (cases ev) (use assms in \<open>auto intro!: due_progress.moves_rules due_hook anon_view.view_ops anon_view.view_steps signal_ops signal_steps\<close>)
  ultimately show ?thesis unfolding anon_receives_def hook_receives_def by (intro due_progress.moves_rules)
qed

text \<open>The two events that may make the page look for somebody once more.\<close>

definition ends_search :: "anon_event \<Rightarrow> bool" where
  "ends_search e \<longleftrightarrow> (case e of FromServer (EvEnded _ _) \<Rightarrow> True | ClickLeave \<Rightarrow> True | _ \<Rightarrow> False)"

lemma due_other: "\<not> ends_search e \<Longrightarrow> moves no_more_due (anon_handle R e)"
proof (cases e)
  case (FromServer ev)
  moreover assume "\<not> ends_search e"
  ultimately show ?thesis by (auto simp: ends_search_def intro!: due_receives)
next
  case ClickBack
  have "moves no_more_due (endCall c :: ('a, unit) anon_op)" for c by (intro due_hook anon_view.view_ops signal_ops)
  then have "moves no_more_due (page_endCall :: ('a, unit) anon_op)" by (simp add: moves_def page_endCall_def)
  with ClickBack show ?thesis by (simp add: clickBack_def due_progress.moves_andthen due_modify)
next
  case ClickSave
  have "moves no_more_due (andthen (send_ws (WsSaveContact c u)) (modify (\<lambda>s. s\<lparr>contactRequestSent := True\<rparr>)))" for c u
    by (intro due_progress.moves_rules due_send due_modify) simp_all
  with ClickSave show ?thesis
    by (auto simp: moves_def handleSaveContact_def due_progress.R_refl split: option.splits)
qed (auto simp: on_media_def handleContactResponse_def ends_search_def intro!: due_modify due_hook anon_view.view_event signal_event)

lemma due_end: "due (snd (anon_handle R e s)) \<le> due s + (if ends_search e then 1 else 0)"
proof (cases "ends_search e")
  case False
  with movesD [OF due_other [OF False, of R], of s] show ?thesis by (simp add: no_more_due_def)
next
  case True
  then consider c r where "e = FromServer (EvEnded c r)" | "e = ClickLeave"
    by (auto simp: ends_search_def split: anon_event.splits ws_event.splits)
  then show ?thesis
  proof cases
    case 1
    then show ?thesis
      by (auto simp: ends_search_def anon_receives_def hook_receives_def handleCallEnded_def cleanupPeerConnection_def onCallEnded_def
          join_queue_def send_ws_def op_simps due_def joins_def split: option.splits)
  next
    case 2
    have "joins (snd (page_endCall s)) = joins s"
      by (simp add: page_endCall_def endCall_def cleanupPeerConnection_def send_ws_def op_simps joins_def)
    with 2 show ?thesis
      by (auto simp: ends_search_def handleLeave_def page_endCall_def endCall_def cleanupPeerConnection_def send_ws_def op_simps due_def joins_def)
  qed
qed

text \<open>
  C34. Joining. A page sends at most one \<open>match:join-queue\<close> until a call ends or its user
  leaves, and one more for each of these; so a page that has joined and then loses its
  socket and gets it back does not join again, though the server forgot it with the socket.
\<close>

theorem joins_bounded:
  "joins (run (anon_step R) es s) \<le> joins s + (if queuedRef s then 0 else 1) + length (filter ends_search es)"
proof -
  have step: "due (anon_step R e s) \<le> due s + (if ends_search e then 1 else 0)" for e and s :: "'a anon_page"
    using movesD [OF due_commit [of R], of "snd (anon_handle R e s)"] due_end [of R e s]
    by (auto simp: anon_step_def no_more_due_def Let_def split: if_splits)
  have "due (run (anon_step R) es s) \<le> due s + length (filter ends_search es)"
  proof (induction es arbitrary: s)
    case (Cons e es)
    from Cons [of "anon_step R e s"] step [of e s] show ?case by (simp split: if_splits)
  qed simp
  then show ?thesis by (simp add: due_def split: if_splits)
qed

end
