(* ===== verification/AnonymousCalls.thy ===== *)
theory AnonymousCalls
  imports AnonymousSafety
begin

text \<open>
  The state of a page of random matches from one match to the next: what it shows, the call it
  is in, its connection and its listeners agree; and what the end of a call does to it.
\<close>

subsection \<open>Events that make no connection\<close>

definition calm :: "('pc, 'z) hook_scheme \<Rightarrow> ('pc, 'z) hook_scheme \<Rightarrow> bool" where
  "calm h h' \<longleftrightarrow> (pcRef h = None \<longrightarrow> pcRef h' = None) \<and>
     ((offerSentRef h \<longrightarrow> pcRef h \<noteq> None) \<longrightarrow> offerSentRef h' \<longrightarrow> pcRef h' \<noteq> None) \<and>
     (partnerJoined h \<longrightarrow> partnerJoined h')"

interpretation calm_progress: progress calm
  by unfold_locales (auto simp: calm_def)

lemma calm_steps:
  "moves calm (send_ws m)" "moves calm (on_pc x)" "moves calm cleanupPeerConnection" "moves calm onnegotiationneeded"
  "moves calm (ontrack s)" "moves calm handleAccepted"
  unfolding send_ws_def cleanupPeerConnection_def onnegotiationneeded_def ontrack_def handleAccepted_def
  by (auto simp: moves_def calm_def modify_def on_pc_apply split: option.splits)

lemma calm_ops:
  "moves calm (endCall c)" "moves calm (make_offer R c)" "moves calm (onicecandidate i)" "moves calm (oniceconnectionstatechange st)"
  "moves calm (handleOffer R q sdp)" "moves calm (handleAnswer R q sdp)" "moves calm (handleIce R sdp)"
  unfolding endCall_def make_offer_def onicecandidate_def oniceconnectionstatechange_def handleOffer_def handleAnswer_def handleIce_def
  by (auto intro!: calm_progress.moves_rules calm_steps split: option.splits)

definition has_pc :: "('pc, 'z) hook_scheme \<Rightarrow> bool" where
  "has_pc h \<longleftrightarrow> pcRef h \<noteq> None"

lemma make_offer_pc: "moves (same has_pc) (make_offer R c)"
proof -
  have "moves (same has_pc) (on_pc x)" "moves (same has_pc) (send_ws m)" for x :: "('a, 'v) op" and m
    by (auto simp: moves_def same_def has_pc_def on_pc_apply send_ws_def op_simps split: option.splits)
  moreover have "moves (same has_pc) (on_pc (rtc_setLocal R o'))" for o'
    by (auto simp: moves_def same_def has_pc_def on_pc_apply split: option.splits)
  ultimately show ?thesis unfolding make_offer_def
    by (intro same_view.moves_rules) (auto simp: moves_def same_def has_pc_def on_pc_apply send_ws_def op_simps split: option.splits)
qed

lemma calm_offer_ready: "moves calm (offer_ready R)"
proof (rule movesI)
  fix h :: "('a, 'b) hook_scheme"
  have "calm h (snd (complete R t h))" for t and h :: "('a, 'b) hook_scheme"
  proof (cases t)
    case (EffectOffer n c)
    have "calm h (snd (make_offer R c h))" "has_pc (snd (make_offer R c h)) = has_pc h"
      using movesD [OF calm_ops(2), of h R c] movesD [OF make_offer_pc, of h R c] by (simp_all add: same_def)
    then show ?thesis using EffectOffer
      by (auto simp: op_simps calm_def has_pc_def is_current_def split: option.splits prod.splits sum.splits)
  next
    case (NegotiationOffer n c)
    have "moves calm (catch (make_offer R c) (\<lambda>_. ret ()) :: ('a, 'b, unit) hook_op)"
      by (intro calm_progress.moves_rules calm_ops)
    then show ?thesis using NegotiationOffer by (simp add: moves_def calm_progress.R_refl)
  qed
  from this [of "h\<lparr>begun := tl (begun h)\<rparr>" "hd (begun h)"]
  show "calm h (snd (offer_ready R h))"
    by (auto simp: offer_ready_def calm_progress.R_refl calm_def split: list.splits)
qed

lemma calm_event: "moves calm (hook_event R e)"
  by (cases e) (simp_all add: calm_steps calm_ops calm_offer_ready)

subsection \<open>One page\<close>

text \<open>
  What the page shows, the call it is in and its connection go together.
\<close>

definition in_step :: "'pc anon_page \<Rightarrow> bool" where
  "in_step s \<longleftrightarrow> (matchState s = Matched \<longleftrightarrow> matchCallId s \<noteq> None) \<and> (partnerInfo s \<noteq> None \<longleftrightarrow> matchCallId s \<noteq> None) \<and>
     matchCallId s \<noteq> Some [] \<and> partnerJoined s \<and> (pcRef s \<noteq> None \<longrightarrow> matchCallId s \<noteq> None) \<and>
     (offerSentRef s \<longrightarrow> pcRef s \<noteq> None)"

lemma in_step_hook: "moves (same page_part) m \<Longrightarrow> moves calm m \<Longrightarrow> moves (keeps in_step) m"
  by (fastforce simp: moves_def keeps_def same_def page_part_def calm_def in_step_def)

interpretation props_view: page_view anon_props
  by unfold_locales (simp_all add: anon_props_def)

lemma props_live: "live (anon_props s) \<longleftrightarrow> isConnected s \<and> matchCallId s \<noteq> None \<and> matchCallId s \<noteq> Some []"
  by (auto simp: live_def anon_props_def split: option.splits)

lemma props_view_deps: "anon_props (s\<lparr>page_deps := d\<rparr>) = anon_props s"
  by (simp add: anon_props_def)

definition settled :: "'pc anon_page \<Rightarrow> bool" where
  "settled s \<longleftrightarrow> in_step s \<and> committed s = Some (anon_props s, True) \<and>
     listening s = (if live (anon_props s) then Some (anon_props s) else None) \<and>
     page_deps s = Some (isConnected s, matchState s, showContactSave s)"

lemma settled_commit:
  assumes "in_step s"
  shows "settled (snd (anon_commit R s))"
proof -
  define t where "t = snd (commit R (anon_props s) s)"
  have part: "page_part t = page_part s" using movesD [OF anon_view.view_commit [of R "anon_props s"], of s]
    by (simp add: t_def same_def)
  have props: "anon_props t = anon_props s"
    using movesD [OF props_view.view_commit [of R "anon_props s"], of s] by (simp add: t_def same_def)
  have fields: "matchCallId t = matchCallId s" "matchState t = matchState s" "partnerInfo t = partnerInfo s"
      "showContactSave t = showContactSave s" "isConnected t = isConnected s"
    using part arg_cong [OF props, of p_connected] by (simp_all add: page_part_def anon_props_def)
  have hook: "partnerJoined t = partnerJoined s" "committed t = Some (anon_props s, partnerJoined s)"
      "listening t = (if live (anon_props s) then Some (anon_props s) else None)"
      "pcRef t \<noteq> None \<longleftrightarrow> pcRef s \<noteq> None \<or> live (anon_props s)" "offerSentRef t = offerSentRef s"
    unfolding t_def by (rule commit_current commit_pc)+
  have "in_step t" using assms hook(1,4,5) by (simp add: in_step_def fields props_live)
  then have "settled (t\<lparr>page_deps := Some (isConnected t, matchState t, showContactSave t)\<rparr>)"
    using assms hook(2,3) props by (simp add: settled_def in_step_def props_view_deps)
  moreover have "settled (t\<lparr>page_deps := d\<rparr>) \<Longrightarrow>
      settled (snd (andthen (if b then queue_effect else ret ()) (modify (\<lambda>s. s\<lparr>page_deps := d\<rparr>)) t))" for b d
    by (auto simp: queue_effect_def join_queue_def send_ws_def op_simps settled_def in_step_def anon_props_def)
  ultimately have "settled (snd (andthen (if b then queue_effect else ret ())
      (modify (\<lambda>s. s\<lparr>page_deps := Some (isConnected t, matchState t, showContactSave t)\<rparr>)) t))" for b by blast
  then show ?thesis by (simp add: anon_commit_def Let_def commit_apply t_def [symmetric] fields)
qed

subsection \<open>A step\<close>

text \<open>The server's calls have ids.\<close>

definition names_call :: "anon_event \<Rightarrow> bool" where
  "names_call e \<longleftrightarrow> (case e of FromServer (EvFound c _ _ _ _) \<Rightarrow> c \<noteq> [] | _ \<Rightarrow> True)"

lemmas in_step_steps =
  in_step_hook [OF anon_view.view_steps(3) calm_steps(3)] in_step_hook [OF anon_view.view_ops(1) calm_ops(1)]
  in_step_hook [OF anon_view.view_steps(9) calm_steps(6)] in_step_hook [OF anon_view.view_ops(6) calm_ops(5)]
  in_step_hook [OF anon_view.view_ops(7) calm_ops(6)] in_step_hook [OF anon_view.view_ops(8) calm_ops(7)]
  in_step_hook [OF anon_view.view_event calm_event] in_step_hook [OF anon_view.view_steps(1) calm_steps(1)]

lemma in_step_ended: "matchState (snd (onCallEnded s)) = InQueue" "moves (keeps in_step) (handleCallEnded onCallEnded)"
  by (auto simp: moves_def keeps_def onCallEnded_def handleCallEnded_def cleanupPeerConnection_def join_queue_def send_ws_def op_simps in_step_def)

lemma in_step_receives:
  assumes "names_call (FromServer ev)"
  shows "moves (keeps in_step) (anon_receives R ev)"
proof -
  have "moves (keeps in_step) (page_receives ev)"
    by (cases ev) (use assms in \<open>auto simp: names_call_def in_step_def intro!: keeps_modify keeps_inv.moves_rules\<close>)
  moreover have "moves (keeps in_step) (receive R onCallEnded q ev)" for q
    by (cases ev) (auto intro!: in_step_steps in_step_ended keeps_inv.moves_rules)
  ultimately show ?thesis unfolding anon_receives_def hook_receives_def by (intro keeps_inv.moves_rules)
qed

lemma in_step_handle:
  assumes "names_call e"
  shows "moves (keeps in_step) (anon_handle R e)"
proof (cases e)
  case (FromServer ev)
  then show ?thesis using assms by (auto intro!: in_step_receives)
next
  case (FromRtc r)
  then show ?thesis by (auto intro!: in_step_steps)
next
  case ClickLeave
  then show ?thesis
    by (auto simp: moves_def keeps_def handleLeave_def page_endCall_def endCall_def cleanupPeerConnection_def send_ws_def op_simps
        in_step_def truthy_def split: if_splits)
next
  case ClickSave
  then show ?thesis
    by (auto simp: moves_def keeps_def handleSaveContact_def send_ws_def op_simps in_step_def split: option.splits)
qed (auto simp: on_media_def handleContactResponse_def clickBack_def page_endCall_def endCall_def cleanupPeerConnection_def send_ws_def op_simps
    in_step_def moves_def keeps_def)

text \<open>Nothing but a commit changes what was committed.\<close>

interpretation uncommitted: event_view "\<lambda>s :: 'pc anon_page. (committed s, listening s, page_deps s)"
  by unfold_locales simp_all

lemma handle_uncommitted: "moves (same (\<lambda>s. (committed s, listening s, page_deps s))) (anon_handle R e)"
proof (cases e)
  case (FromServer ev)
  have "moves (same (\<lambda>s. (committed s, listening s, page_deps s))) (page_receives ev :: ('a, unit) anon_op)"
    by (cases ev) (auto intro!: same_modify same_view.moves_rules)
  moreover have "moves (same (\<lambda>s. (committed s, listening s, page_deps s))) (onCallEnded :: ('a, unit) anon_op)"
    by (simp add: moves_def same_def onCallEnded_def join_queue_def send_ws_def op_simps)
  ultimately show ?thesis unfolding FromServer anon_handle.simps anon_receives_def
    by (intro same_view.moves_rules uncommitted.view_receives)
next
  case (FromRtc r)
  then show ?thesis by (simp add: uncommitted.view_event)
qed (auto simp: on_media_def handleContactResponse_def clickBack_def handleLeave_def handleSaveContact_def page_endCall_def endCall_def
    cleanupPeerConnection_def send_ws_def op_simps same_def moves_def split: option.splits)

interpretation calls_page: guarded_machine "\<lambda>_. names_call" "anon_step R" settled for R :: "'pc rtc"
proof unfold_locales
  fix s :: "'pc anon_page" and e
  assume ok: "settled s" "names_call e"
  define t where "t = snd (anon_handle R e s)"
  have in_step: "in_step t" using movesD [OF in_step_handle [OF ok(2), of R], of s] ok(1) by (simp add: t_def keeps_def settled_def)
  show "settled (anon_step R e s)"
  proof (cases "rendered_from t = rendered_from s")
    case True
    then have "anon_props t = anon_props s" by (simp add: rendered_from_def)
    moreover have "committed t = committed s" "listening t = listening s" "page_deps t = page_deps s"
      using movesD [OF handle_uncommitted [of R e], of s] by (simp_all add: t_def same_def)
    ultimately show ?thesis using ok(1) in_step True
      by (simp add: anon_step_def t_def [symmetric] settled_def rendered_from_def) (simp add: anon_props_def)
  next
    case False
    then show ?thesis using settled_commit [OF in_step, of R] by (simp add: anon_step_def t_def [symmetric] Let_def)
  qed
qed

lemma settled_mounted: "settled (snd (anon_mount R anon_init))"
proof -
  have "in_step (snd (on_media (StartMedia True True) (anon_init :: 'a anon_page)))"
    by (simp add: in_step_def on_media_def op_simps anon_init_def hook_init_def hook.extend_def anon_page.fields_def)
  then show ?thesis by (simp add: anon_mount_def andthen_apply on_media_def modify_apply settled_commit)
qed

text \<open>
  C32. What a page is. However a page of random matches came to its state, if the server's calls
  have ids: it shows a match exactly when it is in a call and knows who its partner is, it has a connection
  only in a call, it thinks an offer sent only on a connection it has, its listeners
  run with the call and role of the last render, and it has listeners exactly while it is connected and in a call.
\<close>

theorem page_in_step:
  assumes "reaches (\<lambda>_. names_call) (anon_step R) (snd (anon_mount R anon_init)) s"
  shows "(matchState s = Matched \<longleftrightarrow> matchCallId s \<noteq> None) \<and> (partnerInfo s \<noteq> None \<longleftrightarrow> matchCallId s \<noteq> None) \<and>
    (pcRef s \<noteq> None \<longrightarrow> matchState s = Matched) \<and> (offerSentRef s \<longrightarrow> pcRef s \<noteq> None) \<and>
    listening s = (if isConnected s \<and> matchState s = Matched then Some (anon_props s) else None)"
proof -
  have "settled s" by (rule calls_page.reaches_keeps [OF assms settled_mounted])
  then show ?thesis using props_live [of s] by (auto simp: settled_def in_step_def)
qed

text \<open>
  C33. A call ends a call. On a connected page that is in a call, \<open>call:ended\<close> for any call at all
  drops the connection and the partner, and the page looks for somebody else; it does not tell the server
  that its own call is over.
\<close>

theorem any_end_ends_match:
  assumes "reaches (\<lambda>_. names_call) (anon_step R) (snd (anon_mount R anon_init)) s"
    and "isConnected s" "matchState s = Matched"
    and t: "t = anon_step R (FromServer (EvEnded c r)) s"
  shows "matchState t = InQueue \<and> matchCallId t = None \<and> pcRef t = None \<and> listening t = None \<and>
    outbox t = outbox s @ [WsJoinQueue (Some Video), WsQueueStatus]"
proof -
  have "settled s" by (rule calls_page.reaches_keeps [OF assms(1) settled_mounted])
  then have s: "listening s = Some (anon_props s)" "page_deps s = Some (True, Matched, showContactSave s)" "matchCallId s \<noteq> None"
    using assms(2,3) props_live [of s] by (auto simp: settled_def in_step_def)
  define u where "u = snd (anon_handle R (FromServer (EvEnded c r)) s)"
  have u: "matchState u = InQueue" "matchCallId u = None" "pcRef u = None" "isConnected u" "queuedRef u" "\<not> showContactSave u"
      "page_deps u = page_deps s" "outbox u = outbox s @ [WsJoinQueue (Some Video)]"
    using s assms(2) by (simp_all add: u_def anon_receives_def hook_receives_def handleCallEnded_def cleanupPeerConnection_def onCallEnded_def
        join_queue_def send_ws_def op_simps)
  define v where "v = snd (commit R (anon_props u) u)"
  have v: "page_part v = page_part u" "anon_props v = anon_props u" "outbox v = outbox u" "pcRef v = None" "listening v = None"
    using movesD [OF anon_view.view_commit [of R "anon_props u"], of u] movesD [OF props_view.view_commit [of R "anon_props u"], of u]
      quiet_commit [of R "anon_props u" u] commit_pc [of R "anon_props u" u] commit_current [of R "anon_props u" u] u(2,3) props_live [of u]
    by (auto simp: v_def same_def)
  have "rendered_from u \<noteq> rendered_from s" using u(1) assms(3) by (simp add: rendered_from_def)
  then have "t = snd (anon_commit R u)" by (simp add: t anon_step_def u_def [symmetric] Let_def del: anon_handle.simps)
  then have "t = snd (andthen queue_effect (modify (\<lambda>s. s\<lparr>page_deps := Some (True, InQueue, False)\<rparr>)) v)"
    using u s(2) by (simp add: anon_commit_def Let_def commit_apply v_def [symmetric])
  with u v show ?thesis by (auto simp: queue_effect_def join_queue_def send_ws_def op_simps page_part_def anon_props_def)
qed

end
