(* ===== verification/MatchedPages.thy ===== *)
theory MatchedPages
  imports AnonymousCalls
begin

text \<open>
  The two pages of a match against each other: the offer, the answer, and both connections
  stable again. The browser's connection is described by the signaling states of the WebRTC
  specification.
\<close>

subsection \<open>The browser's contract\<close>

text \<open>
  \<open>jsep R is_offer is_answer\<close>: from \<open>stable\<close> a local or a remote offer may be set, and from
  either state the matching answer leads back to \<open>stable\<close>; adding a track changes no state.
\<close>

definition sets_to :: "'pc rtc \<Rightarrow> ('pc, unit) op \<Rightarrow> 'pc \<Rightarrow> string \<Rightarrow> bool" where
  "sets_to R m x st \<longleftrightarrow> fst (m x) = Inr () \<and> rtc_state R (snd (m x)) = st"

definition makes :: "'pc rtc \<Rightarrow> ('pc, string) op \<Rightarrow> 'pc \<Rightarrow> (string \<Rightarrow> bool) \<Rightarrow> bool" where
  "makes R m x good \<longleftrightarrow> (case m x of (Inr d, y) \<Rightarrow> good d \<and> rtc_state R y = rtc_state R x | _ \<Rightarrow> False)"

definition jsep :: "'pc rtc \<Rightarrow> (string \<Rightarrow> bool) \<Rightarrow> (string \<Rightarrow> bool) \<Rightarrow> bool" where
  "jsep R is_offer is_answer \<longleftrightarrow>
     rtc_state R (rtc_new R) = ''stable'' \<and>
     (\<forall>t x. rtc_state R (rtc_add_track R t x) = rtc_state R x) \<and>
     (\<forall>x. rtc_state R x = ''stable'' \<longrightarrow> makes R (rtc_createOffer R) x is_offer) \<and>
     (\<forall>x d. rtc_state R x = ''stable'' \<longrightarrow> is_offer d \<longrightarrow>
        sets_to R (rtc_setLocal R d) x ''have-local-offer'' \<and> is_offer (rtc_local R (snd (rtc_setLocal R d x))) \<and>
        sets_to R (rtc_setRemote R d) x ''have-remote-offer'') \<and>
     (\<forall>x. rtc_state R x = ''have-remote-offer'' \<longrightarrow> makes R (rtc_createAnswer R) x is_answer) \<and>
     (\<forall>x d. rtc_state R x = ''have-remote-offer'' \<longrightarrow> is_answer d \<longrightarrow> sets_to R (rtc_setLocal R d) x ''stable'') \<and>
     (\<forall>x d. rtc_state R x = ''have-local-offer'' \<longrightarrow> is_answer d \<longrightarrow> sets_to R (rtc_setRemote R d) x ''stable'')"

lemma attached_state:
  assumes "\<And>t x. rtc_state R (rtc_add_track R t x) = rtc_state R x"
  shows "rtc_state R (attach_tracks R st x) = rtc_state R x"
proof -
  have "rtc_state R (fold (rtc_add_track R) ts x) = rtc_state R x" for ts
    by (induction ts arbitrary: x) (simp_all add: assms)
  then show ?thesis by (simp add: attach_tracks_def split: option.splits)
qed

subsection \<open>The steps of a connection\<close>

definition fresh_peer :: "'pc rtc \<Rightarrow> hook_props \<Rightarrow> ('pc, 'z) hook_scheme \<Rightarrow> 'pc peer" where
  "fresh_peer R q h = \<lparr>pc_id = next_pc h, pc = attach_tracks R (p_localStream q) (rtc_new R), at_callId = p_callId q,
     at_isInitiator = p_isInitiator q, at_partnerJoined = partnerJoined h\<rparr>"

lemma commit_fresh:
  assumes "pcRef h = None" "live q" "partnerJoined h" "\<not> offerSentRef h" "committed h = Some (q0, True)" "p_callId q0 \<noteq> p_callId q"
    and "rtc_state R (attach_tracks R (p_localStream q) (rtc_new R)) = ''stable''"
  shows "snd (commit R q h) = h\<lparr>pcRef := Some (fresh_peer R q h), next_pc := next_pc h + 1,
     begun := begun h @ (if p_isInitiator q then [EffectOffer (next_pc h) (p_callId q)] else []),
     listening := Some q, committed := Some (q, True)\<rparr>"
proof -
  have "differs offer_deps (committed h) (q, partnerJoined h)" using assms(5,6) by (simp add: differs_def offer_deps_def)
  then show ?thesis
    using assms by (simp add: commit_def Let_def op_simps listen_effect_def initPeerConnection_def tracks_effect_def init_effect_def
      offer_effect_def fresh_peer_def)
qed

lemma make_offer_stable:
  assumes J: "jsep R is_offer is_answer" and p: "pcRef h = Some p" "rtc_state R (pc p) = ''stable''"
  obtains x sdp where "make_offer R c h = (Inr (), h\<lparr>pcRef := Some (p\<lparr>pc := x\<rparr>), outbox := outbox h @ [WsOffer c sdp]\<rparr>)"
    "rtc_state R x = ''have-local-offer''" "is_offer sdp"
proof -
  have "makes R (rtc_createOffer R) (pc p) is_offer" using J p(2) by (simp add: jsep_def)
  then obtain d y where d: "rtc_createOffer R (pc p) = (Inr d, y)" "is_offer d" "rtc_state R y = ''stable''"
    using p(2) by (auto simp: makes_def split: prod.splits sum.splits)
  define x where "x = snd (rtc_setLocal R d y)"
  have x: "sets_to R (rtc_setLocal R d) y ''have-local-offer''" "is_offer (rtc_local R x)"
    using J d by (auto simp: jsep_def x_def)
  have "make_offer R c h = (Inr (), h\<lparr>pcRef := Some (p\<lparr>pc := x\<rparr>), outbox := outbox h @ [WsOffer c (rtc_local R x)]\<rparr>)"
    using x(1) p(1) d(1) by (simp add: make_offer_def on_pc_apply op_simps send_ws_def sets_to_def x_def)
  with x that show thesis by (auto simp: sets_to_def x_def)
qed

lemma answer_offer:
  assumes J: "jsep R is_offer is_answer" and p: "pcRef h = Some p" "rtc_state R (pc p) = ''stable''"
    and "is_offer sdp" "\<not> p_isInitiator q"
  obtains x ans where "handleOffer R q sdp h = (Inr (), h\<lparr>pcRef := Some (p\<lparr>pc := x\<rparr>), outbox := outbox h @ [WsAnswer (p_callId q) ans]\<rparr>)"
    "rtc_state R x = ''stable''" "is_answer ans"
proof -
  define y where "y = snd (rtc_setRemote R sdp (pc p))"
  have y: "sets_to R (rtc_setRemote R sdp) (pc p) ''have-remote-offer''" using J p(2) assms(4) by (simp add: jsep_def)
  then have "makes R (rtc_createAnswer R) y is_answer" using J by (simp add: jsep_def sets_to_def y_def)
  then obtain d z where d: "rtc_createAnswer R y = (Inr d, z)" "is_answer d" "rtc_state R z = ''have-remote-offer''"
    using y by (auto simp: makes_def sets_to_def y_def split: prod.splits sum.splits)
  define x where "x = snd (rtc_setLocal R d z)"
  have x: "sets_to R (rtc_setLocal R d) z ''stable''" using J d by (simp add: jsep_def)
  have "handleOffer R q sdp h = (Inr (), h\<lparr>pcRef := Some (p\<lparr>pc := x\<rparr>), outbox := outbox h @ [WsAnswer (p_callId q) d]\<rparr>)"
    using x y d(1) p assms(5)
    by (simp add: handleOffer_def signaling_state_def on_pc_apply op_simps send_ws_def sets_to_def x_def y_def)
  with x d that show thesis by (auto simp: sets_to_def x_def)
qed

lemma take_answer:
  assumes "jsep R is_offer is_answer" "pcRef h = Some p" "rtc_state R (pc p) = ''have-local-offer''" "is_answer ans" "p_isInitiator q"
  obtains x where "handleAnswer R q ans h = (Inr (), h\<lparr>pcRef := Some (p\<lparr>pc := x\<rparr>)\<rparr>)" "rtc_state R x = ''stable''"
proof -
  have "sets_to R (rtc_setRemote R ans) (pc p) ''stable''" using assms(1,3,4) by (simp add: jsep_def)
  then show thesis
    using assms(2,3,5) that by (auto simp: handleAnswer_def signaling_state_def on_pc_apply op_simps sets_to_def)
qed

subsection \<open>The pages of a match\<close>

lemma found_step:
  assumes J: "jsep R is_offer is_answer" and ok: "settled s" "isConnected s" "matchState s \<noteq> Matched" and c: "c \<noteq> []"
    and t: "t = anon_step R (FromServer (EvFound c ct i both u)) s"
  obtains p q where "pcRef t = Some p" "rtc_state R (pc p) = ''stable''" "listening t = Some q" "p_callId q = c" "p_isInitiator q = i"
    "begun t = begun s @ (if i then [EffectOffer (pc_id p) c] else [])" "outbox t = outbox s @ [WsQueueStatus]" "matchCallId t = Some c"
proof -
  have s: "matchCallId s = None" "pcRef s = None" "partnerJoined s" "\<not> offerSentRef s" "committed s = Some (anon_props s, True)"
      "listening s = None" "page_deps s = Some (True, matchState s, showContactSave s)"
    using ok props_live [of s] by (auto simp: settled_def in_step_def)
  define v where "v = s\<lparr>matchCallId := Some c, isInitiator := i, partnerInfo := Some (u, both), matchState := Matched,
    showContactSave := False, contactRequestSent := False\<rparr>"
  have v: "snd (anon_handle R (FromServer (EvFound c ct i both u)) s) = v"
    by (simp add: anon_receives_def hook_receives_def op_simps s(6) v_def)
  have "rendered_from v \<noteq> rendered_from s" using ok(3) by (simp add: v_def rendered_from_def)
  then have step: "t = snd (anon_commit R v)" by (simp add: t anon_step_def v Let_def del: anon_handle.simps)
  define q where "q = anon_props v"
  have q: "p_callId q = c" "p_isInitiator q = i" "live q" "p_callId (anon_props s) \<noteq> c"
    using c ok(2) s(1) by (simp_all add: q_def v_def anon_props_def live_def)
  have stable: "rtc_state R (attach_tracks R st (rtc_new R)) = ''stable''" for st
    using J attached_state [of R] by (simp add: jsep_def)
  have commit: "snd (commit R q v) = v\<lparr>pcRef := Some (fresh_peer R q v), next_pc := next_pc v + 1,
     begun := begun v @ (if p_isInitiator q then [EffectOffer (next_pc v) (p_callId q)] else []),
     listening := Some q, committed := Some (q, True)\<rparr>"
    by (rule commit_fresh [of _ _ "anon_props s"]) (use s q stable in \<open>simp_all add: v_def\<close>)
  have "page_deps v \<noteq> Some (isConnected v, matchState v, showContactSave v)" using s(7) ok(3) by (simp add: v_def)
  then have t': "t = snd (andthen queue_effect (modify (\<lambda>s. s\<lparr>page_deps := Some (True, Matched, False)\<rparr>)) (snd (commit R q v)))"
    using ok(2) unfolding step q_def by (simp add: anon_commit_def Let_def commit_apply) (simp add: v_def)
  show thesis
  proof (rule that)
    show "pcRef t = Some (fresh_peer R q v)" "begun t = begun s @ (if i then [EffectOffer (pc_id (fresh_peer R q v)) c] else [])"
      "listening t = Some q" "outbox t = outbox s @ [WsQueueStatus]" "matchCallId t = Some c"
      unfolding t' commit using q ok(2) by (simp_all add: queue_effect_def op_simps send_ws_def v_def fresh_peer_def)
    show "rtc_state R (pc (fresh_peer R q v)) = ''stable''" by (simp add: fresh_peer_def stable)
  qed (fact q)+
qed

lemma same_render: "rendered_from (snd (anon_handle R e s)) = rendered_from s \<Longrightarrow> anon_step R e s = snd (anon_handle R e s)"
  by (simp add: anon_step_def)

lemma offer_step:
  assumes J: "jsep R is_offer is_answer" and p: "pcRef s = Some p" "rtc_state R (pc p) = ''stable''"
    and "begun s = [EffectOffer (pc_id p) c]"
  obtains x sdp where "anon_step R (FromRtc OfferReady) s =
      s\<lparr>begun := [], pcRef := Some (p\<lparr>pc := x\<rparr>), outbox := outbox s @ [WsOffer c sdp], offerSentRef := True\<rparr>"
    "rtc_state R x = ''have-local-offer''" "is_offer sdp"
proof -
  obtain x sdp where off: "make_offer R c (s\<lparr>begun := []\<rparr>) = (Inr (), s\<lparr>begun := [], pcRef := Some (p\<lparr>pc := x\<rparr>), outbox := outbox s @ [WsOffer c sdp]\<rparr>)"
      "rtc_state R x = ''have-local-offer''" "is_offer sdp"
    by (rule make_offer_stable [OF J, of "s\<lparr>begun := []\<rparr>" p c]) (auto simp: p)
  have ready: "snd (anon_handle R (FromRtc OfferReady) s) =
      s\<lparr>begun := [], pcRef := Some (p\<lparr>pc := x\<rparr>), outbox := outbox s @ [WsOffer c sdp], offerSentRef := True\<rparr>"
    using p(1) by (simp add: offer_ready_def assms(4) is_current_def op_simps off(1))
  have "anon_step R (FromRtc OfferReady) s = snd (anon_handle R (FromRtc OfferReady) s)"
    by (rule same_render) (unfold ready, simp add: rendered_from_def anon_props_def)
  with off that show thesis unfolding ready by blast
qed

lemma answer_offer_step:
  assumes J: "jsep R is_offer is_answer" and p: "pcRef s = Some p" "rtc_state R (pc p) = ''stable''"
    and q: "listening s = Some q" "\<not> p_isInitiator q" and "is_offer sdp"
  obtains y ans where "anon_step R (FromServer (EvOffer c sdp)) s =
      s\<lparr>pcRef := Some (p\<lparr>pc := y\<rparr>), outbox := outbox s @ [WsAnswer (p_callId q) ans]\<rparr>"
    "rtc_state R y = ''stable''" "is_answer ans"
proof -
  obtain y ans where ans: "handleOffer R q sdp s = (Inr (), s\<lparr>pcRef := Some (p\<lparr>pc := y\<rparr>), outbox := outbox s @ [WsAnswer (p_callId q) ans]\<rparr>)"
      "rtc_state R y = ''stable''" "is_answer ans"
    using answer_offer [OF J p assms(6) q(2)] by metis
  have answered: "snd (anon_handle R (FromServer (EvOffer c sdp)) s) =
      s\<lparr>pcRef := Some (p\<lparr>pc := y\<rparr>), outbox := outbox s @ [WsAnswer (p_callId q) ans]\<rparr>"
    by (simp add: anon_receives_def hook_receives_def op_simps q(1) ans(1))
  have "anon_step R (FromServer (EvOffer c sdp)) s = snd (anon_handle R (FromServer (EvOffer c sdp)) s)"
    by (rule same_render) (unfold answered, simp add: rendered_from_def anon_props_def)
  with ans that show thesis unfolding answered by blast
qed

lemma take_answer_step:
  assumes J: "jsep R is_offer is_answer" and p: "pcRef s = Some p" "rtc_state R (pc p) = ''have-local-offer''"
    and q: "listening s = Some q" "p_isInitiator q" and "is_answer ans"
  shows "signaling_state R (anon_step R (FromServer (EvAnswer c ans)) s) = Some ''stable''"
proof -
  obtain z where z: "handleAnswer R q ans s = (Inr (), s\<lparr>pcRef := Some (p\<lparr>pc := z\<rparr>)\<rparr>)" "rtc_state R z = ''stable''"
    using take_answer [OF J p assms(6) q(2)] by metis
  have taken: "snd (anon_handle R (FromServer (EvAnswer c ans)) s) = s\<lparr>pcRef := Some (p\<lparr>pc := z\<rparr>)\<rparr>"
    by (simp add: anon_receives_def hook_receives_def op_simps q(1) z(1))
  have "anon_step R (FromServer (EvAnswer c ans)) s = snd (anon_handle R (FromServer (EvAnswer c ans)) s)"
    by (rule same_render) (unfold taken, simp add: rendered_from_def anon_props_def)
  with z(2) show ?thesis unfolding taken by (simp add: signaling_state_def)
qed

text \<open>
  C30. Connecting. Two connected pages that are looking for somebody are told of the same
  match, one as its initiator. The initiator's offer, once it is ready, is sent for that call; the other page answers
  it; and when the initiator has the answer the connections of both pages are stable again.
\<close>

theorem matched_pages_connect:
  assumes J: "jsep R is_offer is_answer" and "c \<noteq> []"
    and a: "reaches (\<lambda>_. names_call) (anon_step R) (snd (anon_mount R anon_init)) a" "isConnected a" "matchState a = InQueue" "begun a = []"
    and b: "reaches (\<lambda>_. names_call) (anon_step R) (snd (anon_mount R anon_init)) b" "isConnected b" "matchState b = InQueue"
    and a': "a' = run (anon_step R) [FromServer (EvFound c ct True both u), FromRtc OfferReady] a"
    and b': "b' = anon_step R (FromServer (EvFound c ct False both w)) b"
  shows "\<exists>sdp ans. outbox a' = outbox a @ [WsQueueStatus, WsOffer c sdp] \<and>
    outbox (anon_step R (FromServer (EvOffer c sdp)) b') = outbox b @ [WsQueueStatus, WsAnswer c ans] \<and>
    signaling_state R (anon_step R (FromServer (EvOffer c sdp)) b') = Some ''stable'' \<and>
    signaling_state R (anon_step R (FromServer (EvAnswer c ans)) a') = Some ''stable''"
proof -
  have settled: "settled a" "settled b" using a(1) b(1) by (auto intro: calls_page.reaches_keeps [OF _ settled_mounted])
  define a1 where "a1 = anon_step R (FromServer (EvFound c ct True both u)) a"
  have "matchState a \<noteq> Matched" "matchState b \<noteq> Matched" using a(3) b(3) by simp_all
  note found = found_step [OF J settled(1) a(2) this(1) assms(2) a1_def] found_step [OF J settled(2) b(2) this(2) assms(2) b']
  obtain p q where p: "pcRef a1 = Some p" "rtc_state R (pc p) = ''stable''" "listening a1 = Some q" "p_isInitiator q"
      "begun a1 = [EffectOffer (pc_id p) c]" "outbox a1 = outbox a @ [WsQueueStatus]"
    by (rule found(1)) (auto simp: a(4))
  obtain p' q' where p': "pcRef b' = Some p'" "rtc_state R (pc p') = ''stable''" "listening b' = Some q'" "p_callId q' = c"
      "\<not> p_isInitiator q'" "outbox b' = outbox b @ [WsQueueStatus]"
    by (rule found(2)) auto
  obtain x sdp where off: "a' = a1\<lparr>begun := [], pcRef := Some (p\<lparr>pc := x\<rparr>), outbox := outbox a1 @ [WsOffer c sdp], offerSentRef := True\<rparr>"
      "rtc_state R x = ''have-local-offer''" "is_offer sdp"
    by (rule offer_step [OF J p(1,2,5)]) (simp add: a' a1_def [symmetric])
  obtain y ans where ans: "anon_step R (FromServer (EvOffer c sdp)) b' = b'\<lparr>pcRef := Some (p'\<lparr>pc := y\<rparr>), outbox := outbox b' @ [WsAnswer c ans]\<rparr>"
      "rtc_state R y = ''stable''" "is_answer ans"
    using answer_offer_step [OF J p'(1,2,3,5) off(3)] p'(4) by metis
  have "signaling_state R (anon_step R (FromServer (EvAnswer c ans)) a') = Some ''stable''"
    by (rule take_answer_step [OF J _ _ _ p(4) ans(3), of _ "p\<lparr>pc := x\<rparr>"]) (simp_all add: off(1,2) p(3))
  with ans off(1) p(6) p'(6) show ?thesis by (auto simp: signaling_state_def)
qed

end
