(* ===== verification/MediaSafety.thy ===== *)
theory MediaSafety
  imports MediaDevices Machines
begin

text \<open>
  When the camera is released. What the browser promises about a new stream is the guard of a
  grant; a page that waits for the answer before it asks or stops again is the stronger guard.
\<close>

definition fresh_grant :: "media \<Rightarrow> media_event \<Rightarrow> bool" where
  "fresh_grant m e = (case e of
     MediaGranted i a v \<Rightarrow> i < length (asked_media m) \<and> a \<noteq> v \<and> a \<notin> tk_id ` set (tracks m) \<and> v \<notin> tk_id ` set (tracks m)
   | _ \<Rightarrow> True)"

definition waits :: "media \<Rightarrow> media_event \<Rightarrow> bool" where
  "waits m e = (fresh_grant m e \<and> (case e of
     StartMedia _ _ \<Rightarrow> asked_media m = [] | StopMedia \<Rightarrow> asked_media m = [] | _ \<Rightarrow> True))"

definition shown_tracks :: "media \<Rightarrow> string set" where
  "shown_tracks m = (case streamRef m of None \<Rightarrow> {} | Some s \<Rightarrow> set s)"

lemma stop_simps [simp]:
  "asked_media (stop_tracks s m) = asked_media m" "streamRef (stop_tracks s m) = streamRef m" "stream (stop_tracks s m) = stream m"
  "micEnabled (stop_tracks s m) = micEnabled m" "cameraEnabled (stop_tracks s m) = cameraEnabled m"
  by (simp_all add: stop_tracks_def)

lemma ids_update: "(\<And>t. tk_id (f t) = tk_id t) \<Longrightarrow> map tk_id (update_where p f ts) = map tk_id ts"
  by (simp add: update_where_def)

lemma tracks_of_update:
  assumes "\<And>t. tk_id (f t) = tk_id t" "\<And>t. tk_kind (f t) = tk_kind t"
  shows "tracks_of s k (m\<lparr>tracks := update_where p f (tracks m)\<rparr>) = update_where p f (tracks_of s k m)"
proof -
  have "filter (\<lambda>t. tk_id t \<in> set s \<and> tk_kind t = k) (update_where p f ts) =
      update_where p f (filter (\<lambda>t. tk_id t \<in> set s \<and> tk_kind t = k) ts)" for ts
    by (induction ts) (auto simp: update_where_def assms)
  then show ?thesis by (simp add: tracks_of_def)
qed

subsection \<open>A page that waits\<close>

text \<open>Every live track is of the stream the page has, and the page shows what that stream is.\<close>

definition flags_right :: "media \<Rightarrow> bool" where
  "flags_right m = (case streamRef m of None \<Rightarrow> True | Some s \<Rightarrow>
     micEnabled m = list_ex tk_enabled (tracks_of s AudioKind m) \<and>
     cameraEnabled m = list_ex tk_enabled (tracks_of s VideoKind m) \<and>
     length (tracks_of s AudioKind m) \<le> 1 \<and> length (tracks_of s VideoKind m) \<le> 1)"

definition media_ok :: "media \<Rightarrow> bool" where
  "media_ok m \<longleftrightarrow> distinct (map tk_id (tracks m)) \<and> stream m = streamRef m \<and> length (asked_media m) \<le> 1 \<and>
     (\<forall>t \<in> set (tracks m). tk_live t \<longrightarrow> tk_id t \<in> shown_tracks m \<and> asked_media m = []) \<and>
     shown_tracks m \<subseteq> tk_id ` set (tracks m) \<and> flags_right m"

lemma set_update: "x \<in> set (update_where p f ts) \<longleftrightarrow> (\<exists>t \<in> set ts. x = (if p t then f t else t))"
  by (auto simp: update_where_def)

lemma stop_flags: "flags_right (stop_tracks s m) = flags_right m"
proof -
  have "tracks_of s' k (stop_tracks s m) = update_where (\<lambda>t. tk_id t \<in> set s) (\<lambda>t. t\<lparr>tk_live := False\<rparr>) (tracks_of s' k m)" for s' k
    unfolding stop_tracks_def by (rule tracks_of_update) simp_all
  moreover have "list_ex tk_enabled (update_where p (\<lambda>t. t\<lparr>tk_live := False\<rparr>) ts) = list_ex tk_enabled ts"
    "length (update_where p (\<lambda>t. t\<lparr>tk_live := False\<rparr>) ts) = length ts" for p and ts :: "track list"
    by (induction ts) (auto simp: update_where_def)
  ultimately show ?thesis by (simp add: flags_right_def split: option.splits)
qed

lemma stop_ids: "map tk_id (tracks (stop_tracks s m)) = map tk_id (tracks m)"
  by (simp add: stop_tracks_def ids_update)

lemma stop_live: "t \<in> set (tracks (stop_tracks s m)) \<Longrightarrow> tk_live t \<Longrightarrow> tk_id t \<notin> set s \<and> t \<in> set (tracks m)"
  unfolding stop_tracks_def by (simp add: set_update) (metis (no_types, lifting) track.select_convs(4) track.surjective track.update_convs(4))

lemma stop_shown: "shown_tracks (stop_tracks s m) = shown_tracks m"
  by (simp add: shown_tracks_def)

lemma tracks_of_asked [simp]:
  "tracks_of s k (m\<lparr>asked_media := x\<rparr>) = tracks_of s k m" "tracks_of s k (m\<lparr>mediaError := y\<rparr>) = tracks_of s k m"
  by (simp_all add: tracks_of_def)

lemma flags_asked [simp]:
  "flags_right (m\<lparr>asked_media := x\<rparr>) = flags_right m" "shown_tracks (m\<lparr>asked_media := x\<rparr>) = shown_tracks m"
  "flags_right (m\<lparr>mediaError := y\<rparr>) = flags_right m" "shown_tracks (m\<lparr>mediaError := y\<rparr>) = shown_tracks m"
  by (simp_all add: flags_right_def shown_tracks_def split: option.splits)

lemma ok_start:
  assumes "media_ok m" "asked_media m = []"
  shows "media_ok (media_step (StartMedia v a) m)"
proof (cases "streamRef m")
  case None
  then have "\<forall>t \<in> set (tracks m). \<not> tk_live t" using assms by (auto simp: media_ok_def shown_tracks_def)
  with None assms show ?thesis
    by (simp add: media_step_def startMedia_def modify_def media_ok_def shown_tracks_def flags_right_def tracks_of_def)
next
  case (Some s)
  let ?m = "stop_tracks s m"
  have dead: "\<forall>t \<in> set (tracks ?m). \<not> tk_live t"
    using assms Some by (auto simp: media_ok_def shown_tracks_def dest!: stop_live)
  have "tk_id ` set (tracks ?m) = tk_id ` set (tracks m)" using stop_ids [of s m] by (metis list.set_map)
  then have "media_ok (?m\<lparr>asked_media := asked_media m @ [(v, a)]\<rparr>)"
    using assms dead stop_flags [of s m] stop_ids [of s m] stop_shown [of s m]
    by (simp add: media_ok_def)
  then show ?thesis using Some by (simp add: media_step_def startMedia_def modify_def)
qed

lemma ok_stop:
  assumes "media_ok m" "asked_media m = []"
  shows "media_ok (media_step StopMedia m) \<and> (\<forall>t \<in> set (tracks (media_step StopMedia m)). \<not> tk_live t)"
proof (cases "streamRef m")
  case None
  then have "\<forall>t \<in> set (tracks m). \<not> tk_live t" using assms by (auto simp: media_ok_def shown_tracks_def)
  with None assms show ?thesis by (simp add: media_step_def stopMedia_def modify_def)
next
  case (Some s)
  have dead: "\<forall>t \<in> set (tracks (stop_tracks s m)). \<not> tk_live t"
    using assms Some by (auto simp: media_ok_def shown_tracks_def dest!: stop_live)
  with Some assms stop_ids [of s m] show ?thesis
    by (simp add: media_step_def stopMedia_def modify_def media_ok_def shown_tracks_def flags_right_def)
qed

lemma ok_refused: "media_ok m \<Longrightarrow> media_ok (media_step (MediaRefused i msg) m)"
  by (cases "asked_media m") (auto simp: media_step_def media_refused_def modify_def media_ok_def without_nth_def)

lemma ok_granted:
  assumes "media_ok m" "fresh_grant m (MediaGranted i a v)"
  shows "media_ok (media_step (MediaGranted i a v) m)"
proof -
  obtain q where q: "asked_media m = [q]" and i: "i = 0" and dead: "\<forall>t \<in> set (tracks m). \<not> tk_live t"
    using assms by (cases "asked_media m") (auto simp: media_ok_def fresh_grant_def)
  have fresh: "a \<noteq> v" "a \<notin> tk_id ` set (tracks m)" "v \<notin> tk_id ` set (tracks m)"
    using assms(2) by (simp_all add: fresh_grant_def)
  have none: "filter (\<lambda>t. tk_id t = a \<and> tk_kind t = k) (tracks m) = []" "filter (\<lambda>t. tk_id t = v \<and> tk_kind t = k) (tracks m) = []"
    "filter (\<lambda>t. (tk_id t = a \<or> tk_id t = v) \<and> tk_kind t = k) (tracks m) = []" for k
    using fresh(2,3) by (auto simp: filter_empty_conv)
  obtain video audio where [simp]: "q = (video, audio)" by (cases q)
  show ?thesis
    using assms(1) fresh dead none
    by (cases video; cases audio)
      (auto simp: media_step_def media_granted_def modify_def q i Let_def media_ok_def new_tracks_def without_nth_def
        shown_tracks_def flags_right_def tracks_of_def)
qed

text \<open>A toggle flips the only track of its kind, and its flag with it.\<close>

definition flip :: "track \<Rightarrow> track list \<Rightarrow> track list" where
  "flip t = update_where (\<lambda>x. tk_id x = tk_id t) (\<lambda>x. x\<lparr>tk_enabled := \<not> tk_enabled t\<rparr>)"

lemma tracks_of_flip: "tracks_of s k (m\<lparr>tracks := flip t (tracks m)\<rparr>) = flip t (tracks_of s k m)"
  unfolding flip_def by (rule tracks_of_update) simp_all

lemma flip_other: "t \<notin> set ts \<Longrightarrow> distinct (map tk_id all) \<Longrightarrow> set ts \<subseteq> set all \<Longrightarrow> t \<in> set all \<Longrightarrow> flip t ts = ts"
  unfolding flip_def by (rule update_where_none) (metis (no_types, lifting) distinct_map inj_onD subsetD)

lemma tracks_of_simps [simp]:
  "tracks_of s k (m\<lparr>micEnabled := b\<rparr>) = tracks_of s k m" "tracks_of s k (m\<lparr>cameraEnabled := b\<rparr>) = tracks_of s k m"
  by (simp_all add: tracks_of_def)

lemma ok_flip:
  assumes ok: "media_ok m" and s: "streamRef m = Some s" and t: "tracks_of s k m = [t]"
  shows "media_ok (case k of AudioKind \<Rightarrow> m\<lparr>tracks := flip t (tracks m), micEnabled := \<not> tk_enabled t\<rparr>
    | VideoKind \<Rightarrow> m\<lparr>tracks := flip t (tracks m), cameraEnabled := \<not> tk_enabled t\<rparr>)"
proof -
  have t_in: "t \<in> set (tracks m)" "tk_kind t = k" using t by (auto simp: tracks_of_def dest!: filter_eq_ConsD)
  have ids: "map tk_id (flip t (tracks m)) = map tk_id (tracks m)" by (simp add: flip_def ids_update)
  have other: "flip t (tracks_of s k' m) = tracks_of s k' m" if "k' \<noteq> k" for k'
    by (rule flip_other [of t _ "tracks m"]) (use that t_in ok in \<open>auto simp: tracks_of_def media_ok_def\<close>)
  have same: "flip t (tracks_of s k m) = [t\<lparr>tk_enabled := \<not> tk_enabled t\<rparr>]" by (simp add: t flip_def)
  have live: "tk_id x \<in> set s \<and> asked_media m = []" if x: "x \<in> set (flip t (tracks m))" "tk_live x" for x
  proof -
    obtain y where "y \<in> set (tracks m)" "tk_live y" "tk_id y = tk_id x"
      using x by (auto simp: flip_def set_update split: if_splits)
    with ok s show ?thesis by (auto simp: media_ok_def shown_tracks_def)
  qed
  have "tk_id ` set (flip t (tracks m)) = tk_id ` set (tracks m)" using ids by (metis list.set_map)
  with ok s ids live same other show ?thesis
    by (cases k) (simp_all add: media_ok_def flags_right_def shown_tracks_def tracks_of_flip t)
qed


lemma ok_dark:
  assumes ok: "media_ok m" and s: "streamRef m = Some s" and none: "tracks_of s k m = []"
  shows "media_ok (case k of AudioKind \<Rightarrow> m\<lparr>micEnabled := False\<rparr> | VideoKind \<Rightarrow> m\<lparr>cameraEnabled := False\<rparr>)"
  using ok s none by (cases k) (simp_all add: media_ok_def flags_right_def shown_tracks_def)

lemma one_track: "media_ok m \<Longrightarrow> streamRef m = Some s \<Longrightarrow> tracks_of s k m = [] \<or> (\<exists>t. tracks_of s k m = [t])"
  by (cases "tracks_of s k m"; cases k) (auto simp: media_ok_def flags_right_def)

lemma ok_toggle: "media_ok m \<Longrightarrow> media_ok (media_step ToggleMic m)" "media_ok m \<Longrightarrow> media_ok (media_step ToggleCamera m)"
proof -
  assume ok: "media_ok m"
  show "media_ok (media_step ToggleMic m)"
  proof (cases "streamRef m")
    case (Some s)
    from one_track [OF ok Some, of AudioKind] ok_flip [OF ok Some, of AudioKind] ok_dark [OF ok Some, of AudioKind] Some
    show ?thesis by (auto simp: media_step_def toggleMic_def toggle_first_def modify_def flip_def)
  qed (use ok in \<open>simp add: media_step_def toggleMic_def toggle_first_def modify_def\<close>)
next
  assume ok: "media_ok m"
  show "media_ok (media_step ToggleCamera m)"
  proof (cases "streamRef m")
    case (Some s)
    from one_track [OF ok Some, of VideoKind] ok_flip [OF ok Some, of VideoKind] ok_dark [OF ok Some, of VideoKind] Some
    show ?thesis by (auto simp: media_step_def toggleCamera_def toggle_first_def modify_def flip_def)
  qed (use ok in \<open>simp add: media_step_def toggleCamera_def toggle_first_def modify_def\<close>)
qed

interpretation waiting_page: guarded_machine waits media_step media_ok
proof unfold_locales
  fix m e
  assume "media_ok m" "waits m e"
  then show "media_ok (media_step e m)"
    by (cases e) (auto simp: waits_def ok_start ok_stop ok_refused ok_granted ok_toggle)
qed

lemma media_ok_init: "media_ok media_init"
  by (simp add: media_ok_def media_init_def shown_tracks_def flags_right_def)

text \<open>
  C35. Releasing the camera. On a page that waits for the browser's answer before it asks
  or stops again, every live track belongs to the stream the page has, the two switches
  show whether that stream's microphone and camera are on, and after \<open>stopMedia\<close> no track is live.
\<close>

theorem camera_released:
  assumes "reaches waits media_step media_init m"
  shows "stream m = streamRef m \<and> (\<forall>t \<in> set (tracks m). tk_live t \<longrightarrow> tk_id t \<in> shown_tracks m) \<and>
    (\<forall>s. streamRef m = Some s \<longrightarrow> micEnabled m = list_ex tk_enabled (tracks_of s AudioKind m) \<and>
       cameraEnabled m = list_ex tk_enabled (tracks_of s VideoKind m)) \<and>
    (asked_media m = [] \<longrightarrow> (\<forall>t \<in> set (tracks (media_step StopMedia m)). \<not> tk_live t))"
proof -
  have ok: "media_ok m" by (rule waiting_page.reaches_keeps [OF assms media_ok_init])
  then show ?thesis using ok_stop [OF ok] by (auto simp: media_ok_def flags_right_def)
qed

subsection \<open>A page that does not wait\<close>

definition orphan :: "string \<Rightarrow> media \<Rightarrow> bool" where
  "orphan i m \<longleftrightarrow> i \<notin> shown_tracks m \<and> (\<exists>t \<in> set (tracks m). tk_id t = i \<and> tk_live t)"

lemma ex_update: "t \<in> set ts \<Longrightarrow> Q (if p t then f t else t) \<Longrightarrow> \<exists>x \<in> set (update_where p f ts). Q x"
  by (rule bexI [of _ "if p t then f t else t"]) (auto simp: set_update)

lemma orphan_stop:
  assumes "orphan i m" "streamRef m = Some s"
  shows "orphan i (stop_tracks s m)"
proof -
  from assms obtain t where "t \<in> set (tracks m)" "tk_id t = i" "tk_live t" "i \<notin> set s" by (auto simp: orphan_def shown_tracks_def)
  then have "\<exists>x \<in> set (tracks (stop_tracks s m)). tk_id x = i \<and> tk_live x" by (auto simp: stop_tracks_def intro!: ex_update)
  with assms show ?thesis by (simp add: orphan_def stop_shown)
qed

lemma orphan_toggle:
  assumes "orphan i m" and f: "\<And>b m. tracks (f b m) = tracks m \<and> streamRef (f b m) = streamRef m"
  shows "orphan i (snd (toggle_first k f m))"
proof -
  have "\<exists>x \<in> set (update_where p (\<lambda>x. x\<lparr>tk_enabled := b\<rparr>) (tracks m)). tk_id x = i \<and> tk_live x" for p b
    using assms(1) by (auto simp: orphan_def intro!: ex_update)
  with assms show ?thesis
    by (auto simp: orphan_def shown_tracks_def toggle_first_def modify_def split: option.splits list.splits)
qed

lemma orphan_kept:
  assumes "orphan i m" "fresh_grant m e"
  shows "orphan i (media_step e m)"
proof (cases e)
  case (StartMedia v a)
  with assms orphan_stop [OF assms(1)] show ?thesis
    by (auto simp: media_step_def startMedia_def modify_def orphan_def shown_tracks_def split: option.splits)
next
  case (MediaGranted j a v)
  with assms show ?thesis
    by (auto simp: media_step_def media_granted_def modify_def orphan_def shown_tracks_def new_tracks_def fresh_grant_def Let_def
        split: prod.splits)
next
  case (MediaRefused j msg)
  with assms show ?thesis by (auto simp: media_step_def media_refused_def modify_def orphan_def shown_tracks_def)
next
  case StopMedia
  with assms orphan_stop [OF assms(1)] show ?thesis
    by (auto simp: media_step_def stopMedia_def modify_def orphan_def shown_tracks_def split: option.splits)
next
  case ToggleMic
  with assms show ?thesis unfolding ToggleMic media_step_def media_do.simps toggleMic_def by (intro orphan_toggle) simp_all
next
  case ToggleCamera
  with assms show ?thesis unfolding ToggleCamera media_step_def media_do.simps toggleCamera_def by (intro orphan_toggle) simp_all
qed

interpretation orphan_page: guarded_machine fresh_grant media_step "orphan i" for i
  by unfold_locales (rule orphan_kept)

text \<open>
  Asking twice. When a page that has no stream asks, stops (which does nothing yet) and
  asks again before the browser has answered, and both requests are granted, the camera of
  the first stream stays on: no later call of the hook ever stops it.
\<close>

theorem overlapping_requests_leave_camera_on:
  assumes none: "streamRef m = None" "asked_media m = []"
    and granted: "m' = run media_step [StartMedia True audio, StopMedia, StartMedia video' audio', MediaGranted 0 a v, MediaGranted 0 a' v'] m"
    and fresh: "distinct [a, v, a', v']" "{a, v, a', v'} \<inter> tk_id ` set (tracks m) = {}"
    and later: "reaches fresh_grant media_step m' m''"
  shows "\<exists>t \<in> set (tracks m''). tk_id t = v \<and> tk_live t \<and> v \<notin> shown_tracks m''"
proof -
  have "orphan v m'"
    using none fresh unfolding granted
    by (auto simp: media_step_def startMedia_def stopMedia_def media_granted_def modify_def Let_def without_nth_def new_tracks_def
        orphan_def shown_tracks_def)
  with orphan_page.reaches_keeps [OF later] show ?thesis by (auto simp: orphan_def)
qed

end
