(* ===== verification/CallPage.thy ===== *)
theory CallPage
  imports RtcHook MediaDevices JsLib
begin

text \<open>
  \<open>frontend/src/app/call/page.tsx\<close>: the page of a call between two, over \<open>useWebRTC\<close> and
  \<open>useMediaDevices\<close>. The call and the role come from the address. An effect may change what
  the page renders from; the page then renders and commits again, until nothing changes.
\<close>

subsection \<open>State\<close>

text \<open>\<open>unheard\<close>: the messages the page sends that no handler of the server listens to.\<close>

record 'pc call_page = "'pc hook" +
  cl_callId :: string
  cl_isInitiator :: bool
  callType :: CallType
  partnerUserId :: "string option"
  cl_requestSent :: bool
  cl_connected :: bool
  cl_media :: media
  cl_media_deps :: "(string \<times> CallType) option"
  cl_pushed :: "string list"
  unheard :: "(string \<times> string) list"

type_synonym ('pc, 'a) call_op = "('pc call_page, 'a) op"

definition call_init :: "string option \<Rightarrow> string option \<Rightarrow> 'pc call_page" where
  "call_init callId initiatorParam =
     (let initiator = initiatorParam \<in> {Some ''1'', Some ''true''} in
      hook.extend (hook_init initiator) (call_page.fields (case callId of None \<Rightarrow> [] | Some c \<Rightarrow> c) initiator Video None False False
        media_init None [] []))"

definition call_props :: "'pc call_page \<Rightarrow> hook_props" where
  "call_props s = \<lparr>p_callId = cl_callId s, p_isInitiator = cl_isInitiator s, p_localStream = stream (cl_media s),
     p_connected = cl_connected s\<rparr>"

subsection \<open>The page's effect\<close>

definition cl_on_media :: "media_event \<Rightarrow> ('pc, unit) call_op" where
  "cl_on_media e = modify (\<lambda>s. s\<lparr>cl_media := media_step e (cl_media s)\<rparr>)"

definition cl_push :: "string \<Rightarrow> ('pc, unit) call_op" where
  "cl_push path = modify (\<lambda>s. s\<lparr>cl_pushed := cl_pushed s @ [path]\<rparr>)"

text \<open>The cleanup of the last run, which there is when that run had a call; then the effect.\<close>

definition media_cleanup :: "('pc, unit) call_op" where
  "media_cleanup = bnd (gets cl_media_deps) (\<lambda>d. case d of
     Some (c, _) \<Rightarrow> if c = [] then ret () else cl_on_media StopMedia | None \<Rightarrow> ret ())"

definition media_effect :: "('pc, unit) call_op" where
  "media_effect = bnd (gets (\<lambda>s. (cl_callId s, callType s))) (\<lambda>(c, ty).
     if c = [] then cl_push ''/'' else cl_on_media (StartMedia (ty = Video) True))"

text \<open>
  One commit: the cleanup first, the effects of the hook with what was rendered, and the page's.
\<close>

definition call_commit :: "'pc rtc \<Rightarrow> ('pc, unit) call_op" where
  "call_commit R s =
     (let deps = (cl_callId s, callType s); changed = cl_media_deps s \<noteq> Some deps in
      andthen (if changed then media_cleanup else ret ())
     (andthen (commit R (call_props s))
     (andthen (if changed then media_effect else ret ())
     (modify (\<lambda>s. s\<lparr>cl_media_deps := Some deps\<rparr>)))) s)"

definition cl_rendered where
  "cl_rendered s = (call_props s, partnerJoined s, remoteStream s, callType s, partnerUserId s, cl_requestSent s,
     micEnabled (cl_media s), cameraEnabled (cl_media s), mediaError (cl_media s))"

text \<open>Committing until a commit leaves what the page renders from as it was; it might never.\<close>

partial_function (option) call_settle :: "'pc rtc \<Rightarrow> 'pc call_page \<Rightarrow> 'pc call_page option" where
  "call_settle R s = (let s' = snd (call_commit R s) in
     if cl_rendered s' = cl_rendered s then Some s' else call_settle R s')"

declare call_settle.simps [code]

subsection \<open>The end of the call\<close>

definition call_onCallEnded :: "('pc, unit) call_op" where
  "call_onCallEnded = andthen (cl_on_media StopMedia) (cl_push ''/'')"

definition call_handleLeave :: "('pc, unit) call_op" where
  "call_handleLeave s = andthen (endCall (cl_callId s)) (cl_push ''/'') s"

subsection \<open>Messages of the server\<close>

fun call_page_receives :: "ws_event \<Rightarrow> ('pc, unit) call_op" where
  "call_page_receives (EvAccepted _ acceptor initiator) = modify (\<lambda>s.
     if cl_isInitiator s \<and> acceptor \<noteq> [] then s\<lparr>partnerUserId := Some acceptor\<rparr>
     else if \<not> cl_isInitiator s \<and> truthy initiator then s\<lparr>partnerUserId := initiator\<rparr> else s)"
| "call_page_receives (EvIncoming callId callerId _) = modify (\<lambda>s.
     if callId = cl_callId s \<and> truthy callerId then s\<lparr>partnerUserId := callerId\<rparr> else s)"
| "call_page_receives _ = ret ()"

definition call_receives :: "'pc rtc \<Rightarrow> ws_event \<Rightarrow> ('pc, unit) call_op" where
  "call_receives R ev = andthen (call_page_receives ev) (hook_receives R call_onCallEnded ev)"

subsection \<open>The user\<close>

definition call_handleSaveContact :: "('pc, unit) call_op" where
  "call_handleSaveContact s = (if truthy (partnerUserId s)
     then andthen (send_ws (WsSaveContact (cl_callId s) (the (partnerUserId s)))) (modify (\<lambda>s. s\<lparr>cl_requestSent := True\<rparr>)) s
     else (Inr (), s))"

text \<open>\<open>handleSwitchType\<close>; \<open>cameraEnabled\<close> is what was rendered.\<close>

definition handleSwitchType :: "('pc, unit) call_op" where
  "handleSwitchType s =
     (let newType = (if callType s = Video then Voice else Video) in
      andthen (modify (\<lambda>s. s\<lparr>callType := newType,
        unheard := unheard s @ [(if newType = Video then ''call:upgrade'' else ''call:downgrade'', cl_callId s)]\<rparr>))
        (if newType = Voice
         then if cameraEnabled (cl_media s) then cl_on_media ToggleCamera else ret ()
         else if \<not> cameraEnabled (cl_media s) then cl_on_media ToggleCamera else ret ()) s)"

subsection \<open>Events\<close>

datatype call_event =
    ClConnected
  | ClLost
  | ClServer ws_event
  | ClRtc rtc_event
  | ClMedia media_event
  | ClLeave
  | ClSave
  | ClSwitch

fun call_handle :: "'pc rtc \<Rightarrow> call_event \<Rightarrow> ('pc, unit) call_op" where
  "call_handle R ClConnected = modify (\<lambda>s. s\<lparr>cl_connected := True\<rparr>)"
| "call_handle R ClLost = modify (\<lambda>s. s\<lparr>cl_connected := False\<rparr>)"
| "call_handle R (ClServer ev) = call_receives R ev"
| "call_handle R (ClRtc e) = hook_event R e"
| "call_handle R (ClMedia e) = cl_on_media e"
| "call_handle R ClLeave = call_handleLeave"
| "call_handle R ClSave = call_handleSaveContact"
| "call_handle R ClSwitch = handleSwitchType"

text \<open>\<open>None\<close> would be a page that never comes to rest.\<close>

definition call_step :: "'pc rtc \<Rightarrow> call_event \<Rightarrow> 'pc call_page \<Rightarrow> 'pc call_page option" where
  "call_step R e s = (let s' = snd (call_handle R e s) in
     if cl_rendered s' = cl_rendered s then Some s' else call_settle R s')"

definition call_mount :: "'pc rtc \<Rightarrow> string option \<Rightarrow> string option \<Rightarrow> 'pc call_page option" where
  "call_mount R callId initiatorParam = call_settle R (call_init callId initiatorParam)"

text \<open>A step as a function, for runs; \<open>effects_settle\<close> shows that it is always the step.\<close>

definition call_next :: "'pc rtc \<Rightarrow> call_event \<Rightarrow> 'pc call_page \<Rightarrow> 'pc call_page" where
  "call_next R e s = (case call_step R e s of Some t \<Rightarrow> t | None \<Rightarrow> s)"

end
