(* ===== verification/CallPageSafety.thy ===== *)
theory CallPageSafety
  imports CallPage RtcHookFrames MediaSafety
begin

text \<open>
  The page of a call between two: its effects come to rest, it waits for the other before it
  makes an offer, and what the end of a call does to the camera and to the connection.
\<close>

subsection \<open>Coming to rest\<close>

definition call_view where
  "call_view s = (cl_callId s, cl_isInitiator s, callType s, partnerUserId s, cl_requestSent s, cl_connected s, cl_media s,
     cl_media_deps s, cl_pushed s)"

interpretation call_view: page_view call_view
  by unfold_locales (simp_all add: call_view_def)

text \<open>The two halves of the page's own effect, and a commit in terms of them.\<close>

definition before_hook :: "'pc call_page \<Rightarrow> 'pc call_page" where
  "before_hook s = (if cl_media_deps s \<noteq> Some (cl_callId s, callType s) then snd (media_cleanup s) else s)"

definition after_hook :: "(string \<times> CallType) option \<Rightarrow> 'pc call_page \<Rightarrow> 'pc call_page" where
  "after_hook old s = (if old \<noteq> Some (cl_callId s, callType s) then snd (media_effect s) else s)
     \<lparr>cl_media_deps := Some (cl_callId s, callType s)\<rparr>"

lemma media_returns: "fst (media_cleanup s) = Inr ()" "fst (media_effect s) = Inr ()"
  by (auto simp: media_cleanup_def media_effect_def cl_on_media_def cl_push_def op_simps split: option.splits)

lemma media_addresses:
  "cl_callId (snd (media_cleanup s)) = cl_callId s" "callType (snd (media_cleanup s)) = callType s"
  "cl_callId (snd (media_effect s)) = cl_callId s" "callType (snd (media_effect s)) = callType s"
  by (auto simp: media_cleanup_def media_effect_def cl_on_media_def cl_push_def op_simps split: option.splits)

lemma call_commit_eq: "snd (call_commit R s) = after_hook (cl_media_deps s) (snd (commit R (call_props s) (before_hook s)))"
proof -
  define t where "t = snd (commit R (call_props s) (before_hook s))"
  have "call_view t = call_view (before_hook s)"
    using movesD [OF call_view.view_commit [of R "call_props s"], of "before_hook s"] by (simp add: t_def same_def)
  then have "cl_callId t = cl_callId s" "callType t = callType s"
    by (simp_all add: call_view_def before_hook_def media_addresses split: if_splits)
  then have same: "(cl_callId t, callType t) = (cl_callId s, callType s)" by simp
  have start: "andthen (if cl_media_deps s \<noteq> Some (cl_callId s, callType s) then media_cleanup else ret ()) n s = n (before_hook s)"
    for n :: "('a, unit) call_op"
    by (simp add: before_hook_def andthen_ok [OF media_returns(1)] andthen_ret)
  have end_part: "snd (andthen (if cl_media_deps s \<noteq> Some (cl_callId s, callType s) then media_effect else ret ())
      (modify (\<lambda>s. s\<lparr>cl_media_deps := Some d\<rparr>)) t) = (if cl_media_deps s \<noteq> Some (cl_callId s, callType s) then snd (media_effect t) else t)\<lparr>cl_media_deps := Some d\<rparr>"
    for d
    by (simp add: andthen_ok [OF media_returns(2)] andthen_ret modify_apply)
  show ?thesis
    unfolding call_commit_def Let_def start commit_apply t_def [symmetric] end_part after_hook_def same ..
qed

text \<open>A commit after which only the hook's part has changed changes nothing that is rendered.\<close>

lemma commit_deps: "cl_media_deps (snd (call_commit R s)) = Some (cl_callId (snd (call_commit R s)), callType (snd (call_commit R s)))"
  by (simp add: call_commit_eq after_hook_def media_addresses)

lemma commit_again:
  assumes "cl_media_deps s = Some (cl_callId s, callType s)"
  shows "cl_rendered (snd (call_commit R s)) = cl_rendered s"
proof -
  define t where "t = snd (commit R (call_props s) s)"
  have "call_view t = call_view s" using movesD [OF call_view.view_commit [of R "call_props s"], of s] by (simp add: t_def same_def)
  moreover have "partnerJoined t = partnerJoined s" "remoteStream t = remoteStream s" by (simp_all add: t_def commit_current)
  moreover have "snd (call_commit R s) = t\<lparr>cl_media_deps := Some (cl_callId t, callType t)\<rparr>"
    using assms \<open>call_view t = call_view s\<close>
    by (simp add: call_commit_eq before_hook_def t_def [symmetric]) (simp add: after_hook_def call_view_def)
  ultimately show ?thesis by (simp add: cl_rendered_def call_props_def call_view_def)
qed

lemma settle_eq: "call_settle R s = Some (let t = snd (call_commit R s) in
    if cl_rendered t = cl_rendered s then t else snd (call_commit R t))"
  using commit_again [OF commit_deps [of R s], of R]
  by (subst call_settle.simps, subst call_settle.simps) (simp add: Let_def)

text \<open>
  C36. Rest. The page comes to rest after every event and when it is mounted, whatever its state, with no
  commit or after one or two: it is then as the handler of the event, one commit or two in a row leave
  it. The effect that starts and stops the camera runs only when the call or its type changes, and nothing else that
  a commit does changes what is rendered.
\<close>

theorem effects_settle:
  "(let handled = snd (call_handle R e s); once = snd (call_commit R handled); twice = snd (call_commit R once) in
     \<exists>t. call_step R e s = Some t \<and> t \<in> {handled, once, twice} \<and>
       (t = handled \<and> cl_rendered handled = cl_rendered s \<or> t = once \<and> cl_rendered once = cl_rendered handled \<or>
        t = twice \<and> cl_rendered twice = cl_rendered once)) \<and>
   (let start = call_init c i; once = snd (call_commit R start); twice = snd (call_commit R once) in
     \<exists>t. call_mount R c i = Some t \<and>
       (t = once \<and> cl_rendered once = cl_rendered start \<or> t = twice \<and> cl_rendered twice = cl_rendered once))"
  using commit_again [OF commit_deps, of R R]
  by (auto simp: call_step_def call_mount_def settle_eq Let_def)

lemma next_eq: "call_next R e s = (let s' = snd (call_handle R e s); t = snd (call_commit R s') in
    if cl_rendered s' = cl_rendered s then s' else if cl_rendered t = cl_rendered s' then t else snd (call_commit R t))"
  by (simp add: call_next_def call_step_def settle_eq Let_def)

text \<open>What events and commits keep is kept from mounting on.\<close>

locale page_invariant =
  fixes R :: "'pc rtc" and guard :: "'pc call_page \<Rightarrow> call_event \<Rightarrow> bool" and I :: "'pc call_page \<Rightarrow> bool"
  assumes handled: "I s \<Longrightarrow> guard s e \<Longrightarrow> I (snd (call_handle R e s))"
    and commits: "I s \<Longrightarrow> I (snd (call_commit R s))"
begin

lemma next_keeps: "I s \<Longrightarrow> guard s e \<Longrightarrow> I (call_next R e s)"
  by (simp add: next_eq Let_def handled commits)

lemma mount_keeps: "I (call_init c i) \<Longrightarrow> call_mount R c i = Some s \<Longrightarrow> I s"
  by (auto simp: call_mount_def settle_eq Let_def commits split: if_splits)

end

sublocale page_invariant \<subseteq> guarded_machine guard "call_next R" I
  by unfold_locales (rule next_keeps)

subsection \<open>Its own call, in its own role\<close>

text \<open>What the page's own parts leave alone.\<close>

lemma page_parts:
  "moves (same hook.truncate) media_cleanup" "moves (same hook.truncate) media_effect"
  "moves (same hook.truncate) (cl_on_media e)" "moves (same hook.truncate) (cl_push p)"
  "moves (same hook.truncate) call_onCallEnded" "moves (same hook.truncate) handleSwitchType"
  by (auto simp: moves_def same_def media_cleanup_def media_effect_def cl_on_media_def cl_push_def call_onCallEnded_def handleSwitchType_def
      op_simps hook.truncate_def Let_def split: option.splits)

lemma page_receives_part: "moves (same hook.truncate) (call_page_receives ev)"
  by (cases ev) (auto simp: moves_def same_def op_simps hook.truncate_def)

lemma told_part: "moves (same hook.truncate) m \<Longrightarrow> moves (keeps (hook_told T)) m"
proof -
  have "hook_told T (hook.truncate s) = hook_told T s" for s :: "('a, 'b) hook_scheme"
    by (simp add: hook_told_def hook.truncate_def)
  then show "moves (same hook.truncate) m \<Longrightarrow> moves (keeps (hook_told T)) m" by (simp add: moves_def same_def keeps_def) metis
qed

definition address :: "'pc call_page \<Rightarrow> string \<times> bool" where
  "address s = (cl_callId s, cl_isInitiator s)"

interpretation address: page_view address
  by unfold_locales (simp_all add: address_def)

lemma page_addresses:
  "moves (same address) media_cleanup" "moves (same address) media_effect"
  "moves (same address) (cl_on_media e)" "moves (same address) (cl_push p)"
  "moves (same address) call_onCallEnded" "moves (same address) handleSwitchType"
  by (auto simp: moves_def same_def media_cleanup_def media_effect_def cl_on_media_def cl_push_def call_onCallEnded_def handleSwitchType_def
      op_simps address_def Let_def split: option.splits)

lemma page_receives_address: "moves (same address) (call_page_receives ev)"
  by (cases ev) (auto simp: moves_def same_def op_simps address_def)

lemma call_commit_keeps:
  assumes "moves (keeps J) media_cleanup" "moves (keeps J) media_effect" "\<And>s d. J s \<Longrightarrow> J (s\<lparr>cl_media_deps := d\<rparr>)"
    and "moves (keeps J) (commit R (call_props s))" "J s"
  shows "J (snd (call_commit R s))"
proof -
  have "J (before_hook s)" using assms(1,5) by (simp add: before_hook_def moves_def keeps_def)
  then have "J (snd (commit R (call_props s) (before_hook s)))" using assms(4) by (simp add: moves_def keeps_def)
  then show ?thesis unfolding call_commit_eq using assms(2,3) by (simp add: after_hook_def moves_def keeps_def)
qed

definition cl_told :: "(string \<Rightarrow> bool \<Rightarrow> bool) \<Rightarrow> 'pc call_page \<Rightarrow> bool" where
  "cl_told T s \<longleftrightarrow> hook_told T s \<and> T (fst (address s)) (snd (address s))"

lemma cl_told_keeps: "moves (keeps (hook_told T)) m \<Longrightarrow> moves (same address) m \<Longrightarrow> moves (keeps (cl_told T)) m"
  by (simp add: moves_def keeps_def same_def cl_told_def)

lemma cl_told_commit: "cl_told T s \<Longrightarrow> cl_told T (snd (call_commit R s))"
proof (rule call_commit_keeps [where J = "cl_told T"])
  assume ok: "cl_told T s"
  then have "live (call_props s) \<Longrightarrow> props_told T (call_props s)" by (simp add: props_told_def call_props_def cl_told_def address_def)
  then show "moves (keeps (cl_told T)) (commit R (call_props s))"
    by (intro cl_told_keeps told_commit address.view_commit)
  show "moves (keeps (cl_told T)) media_cleanup" "moves (keeps (cl_told T)) media_effect"
    by (intro cl_told_keeps told_part page_parts page_addresses)+
  show "cl_told T t \<Longrightarrow> cl_told T (t\<lparr>cl_media_deps := d\<rparr>)" for t :: "'a call_page" and d
    by (simp add: cl_told_def hook_told_def address_def)
qed

lemma moves_leave: "(\<And>c. moves Q (andthen (endCall c) (cl_push ''/''))) \<Longrightarrow> moves Q call_handleLeave"
  by (simp only: moves_def call_handleLeave_def simp_thms)

lemma moves_save:
  assumes "\<And>s. Q s s" "\<And>c u. moves Q (andthen (send_ws (WsSaveContact c u)) (modify (\<lambda>s. s\<lparr>cl_requestSent := True\<rparr>)))"
  shows "moves Q call_handleSaveContact"
  using assms by (simp add: moves_def call_handleSaveContact_def)

lemma handle_address: "moves (same address) (call_handle R e)"
proof (cases e)
  case (ClServer ev)
  then show ?thesis
    by (auto simp: call_receives_def intro!: same_view.moves_rules page_receives_address address.view_receives page_addresses)
next
  case ClSave
  then show ?thesis
    by (auto intro!: moves_save same_view.moves_rules address.view_steps same_modify simp: same_def address_def)
next
  case ClLeave
  then show ?thesis by (auto intro!: moves_leave same_view.moves_rules address.view_ops page_addresses)
next
  case (ClRtc r)
  then show ?thesis by (simp add: address.view_event)
qed (auto simp: page_addresses intro!: same_modify simp: address_def)

lemma handle_told: "moves (keeps (hook_told T)) (call_handle R e)"
proof (cases e)
  case (ClServer ev)
  then show ?thesis
    by (auto simp: call_receives_def intro!: keeps_inv.moves_rules told_part [OF page_receives_part] told_hook_receives told_part [OF page_parts(5)])
next
  case ClLeave
  then show ?thesis by (auto intro!: moves_leave keeps_inv.moves_rules told_endCall told_part [OF page_parts(4)])
next
  case ClSave
  then show ?thesis by (auto simp: moves_def keeps_def call_handleSaveContact_def send_ws_def op_simps hook_told_def)
next
  case (ClMedia m)
  then show ?thesis by (simp add: told_part [OF page_parts(3)])
next
  case ClSwitch
  then show ?thesis by (simp add: told_part [OF page_parts(6)])
next
  case (ClRtc r)
  then show ?thesis by (simp add: told_event)
qed (auto intro!: keeps_modify simp: hook_told_def)

interpretation own_call: page_invariant R "\<lambda>_ _. True" "cl_told T" for R :: "'pc rtc" and T
proof unfold_locales
  fix s :: "'pc call_page" and e
  assume "cl_told T s"
  then show "cl_told T (snd (call_handle R e s))"
    using movesD [OF cl_told_keeps [OF handle_told handle_address], of T s R e] by (simp add: keeps_def)
qed (rule cl_told_commit)

end
