(* ===== verification/CallPageCalls.thy ===== *)
theory CallPageCalls
  imports CallPageSafety
begin

text \<open>
  What the page of a call between two sends and when: nothing before the other has accepted;
  and what the end of a call does.
\<close>

subsection \<open>Waiting for the other\<close>

definition unanswered :: "('pc, 'z) hook_scheme \<Rightarrow> bool" where
  "unanswered h \<longleftrightarrow> \<not> partnerJoined h \<and> begun h = [] \<and> (\<forall>p. pcRef h = Some p \<longrightarrow> \<not> at_partnerJoined p) \<and>
     (\<forall>c d. WsOffer c d \<notin> set (outbox h))"

lemma unanswered_send: "\<nexists>c d. m = WsOffer c d \<Longrightarrow> moves (keeps unanswered) (send_ws m)"
  by (auto simp: moves_def keeps_def send_ws_def op_simps unanswered_def)

lemma unanswered_steps:
  "moves (keeps unanswered) (on_pc x)" "moves (keeps unanswered) cleanupPeerConnection"
  "moves (keeps unanswered) (initPeerConnection R q)" "moves (keeps unanswered) (tracks_effect R q)"
  "moves (keeps unanswered) (offer_effect R q)" "moves (keeps unanswered) onnegotiationneeded"
  "moves (keeps unanswered) (ontrack s)" "moves (keeps unanswered) (offer_ready R)"
  "moves (keeps unanswered) (modify (\<lambda>h. h\<lparr>listening := l\<rparr>))" "moves (keeps unanswered) (modify (\<lambda>h. h\<lparr>committed := d\<rparr>))"
  unfolding cleanupPeerConnection_def initPeerConnection_def tracks_effect_def offer_effect_def onnegotiationneeded_def ontrack_def
  by (auto simp: moves_def keeps_def modify_def on_pc_apply unanswered_def offer_ready_def split: option.splits)

lemma unanswered_ops:
  "moves (keeps unanswered) (endCall c)" "moves (keeps unanswered) (onicecandidate i)"
  "moves (keeps unanswered) (oniceconnectionstatechange st)" "moves (keeps unanswered) (handleOffer R q sdp)"
  "moves (keeps unanswered) (handleAnswer R q sdp)" "moves (keeps unanswered) (handleIce R sdp)"
  "moves (keeps unanswered) (init_effect R q)" "moves (keeps unanswered) (listen_effect R q)"
  unfolding endCall_def onicecandidate_def oniceconnectionstatechange_def handleOffer_def handleAnswer_def handleIce_def
    init_effect_def listen_effect_def
  by (auto intro!: keeps_inv.moves_rules unanswered_steps unanswered_send split: option.splits)

lemma unanswered_event: "moves (keeps unanswered) (hook_event R e)"
  by (cases e) (simp_all add: unanswered_steps unanswered_ops)

lemma unanswered_commit: "moves (keeps unanswered) (commit R q)"
proof -
  have "moves (keeps unanswered) (andthen (if a then tracks_effect R q else ret ())
     (andthen (if b then init_effect R q else ret ())
     (andthen (if c then offer_effect R q else ret ())
     (andthen (listen_effect R q)
     (modify (\<lambda>h. h\<lparr>committed := x\<rparr>))))))" for a b c x
    by (intro keeps_inv.moves_rules unanswered_steps unanswered_ops)
  then show ?thesis unfolding moves_def commit_def Let_def by blast
qed

lemma unanswered_receives:
  assumes "\<nexists>c a i. ev = EvAccepted c a i" "moves (keeps unanswered) ended"
  shows "moves (keeps unanswered) (hook_receives R ended ev)"
proof -
  have "moves (keeps unanswered) (receive R ended q ev)" for q
    using assms by (cases "(R, ended, q, ev)" rule: receive.cases)
      (auto simp: handleCallEnded_def intro!: keeps_inv.moves_rules unanswered_steps unanswered_ops)
  then show ?thesis unfolding hook_receives_def by (intro keeps_inv.moves_rules)
qed

text \<open>The page's own parts keep what is about the hook alone.\<close>

lemma unanswered_part: "moves (same hook.truncate) m \<Longrightarrow> moves (keeps unanswered) m"
proof -
  have "unanswered (hook.truncate s) = unanswered s" for s :: "('a, 'b) hook_scheme"
    by (simp add: unanswered_def hook.truncate_def)
  then show "moves (same hook.truncate) m \<Longrightarrow> moves (keeps unanswered) m" by (simp add: moves_def same_def keeps_def) metis
qed

definition not_accepted :: "call_event \<Rightarrow> bool" where
  "not_accepted e \<longleftrightarrow> (case e of ClServer (EvAccepted _ _ _) \<Rightarrow> False | _ \<Rightarrow> True)"

lemma handle_unanswered:
  assumes "not_accepted e"
  shows "moves (keeps unanswered) (call_handle R e)"
proof (cases e)
  case (ClServer ev)
  then show ?thesis using assms
    by (auto simp: call_receives_def not_accepted_def
        intro!: keeps_inv.moves_rules unanswered_part [OF page_receives_part] unanswered_receives unanswered_part [OF page_parts(5)])
next
  case ClLeave
  then show ?thesis by (auto intro!: moves_leave keeps_inv.moves_rules unanswered_ops unanswered_part [OF page_parts(4)])
next
  case ClSave
  have "moves (keeps unanswered) (modify (\<lambda>s. s\<lparr>cl_requestSent := True\<rparr>) :: ('a, unit) call_op)"
    by (rule keeps_modify) (simp add: unanswered_def)
  with ClSave show ?thesis by (auto intro!: moves_save keeps_inv.moves_rules unanswered_send simp: keeps_def)
next
  case (ClMedia m)
  then show ?thesis by (simp add: unanswered_part [OF page_parts(3)])
next
  case ClSwitch
  then show ?thesis by (simp add: unanswered_part [OF page_parts(6)])
next
  case (ClRtc r)
  then show ?thesis by (simp add: unanswered_event)
qed (auto intro!: keeps_modify simp: unanswered_def)

interpretation waiting_caller: page_invariant R "\<lambda>_. not_accepted" unanswered for R :: "'pc rtc"
proof unfold_locales
  fix s :: "'pc call_page" and e
  assume "unanswered s" "not_accepted e"
  then show "unanswered (snd (call_handle R e s))" using movesD [OF handle_unanswered, of e s R] by (simp add: keeps_def)
next
  fix s :: "'pc call_page"
  assume ok: "unanswered s"
  have parts: "moves (keeps unanswered) media_cleanup" "moves (keeps unanswered) media_effect"
    by (intro unanswered_part page_parts)+
  show "unanswered (snd (call_commit R s))"
    by (rule call_commit_keeps [OF parts _ unanswered_commit ok]) (simp add: unanswered_def)
qed

text \<open>The role that the page's address gives.\<close>

definition initiating :: "string option \<Rightarrow> bool" where
  "initiating i \<longleftrightarrow> i \<in> {Some ''1'', Some ''true''}"

lemma init_fields:
  "hook.truncate (call_init c i) = hook_init (initiating i)" "address (call_init c i) = (case c of None \<Rightarrow> [] | Some x \<Rightarrow> x, initiating i)"
  "cl_media (call_init c i) = media_init" "cl_media_deps (call_init c i) = None"
  by (simp_all add: call_init_def Let_def hook.truncate_def hook_init_def hook.extend_def call_page.fields_def address_def initiating_def)

lemma init_told: "hook_told T (call_init c i)" "initiating i \<Longrightarrow> unanswered (call_init c i)"
  by (simp_all add: call_init_def Let_def hook_init_def hook.extend_def call_page.fields_def hook_told_def unanswered_def initiating_def)

lemma unguarded: "run_guarded (\<lambda>_. P) step es s \<longleftrightarrow> list_all P es"
  by (induction es arbitrary: s) simp_all

text \<open>
  C37. Waiting. Whatever happens to the page of a call, it sends an offer only for the call and in the
  role of its address, and only after it was told \<open>call:accepted\<close>; an answer only as the one who was called; and
  candidates only for that call.
\<close>

theorem offers_after_accept:
  assumes "call_mount R (Some c) i = Some s" "t = run (call_next R) es s" "m \<in> set (outbox t)"
  shows "case m of WsOffer d _ \<Rightarrow> d = c \<and> initiating i \<and> \<not> list_all not_accepted es
    | WsAnswer d _ \<Rightarrow> d = c \<and> \<not> initiating i | WsIce d _ \<Rightarrow> d = c | _ \<Rightarrow> True"
proof -
  define T where "T = (\<lambda>d j. d = c \<and> j = initiating i)"
  have "cl_told T (call_init (Some c) i :: 'a call_page)"
    by (simp add: cl_told_def init_told init_fields T_def)
  then have "cl_told T t" unfolding assms(2)
    by (intro own_call.run_keeps own_call.mount_keeps [OF _ assms(1)]) (simp_all add: unguarded list_all_iff)
  then have told: "message_told T m" using assms(3) by (simp add: cl_told_def hook_told_def)
  have "unanswered t" if "initiating i" "list_all not_accepted es" unfolding assms(2)
    by (intro waiting_caller.run_keeps waiting_caller.mount_keeps [OF _ assms(1)] init_told that) (simp add: unguarded that)
  with told assms(3) show ?thesis by (cases m) (auto simp: T_def unanswered_def)
qed

subsection \<open>The camera of the page\<close>

text \<open>The browser answers and the user toggles; the page switches or ends with no request of the camera in flight.\<close>

definition cl_waits :: "'pc call_page \<Rightarrow> call_event \<Rightarrow> bool" where
  "cl_waits s e \<longleftrightarrow> (case e of
     ClMedia (StartMedia _ _) \<Rightarrow> False | ClMedia x \<Rightarrow> waits (cl_media s) x
   | ClSwitch \<Rightarrow> asked_media (cl_media s) = [] | ClServer (EvEnded _ _) \<Rightarrow> asked_media (cl_media s) = [] | _ \<Rightarrow> True)"

definition camera_ok :: "'pc call_page \<Rightarrow> bool" where
  "camera_ok s \<longleftrightarrow> media_ok (cl_media s) \<and> (cl_media_deps s \<noteq> Some (cl_callId s, callType s) \<longrightarrow> asked_media (cl_media s) = [])"

lemma camera_same: "moves (same call_view) m \<Longrightarrow> moves (keeps camera_ok) m"
  by (simp add: moves_def same_def keeps_def camera_ok_def call_view_def)

lemma asked_kept: "asked_media (snd (stopMedia m)) = asked_media m" "asked_media (snd (toggleCamera m)) = asked_media m"
  by (simp_all add: stopMedia_def toggleCamera_def toggle_first_def op_simps split: option.splits list.splits)

lemma camera_media:
  assumes "camera_ok s" "waits (cl_media s) e" "\<nexists>v a. e = StartMedia v a"
  shows "camera_ok (snd (cl_on_media e s))"
proof -
  have "asked_media (cl_media s) = [] \<Longrightarrow> asked_media (media_step e (cl_media s)) = []"
    using assms(2,3) by (cases e) (auto simp: asked_kept waits_def fresh_grant_def media_step_def media_refused_def
        toggleMic_def toggle_first_def op_simps split: option.splits list.splits)
  with waiting_page.step_keeps [OF _ assms(2)] assms(1) show ?thesis by (simp add: camera_ok_def cl_on_media_def op_simps)
qed

lemma camera_push: "moves (keeps camera_ok) (cl_push p)"
  by (simp add: moves_def keeps_def cl_push_def op_simps camera_ok_def)

lemma camera_ended:
  assumes "camera_ok s" "asked_media (cl_media s) = []"
  shows "camera_ok (snd (call_onCallEnded s))"
proof -
  have "camera_ok (snd (cl_on_media StopMedia s))" by (rule camera_media) (use assms in \<open>simp_all add: waits_def fresh_grant_def\<close>)
  then show ?thesis unfolding call_onCallEnded_def by (rule andthen_keeps [OF _ camera_push])
qed

lemma camera_receives:
  assumes "cl_waits s (ClServer ev)" "camera_ok s"
  shows "camera_ok (snd (call_receives R ev s))"
proof (cases "\<exists>c r. ev = EvEnded c r")
  case True
  then have asked: "asked_media (cl_media s) = []" using assms(1) by (auto simp: cl_waits_def)
  have "camera_ok (snd (handleCallEnded call_onCallEnded s))"
  proof -
    have "camera_ok (snd (cleanupPeerConnection s))" "asked_media (cl_media (snd (cleanupPeerConnection s))) = []"
      using assms(2) asked by (simp_all add: cleanupPeerConnection_def op_simps camera_ok_def)
    then show ?thesis by (simp add: handleCallEnded_def cleanupPeerConnection_def andthen_apply modify_apply camera_ended)
  qed
  with True assms(2) show ?thesis by (auto simp: call_receives_def hook_receives_def op_simps split: option.splits)
next
  case False
  have "moves (keeps camera_ok) (call_page_receives ev)"
    by (cases ev) (auto intro!: keeps_modify keeps_inv.moves_rules simp: camera_ok_def)
  moreover have "moves (same call_view) (receive R call_onCallEnded q ev)" for q
    using False by (cases ev) (auto intro!: same_view.moves_rules call_view.view_steps call_view.view_ops)
  then have "moves (keeps camera_ok) (hook_receives R call_onCallEnded ev)"
    unfolding hook_receives_def by (intro keeps_inv.moves_rules camera_same)
  ultimately have "moves (keeps camera_ok) (call_receives R ev)" unfolding call_receives_def by (intro keeps_inv.moves_rules)
  with assms(2) show ?thesis by (simp add: moves_def keeps_def)
qed

interpretation waiting_camera: page_invariant R cl_waits camera_ok for R :: "'pc rtc"
proof unfold_locales
  fix s :: "'pc call_page" and e
  assume ok: "camera_ok s" "cl_waits s e"
  show "camera_ok (snd (call_handle R e s))"
  proof (cases e)
    case (ClServer ev)
    with ok show ?thesis by (simp add: camera_receives)
  next
    case (ClRtc r)
    with ok(1) movesD [OF camera_same [OF call_view.view_event], of s R r] show ?thesis by (simp add: keeps_def)
  next
    case (ClMedia x)
    with ok camera_media [OF ok(1), of x] show ?thesis by (cases x) (simp_all add: cl_waits_def)
  next
    case ClSwitch
    have "camera_ok (s\<lparr>callType := ty, unheard := u\<rparr>)" for ty u
      using ok ClSwitch by (simp add: camera_ok_def cl_waits_def)
    then have "camera_ok (snd (cl_on_media ToggleCamera (s\<lparr>callType := ty, unheard := u\<rparr>)))" for ty u
      by (rule camera_media) (simp_all add: waits_def fresh_grant_def)
    with \<open>\<And>u ty. camera_ok (s\<lparr>callType := ty, unheard := u\<rparr>)\<close> ClSwitch show ?thesis
      by (simp add: handleSwitchType_def Let_def andthen_apply modify_apply ret_apply)
  qed (use ok(1) in \<open>simp_all add: camera_ok_def call_handleLeave_def endCall_def cleanupPeerConnection_def send_ws_def cl_push_def
      call_handleSaveContact_def op_simps\<close>)
next
  fix s :: "'pc call_page"
  assume ok: "camera_ok s"
  show "camera_ok (snd (call_commit R s))"
  proof (cases "cl_media_deps s = Some (cl_callId s, callType s)")
    case True
    define t where "t = snd (commit R (call_props s) s)"
    have "call_view t = call_view s" using movesD [OF call_view.view_commit [of R "call_props s"], of s] by (simp add: t_def same_def)
    with True ok show ?thesis
      by (simp add: call_commit_eq before_hook_def t_def [symmetric]) (simp add: after_hook_def camera_ok_def call_view_def)
  next
    case False
    define u where "u = before_hook s"
    have "media_ok (cl_media s)" "asked_media (cl_media s) = []" using ok False by (simp_all add: camera_ok_def)
    then have u: "media_ok (cl_media u)" "asked_media (cl_media u) = []"
      using False ok_stop [of "cl_media s"]
      by (auto simp: u_def before_hook_def media_cleanup_def cl_on_media_def op_simps media_step_def asked_kept split: option.splits)
    define t where "t = snd (commit R (call_props s) u)"
    have t: "cl_media t = cl_media u"
      using movesD [OF call_view.view_commit [of R "call_props s"], of u] by (simp add: t_def same_def call_view_def)
    then have "media_ok (cl_media (snd (media_effect t)))"
      using ok_start [OF u] u(1) by (simp add: media_effect_def cl_push_def cl_on_media_def op_simps)
    then have "camera_ok (after_hook d t)" for d using t u(1) by (simp add: after_hook_def camera_ok_def media_addresses)
    then show ?thesis by (simp add: call_commit_eq u_def [symmetric] t_def [symmetric])
  qed
qed

text \<open>While it is at rest, the page listens exactly while it is connected and has a call, and the camera
  was last started for the call type it shows.\<close>

definition rested :: "'pc call_page \<Rightarrow> bool" where
  "rested s \<longleftrightarrow> listening s = (if live (call_props s) then Some (call_props s) else None) \<and>
     cl_media_deps s = Some (cl_callId s, callType s)"

lemma listening_after: "listening (after_hook d s) = listening s"
  by (auto simp: after_hook_def media_effect_def cl_push_def cl_on_media_def op_simps)

lemma rested_commit:
  assumes "cl_rendered (snd (call_commit R s)) = cl_rendered s"
  shows "rested (snd (call_commit R s))"
proof -
  have "call_props (snd (call_commit R s)) = call_props s" using assms by (simp add: cl_rendered_def)
  then show ?thesis unfolding rested_def by (simp add: call_commit_eq listening_after commit_current commit_deps [unfolded call_commit_eq])
qed

definition noted where
  "noted s = (listening s, cl_media_deps s)"

interpretation noted: event_view noted
  by unfold_locales (simp_all add: noted_def)

lemma noted_parts:
  "moves (same noted) (cl_on_media e)" "moves (same noted) (cl_push p)" "moves (same noted) call_onCallEnded"
  "moves (same noted) handleSwitchType" "moves (same noted) (call_page_receives ev)"
  by (auto simp: moves_def same_def cl_on_media_def cl_push_def call_onCallEnded_def handleSwitchType_def op_simps noted_def Let_def)
    (cases ev; simp add: op_simps)+

lemma handle_noted: "moves (same noted) (call_handle R e)"
proof (cases e)
  case (ClServer ev)
  then show ?thesis by (auto simp: call_receives_def intro!: same_view.moves_rules noted_parts noted.view_receives)
next
  case ClLeave
  then show ?thesis by (auto intro!: moves_leave same_view.moves_rules noted_parts noted.view_ops)
next
  case ClSave
  then show ?thesis by (auto intro!: moves_save same_view.moves_rules noted.view_steps same_modify simp: same_def noted_def)
next
  case (ClRtc r)
  then show ?thesis by (simp add: noted.view_event)
qed (auto simp: noted_parts noted_def intro!: same_modify)

interpretation resting: guarded_machine g "call_next R" rested for R :: "'pc rtc" and g
proof unfold_locales
  fix s :: "'pc call_page" and e
  assume ok: "rested s"
  define u where "u = snd (call_handle R e s)"
  have "listening u = listening s" "cl_media_deps u = cl_media_deps s" "fst (address u) = fst (address s)"
    using movesD [OF handle_noted, of s R e] movesD [OF handle_address, of s R e] by (simp_all add: u_def same_def noted_def)
  then have same: "cl_rendered u = cl_rendered s \<Longrightarrow> rested u" using ok by (simp add: rested_def cl_rendered_def address_def)
  then show "rested (call_next R e s)"
    unfolding next_eq Let_def u_def [symmetric] by (auto intro: rested_commit commit_again commit_deps)
qed

lemma rested_mounted: "call_mount R c i = Some s \<Longrightarrow> rested s"
  unfolding call_mount_def settle_eq Let_def by (auto intro: rested_commit commit_again commit_deps split: if_splits)

interpretation addressed: page_invariant R g "\<lambda>s. address s = a" for R :: "'pc rtc" and g a
proof unfold_locales
  fix s :: "'pc call_page"
  assume a: "address s = a"
  show "address (snd (call_handle R e s)) = a" for e using movesD [OF handle_address, of s R e] a by (simp add: same_def)
  have "moves (same address) m \<Longrightarrow> moves (keeps (\<lambda>s. address s = a)) m" for m :: "('pc, unit) call_op"
    by (simp add: moves_def keeps_def same_def)
  note kept = this [OF page_addresses(1)] this [OF page_addresses(2)] this [OF address.view_commit]
  show "address (snd (call_commit R s)) = a"
    by (rule call_commit_keeps [where J = "\<lambda>s. address s = a", OF kept(1,2) _ kept(3) a]) (simp add: address_def)
qed

lemma commit_makes:
  "pcRef h = None \<Longrightarrow> live q \<Longrightarrow> \<exists>p. pcRef (snd (commit R q h)) = Some p \<and> pc_id p = next_pc h \<and> at_callId p = p_callId q"
  by (auto simp: commit_def Let_def op_simps listen_effect_def initPeerConnection_def tracks_effect_def init_effect_def
      offer_effect_def split: option.splits)

lemma ended_handled:
  assumes "listening s = Some q"
  shows "snd (call_handle R (ClServer (EvEnded d r)) s) = s\<lparr>pcRef := None, offerSentRef := False, remoteStream := None,
    cl_media := media_step StopMedia (cl_media s), cl_pushed := cl_pushed s @ [''/'']\<rparr>"
  using assms by (simp add: call_receives_def hook_receives_def handleCallEnded_def cleanupPeerConnection_def call_onCallEnded_def
      cl_on_media_def cl_push_def op_simps)

text \<open>
  C38. The end of a call. On a page that is connected, in a call and not waiting for the camera, \<open>call:ended\<close>
  switches every camera and microphone of the page off and sends the user to the first page; the
  connection is closed, but rendering once more the page makes another one for the same call, which
  nothing closes. The server is not told anything.
\<close>

theorem ended_call_reopens:
  assumes mounted: "call_mount R (Some c) i = Some s0" "c \<noteq> []" and reached: "reaches cl_waits (call_next R) s0 s"
    and s: "cl_connected s" "stream (cl_media s) \<noteq> None" "asked_media (cl_media s) = []"
    and t: "t = call_next R (ClServer (EvEnded d r)) s"
  shows "(\<forall>x \<in> set (tracks (cl_media t)). \<not> tk_live x) \<and> stream (cl_media t) = None \<and>
    cl_pushed t = cl_pushed s @ [''/''] \<and> outbox t = outbox s \<and>
    (\<exists>p. pcRef t = Some p \<and> pc_id p = next_pc s \<and> at_callId p = c)"
proof -
  have "camera_ok (call_init (Some c) i :: 'a call_page)" by (simp add: camera_ok_def init_fields media_ok_init) (simp add: media_init_def)
  then have camera: "media_ok (cl_media s)"
    using waiting_camera.reaches_keeps [OF reached waiting_camera.mount_keeps [OF _ mounted(1)]] by (simp add: camera_ok_def)
  have "address s = (c, initiating i)"
    by (rule addressed.reaches_keeps [OF reached addressed.mount_keeps [OF _ mounted(1)]]) (simp add: init_fields)
  then have live: "live (call_props s)" "p_callId (call_props s) = c"
    using s(1) mounted(2) by (simp_all add: live_def call_props_def address_def)
  define u where "u = snd (call_handle R (ClServer (EvEnded d r)) s)"
  have "rested s" by (rule resting.reaches_keeps [OF reached rested_mounted [OF mounted(1)]])
  then have u: "u = s\<lparr>pcRef := None, offerSentRef := False, remoteStream := None,
      cl_media := media_step StopMedia (cl_media s), cl_pushed := cl_pushed s @ [''/'']\<rparr>"
    using live(1) unfolding u_def rested_def by (simp add: ended_handled del: call_handle.simps)
  have stopped: "stream (cl_media u) = None" "\<forall>x \<in> set (tracks (cl_media u)). \<not> tk_live x"
    using ok_stop [OF camera s(3)] camera s(2) by (auto simp: u media_ok_def media_step_def stopMedia_def op_simps split: option.splits)
  then have "cl_rendered u \<noteq> cl_rendered s" using s(2) by (auto simp: cl_rendered_def call_props_def)
  moreover have deps: "cl_media_deps u = Some (cl_callId u, callType u)"
    using \<open>rested s\<close> by (simp add: u rested_def)
  ultimately have t': "t = after_hook (cl_media_deps u) (snd (commit R (call_props u) u))"
    using commit_again [OF deps, of R] by (simp add: t next_eq Let_def u_def [symmetric] del: call_handle.simps) (simp add: call_commit_eq before_hook_def)
  define v where "v = snd (commit R (call_props u) u)"
  have "live (call_props u)" "p_callId (call_props u) = c" "pcRef u = None" "next_pc u = next_pc s"
    using live by (simp_all add: u live_def call_props_def)
  then have pc: "\<exists>p. pcRef v = Some p \<and> pc_id p = next_pc s \<and> at_callId p = c" using commit_makes [of u "call_props u" R] by (simp add: v_def)
  have same: "call_view v = call_view u" "outbox v = outbox s"
    using movesD [OF call_view.view_commit [of R "call_props u"], of u] quiet_commit [of R "call_props u" u]
    by (simp_all add: v_def same_def) (simp add: u)
  have "t = v\<lparr>cl_media_deps := Some (cl_callId v, callType v)\<rparr>"
    using deps same(1) unfolding t' v_def [symmetric] by (simp add: after_hook_def call_view_def)
  with pc same stopped show ?thesis by (simp add: call_view_def) (simp add: u)
qed

end
