(* ===== verification/ContactBanner.thy ===== *)
theory ContactBanner
  imports AnonymousSafety
begin

text \<open>
  \<open>frontend/src/components/ContactSaveBanner.tsx\<close> on the page of random matches: the page renders
  it all the time, and the banner remembers on its own that it was answered. The animation of its
  exit is not modelled: it is clicked while it is shown.
\<close>

record 'pc anon_screen =
  screen_page :: "'pc anon_page"
  hasResponded :: bool

definition banner_visible :: "'pc anon_screen \<Rightarrow> bool" where
  "banner_visible sc \<longleftrightarrow> showContactSave (screen_page sc) \<and> \<not> hasResponded sc"

definition on_page :: "'pc rtc \<Rightarrow> anon_event \<Rightarrow> 'pc anon_screen \<Rightarrow> 'pc anon_screen" where
  "on_page R e sc = sc\<lparr>screen_page := anon_step R e (screen_page sc)\<rparr>"

text \<open>\<open>handleAccept\<close> and \<open>handleDecline\<close>, with the handlers the page passes.\<close>

definition banner_handleAccept :: "'pc rtc \<Rightarrow> 'pc anon_screen \<Rightarrow> 'pc anon_screen" where
  "banner_handleAccept R sc = on_page R (ClickContact True) (sc\<lparr>hasResponded := True\<rparr>)"

definition banner_handleDecline :: "'pc rtc \<Rightarrow> 'pc anon_screen \<Rightarrow> 'pc anon_screen" where
  "banner_handleDecline R sc = on_page R (ClickContact False) (sc\<lparr>hasResponded := True\<rparr>)"

datatype screen_event = OnPage anon_event | BannerAccept | BannerDecline

text \<open>The page's handler of an answer is called by the banner only.\<close>

fun screen_step :: "'pc rtc \<Rightarrow> screen_event \<Rightarrow> 'pc anon_screen \<Rightarrow> 'pc anon_screen" where
  "screen_step R (OnPage (ClickContact b)) sc = sc"
| "screen_step R (OnPage e) sc = on_page R e sc"
| "screen_step R BannerAccept sc = (if banner_visible sc then banner_handleAccept R sc else sc)"
| "screen_step R BannerDecline sc = (if banner_visible sc then banner_handleDecline R sc else sc)"

definition screen_mount :: "'pc rtc \<Rightarrow> 'pc anon_screen" where
  "screen_mount R = \<lparr>screen_page = snd (anon_mount R anon_init), hasResponded = False\<rparr>"

subsection \<open>Only an answer asks the server\<close>

interpretation asked: page_view page_calls
  by unfold_locales simp_all

lemmas asked_views = asked.view_steps asked.view_ops asked.view_commit asked.view_event

lemma asked_join: "moves (same page_calls) join_queue" "moves (same page_calls) onCallEnded"
  by (simp_all add: moves_def same_def onCallEnded_def join_queue_def send_ws_def op_simps)

lemma asked_queue: "moves (same page_calls) queue_effect"
  by (auto simp: moves_def same_def queue_effect_def join_queue_def send_ws_def op_simps)

lemma asked_commit: "moves (same page_calls) (anon_commit R)"
proof -
  have "moves (same page_calls) (andthen (commit R q) (andthen (if b then queue_effect else ret ()) (modify (\<lambda>s. s\<lparr>page_deps := d\<rparr>))))"
    for q b d by (intro same_view.moves_rules asked_views asked_queue same_modify) simp
  then show ?thesis unfolding moves_def anon_commit_def Let_def by blast
qed

lemma asked_handle: "e \<noteq> ClickContact True \<Longrightarrow> e \<noteq> ClickContact False \<Longrightarrow> moves (same page_calls) (anon_handle R e)"
proof (cases e)
  case (FromServer ev)
  have "moves (same page_calls) (page_receives ev :: ('a, unit) anon_op)"
    by (cases ev) (auto intro!: same_modify same_view.moves_rules)
  then show ?thesis unfolding FromServer anon_handle.simps anon_receives_def
    by (intro same_view.moves_rules asked.view_receives asked_join)
next
  case (FromRtc r)
  then show ?thesis by (simp add: asked.view_event)
qed (auto simp: on_media_def clickBack_def handleLeave_def handleSaveContact_def page_endCall_def endCall_def
    cleanupPeerConnection_def send_ws_def op_simps same_def moves_def split: option.splits)

lemma asked_step: "e \<noteq> ClickContact True \<Longrightarrow> e \<noteq> ClickContact False \<Longrightarrow> page_calls (anon_step R e s) = page_calls s"
  using movesD [OF asked_handle [of e R], of s] movesD [OF asked_commit [of R], of "snd (anon_handle R e s)"]
  by (simp add: anon_step_def same_def Let_def)

lemma answer_step: "length (page_calls (anon_step R (ClickContact b) s)) \<le> Suc (length (page_calls s))"
proof -
  have "length (page_calls (snd (handleContactResponse b s))) \<le> Suc (length (page_calls s))"
    by (simp add: handleContactResponse_def op_simps split: option.splits)
  with movesD [OF asked_commit [of R], of "snd (handleContactResponse b s)"] show ?thesis
    by (simp add: anon_step_def same_def Let_def)
qed

lemma screen_step_cases:
  "page_calls (screen_page (screen_step R e sc)) = page_calls (screen_page sc) \<and>
     hasResponded (screen_step R e sc) = hasResponded sc \<or>
   \<not> hasResponded sc \<and> hasResponded (screen_step R e sc) \<and>
     length (page_calls (screen_page (screen_step R e sc))) \<le> Suc (length (page_calls (screen_page sc)))"
  by (cases "(R, e, sc)" rule: screen_step.cases)
    (auto simp: on_page_def asked_step answer_step banner_visible_def banner_handleAccept_def banner_handleDecline_def)

definition answers_once :: "'pc anon_screen \<Rightarrow> bool" where
  "answers_once sc \<longleftrightarrow> length (page_calls (screen_page sc)) \<le> (if hasResponded sc then 1 else 0)"

interpretation answering: guarded_machine "\<lambda>_ _. True" "screen_step R" answers_once for R :: "'pc rtc"
proof unfold_locales
  fix sc :: "'pc anon_screen" and e
  assume "answers_once sc"
  then show "answers_once (screen_step R e sc)"
    using screen_step_cases [of R e sc] by (auto simp: answers_once_def split: if_splits)
qed

lemma asked_nothing: "page_calls (snd (anon_mount R anon_init)) = []"
proof -
  have "page_calls (snd (on_media (StartMedia True True) (anon_init :: 'a anon_page))) = []"
    by (simp add: on_media_def op_simps anon_init_def hook.extend_def anon_page.fields_def hook_init_def)
  with movesD [OF asked_commit [of R]] show ?thesis
    by (auto simp: anon_mount_def andthen_apply on_media_def modify_apply same_def)
qed

lemma answers_once_mounted: "answers_once (screen_mount R)"
  by (simp add: answers_once_def screen_mount_def asked_nothing)

text \<open>After an answer nothing is asked any more.\<close>

lemma answered_run:
  "hasResponded sc \<Longrightarrow> page_calls (screen_page (run (screen_step R) es sc)) = page_calls (screen_page sc) \<and>
     hasResponded (run (screen_step R) es sc)"
proof (induction es arbitrary: sc)
  case (Cons e es)
  then have "page_calls (screen_page (screen_step R e sc)) = page_calls (screen_page sc)" "hasResponded (screen_step R e sc)"
    using screen_step_cases [of R e sc] by auto
  with Cons.IH show ?case by simp
qed simp

interpretation save_shown: page_view showContactSave
  by unfold_locales simp_all

lemma request_shown:
  "showContactSave (anon_step R (FromServer (EvSaveRequest requestId callId from)) s)"
proof -
  let ?e = "EvSaveRequest requestId callId from"
  have "moves (same showContactSave) (queue_effect :: ('a, unit) anon_op)"
    by (auto simp: moves_def same_def queue_effect_def join_queue_def send_ws_def op_simps)
  then have "moves (same showContactSave) (andthen (commit R q) (andthen (if b then queue_effect else ret ()) (modify (\<lambda>s. s\<lparr>page_deps := d\<rparr>))))"
    for q b d by (intro same_view.moves_rules save_shown.view_commit same_modify) simp_all
  then have "moves (same showContactSave) (anon_commit R)" unfolding moves_def anon_commit_def Let_def by blast
  note commit = movesD [OF this]
  have "showContactSave (snd (anon_receives R ?e s))"
    by (simp add: anon_receives_def hook_receives_def op_simps split: option.splits)
  with commit [of "snd (anon_receives R ?e s)"] show ?thesis by (simp add: anon_step_def same_def Let_def)
qed

text \<open>
  C40. One answer per visit. Whatever happens on the page of random matches, it answers at most one
  request to become contacts; and once it has, a further request makes the page show the banner, but the
  banner does not appear, and the server is never told of an answer however the visit goes on.
\<close>

theorem one_answer_per_visit:
  assumes "sc = run (screen_step R) es (screen_mount R)"
  shows "length (page_calls (screen_page sc)) \<le> 1 \<and>
    (hasResponded sc \<longrightarrow>
      (let sc' = screen_step R (OnPage (FromServer (EvSaveRequest requestId callId from))) sc in
       showContactSave (screen_page sc') \<and> \<not> banner_visible sc' \<and>
       page_calls (screen_page (run (screen_step R) es' sc')) = page_calls (screen_page sc)))"
proof -
  have "answers_once (run (screen_step R) es sc')" if "answers_once sc'" for es sc'
    using that by (induction es arbitrary: sc') (simp_all add: answering.step_keeps)
  from this [OF answers_once_mounted [of R], of es] have "length (page_calls (screen_page sc)) \<le> 1"
    unfolding assms by (auto simp: answers_once_def split: if_splits)
  moreover have "\<not> banner_visible sc'" if "hasResponded sc'" for sc' :: "'a anon_screen" using that by (simp add: banner_visible_def)
  moreover have "hasResponded sc \<Longrightarrow> page_calls (screen_page (run (screen_step R) (e # es') sc)) = page_calls (screen_page sc)"
      "hasResponded sc \<Longrightarrow> hasResponded (screen_step R e sc)" for e
    using answered_run [of sc R "e # es'"] answered_run [of sc R "[e]"] by simp_all
  moreover have "showContactSave (screen_page (screen_step R (OnPage (FromServer (EvSaveRequest requestId callId from))) sc))"
    by (simp add: on_page_def request_shown)
  ultimately show ?thesis by (simp del: screen_step.simps add: Let_def)
qed

end
