(* ===== verification/PageExamples.thy ===== *)
theory PageExamples
  imports MatchedPages MediaSafety CallPageCalls ContactBanner
begin

text \<open>
  The page theorems at concrete inputs, with a browser whose connection is its signaling
  state, its senders and its local description.
\<close>

definition toy_rtc :: "(string \<times> string list \<times> string) rtc" where
  "toy_rtc = \<lparr>rtc_new = (''stable'', [], []),
     rtc_state = fst,
     rtc_senders = (\<lambda>x. fst (snd x)),
     rtc_add_track = (\<lambda>t (st, ts, d). (st, ts @ [t], d)),
     rtc_createOffer = (\<lambda>x. (Inr ''offer'', x)),
     rtc_createAnswer = (\<lambda>x. (Inr ''answer'', x)),
     rtc_setLocal = (\<lambda>sdp (st, ts, d). (Inr (), if sdp = ''offer'' then ''have-local-offer'' else ''stable'', ts, sdp)),
     rtc_setRemote = (\<lambda>sdp (st, ts, d). (Inr (), if sdp = ''offer'' then ''have-remote-offer'' else ''stable'', ts, d)),
     rtc_local = (\<lambda>x. snd (snd x)),
     rtc_addIce = (\<lambda>c x. (Inr (), x))\<rparr>"

lemma toy_jsep: "jsep toy_rtc (\<lambda>d. d = ''offer'') (\<lambda>d. d = ''answer'')"
  by (auto simp: jsep_def makes_def sets_to_def toy_rtc_def)

definition page_after :: "anon_event list \<Rightarrow> (string \<times> string list \<times> string) anon_page" where
  "page_after es = run (anon_step toy_rtc) es (snd (anon_mount toy_rtc anon_init))"

definition found_first :: "anon_event list" where
  "found_first = [SocketConnected, FromServer (EvFound ''c'' Video True False None), FromRtc OfferReady]"

lemma page_reached: "list_all names_call es \<Longrightarrow> reaches (\<lambda>_. names_call) (anon_step toy_rtc) (snd (anon_mount toy_rtc anon_init)) (page_after es)"
proof -
  have "list_all names_call es \<Longrightarrow> run_guarded (\<lambda>_. names_call) step es s" for step and s :: "(string \<times> string list \<times> string) anon_page"
    by (induction es arbitrary: s) simp_all
  then show "list_all names_call es \<Longrightarrow> ?thesis" by (simp add: page_after_def run_reaches)
qed

lemma page_facts:
  "isConnected (page_after [SocketConnected]) \<and> matchState (page_after [SocketConnected]) = InQueue \<and> begun (page_after [SocketConnected]) = []"
  "isConnected (page_after found_first) \<and> matchState (page_after found_first) = Matched"
  "WsOffer ''c'' ''offer'' \<in> set (outbox (page_after found_first))"
  by code_simp+

theorem signals_as_told_witness: "was_told found_first ''c'' True"
  using signals_as_told [OF page_after_def page_facts(3)] by simp

theorem page_in_step_witness:
  "matchCallId (page_after found_first) \<noteq> None \<and> listening (page_after found_first) = Some (anon_props (page_after found_first))"
proof -
  have "list_all names_call found_first" by (simp add: found_first_def names_call_def)
  with page_in_step [OF page_reached] page_facts(2) show ?thesis by simp
qed

theorem any_end_ends_match_witness:
  "matchCallId (anon_step toy_rtc (FromServer (EvEnded ''other'' ''ended'')) (page_after found_first)) = None"
proof -
  have "list_all names_call found_first" by (simp add: found_first_def names_call_def)
  with any_end_ends_match [OF page_reached _ _ refl] page_facts(2) show ?thesis by blast
qed

theorem matched_pages_connect_witness:
  "\<exists>sdp. outbox (page_after found_first) = outbox (page_after [SocketConnected]) @ [WsQueueStatus, WsOffer ''c'' sdp]"
proof -
  have "list_all names_call [SocketConnected]" by (simp add: names_call_def)
  note start = page_reached [OF this]
  have "page_after found_first = run (anon_step toy_rtc) [FromServer (EvFound ''c'' Video True False None), FromRtc OfferReady] (page_after [SocketConnected])"
    by (simp add: page_after_def found_first_def)
  with matched_pages_connect [OF toy_jsep _ start _ _ _ start _ _ _ refl, of "''c''" "page_after found_first" Video False None] page_facts(1)
  show ?thesis by (simp del: run_simps) blast
qed

definition two_asked :: "media_event list" where
  "two_asked = [StartMedia True True, StopMedia, StartMedia True True, MediaGranted 0 ''a'' ''v'', MediaGranted 0 ''b'' ''w'']"

theorem camera_released_witness:
  "filter tk_live (tracks (media_step StopMedia (run media_step [StartMedia True True, MediaGranted 0 ''a'' ''v''] media_init))) = []"
proof -
  have "reaches waits media_step media_init (run media_step [StartMedia True True, MediaGranted 0 ''a'' ''v''] media_init)"
    by (rule run_reaches) code_simp
  moreover have "asked_media (run media_step [StartMedia True True, MediaGranted 0 ''a'' ''v''] media_init) = []" by code_simp
  ultimately show ?thesis using camera_released unfolding filter_empty_conv by blast
qed

theorem overlapping_requests_leave_camera_on_witness:
  "\<exists>t \<in> set (tracks (run media_step two_asked media_init)). tk_id t = ''v'' \<and> tk_live t \<and> ''v'' \<notin> shown_tracks (run media_step two_asked media_init)"
proof -
  have "run media_step two_asked media_init =
      run media_step [StartMedia True True, StopMedia, StartMedia True True, MediaGranted 0 ''a'' ''v'', MediaGranted 0 ''b'' ''w''] media_init"
    by (simp add: two_asked_def)
  from overlapping_requests_leave_camera_on [OF _ _ this _ _ reaches.here] show ?thesis by (simp add: media_init_def)
qed

subsection \<open>A call between two\<close>

definition caller_mounted :: "(string \<times> string list \<times> string) call_page" where
  "caller_mounted = the (call_mount toy_rtc (Some ''c'') (Some ''true''))"

definition accepted_call :: "call_event list" where
  "accepted_call = [ClConnected, ClMedia (MediaGranted 0 ''a'' ''v''), ClServer (EvAccepted ''c'' ''bob'' None), ClRtc OfferReady]"

definition caller_after :: "call_event list \<Rightarrow> (string \<times> string list \<times> string) call_page" where
  "caller_after es = run (call_next toy_rtc) es caller_mounted"

lemma caller_is_mounted: "call_mount toy_rtc (Some ''c'') (Some ''true'') = Some caller_mounted"
  unfolding caller_mounted_def by (simp add: call_mount_def settle_eq)

lemma caller_facts:
  "WsOffer ''c'' ''offer'' \<in> set (outbox (caller_after accepted_call))"
  "cl_connected (caller_after accepted_call) \<and> stream (cl_media (caller_after accepted_call)) \<noteq> None \<and>
    asked_media (cl_media (caller_after accepted_call)) = []"
  "run_guarded cl_waits (call_next toy_rtc) accepted_call caller_mounted"
  by code_simp+

theorem offers_after_accept_witness: "initiating (Some ''true'') \<and> \<not> list_all not_accepted accepted_call"
  using offers_after_accept [OF caller_is_mounted caller_after_def caller_facts(1)] by simp

theorem ended_call_reopens_witness:
  "\<exists>p. pcRef (call_next toy_rtc (ClServer (EvEnded ''other'' ''ended'')) (caller_after accepted_call)) = Some p \<and> at_callId p = ''c''"
proof -
  have "reaches cl_waits (call_next toy_rtc) caller_mounted (caller_after accepted_call)"
    unfolding caller_after_def by (rule run_reaches [OF caller_facts(3)])
  with ended_call_reopens [OF caller_is_mounted _ _ _ _ _ refl] caller_facts(2) show ?thesis by blast
qed

text \<open>One request is accepted; the next is not shown.\<close>

definition one_accepted :: "screen_event list" where
  "one_accepted = [OnPage SocketConnected, OnPage (FromServer (EvSaveRequest ''r1'' ''c1'' ''u1'')), BannerAccept]"

definition screen_accepted :: "(string \<times> string list \<times> string) anon_screen" where
  "screen_accepted = run (screen_step toy_rtc) one_accepted (screen_mount toy_rtc)"

theorem one_answer_per_visit_witness:
  "length (page_calls (screen_page screen_accepted)) = 1 \<and>
   \<not> banner_visible (screen_step toy_rtc (OnPage (FromServer (EvSaveRequest ''r2'' ''c2'' ''u2''))) screen_accepted)"
proof -
  have "hasResponded screen_accepted" "page_calls (screen_page screen_accepted) \<noteq> []" by code_simp+
  with one_answer_per_visit [OF screen_accepted_def, of "''r2''" "''c2''" "''u2''" "[]"] show ?thesis
    by (simp add: Let_def del: screen_step.simps) (cases "page_calls (screen_page screen_accepted)"; simp)
qed

end
