(* ===== verification/Dashboard.thy ===== *)
theory Dashboard
  imports ContactsClient CallPage
begin

text \<open>
  \<open>frontend/src/hooks/useSignaling.ts\<close>, the one socket that the pages of a tab share
  (\<open>lib/socket.ts\<close>), and \<open>frontend/src/app/dashboard/page.tsx\<close>, where calls begin. The socket
  is seen as what the tab has told it to do, in order.
\<close>

subsection \<open>The socket\<close>

datatype sock_action =
    SockConnect "string option"
  | SockEmit ws_request
  | SockDisconnect

text \<open>Connecting a socket that is open does nothing.\<close>

record signaling =
  sock_open :: bool
  sock_trace :: "sock_action list"

text \<open>Mounting the hook: \<open>socket.auth\<close> is the stored token, or empty; unmounting it closes the socket.\<close>

definition sig_mount :: "string option \<Rightarrow> signaling \<Rightarrow> signaling" where
  "sig_mount token g = (if sock_open g then g
     else g\<lparr>sock_open := True, sock_trace := sock_trace g @ [SockConnect (if truthy token then token else None)]\<rparr>)"

definition sig_emit :: "ws_request \<Rightarrow> signaling \<Rightarrow> signaling" where
  "sig_emit msg g = g\<lparr>sock_trace := sock_trace g @ [SockEmit msg]\<rparr>"

definition sig_unmount :: "signaling \<Rightarrow> signaling" where
  "sig_unmount g = (if sock_open g then g\<lparr>sock_open := False, sock_trace := sock_trace g @ [SockDisconnect]\<rparr> else g)"

subsection \<open>The page\<close>

text \<open>
  Of a contact request the page uses its id, of an incoming call its id and type. The
  acknowledgement of \<open>call:initiate\<close> comes as an event of its own, or never.
\<close>

record 'w dash = "'w contacts_tab" +
  sig :: signaling
  targetEmail :: string
  incomingRequest :: "string option"
  incomingCall :: "(string \<times> CallType) option"
  alerts :: "string list"

type_synonym ('w, 'a) dash_op = "('w dash, 'a) op"

definition on_socket :: "(signaling \<Rightarrow> signaling) \<Rightarrow> ('w, unit) dash_op" where
  "on_socket f = modify (\<lambda>d. d\<lparr>sig := f (sig d)\<rparr>)"

definition push :: "string \<Rightarrow> ('w, 'z, unit) client" where
  "push path = modify (\<lambda>t. t\<lparr>pushed := pushed t @ [path]\<rparr>)"

definition dash_listen :: "ws_event \<Rightarrow> ('w, unit) dash_op" where
  "dash_listen ev = modify (\<lambda>d. case ev of
     EvSaveRequest requestId _ _ \<Rightarrow> d\<lparr>incomingRequest := Some requestId\<rparr>
   | EvIncoming callId _ ty \<Rightarrow> d\<lparr>incomingCall := Some (callId, ty)\<rparr>
   | _ \<Rightarrow> d)"

definition handleAcceptRequest :: "'w browser_api \<Rightarrow> ('w, unit) dash_op" where
  "handleAcceptRequest B = bnd (gets incomingRequest) (\<lambda>r. case r of
     None \<Rightarrow> ret ()
   | Some requestId \<Rightarrow> andthen (useContacts_acceptRequest B requestId) (modify (\<lambda>d. d\<lparr>incomingRequest := None\<rparr>)))"

definition handleAcceptCall :: "('w, unit) dash_op" where
  "handleAcceptCall = bnd (gets incomingCall) (\<lambda>c. case c of
     None \<Rightarrow> ret ()
   | Some (callId, ty) \<Rightarrow> andthen (on_socket (sig_emit (WsAccept callId ty))) (push (''/call?callId='' @ callId)))"

definition handleStartCall :: "CallType \<Rightarrow> string option \<Rightarrow> ('w, unit) dash_op" where
  "handleStartCall ty email = bnd (gets targetEmail) (\<lambda>typed.
     let target = (if truthy email then the email else typed) in
     if target = [] then modify (\<lambda>d. d\<lparr>alerts := alerts d @ [''Enter a target user's email'']\<rparr>)
     else on_socket (sig_emit (WsInitiate (Some target) None ty)))"

definition initiate_acked :: "string \<Rightarrow> ('w, unit) dash_op" where
  "initiate_acked callId = (if callId = [] then ret () else push (''/call?callId='' @ callId @ ''&initiator=true''))"

text \<open>\<open>Math.random()\<close> in base 36 is an argument.\<close>

definition handleCreateGroup :: "string \<Rightarrow> ('w, unit) dash_op" where
  "handleCreateGroup random = push (''/room?roomId=room-'' @ random)"

datatype dash_event =
    DashMount
  | DashServer ws_event
  | TypeEmail string
  | StartCall CallType "string option"
  | InitiateAcked string
  | AcceptRequest
  | DismissRequest
  | AcceptCall
  | DeclineCall
  | CreateGroup string
  | RandomMatch
  | SignOut
  | DashUnmount

fun dash_do :: "'w browser_api \<Rightarrow> dash_event \<Rightarrow> ('w, unit) dash_op" where
  "dash_do B DashMount = andthen (modify (\<lambda>d. d\<lparr>sig := sig_mount (map_of (localStorage d) ''accessToken'') (sig d)\<rparr>)) (fetchContacts B)"
| "dash_do B (DashServer ev) = dash_listen ev"
| "dash_do B (TypeEmail s) = modify (\<lambda>d. d\<lparr>targetEmail := s\<rparr>)"
| "dash_do B (StartCall ty email) = handleStartCall ty email"
| "dash_do B (InitiateAcked callId) = initiate_acked callId"
| "dash_do B AcceptRequest = handleAcceptRequest B"
| "dash_do B DismissRequest = modify (\<lambda>d. d\<lparr>incomingRequest := None\<rparr>)"
| "dash_do B AcceptCall = handleAcceptCall"
| "dash_do B DeclineCall = modify (\<lambda>d. d\<lparr>incomingCall := None\<rparr>)"
| "dash_do B (CreateGroup random) = handleCreateGroup random"
| "dash_do B RandomMatch = push ''/anonymous''"
| "dash_do B SignOut = useAuth_logout B"
| "dash_do B DashUnmount = on_socket sig_unmount"

definition dash_step :: "'w browser_api \<Rightarrow> dash_event \<Rightarrow> 'w dash \<Rightarrow> 'w dash" where
  "dash_step B e d = snd (dash_do B e d)"

subsection \<open>From page to page\<close>

text \<open>
  What the next page mounts of the address: \<open>searchParams.get\<close>, of values that need no decoding.
\<close>

definition query_param :: "string \<Rightarrow> string \<Rightarrow> string option" where
  "query_param name url = (case split_on (CHR ''?'') url of
     [_, q] \<Rightarrow> map_of (map (\<lambda>p. case split_on (CHR ''='') p of k # vs \<Rightarrow> (k, join_with (CHR ''='') vs) | [] \<Rightarrow> ([], []))
        (split_on (CHR ''&'') q)) name
   | _ \<Rightarrow> None)"

text \<open>The messages the server gets of what a tab does: each connection has an id of its own.\<close>

fun messages :: "string \<Rightarrow> string list \<Rightarrow> sock_action list \<Rightarrow> gw_event list" where
  "messages sid ids [] = []"
| "messages sid ids (SockEmit r # acts) = Message sid r # messages sid ids acts"
| "messages sid ids (SockDisconnect # acts) = Message sid WsDisconnect # messages sid ids acts"
| "messages sid (i # ids) (SockConnect token # acts) = Message i (WsConnect token None None None) # messages i ids acts"
| "messages sid [] (SockConnect token # acts) = []"

end
