(* ===== verification/DialSafety.thy ===== *)
theory DialSafety
  imports Dashboard GatewayEffects
begin

text \<open>
  A call from the dashboard, from the click to the page of the call: the pages share one
  socket, which each page closes when it is left.
\<close>

subsection \<open>Rooms of Socket.IO\<close>

text \<open>A socket is in a room it joined last, and did not leave, while it is connected.\<close>

definition joined :: "string \<Rightarrow> string \<Rightarrow> io_action list \<Rightarrow> bool" where
  "joined s c acts = foldl (\<lambda>b a. if a = Join s c then True else if a = Leave s c then False else b) False acts"

definition in_room :: "('r, 'm, 'z) world_scheme \<Rightarrow> string \<Rightarrow> string \<Rightarrow> bool" where
  "in_room w s c \<longleftrightarrow> map_of (sockets w) s \<noteq> None \<and> joined s c (io w)"

lemma joined_emits: "(\<And>a. a \<in> set ys \<Longrightarrow> \<exists>t e. a = Emit t e) \<Longrightarrow> joined s c (xs @ ys) = joined s c xs"
  by (induction ys rule: rev_induct) (fastforce simp: joined_def)+

lemma joined_Join: "joined s c (xs @ [Join s' c']) = (s' = s \<and> c' = c \<or> joined s c xs)"
  by (auto simp: joined_def)

subsection \<open>What the tab does\<close>

lemma dialled_trace:
  assumes "e \<noteq> []" "c \<noteq> []" "sock_open (sig d)"
    and "d' = run (dash_step B) [StartCall ty (Some e), InitiateAcked c, DashUnmount] d"
  shows "sock_trace (sig_mount token (sig d')) = sock_trace (sig d) @
      [SockEmit (WsInitiate (Some e) None ty), SockDisconnect, SockConnect (if truthy token then token else None)]"
    "pushed d' = pushed d @ [''/call?callId='' @ c @ ''&initiator=true'']"
  using assms by (simp_all add: dash_step_def handleStartCall_def initiate_acked_def on_socket_def push_def op_simps
      truthy_def sig_mount_def sig_emit_def sig_unmount_def)

text \<open>An id needs no escaping in an address.\<close>

definition plain_id :: "string \<Rightarrow> bool" where
  "plain_id c \<longleftrightarrow> c \<noteq> [] \<and> set c \<inter> {CHR ''?'', CHR ''&'', CHR ''=''} = {}"

lemma dialled_address:
  assumes "plain_id c"
  shows "query_param ''callId'' (''/call?callId='' @ c @ ''&initiator=true'') = Some c"
    "query_param ''initiator'' (''/call?callId='' @ c @ ''&initiator=true'') = Some ''true''"
proof -
  have c: "CHR ''?'' \<notin> set c" "CHR ''&'' \<notin> set c" "CHR ''='' \<notin> set c" using assms by (auto simp: plain_id_def)
  have q: "split_on (CHR ''?'') (c @ ''&initiator=true'') = [c @ ''&initiator=true'']" by (rule split_on_no_sep) (use c in simp)
  have a: "split_on (CHR ''&'') (c @ ''&initiator=true'') = [c, ''initiator=true'']"
    using split_on_append_sep [OF c(2), of "''initiator=true''"] by simp
  have e: "split_on (CHR ''='') c = [c]" by (rule split_on_no_sep) (rule c)
  show "query_param ''callId'' (''/call?callId='' @ c @ ''&initiator=true'') = Some c"
    "query_param ''initiator'' (''/call?callId='' @ c @ ''&initiator=true'') = Some ''true''"
    using q a e by (simp_all add: query_param_def)
qed

subsection \<open>What the server does\<close>

lemma connect_apply:
  fixes w :: "('r, 'm, 'z) world_scheme"
  assumes "w' = snd (handleConnection R G sid token fwd addr agent w)"
  shows "call_sessions w' = call_sessions w" "call_participants w' = call_participants w" "pendingCallTargets w' = pendingCallTargets w"
    "missedCallTimers w' = missedCallTimers w" "\<exists>ev. io w' = io w @ [Emit ToAll ev]"
  unfolding assms by (auto simp: handleConnection_def add_user_socket_def op_simps Let_def split: option.splits)

lemma connect_calls:
  fixes w :: "('r, 'm, 'z) world_scheme"
  shows "map_of (sockets (snd (handleConnection R G sid token fwd addr agent w))) s =
    (if s = sid then Some \<lparr>m_userId = token_user G token, m_anonymousId = gw_anonymous_id G,
      m_callId = None, m_roomId = None, m_ipAddress = the (or_else (or_else fwd addr) (Some ''unknown'')),
      m_userAgent = the (or_else agent (Some []))\<rparr> else map_of (sockets w) s)"
  by (simp add: connect_fields [OF refl])

text \<open>The three messages of a tab that dials, one after the other.\<close>

lemma dialled_server:
  fixes w :: "('r, 'm, 'z) world_scheme" and G1 G2 G3 :: "'e gateway_env_scheme"
  assumes m: "map_of (sockets w) sid = Some m" "m_userId m = Some u" "u \<noteq> []"
    and fresh: "fresh_call_ids G1 w" and user: "initiator_ref G1 (Some u) w = Inr (Some i)"
    and target: "fst (call_target (Some e) None w) = Inr t"
    and c: "c = new_call_id G1" "c \<noteq> []" "uuid_of G2 c = Some c" and u: "uuid_of G2 u = Some u"
    and w': "w' = run (gateway_step R M) [(G1, Message sid (WsInitiate (Some e) None ty)), (G2, Message sid WsDisconnect),
      (G3, Message sid' (WsConnect token None None None))] w" and "sid' \<noteq> sid"
  shows "fst (onCallInitiate G1 sid (Some e) None ty w) = Inr c"
    "call_sessions w' = call_sessions w @ [(initiated G1 (Some i) ty False)\<lparr>cs_status := Ended, cs_ended_at := Some (db_now G2)\<rparr>]"
    "cs_id (initiated G1 (Some i) ty False) = c" "map_of (missedCallTimers w') c = None" "map_of (pendingCallTargets w') c = Some t"
    "map_of (sockets w') sid = None" "\<And>s. s \<noteq> sid \<Longrightarrow> s \<noteq> sid' \<Longrightarrow> map_of (sockets w') s = map_of (sockets w) s"
    "\<exists>told. io w' = io w @ Join sid c # told \<and> (\<forall>a \<in> set told. \<exists>t e. a = Emit t e)"
proof -
  define w1 where "w1 = snd (onCallInitiate G1 sid (Some e) None ty w)"
  define w2 where "w2 = snd (handleDisconnect R M G2 sid w1)"
  have w3: "w' = snd (handleConnection R G3 sid' token None None None w2)"
    by (simp add: w' w1_def w2_def no_reply_def bnd_apply ret_apply split: prod.splits sum.splits)
  note dialled = initiate_apply [OF m fresh user target c(1) w1_def]
  let ?m = "m\<lparr>m_callId := Some c\<rparr>"
  have m1: "map_of (sockets w1) sid = Some ?m" "m_callId ?m = Some c" by (simp_all add: dialled(7))
  have who: "truthy (guest_id ?m) \<or> uuid_of G2 (caller ?m) = Some (caller ?m)" using m(2) u by (simp add: caller_def)
  note gone = disconnect_apply [OF m1 c(2,3) who w2_def]
  note reopened = connect_apply [OF w3]
  show "fst (onCallInitiate G1 sid (Some e) None ty w) = Inr c" "cs_id (initiated G1 (Some i) ty False) = c" by (rule dialled)+
  have old: "cs_id r \<noteq> c" if "r \<in> set (call_sessions w)" for r using fresh c(1) that by (auto simp: fresh_call_ids_def call_exists_iff)
  then show "call_sessions w' = call_sessions w @ [(initiated G1 (Some i) ty False)\<lparr>cs_status := Ended, cs_ended_at := Some (db_now G2)\<rparr>]"
    using dialled(5,6) by (simp add: reopened gone update_where_none)
  show "map_of (missedCallTimers w') c = None" "map_of (pendingCallTargets w') c = Some t" by (simp_all add: reopened gone(5,6) dialled(2))
  show "map_of (sockets w') sid = None" "\<And>s. s \<noteq> sid \<Longrightarrow> s \<noteq> sid' \<Longrightarrow> map_of (sockets w') s = map_of (sockets w) s"
    using \<open>sid' \<noteq> sid\<close> unfolding w3 by (simp_all add: connect_calls gone(2) dialled(7))
  show "\<exists>told. io w' = io w @ Join sid c # told \<and> (\<forall>a \<in> set told. \<exists>t e. a = Emit t e)"
    using reopened(5) by (auto simp: gone(7) dialled(8) farewell_def split: option.splits)
qed

text \<open>
  C39. Dialling. A registered user starts a call from the dashboard; the server acknowledges it, the page goes
  to the page of the call, as its initiator, and with the dashboard the socket is closed and opened
  again. Once the server has heard all that, the call is over, nobody is in its room, and its timer is gone; the user
  called was rung and is not told, and may still answer it.
\<close>

theorem dialling_ends_call:
  fixes w :: "('r, 'm, 'z) world_scheme" and G1 G2 G3 :: "'e gateway_env_scheme"
  assumes page: "e \<noteq> []" "sock_open (sig d)" "d' = run (dash_step B) [StartCall ty (Some e), InitiateAcked c, DashUnmount] d"
      "sock_trace (sig_mount stored (sig d')) = sock_trace (sig d) @ acts"
    and m: "map_of (sockets w) sid = Some m" "m_userId m = Some u" "u \<noteq> []"
    and server: "fresh_call_ids G1 w" "initiator_ref G1 (Some u) w = Inr (Some i)" "fst (call_target (Some e) None w) = Inr t"
    and ids: "c = new_call_id G1" "plain_id c" "uuid_of G2 c = Some c" "uuid_of G2 u = Some u" "sid' \<noteq> sid"
    and empty_room: "\<And>s. \<not> joined s c (io w)"
    and heard: "w' = run (gateway_step R M) (zip [G1, G2, G3] (messages sid [sid'] acts)) w"
  shows "fst (onCallInitiate G1 sid (Some e) None ty w) = Inr c \<and>
    (\<exists>path. pushed d' = pushed d @ [path] \<and> query_param ''callId'' path = Some c \<and> query_param ''initiator'' path = Some ''true'') \<and>
    (\<exists>r. find (\<lambda>r. cs_id r = c) (call_sessions w') = Some r \<and> cs_status r = Ended) \<and>
    (\<forall>s. \<not> in_room w' s c) \<and> map_of (missedCallTimers w') c = None \<and> map_of (pendingCallTargets w') c = Some t"
proof -
  have c: "c \<noteq> []" using ids(2) by (simp add: plain_id_def)
  note tab = dialled_trace [OF page(1) c page(2,3)]
  let ?tok = "if truthy stored then stored else None"
  have acts: "acts = [SockEmit (WsInitiate (Some e) None ty), SockDisconnect, SockConnect ?tok]" using tab(1) [of stored] page(4) by simp
  have w': "w' = run (gateway_step R M) [(G1, Message sid (WsInitiate (Some e) None ty)), (G2, Message sid WsDisconnect),
      (G3, Message sid' (WsConnect ?tok None None None))] w"
    unfolding heard acts by simp
  note after = dialled_server [OF m server ids(1) c ids(3,4) w' ids(5)]
  have "find (\<lambda>r. cs_id r = c) (call_sessions w) = None"
    using server(1) ids(1) by (auto simp: find_None_iff fresh_call_ids_def call_exists_iff)
  then have row: "\<exists>r. find (\<lambda>r. cs_id r = c) (call_sessions w') = Some r \<and> cs_status r = Ended"
    by (simp add: after(2,3) find_append)
  obtain told where told: "io w' = (io w @ [Join sid c]) @ told" "\<And>a. a \<in> set told \<Longrightarrow> \<exists>t e. a = Emit t e" using after(8) by auto
  then have "joined s c (io w') = (s = sid)" for s
    unfolding told(1) by (subst joined_emits) (auto simp: joined_Join empty_room)
  then have "\<not> in_room w' s c" for s using after(6) by (cases "s = sid") (simp_all add: in_room_def)
  with after(1,4,5) row tab(2) dialled_address [OF ids(2)] show ?thesis by simp
qed

text \<open>
  Answering alone. When the user called answers a call whose room is empty, the call becomes
  active again and \<open>call:accepted\<close> goes to a room in which only the answering socket is.
\<close>

theorem answered_alone:
  fixes w :: "('r, 'm, 'z) world_scheme"
  assumes empty_room: "\<And>s. \<not> in_room w s c" and waits: "map_of (pendingCallTargets w) c = Some v" "map_of (missedCallTimers w) c = None"
    and m: "map_of (sockets w) sid = Some m" "m_userId m = Some v" "v \<noteq> []"
    and ids: "uuid_of G c = Some i" "uuid_of G v = Some u" "user_exists u w"
    and row: "find (\<lambda>r. cs_id r = i) (call_sessions w) = Some r"
    and new: "new_participant_id G Guest \<notin> cp_id ` set (call_participants w)"
    and w': "w' = snd (onCallAccept G sid c ct w)"
  shows "(\<forall>s. in_room w' s c \<longleftrightarrow> s = sid) \<and> last (io w') = Emit (ToRoom c) (EvAccepted c v (cs_initiator_id r)) \<and>
    call_sessions w' = update_where (\<lambda>r. cs_id r = i) (\<lambda>r. r\<lparr>cs_status := Active, cs_answered_at := Some (db_now G)\<rparr>) (call_sessions w)"
proof -
  have expected: "truthy (map_of (pendingCallTargets w) c) \<longrightarrow> map_of (pendingCallTargets w) c = Some v" using waits(1) by simp
  note after = accept_apply [OF m expected waits(2) ids row new w']
  have "joined s c (io w') = (s = sid \<or> joined s c (io w))" for s
    using joined_Join [of s c "io w" sid c] joined_emits [of "[Emit (ToRoom c) (EvAccepted c v (cs_initiator_id r))]" s c "io w @ [Join sid c]"]
    by (auto simp: after(5))
  then have "in_room w' s c \<longleftrightarrow> s = sid" for s
    using empty_room [of s] m(1) by (auto simp: in_room_def after(4))
  with after(2,5) show ?thesis by simp
qed

end
