(* ===== verification/DialExamples.thy ===== *)
theory DialExamples
  imports DialSafety GatewayExamples
begin

text \<open>Ann calls Bob from her dashboard: the hypotheses of the dialling properties hold.\<close>

definition silent_browser :: "unit browser_api" where
  "silent_browser = \<lparr>fetch = (\<lambda>_ w. (Inl (JsError ''TypeError'' None), w)), document_cookie = (\<lambda>_. [])\<rparr>"

definition ann_dash :: "unit dash" where
  "ann_dash = \<lparr>net = (), accessTokenVar = Some ''ann'', localStorage = [(''accessToken'', ''ann'')], isAuthenticated = True,
     isLoading = False, userEmail = None, pushed = [], contactList = VArr [], contactsLoading = False,
     sig = \<lparr>sock_open = True, sock_trace = [SockConnect (Some ''ann'')]\<rparr>, targetEmail = [], incomingRequest = None,
     incomingCall = None, alerts = []\<rparr>"

definition ann_dials :: "unit dash" where
  "ann_dials = run (dash_step silent_browser) [StartCall Video (Some ''bob@b''), InitiateAcked ''c1'', DashUnmount] ann_dash"

definition ann_actions :: "sock_action list" where
  "ann_actions = [SockEmit (WsInitiate (Some ''bob@b'') None Video), SockDisconnect, SockConnect (Some ''ann'')]"

definition dialled :: toy_world where
  "dialled = run gw_step (zip [gw_at 1000 ''1'', gw_at 2000 ''2'', gw_at 2100 ''4''] (messages ''s1'' [''s4''] ann_actions)) online"

lemma dial_facts:
  "sock_trace (sig_mount (Some ''ann'') (sig ann_dials)) = sock_trace (sig ann_dash) @ ann_actions"
  "fresh_call_ids (gw_at 1000 ''1'') online" "initiator_ref (gw_at 1000 ''1'') (Some ''ann'') online = Inr (Some ''ann'')"
  "fst (call_target (Some ''bob@b'') None online) = Inr ''bob''"
  "list_all (\<lambda>a. case a of Emit _ _ \<Rightarrow> True | _ \<Rightarrow> False) (io online)"
  by code_simp+

lemma nobody_joined: "\<not> joined s c (io online)"
proof -
  have "\<exists>t e. a = Emit t e" if "a \<in> set (io online)" for a
    using dial_facts(5) that by (cases a) (auto simp: list_all_iff)
  then have "joined s c ([] @ io online) = joined s c []" by (rule joined_emits)
  then show ?thesis by (simp add: joined_def)
qed

theorem dialling_ends_call_witness:
  "map cs_status (call_sessions dialled) = [Ended] \<and> \<not> in_room dialled ''s1'' ''c1'' \<and> \<not> in_room dialled ''s4'' ''c1'' \<and>
   pushed ann_dials = [''/call?callId=c1&initiator=true'']"
proof -
  have m: "map_of (sockets online) ''s1'' = Some (meta (Some ''ann'') ''xs1'' None)"
    "m_userId (meta (Some ''ann'') ''xs1'' None) = Some ''ann''" by (simp_all add: online_state meta_def)
  have id: "plain_id ''c1''" "''c1'' = new_call_id (gw_at 1000 ''1'')" by (simp_all add: plain_id_def)
  have state: "pushed ann_dials = [''/call?callId=c1&initiator=true'']" "length (call_sessions dialled) = 1"
    "list_all (\<lambda>r. cs_id r = ''c1'') (call_sessions dialled)" by code_simp+
  from dialling_ends_call [OF _ _ ann_dials_def dial_facts(1) m _ dial_facts(2-4) id(2,1) _ _ _ nobody_joined dialled_def]
  have "(\<exists>r. find (\<lambda>r. cs_id r = ''c1'') (call_sessions dialled) = Some r \<and> cs_status r = Ended) \<and> (\<forall>s. \<not> in_room dialled s ''c1'')"
    by (simp add: ann_dash_def)
  with state show ?thesis by (cases "call_sessions dialled") auto
qed

end
