(* ===== verification/AuthPages.thy ===== *)
theory AuthPages
  imports ClientSafety
begin

text \<open>
  The pages around the session: \<open>frontend/src/app/login/page.tsx\<close>, \<open>app/register/page.tsx\<close> and
  \<open>components/ProtectedRoute.tsx\<close>, over \<open>useAuth\<close>. Each has one effect, which runs after a commit
  in which the flags of the session are not what they were when it last ran.
\<close>

subsection \<open>State\<close>

record 'w page_tab = "'w tab" +
  formError :: string
  effect_deps :: "(bool \<times> bool) option"

type_synonym ('w, 'a) page_op = "('w page_tab, 'a) op"

text \<open>\<open>useEffect(() => { if (goes) router...(path) }, [isAuthenticated, isLoading, router])\<close>\<close>

definition auth_effect :: "(bool \<Rightarrow> bool \<Rightarrow> bool) \<Rightarrow> string \<Rightarrow> ('w, unit) page_op" where
  "auth_effect goes path = modify (\<lambda>t.
     let deps = (isAuthenticated t, isLoading t) in
     if effect_deps t = Some deps then t
     else t\<lparr>effect_deps := Some deps,
       pushed := (if goes (isAuthenticated t) (isLoading t) then pushed t @ [path] else pushed t)\<rparr>)"

text \<open>Waiting for an answer: the page is rendered with \<open>isLoading\<close> before the answer is there.\<close>

definition while_loading :: "('w, unit) page_op \<Rightarrow> ('w, unit) page_op \<Rightarrow> ('w, unit) page_op" where
  "while_loading commit m = andthen (setLoading True) (andthen commit (andthen m commit))"

subsection \<open>The forms\<close>

definition form_commit :: "('w, unit) page_op" where
  "form_commit = auth_effect (\<lambda>authenticated loading. authenticated \<and> \<not> loading) ''/dashboard''"

text \<open>\<open>err.message\<close>\<close>

fun exn_message :: "exn \<Rightarrow> string" where
  "exn_message (BadRequestException m) = m"
| "exn_message (UnauthorizedException m) = m"
| "exn_message (ForbiddenException m) = m"
| "exn_message (NotFoundException m) = m"
| "exn_message (ConflictException m) = m"
| "exn_message (WsException m) = m"
| "exn_message (PgError _) = []"
| "exn_message (JsError m _) = m"

definition setFormError :: "string \<Rightarrow> ('w, unit) page_op" where
  "setFormError e = modify (\<lambda>t. t\<lparr>formError := e\<rparr>)"

definition or_message :: "exn \<Rightarrow> string \<Rightarrow> string" where
  "or_message err fallback = (if exn_message err = [] then fallback else exn_message err)"

definition login_handleSubmit :: "'w browser_api \<Rightarrow> string \<Rightarrow> string \<Rightarrow> ('w, unit) page_op" where
  "login_handleSubmit B email password = andthen (setFormError [])
     (catch (useAuth_login B email password) (\<lambda>err. setFormError (or_message err ''Failed to login'')))"

definition register_handleSubmit :: "'w browser_api \<Rightarrow> string \<Rightarrow> string \<Rightarrow> ('w, unit) page_op" where
  "register_handleSubmit B email password = andthen (setFormError [])
     (catch (useAuth_register B email password) (\<lambda>err. setFormError (or_message err ''Failed to register'')))"

definition login_submitted :: "'w browser_api \<Rightarrow> string \<Rightarrow> string \<Rightarrow> ('w, unit) page_op" where
  "login_submitted B email password = while_loading form_commit (login_handleSubmit B email password)"

definition register_submitted :: "'w browser_api \<Rightarrow> string \<Rightarrow> string \<Rightarrow> ('w, unit) page_op" where
  "register_submitted B email password = while_loading form_commit (register_handleSubmit B email password)"

subsection \<open>\<open>ProtectedRoute\<close>\<close>

datatype shown = Spinner | Blank | Children

definition ProtectedRoute :: "('w, 'z) tab_scheme \<Rightarrow> shown" where
  "ProtectedRoute t = (if isLoading t then Spinner else if \<not> isAuthenticated t then Blank else Children)"

definition guard_commit :: "('w, unit) page_op" where
  "guard_commit = auth_effect (\<lambda>authenticated loading. \<not> loading \<and> \<not> authenticated) ''/login''"

text \<open>What happens on a page behind it: it loads, something on it asks the server, the user logs out.\<close>

datatype guarded_event = Loads bool | Asks string fetch_options | LogsOut

fun guarded_handle :: "'w browser_api \<Rightarrow> guarded_event \<Rightarrow> ('w, unit) page_op" where
  "guarded_handle B (Loads mounted) = andthen (initAuth B mounted) guard_commit"
| "guarded_handle B (Asks endpoint opts) =
     andthen (catch (andthen (apiFetch B endpoint opts) (ret ())) (\<lambda>_. ret ())) guard_commit"
| "guarded_handle B LogsOut = while_loading guard_commit (useAuth_logout B)"

fun guarded_run :: "'w browser_api \<Rightarrow> guarded_event list \<Rightarrow> 'w page_tab \<Rightarrow> 'w page_tab" where
  "guarded_run B [] t = t"
| "guarded_run B (e # es) t = guarded_run B es (snd (guarded_handle B e t))"

subsection \<open>What a submission leaves\<close>

lemma auth_effect_apply [op_simps]:
  "auth_effect goes path t = (Inr (), if effect_deps t = Some (isAuthenticated t, isLoading t) then t
     else t\<lparr>effect_deps := Some (isAuthenticated t, isLoading t),
       pushed := (if goes (isAuthenticated t) (isLoading t) then pushed t @ [path] else pushed t)\<rparr>)"
  by (simp add: auth_effect_def Let_def op_simps)

lemma while_loading_apply:
  "while_loading (auth_effect goes path) m t =
     andthen m (auth_effect goes path) (snd (auth_effect goes path (t\<lparr>isLoading := True\<rparr>)))"
  by (simp add: while_loading_def setLoading_def op_simps)

text \<open>The parts of a tab that say who is signed in; \<open>apiFetch\<close> ends the session or leaves it.\<close>

definition kept where
  "kept t t' \<longleftrightarrow> isLoading t' = isLoading t \<and> effect_deps t' = effect_deps t \<and> formError t' = formError t \<and>
     userEmail t' = userEmail t"

lemma kept_refl [simp]: "kept t t"
  by (simp add: kept_def)

definition stays where
  "stays t t' \<longleftrightarrow> isAuthenticated t' = isAuthenticated t \<and> pushed t' = pushed t"

definition ends where
  "ends t t' \<longleftrightarrow> \<not> isAuthenticated t' \<and> pushed t' = pushed t @ [''/login'']"

lemmas session_parts = kept_def stays_def ends_def

lemma ask_session: "ask B req t = (r, t') \<Longrightarrow> kept t t' \<and> stays t t' \<and> localStorage t' = localStorage t \<and> accessTokenVar t' = accessTokenVar t"
  by (auto simp: ask_def session_parts split: prod.splits)

lemma store_session [simp]:
  "kept t (snd (setAccessToken a t))" "stays t (snd (setAccessToken a t))"
  "kept t (snd (setRefreshToken a t))" "stays t (snd (setRefreshToken a t))"
  by (simp_all add: op_simps session_parts)

lemma refresh_session: "refreshAuthToken B t = (r, t') \<Longrightarrow> kept t t' \<and> stays t t' \<and> (\<exists>b. r = Inr b)"
  by (auto simp: refreshAuthToken_def op_simps session_parts without_tokens_def dest!: ask_session
      split: prod.splits sum.splits if_splits)

lemma fetch_session:
  assumes "apiFetch B endpoint opts t = (r, t')"
  shows "kept t t' \<and> (stays t t' \<or> ends t t' \<and> (\<exists>res. r = Inr res \<and> rs_status res = 401))"
  using assms
  by (auto simp: apiFetch_def handleUnauthorized_def op_simps session_parts dest!: ask_session refresh_session
      split: prod.splits sum.splits if_splits)

lemma fetch_login:
  assumes "apiFetch B ''/auth/login'' opts t = (r, t')"
  shows "kept t t' \<and> stays t t' \<and> localStorage t' = localStorage t \<and> accessTokenVar t' = accessTokenVar t"
  using assms by (auto simp: apiFetch_def op_simps dest!: ask_session split: prod.splits sum.splits)

lemma throws_message: "throw_message body fallback t = (r, t') \<Longrightarrow> (\<exists>e. r = Inl e) \<and> t' = t"
  by (auto simp: throw_message_def op_simps split: sum.splits)

text \<open>The two outcomes of \<open>login\<close>.\<close>

definition signed_in where
  "signed_in email t t' \<longleftrightarrow> isAuthenticated t' \<and> \<not> isLoading t' \<and> userEmail t' = Some email \<and>
     pushed t' = pushed t @ [''/dashboard''] \<and> effect_deps t' = effect_deps t \<and> formError t' = formError t"

definition not_signed_in where
  "not_signed_in t t' \<longleftrightarrow> stays t t' \<and> \<not> isLoading t' \<and> userEmail t' = userEmail t \<and>
     localStorage t' = localStorage t \<and> accessTokenVar t' = accessTokenVar t \<and> effect_deps t' = effect_deps t \<and>
     formError t' = formError t"

text \<open>The body of the \<open>try\<close>, after the answer.\<close>

definition login_answered :: "string \<Rightarrow> response \<Rightarrow> ('w, 'z, unit) client" where
  "login_answered email res =
     (if \<not> response_ok res then throw_message (rs_body res) ''Login failed''
      else bnd (piped (field ''data'' (rs_body res)) ret) (\<lambda>d.
        bnd (piped (field ''accessToken'' d) ret) (\<lambda>a.
        andthen (setAccessToken (token_value a))
       (bnd (piped (field ''refreshToken'' d) ret) (\<lambda>r.
        andthen (setRefreshToken (token_value r))
       (modify (\<lambda>t. t\<lparr>isAuthenticated := True, userEmail := Some email,
          localStorage := map_set ''userEmail'' email (localStorage t), pushed := pushed t @ [''/dashboard'']\<rparr>)))))))"

lemma field_total: "field k v = Inr x \<Longrightarrow> \<exists>y. field k' v = Inr y"
  by (cases v) auto

lemma answered_session:
  assumes "login_answered email res t = (r, t')"
  shows "(r = Inr () \<and> signed_in email (t\<lparr>isLoading := False\<rparr>) (t'\<lparr>isLoading := False\<rparr>)) \<or> ((\<exists>e. r = Inl e) \<and> t' = t)"
proof (cases "response_ok res")
  case False
  with assms show ?thesis by (auto simp: login_answered_def dest: throws_message)
next
  case True
  show ?thesis
  proof (cases "field ''data'' (rs_body res)")
    case (Inl e)
    with assms True show ?thesis by (auto simp: login_answered_def op_simps)
  next
    case (Inr d)
    show ?thesis
    proof (cases "field ''accessToken'' d")
      case (Inl e)
      with assms True Inr show ?thesis by (auto simp: login_answered_def op_simps)
    next
      case (Inr a)
      then obtain y where "field ''refreshToken'' d = Inr y" using field_total by blast
      with assms True Inr \<open>field ''data'' (rs_body res) = Inr d\<close> show ?thesis
        by (auto simp: login_answered_def op_simps signed_in_def)
    qed
  qed
qed

lemma login_session:
  assumes "useAuth_login B email password t = (r, t')"
  shows "(r = Inr () \<and> signed_in email t t') \<or> ((\<exists>e. r = Inl e) \<and> not_signed_in t t')"
proof -
  let ?t = "t\<lparr>isLoading := True\<rparr>" and ?opts = "json_post (credentials_body email password)"
  obtain a u where u: "apiFetch B ''/auth/login'' ?opts ?t = (a, u)" by fastforce
  have kept: "not_signed_in t (u\<lparr>isLoading := False\<rparr>)"
    using fetch_login [OF u] by (simp add: session_parts not_signed_in_def)
  show ?thesis
  proof (cases a)
    case (Inl e)
    with assms u kept show ?thesis by (auto simp: useAuth_login_def setLoading_def op_simps)
  next
    case (Inr res)
    obtain b v where v: "login_answered email res u = (b, v)" by fastforce
    from assms u Inr v have "r = b" "t' = v\<lparr>isLoading := False\<rparr>"
      by (simp_all add: useAuth_login_def setLoading_def andthen_apply modify_apply finally_apply bnd_apply
          login_answered_def [symmetric] split: sum.splits)
    with answered_session [OF v] kept show ?thesis
      by (auto simp: signed_in_def not_signed_in_def session_parts)
  qed
qed

lemma register_session:
  assumes "useAuth_register B email password t = (r, t')"
  shows "(r = Inr () \<and> signed_in email t t') \<or>
    ((\<exists>e. r = Inl e) \<and> \<not> isLoading t' \<and> userEmail t' = userEmail t \<and> (stays t t' \<or> ends t t') \<and>
      effect_deps t' = effect_deps t \<and> formError t' = formError t)"
proof -
  let ?t = "t\<lparr>isLoading := True\<rparr>" and ?opts = "json_post (credentials_body email password)"
  obtain a u where u: "apiFetch B ''/auth/register'' ?opts ?t = (a, u)" by fastforce
  note f = fetch_session [OF u]
  show ?thesis
  proof (cases a)
    case (Inl e)
    with assms u f show ?thesis by (auto simp: useAuth_register_def setLoading_def op_simps session_parts)
  next
    case (Inr res)
    show ?thesis
    proof (cases "response_ok res")
      case False
      obtain b v where "throw_message (rs_body res) ''Registration failed'' u = (b :: exn + unit, v)" by fastforce
      with throws_message [OF this] obtain e
        where v: "throw_message (rs_body res) ''Registration failed'' u = (Inl e :: exn + unit, u)" by auto
      from assms u Inr False v have "r = Inl e" "t' = u\<lparr>isLoading := False\<rparr>"
        by (simp_all add: useAuth_register_def setLoading_def andthen_apply modify_apply finally_apply bnd_apply)
      with f show ?thesis by (auto simp: session_parts)
    next
      case True
      with f Inr have stays: "kept ?t u" "stays ?t u" by (auto simp: response_ok_def)
      obtain b v where v: "useAuth_login B email password u = (b, v)" by fastforce
      from assms u Inr True v have "r = b" "t' = v\<lparr>isLoading := False\<rparr>"
        by (simp_all add: useAuth_register_def setLoading_def andthen_apply modify_apply finally_apply bnd_apply split: sum.splits)
      with login_session [OF v] stays show ?thesis
        by (auto simp: signed_in_def not_signed_in_def session_parts)
    qed
  qed
qed

subsection \<open>The pages\<close>

lemma or_message_nonempty: "fallback \<noteq> [] \<Longrightarrow> or_message e fallback \<noteq> []"
  by (simp add: or_message_def)

text \<open>
  A submission of the login form ends in one of two ways: without an error, signed in and on the way to
  the dashboard; or with an error shown, and the session, the tokens and the place of the tab as they were.
\<close>

theorem login_page_outcome:
  assumes "\<not> isAuthenticated t"
  shows "let t' = snd (login_submitted B email password t) in \<not> isLoading t' \<and>
    ((formError t' = [] \<and> isAuthenticated t' \<and> userEmail t' = Some email \<and>
        pushed t' = pushed t @ [''/dashboard'', ''/dashboard'']) \<or>
     (formError t' \<noteq> [] \<and> \<not> isAuthenticated t' \<and> userEmail t' = userEmail t \<and> pushed t' = pushed t \<and>
        localStorage t' = localStorage t \<and> accessTokenVar t' = accessTokenVar t))"
proof -
  define t0 where "t0 = (snd (form_commit (t\<lparr>isLoading := True\<rparr>)))\<lparr>formError := []\<rparr>"
  have t0: "isAuthenticated t0 = isAuthenticated t" "pushed t0 = pushed t" "formError t0 = []" "userEmail t0 = userEmail t"
    "localStorage t0 = localStorage t" "accessTokenVar t0 = accessTokenVar t" "effect_deps t0 = Some (isAuthenticated t, True)"
    by (simp_all add: t0_def form_commit_def op_simps)
  obtain r u where u: "useAuth_login B email password t0 = (r, u)" by fastforce
  have "snd (login_submitted B email password t) =
      snd (form_commit (case r of Inl e \<Rightarrow> u\<lparr>formError := or_message e ''Failed to login''\<rparr> | Inr _ \<Rightarrow> u))"
    using u [unfolded t0_def] by (simp add: login_submitted_def form_commit_def while_loading_apply login_handleSubmit_def
        setFormError_def andthen_apply modify_apply catch_apply split: sum.splits)
  with login_session [OF u] t0 assms or_message_nonempty show ?thesis
    by (auto simp: form_commit_def auth_effect_apply signed_in_def not_signed_in_def stays_def Let_def)
qed

text \<open>
  So does a registration, which also may find that the session had ended; the error is shown too when
  the account was created and only the login after it failed.
\<close>

theorem register_page_outcome:
  assumes "\<not> isAuthenticated t"
  shows "let t' = snd (register_submitted B email password t) in \<not> isLoading t' \<and>
    ((formError t' = [] \<and> isAuthenticated t' \<and> userEmail t' = Some email \<and>
        pushed t' = pushed t @ [''/dashboard'', ''/dashboard'']) \<or>
     (formError t' \<noteq> [] \<and> \<not> isAuthenticated t' \<and> userEmail t' = userEmail t \<and>
        pushed t' \<in> {pushed t, pushed t @ [''/login'']}))"
proof -
  define t0 where "t0 = (snd (form_commit (t\<lparr>isLoading := True\<rparr>)))\<lparr>formError := []\<rparr>"
  have t0: "isAuthenticated t0 = isAuthenticated t" "pushed t0 = pushed t" "formError t0 = []" "userEmail t0 = userEmail t"
    "effect_deps t0 = Some (isAuthenticated t, True)"
    by (simp_all add: t0_def form_commit_def op_simps)
  obtain r u where u: "useAuth_register B email password t0 = (r, u)" by fastforce
  have "snd (register_submitted B email password t) =
      snd (form_commit (case r of Inl e \<Rightarrow> u\<lparr>formError := or_message e ''Failed to register''\<rparr> | Inr _ \<Rightarrow> u))"
    using u [unfolded t0_def] by (simp add: register_submitted_def form_commit_def while_loading_apply register_handleSubmit_def
        setFormError_def andthen_apply modify_apply catch_apply split: sum.splits)
  with register_session [OF u] t0 assms or_message_nonempty show ?thesis
    by (auto simp: form_commit_def auth_effect_apply signed_in_def session_parts Let_def)
qed

text \<open>
  Behind \<open>ProtectedRoute\<close> nobody is left before an empty page: the page that shows nothing has sent
  the tab to the login page.
\<close>

definition never_blank where
  "never_blank t \<longleftrightarrow> effect_deps t = Some (isAuthenticated t, isLoading t) \<and>
     (\<not> isAuthenticated t \<and> \<not> isLoading t \<longrightarrow> pushed t \<noteq> [] \<and> last (pushed t) = ''/login'')"

text \<open>A commit restores it, when what happened before only ended the session or left it.\<close>

lemma guard_commit_never_blank:
  assumes "\<not> isAuthenticated t' \<and> \<not> isLoading t' \<and> effect_deps t' = Some (False, False) \<longrightarrow>
    pushed t' \<noteq> [] \<and> last (pushed t') = ''/login''"
  shows "never_blank (snd (guard_commit t'))"
  using assms by (auto simp: guard_commit_def auth_effect_apply never_blank_def)

lemma logout_signed_out:
  "\<exists>u. useAuth_logout B t = (Inr (), u) \<and> pushed u \<noteq> [] \<and> last (pushed u) = ''/login''"
proof -
  obtain r u where "apiFetch B ''/auth/logout'' \<lparr>fo_method = Some ''POST'', fo_headers = [], fo_body = None\<rparr> (t\<lparr>isLoading := True\<rparr>) = (r, u)"
    by fastforce
  then show ?thesis
    by (cases r) (simp_all add: useAuth_logout_def setLoading_def andthen_apply modify_apply finally_apply catch_apply
        bnd_apply ret_apply setAccessToken_apply setRefreshToken_apply)
qed

lemma guarded_handle_never_blank:
  assumes "never_blank t"
  shows "never_blank (snd (guarded_handle B e t))"
proof (cases e)
  case (Loads mounted)
  obtain b u where u: "refreshAuthToken B t = (Inr b, u)" using refresh_session [of B t] by (metis prod.collapse)
  define v where "v = snd (initAuth B mounted t)"
  have "snd (guarded_handle B e t) = snd (guard_commit v)"
    by (simp add: Loads v_def andthen_apply initAuth_def bnd_apply modify_apply u)
  moreover have "never_blank (snd (guard_commit v))"
    using refresh_session [OF u] assms
    by (intro guard_commit_never_blank) (auto simp: v_def initAuth_def bnd_apply modify_apply u session_parts never_blank_def)
  ultimately show ?thesis by simp
next
  case (Asks endpoint opts)
  obtain r u where u: "apiFetch B endpoint opts t = (r, u)" by fastforce
  then have "snd (guarded_handle B e t) = snd (guard_commit u)"
    by (cases r) (simp_all add: Asks andthen_apply catch_apply ret_apply)
  moreover have "never_blank (snd (guard_commit u))"
    using fetch_session [OF u] assms by (intro guard_commit_never_blank) (auto simp: session_parts never_blank_def)
  ultimately show ?thesis by simp
next
  case LogsOut
  define t0 where "t0 = snd (guard_commit (t\<lparr>isLoading := True\<rparr>))"
  obtain u where u: "useAuth_logout B t0 = (Inr (), u)" "pushed u \<noteq> [] \<and> last (pushed u) = ''/login''"
    using logout_signed_out by blast
  have "snd (guarded_handle B e t) = snd (guard_commit u)"
    using u(1) by (simp add: LogsOut while_loading_apply guard_commit_def t0_def andthen_apply)
  then show ?thesis using u(2) by (simp add: guard_commit_never_blank)
qed

theorem protected_page_never_blank:
  "let t' = guarded_run B es (snd (guard_commit (t\<lparr>effect_deps := None\<rparr>))) in
   (ProtectedRoute t' = Blank \<longrightarrow> pushed t' \<noteq> [] \<and> last (pushed t') = ''/login'') \<and>
   (ProtectedRoute t' = Children \<longrightarrow> isAuthenticated t')"
proof -
  have "never_blank t \<Longrightarrow> never_blank (guarded_run B es t)" for t
    by (induction es arbitrary: t) (simp_all add: guarded_handle_never_blank)
  moreover have "never_blank (snd (guard_commit (t\<lparr>effect_deps := None\<rparr>)))"
    by (rule guard_commit_never_blank) simp
  ultimately have "never_blank (guarded_run B es (snd (guard_commit (t\<lparr>effect_deps := None\<rparr>))))" by blast
  then show ?thesis by (simp add: ProtectedRoute_def never_blank_def Let_def split: if_splits)
qed

text \<open>
  A page behind it that is loaded again with a refresh token the server grants is shown, and nothing
  on it can ask the server: the tab has no token left.
\<close>

theorem reload_shows_page_without_tokens:
  fixes t :: "'z db_scheme page_tab"
  assumes "getRefreshToken t = Some raw" "raw \<noteq> []" and "AuthService_refresh E raw (net t) = (Inr tokens, d')"
  shows "let t' = snd (guarded_handle (api_of E others base cookies) (Loads True) t) in
    ProtectedRoute t' = Children \<and> getAccessToken t' = None \<and> getRefreshToken t' = None \<and> pushed t' = pushed t"
proof -
  have none: "map_of (localStorage (without_tokens t)) k = None" if "k \<in> {''accessToken'', ''refreshToken''}" for k and t :: "'z db_scheme page_tab"
    using that by (auto simp: without_tokens_def)
  show ?thesis
    by (simp add: initAuth_def andthen_apply bnd_apply modify_apply granted_refresh [OF assms] guard_commit_def auth_effect_apply
        ProtectedRoute_def getAccessToken_def getRefreshToken_def none Let_def) (simp add: without_tokens_def)
qed

end
